(* ===== verification/Prelude.thy ===== *)
theory Prelude
  imports "HOL-Library.Char_ord" "HOL-Library.List_Lexorder"
begin

text \<open>
  Shared ground of the development: the shape of a Go function (explicit state, early return,
  panic), its loops, the effect frames that carry the trace and frame proofs, and the few string
  and map helpers the components use.

  A Go function that returns a value of type \<open>'r\<close> is a program of type
  \<open>('s, 'r, 'r) prog\<close>: from a state it either goes on with an intermediate value
  (\<open>Next\<close>), leaves the function with a result (\<open>Return\<close>), or panics (\<open>Panic\<close>).
  A call of another Go function is \<open>func f\<close>: its return value becomes an intermediate
  value of the caller, a panic goes through.
\<close>

named_theorems prog_simps "unfolding rules of the program combinators"
named_theorems frame_intros "introduction rules for effect frames"

section \<open>Programs with early return and panic\<close>

datatype ('r, 'a) outcome = Next 'a | Return 'r | Panic

type_synonym ('s, 'r, 'a) prog = "'s \<Rightarrow> ('r, 'a) outcome \<times> 's"

definition pureP :: "'a \<Rightarrow> ('s, 'r, 'a) prog" where
  "pureP a = (\<lambda>s. (Next a, s))"

definition ret :: "'r \<Rightarrow> ('s, 'r, 'a) prog" where
  "ret r = (\<lambda>s. (Return r, s))"

definition panic :: "('s, 'r, 'a) prog" where
  "panic = (\<lambda>s. (Panic, s))"

definition bindP :: "('s, 'r, 'a) prog \<Rightarrow> ('a \<Rightarrow> ('s, 'r, 'b) prog) \<Rightarrow> ('s, 'r, 'b) prog" where
  "bindP m f = (\<lambda>s. case m s of
       (Next a, s') \<Rightarrow> f a s'
     | (Return r, s') \<Rightarrow> (Return r, s')
     | (Panic, s') \<Rightarrow> (Panic, s'))"

abbreviation thenP :: "('s, 'r, 'a) prog \<Rightarrow> ('s, 'r, 'b) prog \<Rightarrow> ('s, 'r, 'b) prog" where
  "thenP m n \<equiv> bindP m (\<lambda>_. n)"

definition func :: "('s, 'r, 'r) prog \<Rightarrow> ('s, 'q, 'r) prog" where
  "func m = (\<lambda>s. case m s of
       (Next r, s') \<Rightarrow> (Next r, s')
     | (Return r, s') \<Rightarrow> (Next r, s')
     | (Panic, s') \<Rightarrow> (Panic, s'))"

definition getP :: "('s \<Rightarrow> 'a) \<Rightarrow> ('s, 'r, 'a) prog" where
  "getP f = (\<lambda>s. (Next (f s), s))"

definition modP :: "('s \<Rightarrow> 's) \<Rightarrow> ('s, 'r, unit) prog" where
  "modP f = (\<lambda>s. (Next (), f s))"

definition whenP :: "bool \<Rightarrow> ('s, 'r, unit) prog \<Rightarrow> ('s, 'r, unit) prog" where
  "whenP b m = (if b then m else pureP ())"

text \<open>A range loop that only has effects, and one that carries local variables.\<close>

fun forP :: "'a list \<Rightarrow> ('a \<Rightarrow> ('s, 'r, unit) prog) \<Rightarrow> ('s, 'r, unit) prog" where
  "forP [] f = pureP ()"
| "forP (x # xs) f = bindP (f x) (\<lambda>_. forP xs f)"

fun foldP :: "('a \<Rightarrow> 'b \<Rightarrow> ('s, 'r, 'b) prog) \<Rightarrow> 'a list \<Rightarrow> 'b \<Rightarrow> ('s, 'r, 'b) prog" where
  "foldP f [] acc = pureP acc"
| "foldP f (x # xs) acc = bindP (f x acc) (foldP f xs)"

lemmas prog_defs = pureP_def ret_def panic_def bindP_def func_def getP_def modP_def whenP_def

lemma bindP_pure [simp]: "bindP (pureP a) f = f a"
  by (simp add: prog_defs)

lemma bindP_ret [simp]: "bindP (ret r) f = ret r"
  by (simp add: prog_defs)

lemma bindP_panic [simp]: "bindP panic f = panic"
  by (simp add: prog_defs)

lemma bindP_assoc: "bindP (bindP m f) g = bindP m (\<lambda>a. bindP (f a) g)"
  by (rule ext) (simp add: bindP_def split: prod.splits outcome.splits)

lemma bindP_pure_right [simp]: "bindP m pureP = m"
  by (rule ext) (simp add: prog_defs split: prod.splits outcome.splits)

lemma func_pure [simp]: "func (pureP a) = pureP a"
  by (simp add: prog_defs)

lemma func_ret [simp]: "func (ret r) = pureP r"
  by (simp add: prog_defs)

lemma func_panic [simp]: "func panic = panic"
  by (simp add: prog_defs)

text \<open>Running the combinators on a state, for evaluation and case analysis.\<close>

lemma run_pureP [prog_simps]: "pureP a s = (Next a, s)"
  by (simp add: pureP_def)

lemma run_ret [prog_simps]: "ret r s = (Return r, s)"
  by (simp add: ret_def)

lemma run_panic [prog_simps]: "panic s = (Panic, s)"
  by (simp add: panic_def)

lemma run_getP [prog_simps]: "getP f s = (Next (f s), s)"
  by (simp add: getP_def)

lemma run_modP [prog_simps]: "modP f s = (Next (), f s)"
  by (simp add: modP_def)

lemma run_bindP [prog_simps]:
  "bindP m f s = (case m s of
       (Next a, s') \<Rightarrow> f a s' | (Return r, s') \<Rightarrow> (Return r, s') | (Panic, s') \<Rightarrow> (Panic, s'))"
  by (simp add: bindP_def)

lemma run_func [prog_simps]:
  "func m s = (case m s of
       (Next r, s') \<Rightarrow> (Next r, s') | (Return r, s') \<Rightarrow> (Next r, s') | (Panic, s') \<Rightarrow> (Panic, s'))"
  by (simp add: func_def)

lemma run_whenP [prog_simps]: "whenP b m s = (if b then m s else (Next (), s))"
  by (simp add: whenP_def pureP_def)

lemma run_if [prog_simps]: "(if b then m else n) s = (if b then m s else n s)"
  by simp

lemma bindP_NextE:
  assumes "bindP m f s = (Next b, s'')"
  obtains a s' where "m s = (Next a, s')" and "f a s' = (Next b, s'')"
  using assms by (auto simp: bindP_def split: prod.splits outcome.splits)

lemma bindP_ReturnE:
  assumes "bindP m f s = (Return r, s'')"
  obtains "m s = (Return r, s'')"
    | a s' where "m s = (Next a, s')" and "f a s' = (Return r, s'')"
  using assms by (auto simp: bindP_def split: prod.splits outcome.splits)

lemma forP_append: "forP (xs @ ys) f = bindP (forP xs f) (\<lambda>_. forP ys f)"
  by (induction xs) (simp_all add: bindP_assoc)

section \<open>Effect frames\<close>

text \<open>
  Most facts about a handler say how the state it leaves relates to the state it got, whatever
  way it left: it only appended events of some kind, it kept some field. Such a relation is
  reflexive and transitive, and then every program built from steps inside the relation stays
  inside it.
\<close>

definition frames :: "('s \<Rightarrow> 's \<Rightarrow> bool) \<Rightarrow> ('s, 'r, 'a) prog \<Rightarrow> bool" where
  "frames R m \<longleftrightarrow> (\<forall>s. R s (snd (m s)))"

lemma framesI: "(\<And>s. R s (snd (m s))) \<Longrightarrow> frames R m"
  by (simp add: frames_def)

lemma framesD: "frames R m \<Longrightarrow> m s = (x, s') \<Longrightarrow> R s s'"
  by (metis frames_def snd_conv)

locale effect_frame =
  fixes R :: "'s \<Rightarrow> 's \<Rightarrow> bool"
  assumes R_refl: "R s s"
    and R_trans: "R s t \<Longrightarrow> R t u \<Longrightarrow> R s u"
begin

lemma frame_pure: "frames R (pureP a)"
  by (simp add: frames_def pureP_def R_refl)

lemma frame_ret: "frames R (ret r)"
  by (simp add: frames_def ret_def R_refl)

lemma frame_panic: "frames R panic"
  by (simp add: frames_def panic_def R_refl)

lemma frame_get: "frames R (getP f)"
  by (simp add: frames_def getP_def R_refl)

lemma frame_bind: "frames R m \<Longrightarrow> (\<And>a. frames R (f a)) \<Longrightarrow> frames R (bindP m f)"
proof (rule framesI)
  fix s
  assume m: "frames R m" and f: "\<And>a. frames R (f a)"
  obtain x s' where ms: "m s = (x, s')" by fastforce
  have s': "R s s'" by (rule framesD [OF m ms])
  show "R s (snd (bindP m f s))"
  proof (cases x)
    case (Next a)
    have "R s' (snd (f a s'))" using f [of a] by (simp add: frames_def)
    with s' have "R s (snd (f a s'))" by (rule R_trans)
    with ms Next show ?thesis by (simp add: bindP_def)
  qed (use ms s' in \<open>simp_all add: bindP_def\<close>)
qed

lemma frame_func: "frames R m \<Longrightarrow> frames R (func m)"
  by (rule framesI) (force simp: func_def split: prod.splits outcome.splits dest: framesD)

lemma frame_when: "frames R m \<Longrightarrow> frames R (whenP b m)"
  by (simp add: whenP_def frame_pure)

lemma frame_if: "frames R m \<Longrightarrow> frames R n \<Longrightarrow> frames R (if b then m else n)"
  by simp

lemma frame_for: "(\<And>x. x \<in> set xs \<Longrightarrow> frames R (f x)) \<Longrightarrow> frames R (forP xs f)"
  by (induction xs) (simp_all add: frame_pure frame_bind)

lemma frame_fold: "(\<And>x acc. x \<in> set xs \<Longrightarrow> frames R (f x acc)) \<Longrightarrow> frames R (foldP f xs acc)"
  by (induction xs arbitrary: acc) (simp_all add: frame_pure frame_bind)

lemmas frame_rules =
  frame_pure frame_ret frame_panic frame_get frame_bind frame_func frame_when frame_if
  frame_for frame_fold

end

lemma frames_case_sum:
  "(\<And>e. frames R (f e)) \<Longrightarrow> (\<And>v. frames R (g v)) \<Longrightarrow>
   frames R (case x of Inl e \<Rightarrow> f e | Inr v \<Rightarrow> g v)"
  by (cases x) simp_all

lemma frames_case_option:
  "frames R f \<Longrightarrow> (\<And>v. frames R (g v)) \<Longrightarrow> frames R (case x of None \<Rightarrow> f | Some v \<Rightarrow> g v)"
  by (cases x) simp_all

lemma frames_case_prod:
  "(\<And>a b. frames R (f a b)) \<Longrightarrow> frames R (case x of (a, b) \<Rightarrow> f a b)"
  by (cases x) simp_all

lemma frames_let: "(\<And>x. frames R (f x)) \<Longrightarrow> frames R (let x = e in f x)"
  by simp

lemma frames_case_bool: "frames R f \<Longrightarrow> frames R g \<Longrightarrow> frames R (case b of True \<Rightarrow> f | False \<Rightarrow> g)"
  by (cases b) simp_all

lemmas frames_case = frames_case_sum frames_case_option frames_case_prod frames_let frames_case_bool

text \<open>A frame that keeps one projection of the state.\<close>

definition keeps_rel :: "('s \<Rightarrow> 'v) \<Rightarrow> 's \<Rightarrow> 's \<Rightarrow> bool" where
  "keeps_rel f s s' \<longleftrightarrow> f s' = f s"

interpretation keeps: effect_frame "keeps_rel f" for f
  by unfold_locales (auto simp: keeps_rel_def)

section \<open>Strings and maps\<close>

text \<open>Decimal printing, for the \<open>%d\<close> verb of \<open>fmt.Sprintf\<close>.\<close>

definition digit_char :: "nat \<Rightarrow> char" where
  "digit_char d = char_of (48 + d)"

fun show_nat :: "nat \<Rightarrow> string" where
  "show_nat n = (if n < 10 then [digit_char n] else show_nat (n div 10) @ [digit_char (n mod 10)])"

declare show_nat.simps [simp del]

definition show_int :: "int \<Rightarrow> string" where
  "show_int i = (if i < 0 then ''-'' @ show_nat (nat (- i)) else show_nat (nat i))"

fun read_nat :: "string \<Rightarrow> nat \<Rightarrow> nat" where
  "read_nat [] acc = acc"
| "read_nat (c # cs) acc = read_nat cs (10 * acc + (of_char c - 48))"

lemma read_nat_append: "read_nat (xs @ ys) acc = read_nat ys (read_nat xs acc)"
  by (induction xs arbitrary: acc) simp_all

lemma of_digit_char: "d < 10 \<Longrightarrow> of_char (digit_char d) = (48 + d :: nat)"
  by (simp add: digit_char_def)

lemma read_show_nat: "read_nat (show_nat n) 0 = n"
proof (induction n rule: show_nat.induct)
  case (1 n)
  show ?case
  proof (cases "n < 10")
    case True
    then show ?thesis by (simp add: show_nat.simps [of n] of_digit_char)
  next
    case False
    with 1 show ?thesis
      by (simp add: show_nat.simps [of n] read_nat_append of_digit_char)
  qed
qed

lemma show_nat_inject: "show_nat a = show_nat b \<longleftrightarrow> a = b"
  by (metis read_show_nat)

text \<open>
  A Go map that the code iterates is an association list with distinct keys; its order is the
  iteration order the runtime happens to choose. \<open>slices.Sorted(maps.Keys(m))\<close> is
  \<open>sorted_keys\<close>.
\<close>

definition sorted_keys :: "(string \<times> 'v) list \<Rightarrow> string list" where
  "sorted_keys m = sort (map fst m)"

lemma set_sorted_keys [simp]: "set (sorted_keys m) = fst ` set m"
  by (simp add: sorted_keys_def)

lemma distinct_sorted_keys [simp]: "distinct (sorted_keys m) \<longleftrightarrow> distinct (map fst m)"
  by (simp add: sorted_keys_def)

lemma sorted_sorted_keys [simp]: "sorted (sorted_keys m)"
  by (simp add: sorted_keys_def)

lemma map_of_mem_Some: "k \<in> fst ` set m \<Longrightarrow> \<exists>v. map_of m k = Some v"
  by (metis map_of_eq_None_iff not_None_eq)

end
