(* ===== verification/KubeObjects.thy ===== *)
theory KubeObjects
  imports Prelude
begin

text \<open>
  The data the operator handles but does not define: errors, reconcile results, conditions,
  object metadata and the parts of the Kubernetes and lib-common structs the code reads or fills.
  A library value the code only stores is kept as the free term of the call that made it (a
  security context, an environment list, a failed condition); a library object whose methods the
  code calls is a record of the answers of those methods. Pointers are options, \<open>nil\<close> is
  \<open>None\<close>.
\<close>

section \<open>Errors and reconcile results\<close>

text \<open>
  The static errors of the controllers and of the webhook, the errors libraries return
  (\<open>LibError\<close>) and the results of \<open>fmt.Errorf\<close>, with the arguments of the format.
\<close>

datatype gerr =
    LibError string
  | ErrNetworkAttachmentConfig
  | ErrACSecretNotFound
  | ErrACSecretMissingKeys
  | ErrStatefulSetWaiting
  | ErrInvalidObjectType
  | Errorf string "garg list"
and garg = GStr string | GStrs "string list" | GInt int | GErr gerr

text \<open>\<open>ctrl.Result\<close>: its \<open>Requeue\<close> flag and \<open>RequeueAfter\<close>, in nanoseconds.\<close>

datatype ctrl_result = CtrlResult bool int

definition Result0 :: ctrl_result where
  "Result0 = CtrlResult False 0"

type_synonym reconcile_result = "ctrl_result \<times> gerr option"

section \<open>Conditions\<close>

text \<open>
  The condition types the operator reports. The last three are the ones the repository itself
  declares (\<open>api/v1beta1/conditions.go\<close>), the others are constants of lib-common and of the
  mariadb operator.
\<close>

datatype ctype =
    ReadyCondition
  | DBReadyCondition
  | DBSyncReadyCondition
  | RabbitMqTransportURLReadyCondition
  | NotificationBusInstanceReadyCondition
  | MemcachedReadyCondition
  | InputReadyCondition
  | ServiceConfigReadyCondition
  | NetworkAttachmentsReadyCondition
  | ServiceAccountReadyCondition
  | RoleReadyCondition
  | RoleBindingReadyCondition
  | CronJobReadyCondition
  | CreateServiceReadyCondition
  | DeploymentReadyCondition
  | KeystoneServiceReadyCondition
  | KeystoneEndpointReadyCondition
  | TLSInputReadyCondition
  | TopologyReadyCondition
  | MariaDBAccountReadyCondition
  | ManilaAPIReadyCondition
  | ManilaSchedulerReadyCondition
  | ManilaShareReadyCondition

datatype creason = InitReason | RequestedReason | NotRequestedReason | ErrorReason

datatype cseverity = SeverityInfo | SeverityWarning

text \<open>
  A message: a message constant of a library, by its name, or a text the repository itself
  spells out.
\<close>

datatype cmsg = LibMsg string | Text string

text \<open>
  A condition is the call that built it: \<open>condition.FalseCondition\<close>,
  \<open>condition.UnknownCondition\<close>, or a condition a library call handed back (the mirror of
  another object's condition, a condition read from the cluster).
\<close>

datatype condition =
    FalseCondition ctype creason cseverity cmsg "garg list"
  | UnknownCondition ctype creason cmsg
  | LibCondition ctype string

fun cond_type :: "condition \<Rightarrow> ctype" where
  "cond_type (FalseCondition t r sev m args) = t"
| "cond_type (UnknownCondition t r m) = t"
| "cond_type (LibCondition t x) = t"

text \<open>
  The mutating methods of \<open>condition.Conditions\<close>. A conditions value is the value it was
  read with and the calls made on it since, oldest first; what the methods that read it answer is
  a parameter of the model.
\<close>

datatype cond_op =
    CSet "condition option"
  | CMarkTrue ctype cmsg
  | CMarkFalse ctype creason cseverity cmsg "garg list"
  | CRemove ctype
  | CInit "condition list"
  | CRestoreTransitionTimes

record conditions =
  cs_base :: "condition list option"
  cs_ops :: "cond_op list"

definition conds_nil :: "conditions \<Rightarrow> bool" where
  "conds_nil cs \<longleftrightarrow> cs_base cs = None \<and> cs_ops cs = []"

definition conds_empty :: conditions where
  "conds_empty = \<lparr>cs_base = Some [], cs_ops = []\<rparr>"

definition cond_do :: "cond_op \<Rightarrow> conditions \<Rightarrow> conditions" where
  "cond_do c cs = cs\<lparr>cs_ops := cs_ops cs @ [c]\<rparr>"

text \<open>The types a call may change.\<close>

fun op_touches :: "cond_op \<Rightarrow> ctype \<Rightarrow> bool" where
  "op_touches (CSet None) t = False"
| "op_touches (CSet (Some c)) t = (cond_type c = t)"
| "op_touches (CMarkTrue u m) t = (u = t)"
| "op_touches (CMarkFalse u r sev m args) t = (u = t)"
| "op_touches (CRemove u) t = (u = t)"
| "op_touches (CInit cl) t = True"
| "op_touches CRestoreTransitionTimes t = False"

text \<open>The call that last touched a type, newest first.\<close>

fun last_touch :: "cond_op list \<Rightarrow> ctype \<Rightarrow> cond_op option" where
  "last_touch [] t = None"
| "last_touch (c # cs) t =
     (case last_touch cs t of Some d \<Rightarrow> Some d | None \<Rightarrow> if op_touches c t then Some c else None)"

lemma last_touch_append:
  "last_touch (cs @ ds) t =
     (case last_touch ds t of Some d \<Rightarrow> Some d | None \<Rightarrow> last_touch cs t)"
  by (induction cs) (auto split: option.splits)

definition reported :: "conditions \<Rightarrow> ctype \<Rightarrow> cond_op option" where
  "reported cs t = last_touch (cs_ops cs) t"

lemma reported_cond_do:
  "reported (cond_do c cs) t = (if op_touches c t then Some c else reported cs t)"
  by (simp add: reported_def cond_do_def last_touch_append)

lemma cs_base_cond_do [simp]: "cs_base (cond_do c cs) = cs_base cs"
  by (simp add: cond_do_def)

section \<open>Object metadata\<close>

record owner_reference =
  or_Kind :: string
  or_Name :: string

record ObjectMeta =
  om_Name :: string
  om_Namespace :: string
  om_Labels :: "string \<rightharpoonup> string"
  om_Annotations :: "string \<rightharpoonup> string"
  om_OwnerReferences :: "owner_reference list"
  om_Finalizers :: "string list"
  om_Generation :: int
  om_DeletionTimestamp :: "int option"

definition newMeta :: "string \<Rightarrow> string \<Rightarrow> ObjectMeta" where
  "newMeta name namespace = \<lparr>om_Name = name, om_Namespace = namespace, om_Labels = Map.empty,
     om_Annotations = Map.empty, om_OwnerReferences = [], om_Finalizers = [], om_Generation = 0,
     om_DeletionTimestamp = None\<rparr>"

section \<open>Structs of other operators and of lib-common\<close>

record TopoRef =
  tr_Name :: string
  tr_Namespace :: string

record RabbitMqConfig =
  rq_User :: string
  rq_Vhost :: string
  rq_Cluster :: string

record TransportURL =
  tu_Meta :: ObjectMeta
  tu_RabbitmqClusterName :: string
  tu_Username :: string
  tu_Vhost :: string
  tu_SecretName :: string

text \<open>\<open>tls.GenericService\<close>, \<open>tls.Ca\<close> and \<open>tls.API\<close>.\<close>

record tls_GenericService =
  gs_SecretName :: "string option"

record tls_Ca =
  ca_CaBundleSecretName :: string

record tls_API =
  tls_Internal :: tls_GenericService
  tls_Public :: tls_GenericService
  tls_CaOf :: tls_Ca

datatype endpoint = EndpointInternal | EndpointPublic

fun endpoint_String :: "endpoint \<Rightarrow> string" where
  "endpoint_String EndpointInternal = ''internal''"
| "endpoint_String EndpointPublic = ''public''"

text \<open>Endpoint types are strings in Go and are ordered as strings.\<close>

instantiation endpoint :: linorder
begin

definition less_eq_endpoint :: "endpoint \<Rightarrow> endpoint \<Rightarrow> bool" where
  "less_eq_endpoint a b \<longleftrightarrow> endpoint_String a \<le> endpoint_String b"

definition less_endpoint :: "endpoint \<Rightarrow> endpoint \<Rightarrow> bool" where
  "less_endpoint a b \<longleftrightarrow> endpoint_String a < endpoint_String b"

instance
proof
  fix a b c :: endpoint
  show "(a < b) = (a \<le> b \<and> \<not> b \<le> a)"
    by (auto simp: less_eq_endpoint_def less_endpoint_def)
  show "a \<le> a" by (simp add: less_eq_endpoint_def)
  show "a \<le> b \<Longrightarrow> b \<le> c \<Longrightarrow> a \<le> c" by (auto simp: less_eq_endpoint_def)
  show "a \<le> b \<Longrightarrow> b \<le> a \<Longrightarrow> a = b"
    by (cases a; cases b) (auto simp: less_eq_endpoint_def)
  show "a \<le> b \<or> b \<le> a" by (auto simp: less_eq_endpoint_def)
qed

end

lemma endpoint_order [simp]:
  "EndpointInternal \<le> EndpointPublic" "\<not> EndpointPublic \<le> EndpointInternal"
  by (simp_all add: less_eq_endpoint_def less_eq_char_def)

text \<open>\<open>probes.ProbeConf\<close> and \<open>probes.OverrideSpec\<close>; a probe built by the library is opaque.\<close>

record ProbeConf =
  pc_Path :: string
  pc_TimeoutSeconds :: int
  pc_PeriodSeconds :: int
  pc_InitialDelaySeconds :: int
  pc_FailureThreshold :: int

record probes_OverrideSpec =
  po_LivenessProbes :: "ProbeConf option"
  po_ReadinessProbes :: "ProbeConf option"
  po_StartupProbes :: "ProbeConf option"

type_synonym probe = string

record probe_set =
  prb_Liveness :: "probe option"
  prb_Readiness :: "probe option"
  prb_Startup :: "probe option"

type_synonym resources = string

text \<open>\<open>service.RoutedOverrideSpec\<close>.\<close>

record RoutedOverrideSpec =
  ro_EmbeddedLabelsAnnotations :: "string option"
  ro_OverrideRest :: string
  ro_EndpointURL :: "string option"

section \<open>Volumes, pods, jobs and stateful sets\<close>

datatype VolumeSource =
    SecretVolume int string "(string \<times> string) list"
  | LibVolumeSource string

record Volume =
  vol_Name :: string
  vol_Source :: VolumeSource

record VolumeMount =
  vm_Name :: string
  vm_MountPath :: string
  vm_SubPath :: string
  vm_ReadOnly :: bool

text \<open>
  \<open>storage.VolMounts\<close>: a volume to mount gives its core volume source, or \<open>nil\<close> where the
  conversion fails.
\<close>

record ExtraVolume =
  ev_Name :: string
  ev_CoreVolumeSource :: "VolumeSource option"

record VolMounts =
  vmo_Propagation :: "string list"
  vmo_ExtraVolType :: string
  vmo_Volumes :: "ExtraVolume list"
  vmo_Mounts :: "VolumeMount list"

text \<open>
  \<open>pod.RestrictivePodSecurityContext\<close> and \<open>pod.RestrictiveSecurityContext\<close> of the users
  named, and \<open>env.MergeEnvs\<close> of the empty list with a map of setters.
\<close>

datatype security_context =
    RestrictivePodSecurityContext "string list"
  | RestrictiveSecurityContext string string

datatype env_list = NoEnv | EmptyEnv | MergeEnvs "string \<rightharpoonup> string"

record Container =
  ct_Name :: string
  ct_Command :: "string list"
  ct_Args :: "string list"
  ct_Image :: string
  ct_SecurityContext :: security_context
  ct_Env :: env_list
  ct_VolumeMounts :: "VolumeMount list"
  ct_Resources :: "resources option"
  ct_LivenessProbe :: "probe option"
  ct_ReadinessProbe :: "probe option"
  ct_StartupProbe :: "probe option"

datatype restart_policy = RestartDefault | RestartOnFailure | RestartNever

text \<open>\<open>affinity.DistributePods\<close> of a label, its values and a topology key.\<close>

datatype affinity = DistributePods string "string list" string

record PodSpec =
  ps_RestartPolicy :: restart_policy
  ps_ServiceAccountName :: string
  ps_AutomountServiceAccountToken :: "bool option"
  ps_SecurityContext :: security_context
  ps_Containers :: "Container list"
  ps_Volumes :: "Volume list"
  ps_NodeSelector :: "(string \<rightharpoonup> string) option"
  ps_Affinity :: "affinity option"

record PodTemplateSpec =
  pt_Annotations :: "string \<rightharpoonup> string"
  pt_Labels :: "string \<rightharpoonup> string"
  pt_Spec :: PodSpec

record Job =
  job_Name :: string
  job_Namespace :: string
  job_Labels :: "string \<rightharpoonup> string"
  job_Template :: PodTemplateSpec
  job_TTLSecondsAfterFinished :: "int option"

record CronJob =
  cj_Name :: string
  cj_Namespace :: string
  cj_Labels :: "string \<rightharpoonup> string"
  cj_Schedule :: string
  cj_ForbidConcurrent :: bool
  cj_JobAnnotations :: "string \<rightharpoonup> string"
  cj_JobLabels :: "string \<rightharpoonup> string"
  cj_Parallelism :: int
  cj_Completions :: int
  cj_Template :: PodTemplateSpec

record StatefulSet =
  ss_Name :: string
  ss_Namespace :: string
  ss_Labels :: "string \<rightharpoonup> string"
  ss_MatchLabels :: "string \<rightharpoonup> string"
  ss_ParallelPodManagement :: bool
  ss_Replicas :: "int option"
  ss_Template :: PodTemplateSpec

text \<open>What the code reads of a stateful set the library has created or patched.\<close>

record StatefulSetData =
  sd_Name :: string
  sd_Generation :: int
  sd_ObservedGeneration :: int
  sd_ReadyReplicas :: int

section \<open>Library objects, by the answers of their methods\<close>

record Topology =
  topo_Name :: string

record Memcached =
  mc_Name :: string
  mc_IsReady :: bool
  mc_ServerListWithInet :: string
  mc_ServerList :: string
  mc_TLSSupport :: bool
  mc_MTLSSecret :: string
  mc_MTLSCert :: string

record KeystoneAPI =
  ka_Endpoint :: "endpoint \<Rightarrow> gerr + string"
  ka_Region :: string

record Database =
  db_ClientConfig :: "bool \<Rightarrow> string"
  db_AccountUserName :: string
  db_SecretData :: "string \<rightharpoonup> string"
  db_Hostname :: string

record Secret =
  sec_Name :: string
  sec_Data :: "(string \<times> string) list"

record KeystoneServiceSpec =
  kss_ServiceType :: string
  kss_ServiceName :: string
  kss_ServiceDescription :: string
  kss_Enabled :: bool
  kss_ServiceUser :: string
  kss_Secret :: string
  kss_PasswordSelector :: string

record KeystoneEndpointSpec =
  kse_ServiceName :: string
  kse_Endpoints :: "string \<rightharpoonup> string"

text \<open>A service object under construction, with the annotations added so far.\<close>

record ServiceObj =
  svc_Name :: string
  svc_Namespace :: string
  svc_Labels :: "string \<rightharpoonup> string"
  svc_Selector :: "string \<rightharpoonup> string"
  svc_Port :: int
  svc_Override :: RoutedOverrideSpec
  svc_Annotations :: "string \<rightharpoonup> string"

datatype service_type = ServiceTypeClusterIP | ServiceTypeLoadBalancer | ServiceTypeOther string

text \<open>Values of a template parameter map (\<open>map[string]any\<close>).\<close>

datatype tval = TStr string | TBool bool | TInt int | TMap "(string \<times> tval) list"

datatype template_type = TemplateTypeScripts | TemplateTypeConfig

record Template =
  tm_Name :: string
  tm_Namespace :: string
  tm_Type :: template_type
  tm_InstanceType :: string
  tm_CustomData :: "string \<rightharpoonup> string"
  tm_ConfigOptions :: "string \<rightharpoonup> tval"
  tm_CommonTemplates :: "string list"
  tm_Labels :: "string \<rightharpoonup> string"

record PolicyRule =
  pr_APIGroups :: "string list"
  pr_ResourceNames :: "string list"
  pr_Resources :: "string list"
  pr_Verbs :: "string list"

text \<open>The result of \<open>controllerutil.CreateOrUpdate\<close>, and a reconcile request.\<close>

datatype op_result = OperationResultNone | OperationResultOther string

record NamespacedName =
  nn_Namespace :: string
  nn_Name :: string

end
