(* ===== verification/ApiTypes.thy ===== *)
theory ApiTypes
  imports KubeObjects
begin

text \<open>
  The API group \<open>manila.openstack.org/v1beta1\<close>: the structs of \<open>api/v1beta1/*_types.go\<close> with
  all their fields (an embedded struct is a field of its own), the constants and the methods of
  the custom resources. A Go map that is iterated is an association list, a Go map that is only
  looked up and written is a map; a map that may be \<open>nil\<close> where writing to it would panic is
  an option.
\<close>

section \<open>Messages (conditions.go)\<close>

definition ManilaAPIReadyInitMessage :: string where
  "ManilaAPIReadyInitMessage = ''ManilaAPI not started''"

definition ManilaAPIReadyErrorMessage :: string where
  "ManilaAPIReadyErrorMessage = ''ManilaAPI error occured %s''"

definition ManilaSchedulerReadyInitMessage :: string where
  "ManilaSchedulerReadyInitMessage = ''ManilaScheduler not started''"

definition ManilaSchedulerReadyErrorMessage :: string where
  "ManilaSchedulerReadyErrorMessage = ''ManilaScheduler error occured %s''"

definition ManilaShareReadyInitMessage :: string where
  "ManilaShareReadyInitMessage = ''ManilaShare not started''"

definition ManilaShareReadyErrorMessage :: string where
  "ManilaShareReadyErrorMessage = ''ManilaShare error occured %s''"

definition ManilaShareReadyRunningMessage :: string where
  "ManilaShareReadyRunningMessage = ''ManilaShare deployments in progress''"

section \<open>Common types (common_types.go)\<close>

definition ManilaAPIContainerImage :: string where
  "ManilaAPIContainerImage = ''quay.io/openstack-s2i-containers/openstack-manila-api:master-latest''"

definition ManilaSchedulerContainerImage :: string where
  "ManilaSchedulerContainerImage =
     ''quay.io/openstack-s2i-containers/openstack-manila-scheduler:master-latest''"

definition ManilaShareContainerImage :: string where
  "ManilaShareContainerImage =
     ''quay.io/openstack-s2i-containers/openstack-manila-share:master-latest''"

definition DBPurgeDefaultAge :: int where
  "DBPurgeDefaultAge = 30"

definition DBPurgeDefaultSchedule :: string where
  "DBPurgeDefaultSchedule = ''1 0 * * *''"

definition APIDefaultTimeout :: int where
  "APIDefaultTimeout = 60"

record PasswordSelector =
  psel_Service :: string

record ManilaTemplate =
  mt_ServiceUser :: string
  mt_DatabaseAccount :: string
  mt_Secret :: string
  mt_PasswordSelectors :: PasswordSelector

record ManilaServiceTemplate =
  st_NodeSelector :: "(string \<rightharpoonup> string) option"
  st_CustomServiceConfig :: string
  st_CustomServiceConfigSecrets :: "string list"
  st_Resources :: resources
  st_NetworkAttachments :: "string list"
  st_TopologyRef :: "TopoRef option"

section \<open>Extra volumes (manila_types.go)\<close>

record ManilaExtraVolMounts =
  ex_Name :: string
  ex_Region :: string
  ex_VolMounts :: "VolMounts list"

text \<open>
  \<open>Propagate\<close> filters the volume groups by propagation; the filter of one group is the storage
  library's, the first argument.
\<close>

definition ExtraVolMounts_Propagate ::
  "(VolMounts \<Rightarrow> string list \<Rightarrow> VolMounts list) \<Rightarrow> ManilaExtraVolMounts \<Rightarrow> string list \<Rightarrow>
   VolMounts list" where
  "ExtraVolMounts_Propagate propagate c svc =
     foldl (\<lambda>vl gv. vl @ propagate gv svc) [] (ex_VolMounts c)"

section \<open>ManilaAPI (manilaapi_types.go)\<close>

record APIOverrideSpec =
  ao_Service :: "string \<rightharpoonup> RoutedOverrideSpec"
  ao_Probes :: probes_OverrideSpec

record ManilaAPITemplateCore =
  atc_ServiceTemplate :: ManilaServiceTemplate
  atc_Replicas :: "int option"
  atc_Override :: APIOverrideSpec
  atc_TLS :: tls_API

record ManilaAPITemplate =
  at_Core :: ManilaAPITemplateCore
  at_ContainerImage :: string

record AuthSpec =
  auth_ApplicationCredentialSecret :: string

record ManilaAPISpec =
  as_ManilaTemplate :: ManilaTemplate
  as_Template :: ManilaAPITemplate
  as_DatabaseHostname :: string
  as_TransportURLSecret :: string
  as_NotificationsURLSecret :: string
  as_ExtraMounts :: "ManilaExtraVolMounts list"
  as_ServiceAccount :: string
  as_MemcachedInstance :: "string option"
  as_APITimeout :: int

record ManilaAPIStatus =
  ast_Hash :: "(string \<rightharpoonup> string) option"
  ast_Conditions :: conditions
  ast_ReadyCount :: int
  ast_NetworkAttachments :: "(string \<rightharpoonup> string list) option"
  ast_ObservedGeneration :: int
  ast_AppliedInputSecretHash :: string
  ast_LastAppliedTopology :: "TopoRef option"

record ManilaAPI =
  api_Kind :: string
  api_Meta :: ObjectMeta
  api_Spec :: ManilaAPISpec
  api_Status :: ManilaAPIStatus

section \<open>ManilaScheduler (manilascheduler_types.go)\<close>

record SchedulerOverrideSpec =
  so_Probes :: probes_OverrideSpec

record ManilaSchedulerTemplateCore =
  stc_ServiceTemplate :: ManilaServiceTemplate
  stc_Replicas :: "int option"
  stc_Override :: SchedulerOverrideSpec

record ManilaSchedulerTemplate =
  sct_Core :: ManilaSchedulerTemplateCore
  sct_ContainerImage :: string

record ManilaSchedulerSpec =
  scs_ManilaTemplate :: ManilaTemplate
  scs_SchedulerTemplate :: ManilaSchedulerTemplate
  scs_DatabaseHostname :: string
  scs_TransportURLSecret :: string
  scs_NotificationsURLSecret :: string
  scs_ExtraMounts :: "ManilaExtraVolMounts list"
  scs_ServiceAccount :: string
  scs_MemcachedInstance :: "string option"
  scs_TLS :: tls_Ca

record ManilaSchedulerStatus =
  sst_Hash :: "(string \<rightharpoonup> string) option"
  sst_Conditions :: conditions
  sst_ReadyCount :: int
  sst_NetworkAttachments :: "(string \<rightharpoonup> string list) option"
  sst_ObservedGeneration :: int
  sst_AppliedInputSecretHash :: string
  sst_LastAppliedTopology :: "TopoRef option"

record ManilaScheduler =
  sch_Kind :: string
  sch_Meta :: ObjectMeta
  sch_Spec :: ManilaSchedulerSpec
  sch_Status :: ManilaSchedulerStatus

section \<open>ManilaShare (manilashare_types.go)\<close>

definition ShareNameLabel :: string where
  "ShareNameLabel = ''share-name''"

record ShareOverrideSpec =
  sho_Probes :: probes_OverrideSpec

record ManilaShareTemplateCore =
  htc_ServiceTemplate :: ManilaServiceTemplate
  htc_Replicas :: "int option"
  htc_Override :: ShareOverrideSpec

record ManilaShareTemplate =
  ht_Core :: ManilaShareTemplateCore
  ht_ContainerImage :: string

record ManilaShareSpec =
  hs_ManilaTemplate :: ManilaTemplate
  hs_ShareTemplate :: ManilaShareTemplate
  hs_DatabaseHostname :: string
  hs_TransportURLSecret :: string
  hs_NotificationsURLSecret :: string
  hs_ExtraMounts :: "ManilaExtraVolMounts list"
  hs_ServiceAccount :: string
  hs_MemcachedInstance :: "string option"
  hs_TLS :: tls_Ca

record ManilaShareStatus =
  hst_Hash :: "(string \<rightharpoonup> string) option"
  hst_Conditions :: conditions
  hst_ReadyCount :: int
  hst_NetworkAttachments :: "(string \<rightharpoonup> string list) option"
  hst_ObservedGeneration :: int
  hst_AppliedInputSecretHash :: string
  hst_LastAppliedTopology :: "TopoRef option"

record ManilaShare =
  shr_Kind :: string
  shr_Meta :: ObjectMeta
  shr_Spec :: ManilaShareSpec
  shr_Status :: ManilaShareStatus

section \<open>Manila (manila_types.go)\<close>

definition DbSyncHash :: string where
  "DbSyncHash = ''dbsync''"

definition SvcCleanupHash :: string where
  "SvcCleanupHash = ''servicecleanup''"

definition ManilaShareV1Label :: string where
  "ManilaShareV1Label = ''manila.openstack.org/sharev1''"

record DBPurge =
  dbp_Age :: int
  dbp_Schedule :: string

record ManilaDebug =
  dbg_DBPurge :: bool

record ManilaSpecBase =
  sb_ManilaTemplate :: ManilaTemplate
  sb_DatabaseInstance :: string
  sb_RabbitMqClusterName :: string
  sb_MessagingBus :: RabbitMqConfig
  sb_NotificationsBus :: "RabbitMqConfig option"
  sb_MemcachedInstance :: string
  sb_Debug :: ManilaDebug
  sb_PreserveJobs :: bool
  sb_CustomServiceConfig :: string
  sb_ExtraMounts :: "ManilaExtraVolMounts list"
  sb_NodeSelector :: "(string \<rightharpoonup> string) option"
  sb_DBPurge :: DBPurge
  sb_APITimeout :: int
  sb_TopologyRef :: "TopoRef option"
  sb_NotificationsBusInstance :: "string option"
  sb_Auth :: AuthSpec

record ManilaSpec =
  ms_Base :: ManilaSpecBase
  ms_ManilaAPI :: ManilaAPITemplate
  ms_ManilaScheduler :: ManilaSchedulerTemplate
  ms_ManilaShares :: "(string \<times> ManilaShareTemplate) list"

record ManilaSpecCore =
  mcore_Base :: ManilaSpecBase
  mcore_ManilaAPI :: ManilaAPITemplateCore
  mcore_ManilaScheduler :: ManilaSchedulerTemplateCore
  mcore_ManilaShares :: "(string \<times> ManilaShareTemplateCore) list"

record ManilaStatus =
  mst_Hash :: "(string \<rightharpoonup> string) option"
  mst_Conditions :: conditions
  mst_DatabaseHostname :: string
  mst_TransportURLSecret :: string
  mst_NotificationsURLSecret :: "string option"
  mst_ManilaAPIReadyCount :: int
  mst_ManilaSchedulerReadyCount :: int
  mst_ManilaSharesReadyCounts :: "(string \<rightharpoonup> int) option"
  mst_ObservedGeneration :: int
  mst_ApplicationCredentialSecret :: string

record Manila =
  man_Kind :: string
  man_Meta :: ObjectMeta
  man_Spec :: ManilaSpec
  man_Status :: ManilaStatus

section \<open>Methods of the custom resources\<close>

text \<open>
  \<open>Manila.IsReady\<close> asks the conditions library (the first argument) about the three children.
\<close>

definition Manila_IsReady :: "(conditions \<Rightarrow> ctype \<Rightarrow> bool) \<Rightarrow> Manila \<Rightarrow> bool" where
  "Manila_IsReady isTrue m \<longleftrightarrow>
     isTrue (mst_Conditions (man_Status m)) ManilaAPIReadyCondition \<and>
     isTrue (mst_Conditions (man_Status m)) ManilaSchedulerReadyCondition \<and>
     isTrue (mst_Conditions (man_Status m)) ManilaShareReadyCondition"

definition RbacResourceName :: "Manila \<Rightarrow> string" where
  "RbacResourceName m = ''manila-'' @ om_Name (man_Meta m)"

text \<open>
  \<open>IsReady\<close> of a child dereferences the replica pointer: \<open>None\<close> is the panic of a \<open>nil\<close>
  pointer.
\<close>

definition ManilaAPI_IsReady :: "ManilaAPI \<Rightarrow> bool option" where
  "ManilaAPI_IsReady a =
     map_option (\<lambda>n. ast_ReadyCount (api_Status a) = n)
       (atc_Replicas (at_Core (as_Template (api_Spec a))))"

definition ManilaScheduler_IsReady :: "ManilaScheduler \<Rightarrow> bool option" where
  "ManilaScheduler_IsReady a =
     map_option (\<lambda>n. sst_ReadyCount (sch_Status a) = n)
       (stc_Replicas (sct_Core (scs_SchedulerTemplate (sch_Spec a))))"

definition ManilaShare_IsReady :: "ManilaShare \<Rightarrow> bool option" where
  "ManilaShare_IsReady a =
     map_option (\<lambda>n. hst_ReadyCount (shr_Status a) = n)
       (htc_Replicas (ht_Core (hs_ShareTemplate (shr_Spec a))))"

text \<open>\<open>ShareName\<close> is the share-name label, the empty string where the label is missing.\<close>

definition ShareName :: "ManilaShare \<Rightarrow> string" where
  "ShareName a = (case om_Labels (shr_Meta a) ShareNameLabel of Some n \<Rightarrow> n | None \<Rightarrow> '''')"

text \<open>
  \<open>IsShareV1Enabled\<close>: the annotation library answers (value, exists, error) for an annotation.
\<close>

definition IsShareV1Enabled ::
  "((string \<rightharpoonup> string) \<Rightarrow> string \<Rightarrow> bool \<times> bool \<times> gerr option) \<Rightarrow> ManilaAPI \<Rightarrow>
   bool \<times> gerr option" where
  "IsShareV1Enabled getBool a =
     (case getBool (om_Annotations (api_Meta a)) ManilaShareV1Label of
        (shareV1API, exists, err) \<Rightarrow>
          (case err of
             Some e \<Rightarrow> (True, Some e)
           | None \<Rightarrow> if \<not> exists then (True, None) else (shareV1API, None)))"

text \<open>The topology accessors of the three child resources.\<close>

definition ManilaAPI_GetSpecTopologyRef :: "ManilaAPI \<Rightarrow> TopoRef option" where
  "ManilaAPI_GetSpecTopologyRef a =
     st_TopologyRef (atc_ServiceTemplate (at_Core (as_Template (api_Spec a))))"

definition ManilaAPI_GetLastAppliedTopology :: "ManilaAPI \<Rightarrow> TopoRef option" where
  "ManilaAPI_GetLastAppliedTopology a = ast_LastAppliedTopology (api_Status a)"

definition ManilaAPI_SetLastAppliedTopology :: "TopoRef option \<Rightarrow> ManilaAPI \<Rightarrow> ManilaAPI" where
  "ManilaAPI_SetLastAppliedTopology t a =
     a\<lparr>api_Status := (api_Status a)\<lparr>ast_LastAppliedTopology := t\<rparr>\<rparr>"

definition ManilaScheduler_GetSpecTopologyRef :: "ManilaScheduler \<Rightarrow> TopoRef option" where
  "ManilaScheduler_GetSpecTopologyRef a =
     st_TopologyRef (stc_ServiceTemplate (sct_Core (scs_SchedulerTemplate (sch_Spec a))))"

definition ManilaScheduler_GetLastAppliedTopology :: "ManilaScheduler \<Rightarrow> TopoRef option" where
  "ManilaScheduler_GetLastAppliedTopology a = sst_LastAppliedTopology (sch_Status a)"

definition ManilaScheduler_SetLastAppliedTopology ::
  "TopoRef option \<Rightarrow> ManilaScheduler \<Rightarrow> ManilaScheduler" where
  "ManilaScheduler_SetLastAppliedTopology t a =
     a\<lparr>sch_Status := (sch_Status a)\<lparr>sst_LastAppliedTopology := t\<rparr>\<rparr>"

definition ManilaShare_GetSpecTopologyRef :: "ManilaShare \<Rightarrow> TopoRef option" where
  "ManilaShare_GetSpecTopologyRef a =
     st_TopologyRef (htc_ServiceTemplate (ht_Core (hs_ShareTemplate (shr_Spec a))))"

definition ManilaShare_GetLastAppliedTopology :: "ManilaShare \<Rightarrow> TopoRef option" where
  "ManilaShare_GetLastAppliedTopology a = hst_LastAppliedTopology (shr_Status a)"

definition ManilaShare_SetLastAppliedTopology ::
  "TopoRef option \<Rightarrow> ManilaShare \<Rightarrow> ManilaShare" where
  "ManilaShare_SetLastAppliedTopology t a =
     a\<lparr>shr_Status := (shr_Status a)\<lparr>hst_LastAppliedTopology := t\<rparr>\<rparr>"

text \<open>Condition updates on a custom resource, through the pointer to its conditions.\<close>

definition Manila_updC :: "(conditions \<Rightarrow> conditions) \<Rightarrow> Manila \<Rightarrow> Manila" where
  "Manila_updC f m = m\<lparr>man_Status := (man_Status m)\<lparr>mst_Conditions := f (mst_Conditions (man_Status m))\<rparr>\<rparr>"

definition ManilaAPI_updC :: "(conditions \<Rightarrow> conditions) \<Rightarrow> ManilaAPI \<Rightarrow> ManilaAPI" where
  "ManilaAPI_updC f a = a\<lparr>api_Status := (api_Status a)\<lparr>ast_Conditions := f (ast_Conditions (api_Status a))\<rparr>\<rparr>"

definition ManilaScheduler_updC :: "(conditions \<Rightarrow> conditions) \<Rightarrow> ManilaScheduler \<Rightarrow> ManilaScheduler" where
  "ManilaScheduler_updC f a = a\<lparr>sch_Status := (sch_Status a)\<lparr>sst_Conditions := f (sst_Conditions (sch_Status a))\<rparr>\<rparr>"

definition ManilaShare_updC :: "(conditions \<Rightarrow> conditions) \<Rightarrow> ManilaShare \<Rightarrow> ManilaShare" where
  "ManilaShare_updC f a = a\<lparr>shr_Status := (shr_Status a)\<lparr>hst_Conditions := f (hst_Conditions (shr_Status a))\<rparr>\<rparr>"

lemmas updC_defs = Manila_updC_def ManilaAPI_updC_def ManilaScheduler_updC_def ManilaShare_updC_def

section \<open>Package manila: owners\<close>

text \<open>\<open>GetOwningManilaName\<close> of \<open>internal/manila/funcs.go\<close>.\<close>

fun owning_name :: "owner_reference list \<Rightarrow> string" where
  "owning_name [] = ''''"
| "owning_name (r # rs) = (if or_Kind r = ''Manila'' then or_Name r else owning_name rs)"

definition GetOwningManilaName :: "ObjectMeta \<Rightarrow> string" where
  "GetOwningManilaName obj = owning_name (om_OwnerReferences obj)"

end
