(* ===== verification/Webhook.thy ===== *)
theory Webhook
  imports ApiTypes
begin

text \<open>
  The admission webhook: \<open>api/v1beta1/manila_webhook.go\<close> (defaulting and validation of the two
  spec types, the route annotations) and its registration wrappers in
  \<open>internal/webhook/v1beta1\<close>. Field paths are the lists of the calls that built them; the
  validators of lib-common and of the infra operator are the fields of \<open>weblib\<close>.
\<close>

section \<open>Paths, errors and libraries\<close>

datatype path_elem = Child string | Key string

type_synonym path = "path_elem list"

datatype field_error = FieldInvalid path string string | LibFieldError path string

record DeprecatedField =
  df_DeprecatedFieldName :: string
  df_NewFieldPath :: "string list"
  df_DeprecatedValue :: "string option"
  df_NewValue :: "string option"

record DeprecatedFieldUpdate =
  du_DeprecatedFieldName :: string
  du_NewFieldPath :: "string list"
  du_OldDeprecatedValue :: "string option"
  du_NewDeprecatedValue :: "string option"
  du_NewValue :: "string option"

record weblib =
  w_ValidateDeprecatedFieldsCreate :: "DeprecatedField list \<Rightarrow> path \<Rightarrow> string list"
  w_ValidateDeprecatedFieldsUpdate :: "DeprecatedFieldUpdate list \<Rightarrow> path \<Rightarrow> string list \<times> field_error list"
  w_ValidateRoutedOverrides :: "path \<Rightarrow> (string \<rightharpoonup> RoutedOverrideSpec) \<Rightarrow> field_error list"
  w_ValidateTopologyRef :: "TopoRef option \<Rightarrow> path \<Rightarrow> string \<Rightarrow> field_error list"
  w_ValidateProbes :: "probes_OverrideSpec \<Rightarrow> path \<Rightarrow> field_error list"

text \<open>The object a webhook is called with, and the error it answers.\<close>

datatype runtime_object = ObjManila Manila | ObjNilManila | ObjOther

datatype web_error =
    Invalid string string string "field_error list"
  | InternalError string
  | InvalidObjectType

section \<open>Defaulting\<close>

record ManilaDefaults =
  d_APIContainerImageURL :: string
  d_SchedulerContainerImageURL :: string
  d_ShareContainerImageURL :: string
  d_DBPurgeAge :: int
  d_DBPurgeSchedule :: string
  d_APITimeout :: int

definition SetupDefaults :: "(string \<Rightarrow> string \<Rightarrow> string) \<Rightarrow> ManilaDefaults" where
  "SetupDefaults getEnvVar =
     \<lparr>d_APIContainerImageURL =
        getEnvVar ''RELATED_IMAGE_MANILA_API_IMAGE_URL_DEFAULT'' ManilaAPIContainerImage,
      d_SchedulerContainerImageURL =
        getEnvVar ''RELATED_IMAGE_MANILA_SCHEDULER_IMAGE_URL_DEFAULT'' ManilaSchedulerContainerImage,
      d_ShareContainerImageURL =
        getEnvVar ''RELATED_IMAGE_MANILA_SHARE_IMAGE_URL_DEFAULT'' ManilaShareContainerImage,
      d_DBPurgeAge = DBPurgeDefaultAge,
      d_DBPurgeSchedule = DBPurgeDefaultSchedule,
      d_APITimeout = APIDefaultTimeout\<rparr>"

definition ManilaSpecBase_Default :: "ManilaDefaults \<Rightarrow> ManilaSpecBase \<Rightarrow> ManilaSpecBase" where
  "ManilaSpecBase_Default d spec0 =
     (let spec1 = (if rq_Cluster (sb_MessagingBus spec0) = ''''
                   then spec0\<lparr>sb_MessagingBus := (sb_MessagingBus spec0)\<lparr>rq_Cluster := ''rabbitmq''\<rparr>\<rparr>
                   else spec0);
          spec2 = (if sb_APITimeout spec1 = 0 then spec1\<lparr>sb_APITimeout := d_APITimeout d\<rparr> else spec1);
          spec3 = (if dbp_Age (sb_DBPurge spec2) = 0
                   then spec2\<lparr>sb_DBPurge := (sb_DBPurge spec2)\<lparr>dbp_Age := d_DBPurgeAge d\<rparr>\<rparr>
                   else spec2)
      in if dbp_Schedule (sb_DBPurge spec3) = ''''
         then spec3\<lparr>sb_DBPurge := (sb_DBPurge spec3)\<lparr>dbp_Schedule := d_DBPurgeSchedule d\<rparr>\<rparr>
         else spec3)"

definition default_share :: "ManilaDefaults \<Rightarrow> ManilaShareTemplate \<Rightarrow> ManilaShareTemplate" where
  "default_share d manilaShare =
     (if ht_ContainerImage manilaShare = ''''
      then manilaShare\<lparr>ht_ContainerImage := d_ShareContainerImageURL d\<rparr> else manilaShare)"

definition ManilaSpec_Default :: "ManilaDefaults \<Rightarrow> ManilaSpec \<Rightarrow> ManilaSpec" where
  "ManilaSpec_Default d spec0 =
     (let spec1 = (if at_ContainerImage (ms_ManilaAPI spec0) = ''''
                   then spec0\<lparr>ms_ManilaAPI :=
                     (ms_ManilaAPI spec0)\<lparr>at_ContainerImage := d_APIContainerImageURL d\<rparr>\<rparr>
                   else spec0);
          spec2 = (if sct_ContainerImage (ms_ManilaScheduler spec1) = ''''
                   then spec1\<lparr>ms_ManilaScheduler :=
                     (ms_ManilaScheduler spec1)\<lparr>sct_ContainerImage := d_SchedulerContainerImageURL d\<rparr>\<rparr>
                   else spec1);
          spec3 = spec2\<lparr>ms_ManilaShares :=
                    map (\<lambda>(key, manilaShare). (key, default_share d manilaShare)) (ms_ManilaShares spec2)\<rparr>
      in spec3\<lparr>ms_Base := ManilaSpecBase_Default d (ms_Base spec3)\<rparr>)"

definition ManilaSpecCore_Default :: "ManilaDefaults \<Rightarrow> ManilaSpecCore \<Rightarrow> ManilaSpecCore" where
  "ManilaSpecCore_Default d spec = spec\<lparr>mcore_Base := ManilaSpecBase_Default d (mcore_Base spec)\<rparr>"

definition Manila_Default :: "ManilaDefaults \<Rightarrow> Manila \<Rightarrow> Manila" where
  "Manila_Default d r = r\<lparr>man_Spec := ManilaSpec_Default d (man_Spec r)\<rparr>"

section \<open>Deprecated fields\<close>

definition getDeprecatedFields :: "ManilaSpecBase \<Rightarrow> ManilaSpecBase option \<Rightarrow>
  DeprecatedFieldUpdate list" where
  "getDeprecatedFields spec old =
     (let newNotifBusCluster = map_option rq_Cluster (sb_NotificationsBus spec)
      in [\<lparr>du_DeprecatedFieldName = ''rabbitMqClusterName'',
           du_NewFieldPath = [''messagingBus'', ''cluster''],
           du_OldDeprecatedValue = map_option sb_RabbitMqClusterName old,
           du_NewDeprecatedValue = Some (sb_RabbitMqClusterName spec),
           du_NewValue = Some (rq_Cluster (sb_MessagingBus spec))\<rparr>,
          \<lparr>du_DeprecatedFieldName = ''notificationsBusInstance'',
           du_NewFieldPath = [''notificationsBus'', ''cluster''],
           du_OldDeprecatedValue = (case old of Some o' \<Rightarrow> sb_NotificationsBusInstance o' | None \<Rightarrow> None),
           du_NewDeprecatedValue = sb_NotificationsBusInstance spec,
           du_NewValue = newNotifBusCluster\<rparr>])"

definition validateDeprecatedFieldsCreate :: "weblib \<Rightarrow> ManilaSpecBase \<Rightarrow> path \<Rightarrow>
  string list \<times> field_error list" where
  "validateDeprecatedFieldsCreate W spec basePath =
     (let deprecatedFields =
            map (\<lambda>df. \<lparr>df_DeprecatedFieldName = du_DeprecatedFieldName df,
                       df_NewFieldPath = du_NewFieldPath df,
                       df_DeprecatedValue = du_NewDeprecatedValue df,
                       df_NewValue = du_NewValue df\<rparr>)
              (getDeprecatedFields spec None)
      in (w_ValidateDeprecatedFieldsCreate W deprecatedFields basePath, []))"

definition validateDeprecatedFieldsUpdate :: "weblib \<Rightarrow> ManilaSpecBase \<Rightarrow> ManilaSpecBase \<Rightarrow> path \<Rightarrow>
  string list \<times> field_error list" where
  "validateDeprecatedFieldsUpdate W spec old basePath =
     w_ValidateDeprecatedFieldsUpdate W (getDeprecatedFields spec (Some old)) basePath"

section \<open>Topology, probes and base parameters\<close>

text \<open>\<open>ManilaServiceTemplate.ValidateTopology\<close> of \<open>common_types.go\<close>.\<close>

definition ValidateTopology :: "weblib \<Rightarrow> ManilaServiceTemplate \<Rightarrow> path \<Rightarrow> string \<Rightarrow>
  field_error list" where
  "ValidateTopology W instance basePath namespace =
     w_ValidateTopologyRef W (st_TopologyRef instance) (basePath @ [Child ''topologyRef'']) namespace"

definition ManilaSpecCore_ValidateManilaTopology :: "weblib \<Rightarrow> ManilaSpecCore \<Rightarrow> path \<Rightarrow> string \<Rightarrow>
  field_error list" where
  "ManilaSpecCore_ValidateManilaTopology W spec basePath namespace =
     w_ValidateTopologyRef W (sb_TopologyRef (mcore_Base spec)) (basePath @ [Child ''topologyRef'']) namespace
     @ ValidateTopology W (atc_ServiceTemplate (mcore_ManilaAPI spec)) (basePath @ [Child ''manilaAPI'']) namespace
     @ ValidateTopology W (stc_ServiceTemplate (mcore_ManilaScheduler spec))
         (basePath @ [Child ''manilaScheduler'']) namespace
     @ concat (map (\<lambda>(k, ms). ValidateTopology W (htc_ServiceTemplate ms)
         (basePath @ [Child ''manilaShares'', Key k]) namespace) (mcore_ManilaShares spec))"

definition ManilaSpec_ValidateManilaTopology :: "weblib \<Rightarrow> ManilaSpec \<Rightarrow> path \<Rightarrow> string \<Rightarrow>
  field_error list" where
  "ManilaSpec_ValidateManilaTopology W spec basePath namespace =
     w_ValidateTopologyRef W (sb_TopologyRef (ms_Base spec)) (basePath @ [Child ''topologyRef'']) namespace
     @ ValidateTopology W (atc_ServiceTemplate (at_Core (ms_ManilaAPI spec)))
         (basePath @ [Child ''manilaAPI'']) namespace
     @ ValidateTopology W (stc_ServiceTemplate (sct_Core (ms_ManilaScheduler spec)))
         (basePath @ [Child ''manilaScheduler'']) namespace
     @ concat (map (\<lambda>(k, ms). ValidateTopology W (htc_ServiceTemplate (ht_Core ms))
         (basePath @ [Child ''manilaShares'', Key k]) namespace) (ms_ManilaShares spec))"

definition ManilaSpec_ValidateProbes :: "weblib \<Rightarrow> ManilaSpec \<Rightarrow> path \<Rightarrow> field_error list" where
  "ManilaSpec_ValidateProbes W spec basePath =
     w_ValidateProbes W (ao_Probes (atc_Override (at_Core (ms_ManilaAPI spec))))
       (basePath @ [Child ''manilaAPI'', Child ''override'', Child ''probes''])
     @ w_ValidateProbes W (so_Probes (stc_Override (sct_Core (ms_ManilaScheduler spec))))
         (basePath @ [Child ''manilaScheduler'', Child ''override'', Child ''probes''])
     @ concat (map (\<lambda>(name, share). w_ValidateProbes W (sho_Probes (htc_Override (ht_Core share)))
         (basePath @ [Child ''manilaShares'', Child name, Child ''override'', Child ''probes'']))
         (ms_ManilaShares spec))"

definition ManilaSpecCore_ValidateProbes :: "weblib \<Rightarrow> ManilaSpecCore \<Rightarrow> path \<Rightarrow> field_error list" where
  "ManilaSpecCore_ValidateProbes W spec basePath =
     w_ValidateProbes W (ao_Probes (atc_Override (mcore_ManilaAPI spec)))
       (basePath @ [Child ''manilaAPI'', Child ''override'', Child ''probes''])
     @ w_ValidateProbes W (so_Probes (stc_Override (mcore_ManilaScheduler spec)))
         (basePath @ [Child ''manilaScheduler'', Child ''override'', Child ''probes''])
     @ concat (map (\<lambda>(name, share). w_ValidateProbes W (sho_Probes (htc_Override share))
         (basePath @ [Child ''manilaShares'', Child name, Child ''override'', Child ''probes'']))
         (mcore_ManilaShares spec))"

definition ManilaSpec_ValidateBaseParams :: "ManilaSpec \<Rightarrow> path \<Rightarrow> field_error list" where
  "ManilaSpec_ValidateBaseParams spec basePath =
     (if rq_Cluster (sb_MessagingBus (ms_Base spec)) = ''''
      then [FieldInvalid (basePath @ [Child ''messagingBus'', Child ''cluster''])
              ''messagingBus.cluster'' ''MessagingBus.Cluster is empty''] else [])
     @ (if sb_MemcachedInstance (ms_Base spec) = ''''
        then [FieldInvalid (basePath @ [Child ''memcachedInstance'']) ''memcachedInstance''
                ''MemcachedInstance is empty''] else [])
     @ (if mt_DatabaseAccount (sb_ManilaTemplate (ms_Base spec)) = ''''
        then [FieldInvalid (basePath @ [Child ''databaseAccount'']) ''databaseAccount''
                ''DatabaseAccount is empty''] else [])"

definition ManilaSpecCore_ValidateBaseParams :: "ManilaSpecCore \<Rightarrow> path \<Rightarrow> field_error list" where
  "ManilaSpecCore_ValidateBaseParams spec basePath =
     (if rq_Cluster (sb_MessagingBus (mcore_Base spec)) = ''''
      then [FieldInvalid (basePath @ [Child ''messagingBus'', Child ''cluster''])
              ''messagingBus.cluster'' ''MessagingBus.Cluster is empty''] else [])
     @ (if sb_MemcachedInstance (mcore_Base spec) = ''''
        then [FieldInvalid (basePath @ [Child ''memcachedInstance'']) ''memcachedInstance''
                ''MemcachedInstance is empty''] else [])
     @ (if mt_DatabaseAccount (sb_ManilaTemplate (mcore_Base spec)) = ''''
        then [FieldInvalid (basePath @ [Child ''databaseAccount'']) ''databaseAccount''
                ''DatabaseAccount is empty''] else [])"

section \<open>Validation of a spec\<close>

definition service_path :: "path \<Rightarrow> path" where
  "service_path basePath = basePath @ [Child ''manilaAPI'', Child ''override'', Child ''service'']"

definition ManilaSpec_ValidateCreate :: "weblib \<Rightarrow> ManilaSpec \<Rightarrow> path \<Rightarrow> string \<Rightarrow>
  string list \<times> field_error list" where
  "ManilaSpec_ValidateCreate W spec basePath namespace =
     (case validateDeprecatedFieldsCreate W (ms_Base spec) basePath of
        (deprecatedWarnings, deprecatedErrors) \<Rightarrow>
          (deprecatedWarnings,
           deprecatedErrors
           @ w_ValidateRoutedOverrides W (service_path basePath)
               (ao_Service (atc_Override (at_Core (ms_ManilaAPI spec))))
           @ ManilaSpec_ValidateManilaTopology W spec basePath namespace))"

definition ManilaSpecCore_ValidateCreate :: "weblib \<Rightarrow> ManilaSpecCore \<Rightarrow> path \<Rightarrow> string \<Rightarrow>
  string list \<times> field_error list" where
  "ManilaSpecCore_ValidateCreate W spec basePath namespace =
     (case validateDeprecatedFieldsCreate W (mcore_Base spec) basePath of
        (deprecatedWarnings, deprecatedErrors) \<Rightarrow>
          (deprecatedWarnings,
           deprecatedErrors
           @ w_ValidateRoutedOverrides W (service_path basePath)
               (ao_Service (atc_Override (mcore_ManilaAPI spec)))
           @ ManilaSpecCore_ValidateManilaTopology W spec basePath namespace
           @ ManilaSpecCore_ValidateProbes W spec basePath))"

definition ManilaSpec_ValidateUpdate :: "weblib \<Rightarrow> ManilaSpec \<Rightarrow> ManilaSpec \<Rightarrow> path \<Rightarrow> string \<Rightarrow>
  string list \<times> field_error list" where
  "ManilaSpec_ValidateUpdate W spec old basePath namespace =
     (case validateDeprecatedFieldsUpdate W (ms_Base spec) (ms_Base old) basePath of
        (deprecatedWarnings, deprecatedErrors) \<Rightarrow>
          (deprecatedWarnings,
           deprecatedErrors
           @ ManilaSpec_ValidateBaseParams spec basePath
           @ w_ValidateRoutedOverrides W (service_path basePath)
               (ao_Service (atc_Override (at_Core (ms_ManilaAPI spec))))
           @ ManilaSpec_ValidateManilaTopology W spec basePath namespace
           @ ManilaSpec_ValidateProbes W spec basePath))"

definition ManilaSpecCore_ValidateUpdate :: "weblib \<Rightarrow> ManilaSpecCore \<Rightarrow> ManilaSpecCore \<Rightarrow> path \<Rightarrow>
  string \<Rightarrow> string list \<times> field_error list" where
  "ManilaSpecCore_ValidateUpdate W spec old basePath namespace =
     (case validateDeprecatedFieldsUpdate W (mcore_Base spec) (mcore_Base old) basePath of
        (deprecatedWarnings, deprecatedErrors) \<Rightarrow>
          (deprecatedWarnings,
           deprecatedErrors
           @ ManilaSpecCore_ValidateBaseParams spec basePath
           @ w_ValidateRoutedOverrides W (service_path basePath)
               (ao_Service (atc_Override (mcore_ManilaAPI spec)))
           @ ManilaSpecCore_ValidateManilaTopology W spec basePath namespace
           @ ManilaSpecCore_ValidateProbes W spec basePath))"

section \<open>The validator of a Manila object and its registration wrappers\<close>

definition Manila_ValidateCreate :: "weblib \<Rightarrow> Manila \<Rightarrow> string list \<times> web_error option" where
  "Manila_ValidateCreate W r =
     (case ManilaSpec_ValidateCreate W (man_Spec r) [Child ''spec''] (om_Namespace (man_Meta r)) of
        (warnings, allErrs) \<Rightarrow>
          if allErrs \<noteq> []
          then (warnings, Some (Invalid ''manila.openstack.org'' ''Manila'' (om_Name (man_Meta r)) allErrs))
          else (warnings, None))"

definition Manila_ValidateUpdate :: "weblib \<Rightarrow> Manila \<Rightarrow> runtime_object \<Rightarrow>
  string list \<times> web_error option" where
  "Manila_ValidateUpdate W r old =
     (case old of
        ObjManila oldManila \<Rightarrow>
          (case ManilaSpec_ValidateUpdate W (man_Spec r) (man_Spec oldManila) [Child ''spec'']
                  (om_Namespace (man_Meta r)) of
             (warnings, allErrs) \<Rightarrow>
               if allErrs \<noteq> []
               then (warnings, Some (Invalid ''manila.openstack.org'' ''Manila'' (om_Name (man_Meta r)) allErrs))
               else (warnings, None))
      | ObjNilManila \<Rightarrow> ([], Some (InternalError ''unable to convert existing object''))
      | ObjOther \<Rightarrow> ([], Some (InternalError ''unable to convert existing object'')))"

definition Manila_ValidateDelete :: "Manila \<Rightarrow> string list \<times> web_error option" where
  "Manila_ValidateDelete r = ([], None)"

text \<open>
  A typed \<open>nil\<close> pointer passes the type assertion of the wrappers and panics when its name is
  logged: \<open>None\<close>.
\<close>

definition ManilaCustomDefaulter_Default :: "ManilaDefaults \<Rightarrow> runtime_object \<Rightarrow>
  (web_error + Manila) option" where
  "ManilaCustomDefaulter_Default d obj =
     (case obj of
        ObjManila manila \<Rightarrow> Some (Inr (Manila_Default d manila))
      | ObjNilManila \<Rightarrow> None
      | ObjOther \<Rightarrow> Some (Inl InvalidObjectType))"

definition ManilaCustomValidator_ValidateCreate :: "weblib \<Rightarrow> runtime_object \<Rightarrow>
  (string list \<times> web_error option) option" where
  "ManilaCustomValidator_ValidateCreate W obj =
     (case obj of
        ObjManila manila \<Rightarrow> Some (Manila_ValidateCreate W manila)
      | ObjNilManila \<Rightarrow> None
      | ObjOther \<Rightarrow> Some ([], Some InvalidObjectType))"

definition ManilaCustomValidator_ValidateUpdate :: "weblib \<Rightarrow> runtime_object \<Rightarrow> runtime_object \<Rightarrow>
  (string list \<times> web_error option) option" where
  "ManilaCustomValidator_ValidateUpdate W oldObj newObj =
     (case newObj of
        ObjManila manila \<Rightarrow> Some (Manila_ValidateUpdate W manila oldObj)
      | ObjNilManila \<Rightarrow> None
      | ObjOther \<Rightarrow> Some ([], Some InvalidObjectType))"

definition ManilaCustomValidator_ValidateDelete :: "runtime_object \<Rightarrow>
  (string list \<times> web_error option) option" where
  "ManilaCustomValidator_ValidateDelete obj =
     (case obj of
        ObjManila manila \<Rightarrow> Some (Manila_ValidateDelete manila)
      | ObjNilManila \<Rightarrow> None
      | ObjOther \<Rightarrow> Some ([], Some InvalidObjectType))"

section \<open>Route annotations\<close>

definition haProxyAnno :: string where "haProxyAnno = ''haproxy.router.openshift.io/timeout''"
definition manilaAnno :: string where "manilaAnno = ''api.manila.openstack.org/timeout''"

definition SetDefaultRouteAnnotations :: "ManilaSpecCore \<Rightarrow> (string \<rightharpoonup> string) \<Rightarrow>
  (string \<rightharpoonup> string)" where
  "SetDefaultRouteAnnotations spec annotations =
     (case (annotations manilaAnno, annotations haProxyAnno) of
        (None, Some valHAProxy) \<Rightarrow> annotations
      | (Some valManila, Some valHAProxy) \<Rightarrow>
          if valManila \<noteq> valHAProxy then annotations(manilaAnno := None)
          else (let timeout = show_int (sb_APITimeout (mcore_Base spec)) @ ''s''
                in annotations(manilaAnno \<mapsto> timeout, haProxyAnno \<mapsto> timeout))
      | (_, None) \<Rightarrow>
          (let timeout = show_int (sb_APITimeout (mcore_Base spec)) @ ''s''
           in annotations(manilaAnno \<mapsto> timeout, haProxyAnno \<mapsto> timeout)))"

end
