(* ===== verification/Library.thy ===== *)
theory Library
  imports ApiTypes
begin

text \<open>
  The boundary of the model. Everything the operator calls outside its own repository (the
  Kubernetes client, lib-common, the APIs of the other operators) is a field of the record
  \<open>lib\<close>, an argument of every definition that uses it. A pure library function is a function
  field. A call that talks to the cluster is recorded as an event of the run's trace, and its
  answer is a function of the events before it and of its arguments, so that the answers of the
  cluster may change between two calls in any way.
\<close>

section \<open>Events\<close>

record DatabaseRequest =
  dr_Instance :: string
  dr_DatabaseName :: string
  dr_CRName :: string
  dr_Account :: string
  dr_Namespace :: string

datatype event =
    EGet string string string
  | EList string string "(string \<times> string) option"
  | EUpdate string ObjectMeta
  | EDelete string string string
  | EPatchManila Manila
  | EPatchAPI ManilaAPI
  | EPatchScheduler ManilaScheduler
  | EPatchShare ManilaShare
  | EReconcileRbac "PolicyRule list"
  | ECreateOrUpdateTransportURL TransportURL
  | ECreateOrUpdateAPI ManilaAPI
  | ECreateOrUpdateScheduler ManilaScheduler
  | ECreateOrUpdateShare ManilaShare
  | EManageConsumerFinalizer string string string
  | ERemoveConsumerFinalizer string string string
  | EPruneConsumerFinalizers string string "string list"
  | EFinalizeSecretRotation string string string string bool
  | EDeleteDBFinalizer
  | EEnsureMariaDBAccount string string
  | ECreateOrPatchDB DatabaseRequest
  | EWaitForDBCreated DatabaseRequest
  | EDeleteUnusedAccountFinalizers string string
  | EVerifySecretFields string string "string list"
  | EEnsureSecrets "Template list"
  | EDoJob Job string bool string
  | ECreateOrPatchCronJob CronJob
  | EEnsureServiceTopology "TopoRef option" "TopoRef option" string
  | EEnsureDeletedTopologyRef "TopoRef option" string
  | EValidateCACert string string
  | EValidateCertSecrets string
  | ECreateOrPatchService ServiceObj
  | EGetAPIEndpoint ServiceObj
  | ECreateOrPatchKeystoneService KeystoneServiceSpec
  | ECreateOrPatchKeystoneEndpoint KeystoneEndpointSpec
  | ECreateOrPatchStatefulSet StatefulSet
  | EVerifyNetworkStatus "string list"
  | EIsReadyForInput string string string

type_synonym hist = "event list"

section \<open>The libraries\<close>

text \<open>TLS certificates of one endpoint, as the library's \<open>tls.Service\<close>.\<close>

record tls_Service =
  ts_SecretName :: string
  ts_CertMount :: "string option"
  ts_KeyMount :: "string option"

record purelib =
  l_const :: "string \<Rightarrow> string"
  l_IsTrue :: "conditions \<Rightarrow> ctype \<Rightarrow> bool"
  l_IsUnknown :: "conditions \<Rightarrow> ctype \<Rightarrow> bool"
  l_Mirror :: "conditions \<Rightarrow> ctype \<Rightarrow> condition option"
  l_GetHigherPrioCondition :: "condition option \<Rightarrow> condition option \<Rightarrow> condition option"
  l_IsNotFound :: "gerr \<Rightarrow> bool"
  l_AddFinalizer :: "ObjectMeta \<Rightarrow> string \<Rightarrow> bool \<times> ObjectMeta"
  l_RemoveFinalizer :: "ObjectMeta \<Rightarrow> string \<Rightarrow> ObjectMeta"
  l_SetControllerReference :: "ObjectMeta \<Rightarrow> ObjectMeta \<Rightarrow> gerr option \<times> ObjectMeta"
  l_GetFinalizer :: "string \<Rightarrow> string"
  l_GetLabels :: "ObjectMeta \<Rightarrow> string \<Rightarrow> (string \<rightharpoonup> string) \<Rightarrow> (string \<rightharpoonup> string)"
  l_OwnerNameLabelSelector :: "string \<Rightarrow> string"
  l_ObjectHash :: "string list \<Rightarrow> string \<times> gerr option"
  l_ObjectHashEnvs :: "(string \<rightharpoonup> string) \<Rightarrow> string \<times> gerr option"
  l_SetHash :: "(string \<rightharpoonup> string) option \<Rightarrow> string \<Rightarrow> string \<Rightarrow> (string \<rightharpoonup> string) option \<times> bool"
  l_MergeStringMaps :: "(string \<rightharpoonup> string) \<Rightarrow> (string \<rightharpoonup> string) \<Rightarrow> (string \<rightharpoonup> string)"
  l_Propagate :: "VolMounts \<Rightarrow> string list \<Rightarrow> VolMounts list"
  l_CaVolume :: "tls_Ca \<Rightarrow> Volume"
  l_CaVolumeMounts :: "tls_Ca \<Rightarrow> VolumeMount list"
  l_TLSEnabled :: "tls_API \<Rightarrow> endpoint \<Rightarrow> bool"
  l_ToService :: "tls_GenericService \<Rightarrow> gerr + tls_Service"
  l_TLSVolume :: "tls_Service \<Rightarrow> string \<Rightarrow> Volume"
  l_TLSVolumeMounts :: "tls_Service \<Rightarrow> string \<Rightarrow> VolumeMount list"
  l_MTLSVolume :: "Memcached \<Rightarrow> Volume"
  l_MTLSVolumeMounts :: "Memcached \<Rightarrow> VolumeMount list"
  l_WritableDirVolume :: "string \<Rightarrow> Volume"
  l_WritableDirVolumeMount :: "string \<Rightarrow> string \<Rightarrow> VolumeMount"
  l_CreateProbeSet :: "int \<Rightarrow> string \<Rightarrow> probes_OverrideSpec \<Rightarrow> probes_OverrideSpec \<Rightarrow> gerr + probe_set"
  l_ApplyTopology :: "Topology \<Rightarrow> PodTemplateSpec \<Rightarrow> PodTemplateSpec"
  l_GetBoolFromAnnotation :: "(string \<rightharpoonup> string) \<Rightarrow> string \<Rightarrow> bool \<times> bool \<times> gerr option"
  l_NewService :: "ServiceObj \<Rightarrow> gerr option"
  l_AddAnnotation :: "(string \<rightharpoonup> string) \<Rightarrow> ServiceObj \<Rightarrow> ServiceObj"
  l_GetServiceType :: "ServiceObj \<Rightarrow> service_type"
  l_GetServiceHostname :: "ServiceObj \<Rightarrow> string"
  l_EnsureNetworksAnnotation :: "string list \<Rightarrow> (string \<rightharpoonup> string) \<times> gerr option"
  l_FloatToInt32 :: "int \<Rightarrow> int"

record lib = purelib +
  o_GetManila :: "hist \<Rightarrow> NamespacedName \<Rightarrow> gerr + Manila"
  o_GetAPI :: "hist \<Rightarrow> NamespacedName \<Rightarrow> gerr + ManilaAPI"
  o_GetScheduler :: "hist \<Rightarrow> NamespacedName \<Rightarrow> gerr + ManilaScheduler"
  o_GetShare :: "hist \<Rightarrow> NamespacedName \<Rightarrow> gerr + ManilaShare"
  o_GetTransportURL :: "hist \<Rightarrow> string \<Rightarrow> string \<Rightarrow> gerr + TransportURL"
  o_GetDatabase :: "hist \<Rightarrow> string \<Rightarrow> string \<Rightarrow> gerr + Database"
  o_GetMemcached :: "hist \<Rightarrow> string \<Rightarrow> string \<Rightarrow> gerr + Memcached"
  o_GetKeystoneAPI :: "hist \<Rightarrow> string \<Rightarrow> gerr + KeystoneAPI"
  o_GetKeystoneObj :: "hist \<Rightarrow> string \<Rightarrow> string \<Rightarrow> string \<Rightarrow> gerr + ObjectMeta"
  o_GetSecret :: "hist \<Rightarrow> string \<Rightarrow> string \<Rightarrow> gerr + (Secret \<times> string)"
  o_GetNAD :: "hist \<Rightarrow> string \<Rightarrow> string \<Rightarrow> gerr + string option"
  o_ListManilas :: "hist \<Rightarrow> string \<Rightarrow> (string \<times> string) option \<Rightarrow> gerr + Manila list"
  o_ListAPIs :: "hist \<Rightarrow> string \<Rightarrow> (string \<times> string) option \<Rightarrow> gerr + ManilaAPI list"
  o_ListSchedulers :: "hist \<Rightarrow> string \<Rightarrow> (string \<times> string) option \<Rightarrow> gerr + ManilaScheduler list"
  o_ListShares :: "hist \<Rightarrow> string \<Rightarrow> (string \<times> string) option \<Rightarrow> gerr + ManilaShare list"
  o_Update :: "hist \<Rightarrow> string \<Rightarrow> ObjectMeta \<Rightarrow> gerr option"
  o_Delete :: "hist \<Rightarrow> string \<Rightarrow> string \<Rightarrow> string \<Rightarrow> gerr option"
  o_NewHelper :: "hist \<Rightarrow> string \<Rightarrow> gerr option"
  o_Patch :: "hist \<Rightarrow> event \<Rightarrow> gerr option"
  o_ReconcileRbac :: "hist \<Rightarrow> Manila \<Rightarrow> PolicyRule list \<Rightarrow> condition list \<times> ctrl_result \<times> gerr option"
  o_CreateOrUpdateTransportURL :: "hist \<Rightarrow> TransportURL \<Rightarrow>
    (TransportURL \<Rightarrow> gerr option \<times> TransportURL) \<Rightarrow> TransportURL \<times> op_result \<times> gerr option"
  o_CreateOrUpdateAPI :: "hist \<Rightarrow> ManilaAPI \<Rightarrow>
    (ManilaAPI \<Rightarrow> gerr option \<times> ManilaAPI) \<Rightarrow> ManilaAPI \<times> op_result \<times> gerr option"
  o_CreateOrUpdateScheduler :: "hist \<Rightarrow> ManilaScheduler \<Rightarrow>
    (ManilaScheduler \<Rightarrow> gerr option \<times> ManilaScheduler) \<Rightarrow> ManilaScheduler \<times> op_result \<times> gerr option"
  o_CreateOrUpdateShare :: "hist \<Rightarrow> ManilaShare \<Rightarrow>
    (ManilaShare \<Rightarrow> gerr option \<times> ManilaShare) \<Rightarrow> ManilaShare \<times> op_result \<times> gerr option"
  o_ManageConsumerFinalizer :: "hist \<Rightarrow> string \<Rightarrow> string \<Rightarrow> string \<Rightarrow> gerr option"
  o_RemoveConsumerFinalizer :: "hist \<Rightarrow> string \<Rightarrow> string \<Rightarrow> string \<Rightarrow> gerr option"
  o_PruneConsumerFinalizers :: "hist \<Rightarrow> string \<Rightarrow> string \<Rightarrow> string list \<Rightarrow> gerr option"
  o_FinalizeSecretRotation :: "hist \<Rightarrow> string \<Rightarrow> string \<Rightarrow> string \<Rightarrow> string \<Rightarrow> bool \<Rightarrow> gerr + string"
  o_DeleteDBFinalizer :: "hist \<Rightarrow> Database \<Rightarrow> gerr option"
  o_EnsureMariaDBAccount :: "hist \<Rightarrow> string \<Rightarrow> string \<Rightarrow> string \<Rightarrow> gerr option"
  o_CreateOrPatchDB :: "hist \<Rightarrow> DatabaseRequest \<Rightarrow> ctrl_result \<times> gerr option"
  o_WaitForDBCreated :: "hist \<Rightarrow> DatabaseRequest \<Rightarrow> ctrl_result \<times> gerr option"
  o_DatabaseObj :: "hist \<Rightarrow> DatabaseRequest \<Rightarrow> Database"
  o_DeleteUnusedAccountFinalizers :: "hist \<Rightarrow> string \<Rightarrow> string \<Rightarrow> gerr option"
  o_VerifySecretFields :: "hist \<Rightarrow> string \<Rightarrow> string \<Rightarrow> string list \<Rightarrow> int \<Rightarrow> string \<times> ctrl_result \<times> gerr option"
  o_EnsureSecrets :: "hist \<Rightarrow> Template list \<Rightarrow> (string \<rightharpoonup> string) \<Rightarrow> (string \<rightharpoonup> string) \<times> gerr option"
  o_DoJob :: "hist \<Rightarrow> Job \<Rightarrow> string \<Rightarrow> bool \<Rightarrow> int \<Rightarrow> string \<Rightarrow>
    ctrl_result \<times> gerr option \<times> bool \<times> string"
  o_CronJobCreateOrPatch :: "hist \<Rightarrow> CronJob \<Rightarrow> int \<Rightarrow> ctrl_result \<times> gerr option"
  o_EnsureServiceTopology :: "hist \<Rightarrow> TopoRef option \<Rightarrow> TopoRef option \<Rightarrow> string \<Rightarrow>
    (string \<rightharpoonup> string) \<Rightarrow> gerr + Topology option"
  o_EnsureDeletedTopologyRef :: "hist \<Rightarrow> TopoRef option \<Rightarrow> string \<Rightarrow> ctrl_result \<times> gerr option"
  o_ValidateCACertSecret :: "hist \<Rightarrow> string \<Rightarrow> string \<Rightarrow> string \<times> gerr option"
  o_ValidateCertSecrets :: "hist \<Rightarrow> tls_API \<Rightarrow> string \<Rightarrow> string \<times> gerr option"
  o_ServiceCreateOrPatch :: "hist \<Rightarrow> ServiceObj \<Rightarrow> ctrl_result \<times> gerr option"
  o_GetAPIEndpoint :: "hist \<Rightarrow> ServiceObj \<Rightarrow> string option \<Rightarrow> bool \<Rightarrow> string \<Rightarrow> string \<times> gerr option"
  o_KeystoneServiceCreateOrPatch :: "hist \<Rightarrow> KeystoneServiceSpec \<Rightarrow> conditions \<times> ctrl_result \<times> gerr option"
  o_KeystoneEndpointCreateOrPatch :: "hist \<Rightarrow> KeystoneEndpointSpec \<Rightarrow> conditions \<times> ctrl_result \<times> gerr option"
  o_StatefulSetCreateOrPatch :: "hist \<Rightarrow> StatefulSet \<Rightarrow> int \<Rightarrow> StatefulSetData \<times> ctrl_result \<times> gerr option"
  o_VerifyNetworkStatus :: "hist \<Rightarrow> string list \<Rightarrow> (string \<rightharpoonup> string) \<Rightarrow> int \<Rightarrow>
    bool \<times> (string \<rightharpoonup> string list) \<times> gerr option"
  o_IsReadyForInput :: "hist \<Rightarrow> string \<Rightarrow> string \<Rightarrow> string \<Rightarrow> bool \<times> gerr option"

section \<open>The state of a handler\<close>

text \<open>
  The custom resource being reconciled (the \<open>instance\<close> pointer), the trace of library calls,
  and the two maps a handler shares with the functions it calls by reference: the config
  variables and the service labels.
\<close>

record 'i st =
  inst :: 'i
  trace :: hist
  cfgVars :: "string \<rightharpoonup> string"
  svcLabels :: "string \<rightharpoonup> string"

definition call :: "event \<Rightarrow> (hist \<Rightarrow> 'a) \<Rightarrow> ('i st, 'r, 'a) prog" where
  "call ev answer = (\<lambda>s. (Next (answer (trace s)), s\<lparr>trace := trace s @ [ev]\<rparr>))"

text \<open>A library call that leaves no event (a local object is built).\<close>

definition ask :: "(hist \<Rightarrow> 'a) \<Rightarrow> ('i st, 'r, 'a) prog" where
  "ask answer = getP (\<lambda>s. answer (trace s))"

definition updI :: "('i \<Rightarrow> 'i) \<Rightarrow> ('i st, 'r, unit) prog" where
  "updI f = modP (\<lambda>s. s\<lparr>inst := f (inst s)\<rparr>)"

definition setVar :: "string \<Rightarrow> string \<Rightarrow> ('i st, 'r, unit) prog" where
  "setVar k v = modP (\<lambda>s. s\<lparr>cfgVars := (cfgVars s)(k \<mapsto> v)\<rparr>)"

definition setVars :: "(string \<rightharpoonup> string) \<Rightarrow> ('i st, 'r, unit) prog" where
  "setVars m = modP (\<lambda>s. s\<lparr>cfgVars := m\<rparr>)"

definition setLabels :: "(string \<rightharpoonup> string) \<Rightarrow> ('i st, 'r, unit) prog" where
  "setLabels m = modP (\<lambda>s. s\<lparr>svcLabels := m\<rparr>)"

definition getI :: "('i \<Rightarrow> 'a) \<Rightarrow> ('i st, 'r, 'a) prog" where
  "getI f = getP (\<lambda>s. f (inst s))"

text \<open>
  The condition calls of a handler whose custom resource reaches its conditions through
  \<open>upd\<close>: \<open>Set\<close> of a failed condition, \<open>MarkTrue\<close>, \<open>MarkFalse\<close>.
\<close>

definition condP :: "((conditions \<Rightarrow> conditions) \<Rightarrow> 'i \<Rightarrow> 'i) \<Rightarrow> cond_op \<Rightarrow> ('i st, 'r, unit) prog" where
  "condP upd c = updI (upd (cond_do c))"

definition setFalse :: "((conditions \<Rightarrow> conditions) \<Rightarrow> 'i \<Rightarrow> 'i) \<Rightarrow> ctype \<Rightarrow> creason \<Rightarrow> cseverity \<Rightarrow>
  cmsg \<Rightarrow> garg list \<Rightarrow> ('i st, 'r, unit) prog" where
  "setFalse upd t r sev m args = condP upd (CSet (Some (FalseCondition t r sev m args)))"

definition markTrue :: "((conditions \<Rightarrow> conditions) \<Rightarrow> 'i \<Rightarrow> 'i) \<Rightarrow> ctype \<Rightarrow> cmsg \<Rightarrow>
  ('i st, 'r, unit) prog" where
  "markTrue upd t m = condP upd (CMarkTrue t m)"

definition markFalse :: "((conditions \<Rightarrow> conditions) \<Rightarrow> 'i \<Rightarrow> 'i) \<Rightarrow> ctype \<Rightarrow> creason \<Rightarrow> cseverity \<Rightarrow>
  cmsg \<Rightarrow> garg list \<Rightarrow> ('i st, 'r, unit) prog" where
  "markFalse upd t r sev m args = condP upd (CMarkFalse t r sev m args)"

lemmas st_defs = call_def ask_def updI_def setVar_def setVars_def setLabels_def getI_def condP_def
  setFalse_def markTrue_def markFalse_def

lemma run_call [prog_simps]:
  "call ev answer s = (Next (answer (trace s)), s\<lparr>trace := trace s @ [ev]\<rparr>)"
  by (simp add: call_def)

lemma run_ask [prog_simps]: "ask answer s = (Next (answer (trace s)), s)"
  by (simp add: ask_def getP_def)

lemma run_updI [prog_simps]: "updI f s = (Next (), s\<lparr>inst := f (inst s)\<rparr>)"
  by (simp add: updI_def modP_def)

lemma run_getI [prog_simps]: "getI f s = (Next (f (inst s)), s)"
  by (simp add: getI_def getP_def)

lemma run_setVar [prog_simps]: "setVar k v s = (Next (), s\<lparr>cfgVars := (cfgVars s)(k \<mapsto> v)\<rparr>)"
  by (simp add: setVar_def modP_def)

lemma run_setVars [prog_simps]: "setVars m s = (Next (), s\<lparr>cfgVars := m\<rparr>)"
  by (simp add: setVars_def modP_def)

lemma run_setLabels [prog_simps]: "setLabels m s = (Next (), s\<lparr>svcLabels := m\<rparr>)"
  by (simp add: setLabels_def modP_def)

lemma run_condP [prog_simps]: "condP upd c s = (Next (), s\<lparr>inst := upd (cond_do c) (inst s)\<rparr>)"
  by (simp add: condP_def run_updI)

lemma run_setFalse [prog_simps]:
  "setFalse upd t r sev m args s =
     (Next (), s\<lparr>inst := upd (cond_do (CSet (Some (FalseCondition t r sev m args)))) (inst s)\<rparr>)"
  by (simp add: setFalse_def run_condP)

lemma run_markTrue [prog_simps]:
  "markTrue upd t m s = (Next (), s\<lparr>inst := upd (cond_do (CMarkTrue t m)) (inst s)\<rparr>)"
  by (simp add: markTrue_def run_condP)

lemma run_markFalse [prog_simps]:
  "markFalse upd t r sev m args s =
     (Next (), s\<lparr>inst := upd (cond_do (CMarkFalse t r sev m args)) (inst s)\<rparr>)"
  by (simp add: markFalse_def run_condP)

section \<open>Trace frames\<close>

text \<open>Every event a program appends satisfies \<open>E\<close>.\<close>

definition emits_rel :: "(event \<Rightarrow> bool) \<Rightarrow> 'i st \<Rightarrow> 'i st \<Rightarrow> bool" where
  "emits_rel E s s' \<longleftrightarrow> (\<exists>es. trace s' = trace s @ es \<and> list_all E es)"

interpretation emits: effect_frame "emits_rel E" for E
proof unfold_locales
  fix s t u :: "'a st"
  show "emits_rel E s s" by (simp add: emits_rel_def)
  assume "emits_rel E s t" and "emits_rel E t u"
  then show "emits_rel E s u" by (auto simp: emits_rel_def)
qed

abbreviation emits :: "(event \<Rightarrow> bool) \<Rightarrow> ('i st, 'r, 'a) prog \<Rightarrow> bool" where
  "emits E \<equiv> frames (emits_rel E)"

lemma emits_call: "E ev \<Longrightarrow> emits E (call ev answer)"
  by (rule framesI) (simp add: call_def emits_rel_def)

lemma emits_ask: "emits E (ask answer)"
  by (rule framesI) (simp add: ask_def getP_def emits_rel_def)

lemma emits_mod: "(\<And>s. trace (f s) = trace s) \<Longrightarrow> emits E (modP f)"
  by (rule framesI) (simp add: modP_def emits_rel_def)

lemma emits_local:
  "emits E (updI f)" "emits E (setVar k v)" "emits E (setVars m)" "emits E (setLabels m)"
  "emits E (getI g)" "emits E (condP upd c)" "emits E (setFalse upd t r sev msg args)"
  "emits E (markTrue upd t msg)" "emits E (markFalse upd t r sev msg args)"
  by (simp_all add: st_defs emits_mod emits.frame_get)

lemmas emits_rules = emits.frame_rules emits_call emits_ask emits_local frames_case

lemma emits_weaken: "emits E m \<Longrightarrow> (\<And>e. E e \<Longrightarrow> F e) \<Longrightarrow> emits F m"
  unfolding frames_def emits_rel_def by (metis (mono_tags, lifting) list.pred_mono_strong)

text \<open>A projection that no library call and no local update of the handler touches.\<close>

lemma keeps_call:
  "(\<And>s tr. g (s\<lparr>trace := tr\<rparr>) = g s) \<Longrightarrow> frames (keeps_rel g) (call ev answer)"
  by (rule framesI) (simp add: call_def keeps_rel_def)

lemma keeps_ask: "frames (keeps_rel g) (ask answer)"
  by (rule framesI) (simp add: ask_def getP_def keeps_rel_def)

lemma keeps_mod: "(\<And>s. g (f s) = g s) \<Longrightarrow> frames (keeps_rel g) (modP f)"
  by (rule framesI) (simp add: modP_def keeps_rel_def)

text \<open>For a projection of the custom resource.\<close>

abbreviation keepsI :: "('i \<Rightarrow> 'v) \<Rightarrow> ('i st, 'r, 'a) prog \<Rightarrow> bool" where
  "keepsI g \<equiv> frames (keeps_rel (\<lambda>s. g (inst s)))"

lemma keepsI_updI: "(\<And>i. g (f i) = g i) \<Longrightarrow> keepsI g (updI f)"
  by (simp add: updI_def keeps_mod)

lemma keepsI_condP: "(\<And>f i. g (upd f i) = g i) \<Longrightarrow> keepsI g (condP upd c)"
  by (simp add: condP_def keepsI_updI)

lemma keepsI_cond:
  assumes "\<And>f i. g (upd f i) = g i"
  shows "keepsI g (setFalse upd t r sev msg args)" "keepsI g (markTrue upd t msg)"
    "keepsI g (markFalse upd t r sev msg args)"
  using assms by (simp_all add: setFalse_def markTrue_def markFalse_def keepsI_condP)

lemma keepsI_local:
  "keepsI g (call ev answer)" "keepsI g (ask answer)" "keepsI g (setVar k v)"
  "keepsI g (setVars m)" "keepsI g (setLabels m)" "keepsI g (getI h)"
  by (simp_all add: st_defs keeps_mod keeps.frame_get frames_def keeps_rel_def modP_def getP_def)

lemmas keepsI_rules =
  keeps.frame_rules keepsI_local keepsI_updI keepsI_condP keepsI_cond frames_case

end
