(* ===== verification/ManilaPkg.thy ===== *)
theory ManilaPkg
  imports Library Complex_Main
begin

text \<open>
  Package \<open>internal/manila\<close>: the constants of the service, the probe defaults, the volumes every
  component shares and the two batch objects (the db-sync and service-cleanup job, the db-purge
  cron job).
\<close>

section \<open>Constants (const.go)\<close>

definition manila_ServiceName :: string where "manila_ServiceName = ''manila''"
definition manila_ServiceType :: string where "manila_ServiceType = ''share''"
definition manila_ServiceNameV2 :: string where "manila_ServiceNameV2 = ''manilav2''"
definition manila_ServiceTypeV2 :: string where "manila_ServiceTypeV2 = ''sharev2''"
definition manila_ServiceNameSFS :: string where "manila_ServiceNameSFS = ''shared-file-system''"
definition manila_ServiceTypeSFS :: string where "manila_ServiceTypeSFS = ''shared-file-system''"
definition manila_DatabaseName :: string where "manila_DatabaseName = ''manila''"
definition manila_DatabaseCRName :: string where "manila_DatabaseCRName = ''manila''"
definition manila_DatabaseUsernamePrefix :: string where "manila_DatabaseUsernamePrefix = ''manila''"
definition ManilaPublicPort :: int where "ManilaPublicPort = 8786"
definition ManilaInternalPort :: int where "ManilaInternalPort = 8786"
definition ManilaServiceCleanupDelay :: int where "ManilaServiceCleanupDelay = 120"
definition ManilaServiceDownTime :: int where "ManilaServiceDownTime = 60"
definition DefaultsConfigFileName :: string where "DefaultsConfigFileName = ''00-config.conf''"
definition CustomConfigFileName :: string where "CustomConfigFileName = ''02-config.conf''"
definition CustomServiceConfigFileName :: string where "CustomServiceConfigFileName = ''03-config.conf''"
definition CustomServiceConfigSecretsFileName :: string where
  "CustomServiceConfigSecretsFileName = ''04-config.conf''"
definition ACConsumerFinalizer :: string where
  "ACConsumerFinalizer = ''openstack.org/manila-ac-consumer''"
definition TransportConsumerFinalizer :: string where
  "TransportConsumerFinalizer = ''openstack.org/manila-transport-consumer''"

text \<open>Durations are nanoseconds, as \<open>time.Duration\<close> is.\<close>

definition time_Second :: int where "time_Second = 1000000000"
definition ShortDuration :: int where "ShortDuration = 5 * time_Second"
definition NormalDuration :: int where "NormalDuration = 10 * time_Second"

definition DBSyncJobName :: string where "DBSyncJobName = ''db-sync''"
definition DBSyncCommand :: string where
  "DBSyncCommand = ''/usr/bin/manila-manage --config-dir /etc/manila/manila.conf.d db sync''"
definition SvcCleanupJobName :: string where "SvcCleanupJobName = ''service-cleanup''"
definition SvcCleanupCommand :: string where
  "SvcCleanupCommand = ''/usr/bin/manila-manage --config-dir /etc/manila/manila.conf.d service cleanup''"
definition ComponentDBSync :: string where "ComponentDBSync = ''manila-db-sync''"
definition ComponentSvcCleanup :: string where "ComponentSvcCleanup = ''manila-service-cleanup''"
definition ComponentDBPurge :: string where "ComponentDBPurge = ''manila-db-purge''"
definition TruncateHash :: nat where "TruncateHash = 8"
definition TTL :: int where "TTL = 5 * 60"

definition ManilaSchedulerPropagation :: "string list" where
  "ManilaSchedulerPropagation = [''Manila'', ''ManilaScheduler'']"
definition ManilaAPIPropagation :: "string list" where
  "ManilaAPIPropagation = [''Manila'', ''ManilaAPI'']"
definition ManilaSharePropagation :: "string list" where
  "ManilaSharePropagation = [''Manila'', ''ManilaShare'']"

definition ResultRequeue :: ctrl_result where
  "ResultRequeue = CtrlResult False NormalDuration"

lemma ResultRequeue_not_zero [simp]: "ResultRequeue \<noteq> Result0"
  by (simp add: ResultRequeue_def Result0_def NormalDuration_def time_Second_def)

section \<open>Probe defaults (funcs.go)\<close>

text \<open>
  \<open>int32(f)\<close> of an integral float \<open>x\<close>: exact in the range of \<open>int32\<close>; outside it Go leaves the
  result to the implementation, which is the parameter \<open>conv\<close>. The quotient of a timeout and 3
  is computed exactly here; the double the code computes has the same floor for every timeout
  whose quotient fits \<open>int32\<close>.
\<close>

definition int32_of :: "(int \<Rightarrow> int) \<Rightarrow> int \<Rightarrow> int" where
  "int32_of conv x = (if - (2 ^ 31) \<le> x \<and> x < 2 ^ 31 then x else conv x)"

definition failureCount :: int where
  "failureCount = 3"

definition probe_period :: "(int \<Rightarrow> int) \<Rightarrow> int \<Rightarrow> int" where
  "probe_period conv timeout = int32_of conv \<lfloor>(of_int timeout :: real) / of_int failureCount\<rfloor>"

definition probe_startupPeriod :: "(int \<Rightarrow> int) \<Rightarrow> int \<Rightarrow> int" where
  "probe_startupPeriod conv period = int32_of conv \<lfloor>max 5 ((of_int period :: real) / 2)\<rfloor>"

definition GetDefaultProbesAPI :: "(int \<Rightarrow> int) \<Rightarrow> int \<Rightarrow> probes_OverrideSpec" where
  "GetDefaultProbesAPI conv apiTimeout =
     (let period = probe_period conv apiTimeout;
          startupPeriod = probe_startupPeriod conv period
      in \<lparr>po_LivenessProbes = Some \<lparr>pc_Path = ''/healthcheck'', pc_TimeoutSeconds = 10,
            pc_PeriodSeconds = period, pc_InitialDelaySeconds = 5, pc_FailureThreshold = 0\<rparr>,
          po_ReadinessProbes = Some \<lparr>pc_Path = ''/healthcheck'', pc_TimeoutSeconds = 10,
            pc_PeriodSeconds = period, pc_InitialDelaySeconds = 5, pc_FailureThreshold = 0\<rparr>,
          po_StartupProbes = Some \<lparr>pc_Path = '''', pc_TimeoutSeconds = 10,
            pc_PeriodSeconds = startupPeriod, pc_InitialDelaySeconds = 5,
            pc_FailureThreshold = 12\<rparr>\<rparr>)"

definition GetDefaultProbesRPCWorker :: "(int \<Rightarrow> int) \<Rightarrow> int \<Rightarrow> probes_OverrideSpec" where
  "GetDefaultProbesRPCWorker conv serviceDownTime =
     (let period = probe_period conv serviceDownTime;
          startupPeriod = probe_startupPeriod conv period
      in \<lparr>po_LivenessProbes = Some \<lparr>pc_Path = '''', pc_TimeoutSeconds = 10,
            pc_PeriodSeconds = period, pc_InitialDelaySeconds = 15, pc_FailureThreshold = 0\<rparr>,
          po_ReadinessProbes = Some \<lparr>pc_Path = '''', pc_TimeoutSeconds = 10,
            pc_PeriodSeconds = period, pc_InitialDelaySeconds = 15, pc_FailureThreshold = 0\<rparr>,
          po_StartupProbes = Some \<lparr>pc_Path = '''', pc_TimeoutSeconds = 10,
            pc_PeriodSeconds = startupPeriod, pc_InitialDelaySeconds = period,
            pc_FailureThreshold = 12\<rparr>\<rparr>)"

definition GetPodAffinity :: "lib \<Rightarrow> string \<Rightarrow> affinity" where
  "GetPodAffinity L componentName =
     DistributePods (l_const L ''common.ComponentSelector'') [componentName]
       (l_const L ''corev1.LabelHostname'')"

definition SharesListHash :: "lib \<Rightarrow> string list \<Rightarrow> string \<times> gerr option" where
  "SharesListHash L shareNames =
     (case l_ObjectHash L shareNames of
        (hash, Some e) \<Rightarrow> (hash, Some e)
      | (hash, None) \<Rightarrow> (hash, None))"

section \<open>Volumes (volumes.go)\<close>

definition configMode :: int where
  "configMode = 4 * 8 ^ 2 + 4 * 8"

definition scriptsVolumeDefaultMode :: int where
  "scriptsVolumeDefaultMode = 7 * 8 ^ 2 + 5 * 8 + 5"

text \<open>
  The innermost loop dereferences the converted volume source without looking at the error of the
  conversion: \<open>None\<close> is the panic that follows when it failed.
\<close>

fun append_volumes :: "ExtraVolume list \<Rightarrow> Volume list \<Rightarrow> Volume list option" where
  "append_volumes [] res = Some res"
| "append_volumes (v # vs) res =
     (case ev_CoreVolumeSource v of
        None \<Rightarrow> None
      | Some volumeSource \<Rightarrow>
          append_volumes vs (res @ [\<lparr>vol_Name = ev_Name v, vol_Source = volumeSource\<rparr>]))"

fun append_groups :: "VolMounts list \<Rightarrow> Volume list \<Rightarrow> Volume list option" where
  "append_groups [] res = Some res"
| "append_groups (g # gs) res =
     (case append_volumes (vmo_Volumes g) res of None \<Rightarrow> None | Some res' \<Rightarrow> append_groups gs res')"

fun append_extra :: "lib \<Rightarrow> string list \<Rightarrow> ManilaExtraVolMounts list \<Rightarrow> Volume list \<Rightarrow>
  Volume list option" where
  "append_extra L svc [] res = Some res"
| "append_extra L svc (exv # exvs) res =
     (case append_groups (ExtraVolMounts_Propagate (l_Propagate L) exv svc) res of
        None \<Rightarrow> None
      | Some res' \<Rightarrow> append_extra L svc exvs res')"

definition manila_GetVolumes :: "lib \<Rightarrow> string \<Rightarrow> ManilaExtraVolMounts list \<Rightarrow> string list \<Rightarrow>
  Volume list option" where
  "manila_GetVolumes L name extraVol svc =
     append_extra L svc extraVol
       [\<lparr>vol_Name = ''scripts'',
         vol_Source = SecretVolume scriptsVolumeDefaultMode (name @ ''-scripts'') []\<rparr>,
        \<lparr>vol_Name = ''config-data'',
         vol_Source = SecretVolume configMode (name @ ''-config-data'') []\<rparr>]"

definition manila_GetVolumeMounts :: "lib \<Rightarrow> ManilaExtraVolMounts list \<Rightarrow> string list \<Rightarrow>
  VolumeMount list" where
  "manila_GetVolumeMounts L extraVol svc =
     [\<lparr>vm_Name = ''scripts'', vm_MountPath = ''/usr/local/bin/container-scripts'', vm_SubPath = '''',
       vm_ReadOnly = True\<rparr>,
      \<lparr>vm_Name = ''config-data'', vm_MountPath = ''/etc/my.cnf'', vm_SubPath = ''my.cnf'',
       vm_ReadOnly = True\<rparr>] @
     concat (map (\<lambda>exv. concat (map vmo_Mounts (ExtraVolMounts_Propagate (l_Propagate L) exv svc)))
       extraVol)"

section \<open>Batch objects (job.go, cronjob.go)\<close>

definition manila_tls_Ca :: "Manila \<Rightarrow> tls_Ca" where
  "manila_tls_Ca m = tls_CaOf (atc_TLS (at_Core (ms_ManilaAPI (man_Spec m))))"

definition manila_Job :: "lib \<Rightarrow> Manila \<Rightarrow> (string \<rightharpoonup> string) \<Rightarrow> (string \<rightharpoonup> string) \<Rightarrow> int option \<Rightarrow>
  string \<Rightarrow> string \<Rightarrow> int \<Rightarrow> string \<Rightarrow> Job" where
  "manila_Job L m labels annotations ttl jobName jobCommand delay component =
     (let manilaJobVolume =
            [\<lparr>vol_Name = ''job-config-data'',
              vol_Source = SecretVolume configMode (om_Name (man_Meta m) @ ''-config-data'')
                [(DefaultsConfigFileName, DefaultsConfigFileName),
                 (CustomConfigFileName, CustomConfigFileName)]\<rparr>];
          manilaJobMounts =
            [\<lparr>vm_Name = ''job-config-data'', vm_MountPath = ''/etc/manila/manila.conf.d'',
              vm_SubPath = '''', vm_ReadOnly = True\<rparr>];
          delayCommand = ''sleep '' @ show_int delay;
          args = [''-c'', delayCommand @ '' && '' @ jobCommand];
          podLabels = labels(l_const L ''common.ComponentSelector'' \<mapsto> component);
          ca = manila_tls_Ca m;
          tlsOn = ca_CaBundleSecretName ca \<noteq> '''';
          volumes = (if tlsOn then manilaJobVolume @ [l_CaVolume L ca] else manilaJobVolume);
          mounts = (if tlsOn then manilaJobMounts @ l_CaVolumeMounts L ca else manilaJobMounts);
          name = om_Name (man_Meta m) @ ''-'' @ jobName
      in \<lparr>job_Name = name,
          job_Namespace = om_Namespace (man_Meta m),
          job_Labels = podLabels,
          job_Template = \<lparr>
            pt_Annotations = annotations,
            pt_Labels = podLabels,
            pt_Spec = \<lparr>
              ps_RestartPolicy = RestartOnFailure,
              ps_ServiceAccountName = RbacResourceName m,
              ps_AutomountServiceAccountToken = Some False,
              ps_SecurityContext = RestrictivePodSecurityContext [''users.ManilaUID'', ''users.ManilaGID''],
              ps_Containers = [\<lparr>
                ct_Name = name,
                ct_Command = [''/bin/bash''],
                ct_Args = args,
                ct_Image = at_ContainerImage (ms_ManilaAPI (man_Spec m)),
                ct_SecurityContext = RestrictiveSecurityContext ''users.ManilaUID'' ''users.ManilaGID'',
                ct_Env = EmptyEnv,
                ct_VolumeMounts = mounts,
                ct_Resources = None,
                ct_LivenessProbe = None, ct_ReadinessProbe = None, ct_StartupProbe = None\<rparr>],
              ps_Volumes = volumes,
              ps_NodeSelector = sb_NodeSelector (ms_Base (man_Spec m)),
              ps_Affinity = None\<rparr>\<rparr>,
          job_TTLSecondsAfterFinished = ttl\<rparr>)"

definition manila_CronJob :: "lib \<Rightarrow> Manila \<Rightarrow> (string \<rightharpoonup> string) \<Rightarrow> (string \<rightharpoonup> string) \<Rightarrow> CronJob" where
  "manila_CronJob L m labels annotations =
     (let base = ms_Base (man_Spec m);
          debugArg = (if dbg_DBPurge (sb_Debug base) then '' --debug'' else '''');
          dbPurgeCommand = ''/usr/bin/manila-manage'' @ debugArg @
            '' --config-dir /etc/manila/manila.conf.d db purge '' @ show_int (dbp_Age (sb_DBPurge base));
          args = [''-c'', dbPurgeCommand];
          podLabels = labels(l_const L ''common.ComponentSelector'' \<mapsto> ComponentDBPurge);
          cronJobVolume =
            [\<lparr>vol_Name = ''db-purge-config-data'',
              vol_Source = SecretVolume configMode (om_Name (man_Meta m) @ ''-config-data'')
                [(DefaultsConfigFileName, DefaultsConfigFileName)]\<rparr>];
          cronJobVolumeMounts =
            [\<lparr>vm_Name = ''db-purge-config-data'', vm_MountPath = ''/etc/manila/manila.conf.d'',
              vm_SubPath = '''', vm_ReadOnly = True\<rparr>];
          ca = manila_tls_Ca m;
          tlsOn = ca_CaBundleSecretName ca \<noteq> '''';
          volumes = (if tlsOn then cronJobVolume @ [l_CaVolume L ca] else cronJobVolume);
          mounts = (if tlsOn then cronJobVolumeMounts @ l_CaVolumeMounts L ca
                    else cronJobVolumeMounts)
      in \<lparr>cj_Name = manila_ServiceName @ ''-db-purge'',
          cj_Namespace = om_Namespace (man_Meta m),
          cj_Labels = podLabels,
          cj_Schedule = dbp_Schedule (sb_DBPurge base),
          cj_ForbidConcurrent = True,
          cj_JobAnnotations = annotations,
          cj_JobLabels = podLabels,
          cj_Parallelism = 1,
          cj_Completions = 1,
          cj_Template = \<lparr>
            pt_Annotations = annotations,
            pt_Labels = podLabels,
            pt_Spec = \<lparr>
              ps_RestartPolicy = RestartNever,
              ps_ServiceAccountName = RbacResourceName m,
              ps_AutomountServiceAccountToken = Some False,
              ps_SecurityContext = RestrictivePodSecurityContext [''users.ManilaUID'', ''users.ManilaGID''],
              ps_Containers = [\<lparr>
                ct_Name = manila_ServiceName @ ''-db-purge'',
                ct_Command = [''/bin/bash''],
                ct_Args = args,
                ct_Image = at_ContainerImage (ms_ManilaAPI (man_Spec m)),
                ct_SecurityContext = RestrictiveSecurityContext ''users.ManilaUID'' ''users.ManilaGID'',
                ct_Env = NoEnv,
                ct_VolumeMounts = mounts,
                ct_Resources = None,
                ct_LivenessProbe = None, ct_ReadinessProbe = None, ct_StartupProbe = None\<rparr>],
              ps_Volumes = volumes,
              ps_NodeSelector = sb_NodeSelector base,
              ps_Affinity = None\<rparr>\<rparr>\<rparr>)"

end
