(* ===== verification/Common.thy ===== *)
theory Common
  imports ManilaPkg
begin

text \<open>
  The helpers the four controllers share (\<open>internal/controller/manila_common.go\<close>), over the two
  interfaces they are written against: \<open>conditionUpdater\<close>, here the function \<open>upd\<close> that applies
  a condition call to the custom resource, and \<open>topologyHandler\<close>, a record of methods. The laws
  a custom resource owes each interface are locales, interpreted for all of them.
\<close>

section \<open>The interfaces\<close>

record 'i topologyHandler =
  GetSpecTopologyRef :: "'i \<Rightarrow> TopoRef option"
  GetLastAppliedTopology :: "'i \<Rightarrow> TopoRef option"
  SetLastAppliedTopology :: "TopoRef option \<Rightarrow> 'i \<Rightarrow> 'i"

definition api_topology :: "ManilaAPI topologyHandler" where
  "api_topology = \<lparr>GetSpecTopologyRef = ManilaAPI_GetSpecTopologyRef,
     GetLastAppliedTopology = ManilaAPI_GetLastAppliedTopology,
     SetLastAppliedTopology = ManilaAPI_SetLastAppliedTopology\<rparr>"

definition scheduler_topology :: "ManilaScheduler topologyHandler" where
  "scheduler_topology = \<lparr>GetSpecTopologyRef = ManilaScheduler_GetSpecTopologyRef,
     GetLastAppliedTopology = ManilaScheduler_GetLastAppliedTopology,
     SetLastAppliedTopology = ManilaScheduler_SetLastAppliedTopology\<rparr>"

definition share_topology :: "ManilaShare topologyHandler" where
  "share_topology = \<lparr>GetSpecTopologyRef = ManilaShare_GetSpecTopologyRef,
     GetLastAppliedTopology = ManilaShare_GetLastAppliedTopology,
     SetLastAppliedTopology = ManilaShare_SetLastAppliedTopology\<rparr>"

lemmas topology_defs =
  api_topology_def scheduler_topology_def share_topology_def
  ManilaAPI_GetSpecTopologyRef_def ManilaAPI_GetLastAppliedTopology_def
  ManilaAPI_SetLastAppliedTopology_def
  ManilaScheduler_GetSpecTopologyRef_def ManilaScheduler_GetLastAppliedTopology_def
  ManilaScheduler_SetLastAppliedTopology_def
  ManilaShare_GetSpecTopologyRef_def ManilaShare_GetLastAppliedTopology_def
  ManilaShare_SetLastAppliedTopology_def

section \<open>The helpers\<close>

definition ensureTopology :: "lib \<Rightarrow> 'i topologyHandler \<Rightarrow>
  ((conditions \<Rightarrow> conditions) \<Rightarrow> 'i \<Rightarrow> 'i) \<Rightarrow> string \<Rightarrow> (string \<rightharpoonup> string) \<Rightarrow>
  ('i st, 'r, Topology option \<times> gerr option) prog" where
  "ensureTopology L th upd finalizer labelSelector =
     func (
       bindP (getI (GetSpecTopologyRef th)) (\<lambda>specRef.
       bindP (getI (GetLastAppliedTopology th)) (\<lambda>lastRef.
       bindP (call (EEnsureServiceTopology specRef lastRef finalizer)
                (\<lambda>h. o_EnsureServiceTopology L h specRef lastRef finalizer labelSelector)) (\<lambda>r.
       case r of
         Inl err \<Rightarrow>
           thenP (setFalse upd TopologyReadyCondition ErrorReason SeverityWarning
                    (LibMsg ''TopologyReadyErrorMessage'') [GErr err])
             (ret (None, Some (Errorf ''waiting for Topology requirements: %w'' [GErr err])))
       | Inr topology \<Rightarrow>
           thenP (updI (\<lambda>i. SetLastAppliedTopology th (GetSpecTopologyRef th i) i))
           (bindP (getI (GetSpecTopologyRef th)) (\<lambda>tr.
           thenP (whenP (tr \<noteq> None)
                    (markTrue upd TopologyReadyCondition (LibMsg ''TopologyReadyMessage'')))
             (ret (topology, None))))))))"

definition ensureNAD_step :: "lib \<Rightarrow> ((conditions \<Rightarrow> conditions) \<Rightarrow> 'i \<Rightarrow> 'i) \<Rightarrow> string \<Rightarrow> string \<Rightarrow>
  string list \<Rightarrow> ('i st, (string \<rightharpoonup> string) \<times> ctrl_result \<times> gerr option, string list) prog" where
  "ensureNAD_step L upd namespace netAtt nadList =
     bindP (call (EGet ''NetworkAttachmentDefinition'' namespace netAtt)
              (\<lambda>h. o_GetNAD L h netAtt namespace)) (\<lambda>r.
     case r of
       Inl err \<Rightarrow>
         if l_IsNotFound L err then
           thenP (setFalse upd NetworkAttachmentsReadyCondition ErrorReason SeverityWarning
                    (LibMsg ''NetworkAttachmentsReadyWaitingMessage'') [GStr netAtt])
             (ret (Map.empty, ResultRequeue, None))
         else
           thenP (setFalse upd NetworkAttachmentsReadyCondition ErrorReason SeverityWarning
                    (LibMsg ''NetworkAttachmentsReadyErrorMessage'') [GErr err])
             (ret (Map.empty, ResultRequeue, None))
     | Inr nad \<Rightarrow> pureP (case nad of Some n \<Rightarrow> nadList @ [n] | None \<Rightarrow> nadList))"

text \<open>
  The wrapped error of a failed annotation is a variable of the inner block only: the condition
  carries it, the function returns the error of the library.
\<close>

definition ensureNAD :: "lib \<Rightarrow> ((conditions \<Rightarrow> conditions) \<Rightarrow> 'i \<Rightarrow> 'i) \<Rightarrow> string \<Rightarrow>
  string list \<Rightarrow> ('i st, 'r, (string \<rightharpoonup> string) \<times> ctrl_result \<times> gerr option) prog" where
  "ensureNAD L upd namespace nAttach =
     func (
       bindP (foldP (ensureNAD_step L upd namespace) nAttach []) (\<lambda>nadList.
       case l_EnsureNetworksAnnotation L nadList of (serviceAnnotations, err) \<Rightarrow>
         thenP (case err of
                  Some e \<Rightarrow>
                    setFalse upd NetworkAttachmentsReadyCondition ErrorReason SeverityWarning
                      (LibMsg ''NetworkAttachmentsReadyErrorMessage'')
                      [GErr (Errorf ''failed create network annotation from %s: %w''
                               [GStrs nAttach, GErr e])]
                | None \<Rightarrow> pureP ())
           (ret (serviceAnnotations, Result0, err))))"

definition verifyServiceSecret :: "lib \<Rightarrow> ((conditions \<Rightarrow> conditions) \<Rightarrow> 'i \<Rightarrow> 'i) \<Rightarrow>
  string \<Rightarrow> string \<Rightarrow> string list \<Rightarrow> int \<Rightarrow> ('i st, 'r, ctrl_result \<times> gerr option) prog" where
  "verifyServiceSecret L upd namespace secretName expectedFields requeueTimeout =
     func (
       bindP (call (EVerifySecretFields namespace secretName expectedFields)
                (\<lambda>h. o_VerifySecretFields L h namespace secretName expectedFields requeueTimeout))
       (\<lambda>(hash, res, err).
       case err of
         Some e \<Rightarrow>
           thenP (setFalse upd InputReadyCondition ErrorReason SeverityWarning
                    (LibMsg ''InputReadyErrorMessage'') [GErr e])
             (ret (res, Some e))
       | None \<Rightarrow>
           if res \<noteq> Result0 then
             thenP (setFalse upd InputReadyCondition ErrorReason SeverityWarning
                      (LibMsg ''InputReadyWaitingMessage'') [])
               (ret (res, None))
           else
             thenP (setVar secretName hash) (ret (Result0, None))))"

definition verifyConfigSecrets_step :: "lib \<Rightarrow> ((conditions \<Rightarrow> conditions) \<Rightarrow> 'i \<Rightarrow> 'i) \<Rightarrow> string \<Rightarrow>
  string \<Rightarrow> ('i st, ctrl_result \<times> gerr option, unit) prog" where
  "verifyConfigSecrets_step L upd namespace secretName =
     (if secretName = '''' then pureP ()
      else
        bindP (call (EGet ''Secret'' namespace secretName)
                 (\<lambda>h. o_GetSecret L h secretName namespace)) (\<lambda>r.
        case r of
          Inl e \<Rightarrow>
            if l_IsNotFound L e then
              thenP (setFalse upd InputReadyCondition ErrorReason SeverityWarning
                       (LibMsg ''InputReadyWaitingMessage'') [])
                (ret (ResultRequeue, None))
            else
              thenP (setFalse upd InputReadyCondition ErrorReason SeverityWarning
                       (LibMsg ''InputReadyErrorMessage'') [GErr e])
                (ret (Result0, Some e))
        | Inr (sec, hash) \<Rightarrow> setVar (''secret-'' @ secretName) hash))"

definition verifyConfigSecrets :: "lib \<Rightarrow> ((conditions \<Rightarrow> conditions) \<Rightarrow> 'i \<Rightarrow> 'i) \<Rightarrow>
  string list \<Rightarrow> string \<Rightarrow> ('i st, 'r, ctrl_result \<times> gerr option) prog" where
  "verifyConfigSecrets L upd secretNames namespace =
     func (thenP (forP secretNames (verifyConfigSecrets_step L upd namespace))
             (ret (Result0, None)))"

section \<open>What a custom resource owes the interfaces\<close>

locale condition_holder =
  fixes getC :: "'i \<Rightarrow> conditions"
    and updC :: "(conditions \<Rightarrow> conditions) \<Rightarrow> 'i \<Rightarrow> 'i"
  assumes getC_updC: "getC (updC f i) = f (getC i)"
    and updC_updC: "updC f (updC g i) = updC (f \<circ> g) i"
begin

lemma reported_updC:
  "reported (getC (updC (cond_do c) i)) t = (if op_touches c t then Some c else reported (getC i) t)"
  by (simp add: getC_updC reported_cond_do)

lemma base_updC: "cs_base (getC (updC (cond_do c) i)) = cs_base (getC i)"
  by (simp add: getC_updC)

lemma verifyServiceSecret_ok:
  assumes "verifyServiceSecret L updC ns name flds d s = (Next (res, err), s')"
    and "\<not> (err \<noteq> None \<or> res \<noteq> Result0)"
  shows "inst s' = inst s \<and>
    cfgVars s' = (cfgVars s)(name \<mapsto> fst (o_VerifySecretFields L (trace s) ns name flds d))"
  using assms
  by (auto simp: verifyServiceSecret_def prog_simps split: prod.splits option.splits if_splits)

lemma verifyServiceSecret_fail:
  assumes "verifyServiceSecret L updC ns name flds d s = (Next (res, err), s')"
    and "err \<noteq> None \<or> res \<noteq> Result0"
  shows "\<exists>m args. reported (getC (inst s')) InputReadyCondition =
           Some (CSet (Some (FalseCondition InputReadyCondition ErrorReason SeverityWarning m args)))
         \<and> cfgVars s' = cfgVars s"
  using assms
  by (auto simp: verifyServiceSecret_def prog_simps getC_updC reported_cond_do
      split: prod.splits option.splits if_splits)

lemma ensureNAD_fold_cond:
  "foldP (ensureNAD_step L updC ns) xs acc s = (Next nads, s') \<Longrightarrow> inst s' = inst s"
  by (induction xs arbitrary: acc s)
    (auto simp: ensureNAD_step_def prog_simps split: sum.splits option.splits if_splits)

end

text \<open>
  What a run of \<open>ensureTopology\<close> from a resource leaves: the spec's reference recorded as applied and
  reported, or the applied one kept and the failure reported.
\<close>

definition topology_outcome :: "'i topologyHandler \<Rightarrow> ('i \<Rightarrow> conditions) \<Rightarrow> 'i \<Rightarrow>
  ('r, Topology option \<times> gerr option) outcome \<times> 'i st \<Rightarrow> bool" where
  "topology_outcome th getC i out \<longleftrightarrow> (case out of
       (Next (t, None), s') \<Rightarrow>
         GetLastAppliedTopology th (inst s') = GetSpecTopologyRef th i \<and>
         reported (getC (inst s')) TopologyReadyCondition =
           (if GetSpecTopologyRef th i = None then reported (getC i) TopologyReadyCondition
            else Some (CMarkTrue TopologyReadyCondition (LibMsg ''TopologyReadyMessage'')))
     | (Next (t, Some e), s') \<Rightarrow>
         GetLastAppliedTopology th (inst s') = GetLastAppliedTopology th i \<and>
         (\<exists>e0. reported (getC (inst s')) TopologyReadyCondition = Some (CSet (Some
            (FalseCondition TopologyReadyCondition ErrorReason SeverityWarning
               (LibMsg ''TopologyReadyErrorMessage'') [GErr e0]))))
     | _ \<Rightarrow> False)"

locale topology_handler = condition_holder getC updC
  for getC :: "'i \<Rightarrow> conditions" and updC :: "(conditions \<Rightarrow> conditions) \<Rightarrow> 'i \<Rightarrow> 'i" +
  fixes th :: "'i topologyHandler"
  assumes last_set: "GetLastAppliedTopology th (SetLastAppliedTopology th t i) = t"
    and spec_set: "GetSpecTopologyRef th (SetLastAppliedTopology th t i) = GetSpecTopologyRef th i"
    and cond_set: "getC (SetLastAppliedTopology th t i) = getC i"
    and spec_updC: "GetSpecTopologyRef th (updC f i) = GetSpecTopologyRef th i"
    and last_updC: "GetLastAppliedTopology th (updC f i) = GetLastAppliedTopology th i"
begin

lemmas th_laws = last_set spec_set cond_set spec_updC last_updC getC_updC reported_cond_do

text \<open>A successful run records the spec's reference as applied and reports on it.\<close>

lemma ensureTopology_ok:
  assumes "ensureTopology L th updC fin ls s = (Next (t, None), s')"
  shows "GetLastAppliedTopology th (inst s') = GetSpecTopologyRef th (inst s)
    \<and> GetSpecTopologyRef th (inst s') = GetSpecTopologyRef th (inst s)
    \<and> reported (getC (inst s')) TopologyReadyCondition =
        (if GetSpecTopologyRef th (inst s) = None
         then reported (getC (inst s)) TopologyReadyCondition
         else Some (CMarkTrue TopologyReadyCondition (LibMsg ''TopologyReadyMessage'')))"
  using assms
  by (auto simp: ensureTopology_def prog_simps th_laws split: sum.splits if_splits)

lemma ensureTopology_err:
  assumes "ensureTopology L th updC fin ls s = (Next (t, Some e), s')"
  shows "t = None
    \<and> GetLastAppliedTopology th (inst s') = GetLastAppliedTopology th (inst s)
    \<and> (\<exists>e0. e = Errorf ''waiting for Topology requirements: %w'' [GErr e0]
        \<and> reported (getC (inst s')) TopologyReadyCondition =
            Some (CSet (Some (FalseCondition TopologyReadyCondition ErrorReason SeverityWarning
              (LibMsg ''TopologyReadyErrorMessage'') [GErr e0]))))"
  using assms
  by (auto simp: ensureTopology_def prog_simps th_laws split: sum.splits if_splits)

lemma ensureTopology_outcome:
  "topology_outcome th getC (inst s) (ensureTopology L th updC fin ls s)"
  by (auto simp: topology_outcome_def ensureTopology_def prog_simps th_laws split: sum.split)

end

interpretation manilaC: condition_holder "\<lambda>m. mst_Conditions (man_Status m)" Manila_updC
  by unfold_locales (simp_all add: Manila_updC_def)

interpretation apiT: topology_handler "\<lambda>a. ast_Conditions (api_Status a)" ManilaAPI_updC api_topology
  by unfold_locales (simp_all add: ManilaAPI_updC_def topology_defs)

interpretation schedT: topology_handler "\<lambda>a. sst_Conditions (sch_Status a)" ManilaScheduler_updC
  scheduler_topology
  by unfold_locales (simp_all add: ManilaScheduler_updC_def topology_defs)

interpretation shareT: topology_handler "\<lambda>a. hst_Conditions (shr_Status a)" ManilaShare_updC
  share_topology
  by unfold_locales (simp_all add: ManilaShare_updC_def topology_defs)

end
