(* ===== verification/DeferredExit.thy ===== *)
theory DeferredExit
  imports Common
begin

text \<open>
  The deferred function of every \<open>Reconcile\<close>. It runs on each way out of the handler except a
  panic: it restores the transition times, mirrors the ready condition where that is still
  unknown, and patches the custom resource; a failed patch replaces the error of the handler and
  keeps its result. The custom resource reaches it through the pointer to its conditions and the
  event that patches it, whose laws are the locale.
\<close>

section \<open>The deferred function\<close>

text \<open>\<open>helper.PatchInstance\<close>: the patch carries the resource as it is then.\<close>

definition patch_instance :: "lib \<Rightarrow> ('i \<Rightarrow> event) \<Rightarrow> ('i st, 'r, gerr option) prog" where
  "patch_instance L patch =
     (\<lambda>s. call (patch (inst s)) (\<lambda>h. o_Patch L h (patch (inst s))) s)"

lemma run_patch_instance [prog_simps]:
  "patch_instance L patch s =
     (Next (o_Patch L (trace s) (patch (inst s))), s\<lparr>trace := trace s @ [patch (inst s)]\<rparr>)"
  by (simp add: patch_instance_def call_def)

lemma emits_patch_instance: "(\<And>i. E (patch i)) \<Longrightarrow> emits E (patch_instance L patch)"
  by (rule framesI) (simp add: run_patch_instance emits_rel_def)

lemma keepsI_patch_instance: "keepsI g (patch_instance L patch)"
  by (rule framesI) (simp add: run_patch_instance keeps_rel_def)

definition deferred :: "lib \<Rightarrow> ('i \<Rightarrow> conditions) \<Rightarrow> ((conditions \<Rightarrow> conditions) \<Rightarrow> 'i \<Rightarrow> 'i) \<Rightarrow>
  ('i \<Rightarrow> event) \<Rightarrow> reconcile_result \<Rightarrow> ('i st, 'r, reconcile_result) prog" where
  "deferred L getC upd patch res =
     func (
       thenP (condP upd CRestoreTransitionTimes)
       (bindP (getI getC) (\<lambda>cs.
       thenP (whenP (l_IsUnknown L cs ReadyCondition)
                (condP upd (CSet (l_Mirror L cs ReadyCondition))))
       (bindP (patch_instance L patch) (\<lambda>perr.
       ret (fst res, case perr of Some e \<Rightarrow> Some e | None \<Rightarrow> snd res))))))"

definition with_deferred :: "lib \<Rightarrow> ('i \<Rightarrow> conditions) \<Rightarrow> ((conditions \<Rightarrow> conditions) \<Rightarrow> 'i \<Rightarrow> 'i) \<Rightarrow>
  ('i \<Rightarrow> event) \<Rightarrow> ('i st, reconcile_result, reconcile_result) prog \<Rightarrow>
  ('i st, 'r, reconcile_result) prog" where
  "with_deferred L getC upd patch body = bindP (func body) (deferred L getC upd patch)"

text \<open>The same in one step: the resource it leaves, its result and its event.\<close>

definition exit_instance :: "lib \<Rightarrow> ('i \<Rightarrow> conditions) \<Rightarrow> ((conditions \<Rightarrow> conditions) \<Rightarrow> 'i \<Rightarrow> 'i) \<Rightarrow>
  'i \<Rightarrow> 'i" where
  "exit_instance L getC upd i =
     (let i' = upd (cond_do CRestoreTransitionTimes) i
      in if l_IsUnknown L (getC i') ReadyCondition
         then upd (cond_do (CSet (l_Mirror L (getC i') ReadyCondition))) i' else i')"

definition exit_result :: "gerr option \<Rightarrow> reconcile_result \<Rightarrow> reconcile_result" where
  "exit_result perr res = (fst res, case perr of Some e \<Rightarrow> Some e | None \<Rightarrow> snd res)"

lemma run_deferred:
  "deferred L getC upd patch res s =
     (let i' = exit_instance L getC upd (inst s)
      in (Next (exit_result (o_Patch L (trace s) (patch i')) res),
          s\<lparr>inst := i', trace := trace s @ [patch i']\<rparr>))"
  by (simp add: deferred_def exit_instance_def exit_result_def Let_def prog_simps)

lemma run_with_deferred:
  "with_deferred L getC upd patch body s =
     (case body s of
        (Next res, t) \<Rightarrow> deferred L getC upd patch res t
      | (Return res, t) \<Rightarrow> deferred L getC upd patch res t
      | (Panic, t) \<Rightarrow> (Panic, t))"
  by (simp add: with_deferred_def prog_simps split: prod.splits outcome.splits)

section \<open>What the exit guarantees\<close>

locale patched_resource = condition_holder getC updC
  for getC :: "'i \<Rightarrow> conditions" and updC :: "(conditions \<Rightarrow> conditions) \<Rightarrow> 'i \<Rightarrow> 'i" +
  fixes patch :: "'i \<Rightarrow> event"
  assumes patch_inj: "patch i = patch j \<Longrightarrow> i = j"
begin

lemma exit_reported:
  assumes "t \<noteq> ReadyCondition"
    and mirror: "\<And>cs c. l_Mirror L cs ReadyCondition = Some c \<Longrightarrow> cond_type c = ReadyCondition"
  shows "reported (getC (exit_instance L getC updC i)) t = reported (getC i) t"
  using assms
  by (cases "l_Mirror L (cond_do CRestoreTransitionTimes (getC i)) ReadyCondition")
    (auto simp: exit_instance_def Let_def getC_updC reported_cond_do)

lemma exit_keeps:
  assumes "\<And>f i. g (updC f i) = g i"
  shows "g (exit_instance L getC updC i) = g i"
  using assms by (simp add: exit_instance_def Let_def)

lemma deferred_keeps:
  assumes g: "\<And>f i. g (updC f i) = g i"
  shows "keepsI g (deferred L getC updC patch res)"
  unfolding deferred_def by (intro keepsI_rules keepsI_patch_instance g)

lemma with_deferred_panic:
  "with_deferred L getC updC patch body s = (Panic, s') \<longleftrightarrow> body s = (Panic, s')"
  by (auto simp: run_with_deferred run_deferred Let_def split: prod.splits outcome.splits)

lemma with_deferred_Next:
  "with_deferred L getC updC patch body s = (Next res, s') \<longleftrightarrow>
     (\<exists>t res0. (body s = (Next res0, t) \<or> body s = (Return res0, t)) \<and>
        (let i' = exit_instance L getC updC (inst t)
         in s' = t\<lparr>inst := i', trace := trace t @ [patch i']\<rparr> \<and>
            res = exit_result (o_Patch L (trace t) (patch i')) res0))"
  by (auto simp: run_with_deferred run_deferred Let_def split: prod.splits outcome.splits)

lemma with_deferred_no_Return: "with_deferred L getC updC patch body s \<noteq> (Return res, s')"
  by (auto simp: run_with_deferred run_deferred Let_def split: prod.splits outcome.splits)

text \<open>
  What a run reports: its last event is the patch of the resource it leaves, and an error of that
  patch is the error of the run.
\<close>

lemma with_deferred_report:
  assumes "with_deferred L getC updC patch body s = (x, s')"
  shows "case x of
      Next (res, err) \<Rightarrow> \<exists>tr. trace s' = tr @ [patch (inst s')] \<and>
        (case o_Patch L tr (patch (inst s')) of Some e \<Rightarrow> err = Some e | None \<Rightarrow> True)
    | Return r \<Rightarrow> False
    | Panic \<Rightarrow> True"
  using assms
  by (auto simp: run_with_deferred run_deferred exit_result_def Let_def
      split: prod.splits outcome.splits option.splits)

lemma with_deferred_keeps:
  assumes g: "\<And>f i. g (updC f i) = g i" and "keepsI g body"
  shows "keepsI g (with_deferred L getC updC patch body)"
  unfolding with_deferred_def
  by (intro keeps.frame_bind keeps.frame_func assms deferred_keeps)

lemma with_deferred_emits:
  assumes "\<And>i. E (patch i)" and "emits E body"
  shows "emits E (with_deferred L getC updC patch body)"
  unfolding with_deferred_def deferred_def
  by (intro emits_rules emits_patch_instance assms)

end

interpretation manilaP: patched_resource "\<lambda>m. mst_Conditions (man_Status m)" Manila_updC EPatchManila
  by unfold_locales simp

interpretation apiP: patched_resource "\<lambda>a. ast_Conditions (api_Status a)" ManilaAPI_updC EPatchAPI
  by unfold_locales simp

interpretation schedP: patched_resource "\<lambda>a. sst_Conditions (sch_Status a)" ManilaScheduler_updC
  EPatchScheduler
  by unfold_locales simp

interpretation shareP: patched_resource "\<lambda>a. hst_Conditions (shr_Status a)" ManilaShare_updC
  EPatchShare
  by unfold_locales simp

end
