(* ===== verification/ChildConfig.thy ===== *)
theory ChildConfig
  imports DeferredExit
begin

text \<open>
  What the controllers do alike when they gather the configuration of a service: reading the data
  of a secret, joining the snippets of the custom secrets, and the hash of hashes that tells
  whether an input of the service changed. The place of the hash map in the status of a resource
  is an interface of two functions; its laws are the locale \<open>hash_holder\<close>.
\<close>

section \<open>Secrets\<close>

text \<open>A Go map lookup: the empty value where the key is missing.\<close>

definition secret_data :: "Secret \<Rightarrow> string \<Rightarrow> string" where
  "secret_data sec k = (case map_of (sec_Data sec) k of Some v \<Rightarrow> v | None \<Rightarrow> '''')"

definition secret_lines :: "Secret \<Rightarrow> string" where
  "secret_lines sec = concat (map (\<lambda>key. secret_data sec key @ [CHR 0x0A]) (sorted_keys (sec_Data sec)))"

definition get_secret :: "lib \<Rightarrow> string \<Rightarrow> string \<Rightarrow> ('i st, 'r, gerr + (Secret \<times> string)) prog" where
  "get_secret L ns name = call (EGet ''Secret'' ns name) (\<lambda>h. o_GetSecret L h name ns)"

text \<open>The snippets of every custom secret, in the order of the spec, each with its keys sorted.\<close>

definition custom_secrets :: "lib \<Rightarrow> string \<Rightarrow> string list \<Rightarrow> ('i st, gerr option, string) prog" where
  "custom_secrets L ns names =
     foldP (\<lambda>secretName customSecrets.
       bindP (get_secret L ns secretName) (\<lambda>r.
       case r of
         Inl err \<Rightarrow> ret (Some err)
       | Inr (sec, h) \<Rightarrow> pureP (customSecrets @ secret_lines sec))) names ''''"

text \<open>The snippets do not depend on the order the runtime gives the keys of a secret.\<close>

lemma secret_lines_order:
  assumes "set (sec_Data a) = set (sec_Data b)" "distinct (map fst (sec_Data a))"
    "distinct (map fst (sec_Data b))"
  shows "secret_lines a = secret_lines b"
proof -
  have m: "map_of (sec_Data a) = map_of (sec_Data b)"
    using assms by (metis map_of_eqI map_of_inject_set)
  have "sorted_keys (sec_Data a) = sorted_keys (sec_Data b)"
    using assms by (intro sorted_distinct_set_unique) simp_all
  then show ?thesis by (simp add: secret_lines_def secret_data_def m)
qed

section \<open>The hash of hashes\<close>

definition createHash :: "lib \<Rightarrow> ('i \<Rightarrow> (string \<rightharpoonup> string) option) \<Rightarrow>
  ((string \<rightharpoonup> string) option \<Rightarrow> 'i \<Rightarrow> 'i) \<Rightarrow> ('i st, 'r, string \<times> bool \<times> gerr option) prog" where
  "createHash L getHash setHash =
     func (
       bindP (getP (\<lambda>s. l_ObjectHashEnvs L (cfgVars s))) (\<lambda>(hash, err).
       case err of
         Some e \<Rightarrow> ret (hash, False, Some e)
       | None \<Rightarrow>
           bindP (getI getHash) (\<lambda>old.
           case l_SetHash L old (l_const L ''common.InputHashName'') hash of
             (hashMap, changed) \<Rightarrow>
               thenP (whenP changed (updI (setHash hashMap)))
                 (ret (hash, changed, None)))))"

text \<open>
  What the hash library documents: the flag tells whether the entry differs from the hash, and a
  changed map has the hash under the name.
\<close>

definition lawful_SetHash :: "lib \<Rightarrow> bool" where
  "lawful_SetHash L \<longleftrightarrow> (\<forall>m k v. (case l_SetHash L m k v of (m', changed) \<Rightarrow>
     (changed \<longleftrightarrow> (case m of Some f \<Rightarrow> f k \<noteq> Some v | None \<Rightarrow> True)) \<and>
     (changed \<longrightarrow> (\<exists>f. m' = Some f \<and> f k = Some v))))"

lemma SetHash_changed:
  "lawful_SetHash L \<Longrightarrow> l_SetHash L m k v = (m', c) \<Longrightarrow>
   c \<longleftrightarrow> (case m of Some f \<Rightarrow> f k \<noteq> Some v | None \<Rightarrow> True)"
  unfolding lawful_SetHash_def by (drule spec [of _ m], drule spec [of _ k], drule spec [of _ v]) simp

lemma SetHash_stored:
  "lawful_SetHash L \<Longrightarrow> l_SetHash L m k v = (m', True) \<Longrightarrow> \<exists>f. m' = Some f \<and> f k = Some v"
  unfolding lawful_SetHash_def by (drule spec [of _ m], drule spec [of _ k], drule spec [of _ v]) simp

locale hash_holder =
  fixes getHash :: "'i \<Rightarrow> (string \<rightharpoonup> string) option"
    and setHash :: "(string \<rightharpoonup> string) option \<Rightarrow> 'i \<Rightarrow> 'i"
  assumes get_set: "getHash (setHash m i) = m"
begin

text \<open>
  The three outcomes: an error leaves the resource alone; no change leaves it alone too; a change
  stores the new map. In no case is anything else of the state touched.
\<close>

lemma run_createHash:
  "createHash L getHash setHash s =
     (let (hash, err) = l_ObjectHashEnvs L (cfgVars s)
      in case err of
           Some e \<Rightarrow> (Next (hash, False, Some e), s)
         | None \<Rightarrow>
             (let (m, changed) = l_SetHash L (getHash (inst s)) (l_const L ''common.InputHashName'') hash
              in (Next (hash, changed, None),
                  if changed then s\<lparr>inst := setHash m (inst s)\<rparr> else s)))"
  by (auto simp: createHash_def prog_simps split: prod.splits option.splits)

text \<open>Running it twice on the same inputs: the second run reports no change.\<close>

lemma createHash_settles:
  assumes L: "lawful_SetHash L"
    and run: "createHash L getHash setHash s = (Next (hash, c, None), s')"
  shows "createHash L getHash setHash s' = (Next (hash, False, None), s')"
proof -
  let ?n = "l_const L ''common.InputHashName''"
  from run have hash: "l_ObjectHashEnvs L (cfgVars s) = (hash, None)"
    by (auto simp: run_createHash Let_def split: prod.splits option.splits)
  obtain m ch where sh: "l_SetHash L (getHash (inst s)) ?n hash = (m, ch)" by fastforce
  from run hash sh have s': "s' = (if ch then s\<lparr>inst := setHash m (inst s)\<rparr> else s)"
    by (auto simp: run_createHash)
  obtain m' ch' where sh': "l_SetHash L (getHash (inst s')) ?n hash = (m', ch')" by fastforce
  have "\<not> ch'"
  proof (cases ch)
    case True
    with sh have "l_SetHash L (getHash (inst s)) ?n hash = (m, True)" by simp
    then obtain f where f: "m = Some f" "f ?n = Some hash" using SetHash_stored [OF L] by blast
    with True s' have "getHash (inst s') = Some f" by (simp add: get_set)
    with SetHash_changed [OF L sh'] f show ?thesis by simp
  next
    case False
    with s' sh sh' show ?thesis by simp
  qed
  moreover have "l_ObjectHashEnvs L (cfgVars s') = (hash, None)" using s' hash by simp
  ultimately show ?thesis using sh' by (simp add: run_createHash [of L s'])
qed

end

section \<open>Stored input hashes\<close>

definition stored_hash :: "lib \<Rightarrow> (string \<rightharpoonup> string) option \<Rightarrow> string \<Rightarrow> bool" where
  "stored_hash L m h \<longleftrightarrow> (\<exists>f. m = Some f \<and> f (l_const L ''common.InputHashName'') = Some h)"

context hash_holder
begin

lemma createHash_stored:
  assumes L: "lawful_SetHash L"
    and run: "createHash L getHash setHash s = (Next (h, c, None), s')"
  shows "stored_hash L (getHash (inst s')) h"
proof -
  obtain m ch where sh: "l_SetHash L (getHash (inst s)) (l_const L ''common.InputHashName'') h = (m, ch)"
    by fastforce
  from run sh have s': "s' = (if ch then s\<lparr>inst := setHash m (inst s)\<rparr> else s)"
    by (auto simp: run_createHash split: prod.splits option.splits)
  show ?thesis
  proof (cases ch)
    case True
    with sh SetHash_stored [OF L] show ?thesis
      unfolding stored_hash_def s' by (auto simp: get_set)
  next
    case False
    with SetHash_changed [OF L sh] have "\<exists>f. getHash (inst s) = Some f \<and> f (l_const L ''common.InputHashName'') = Some h"
      by (simp split: option.splits)
    with False show ?thesis by (simp add: stored_hash_def s')
  qed
qed

end

end
