(* ===== verification/Fixtures.thy ===== *)
theory Fixtures
  imports ChildConfig
begin

text \<open>
  Concrete libraries and objects, on which the properties with hypotheses are applied: a cluster
  where every call succeeds (single fields are overridden where a property needs a failure) and a
  small Manila with its children.
\<close>

section \<open>A cluster where every call succeeds\<close>

definition demo_not_found :: gerr where
  "demo_not_found = LibError ''NotFound''"

definition demo_IsTrue :: "conditions \<Rightarrow> ctype \<Rightarrow> bool" where
  "demo_IsTrue cs t = (case reported cs t of
       Some (CMarkTrue u m) \<Rightarrow> True
     | Some (CSet (Some (LibCondition u x))) \<Rightarrow> x = ''True''
     | _ \<Rightarrow> False)"

definition demo_IsUnknown :: "conditions \<Rightarrow> ctype \<Rightarrow> bool" where
  "demo_IsUnknown cs t = (case reported cs t of Some (CInit cl) \<Rightarrow> True | _ \<Rightarrow> False)"

definition demo_Mirror :: "conditions \<Rightarrow> ctype \<Rightarrow> condition option" where
  "demo_Mirror cs t = Some (LibCondition t (if demo_IsTrue cs ReadyCondition then ''True'' else ''False''))"

definition demo_AddFinalizer :: "ObjectMeta \<Rightarrow> string \<Rightarrow> bool \<times> ObjectMeta" where
  "demo_AddFinalizer m f = (if f \<in> set (om_Finalizers m) then (False, m)
     else (True, m\<lparr>om_Finalizers := om_Finalizers m @ [f]\<rparr>))"

definition demo_RemoveFinalizer :: "ObjectMeta \<Rightarrow> string \<Rightarrow> ObjectMeta" where
  "demo_RemoveFinalizer m f = m\<lparr>om_Finalizers := filter (\<lambda>g. g \<noteq> f) (om_Finalizers m)\<rparr>"

definition demo_SetHash :: "(string \<rightharpoonup> string) option \<Rightarrow> string \<Rightarrow> string \<Rightarrow>
  (string \<rightharpoonup> string) option \<times> bool" where
  "demo_SetHash m k v = (case m of
       None \<Rightarrow> (Some [k \<mapsto> v], True)
     | Some f \<Rightarrow> if f k = Some v then (Some f, False) else (Some (f(k \<mapsto> v)), True))"

definition demo_volume :: "string \<Rightarrow> Volume" where
  "demo_volume name = \<lparr>vol_Name = name, vol_Source = LibVolumeSource name\<rparr>"

definition demo_mount :: "string \<Rightarrow> string \<Rightarrow> VolumeMount" where
  "demo_mount name path = \<lparr>vm_Name = name, vm_MountPath = path, vm_SubPath = '''', vm_ReadOnly = True\<rparr>"

definition demo_service :: tls_Service where
  "demo_service = \<lparr>ts_SecretName = ''cert'', ts_CertMount = None, ts_KeyMount = None\<rparr>"

definition demo_purelib :: purelib where
  "demo_purelib = \<lparr>
     l_const = (\<lambda>name. name),
     l_IsTrue = demo_IsTrue,
     l_IsUnknown = demo_IsUnknown,
     l_Mirror = demo_Mirror,
     l_GetHigherPrioCondition = (\<lambda>a b. case a of Some c \<Rightarrow> Some c | None \<Rightarrow> b),
     l_IsNotFound = (\<lambda>e. e = demo_not_found),
     l_AddFinalizer = demo_AddFinalizer,
     l_RemoveFinalizer = demo_RemoveFinalizer,
     l_SetControllerReference = (\<lambda>owner m. (None, m\<lparr>om_OwnerReferences :=
        [\<lparr>or_Kind = ''Manila'', or_Name = om_Name owner\<rparr>]\<rparr>)),
     l_GetFinalizer = (\<lambda>kind. ''openstack.org/'' @ kind),
     l_GetLabels = (\<lambda>m group ls. ls),
     l_OwnerNameLabelSelector = (\<lambda>s. s @ ''/name''),
     l_ObjectHash = (\<lambda>xs. (''00000000'' @ concat xs, None)),
     l_ObjectHashEnvs = (\<lambda>vars. (''inputs'', None)),
     l_SetHash = demo_SetHash,
     l_MergeStringMaps = (\<lambda>a b. a ++ b),
     l_Propagate = (\<lambda>g svc. if vmo_Propagation g = [] \<or> list_ex (\<lambda>p. p \<in> set svc) (vmo_Propagation g)
        then [g] else []),
     l_CaVolume = (\<lambda>ca. demo_volume ''combined-ca-bundle''),
     l_CaVolumeMounts = (\<lambda>ca. [demo_mount ''combined-ca-bundle'' ''/etc/pki'']),
     l_TLSEnabled = (\<lambda>t ep. case ep of EndpointInternal \<Rightarrow> gs_SecretName (tls_Internal t) \<noteq> None
        | EndpointPublic \<Rightarrow> gs_SecretName (tls_Public t) \<noteq> None),
     l_ToService = (\<lambda>g. Inr demo_service),
     l_TLSVolume = (\<lambda>s ep. demo_volume (ep @ ''-tls-certs'')),
     l_TLSVolumeMounts = (\<lambda>s ep. [demo_mount (ep @ ''-tls-certs'') ''/etc/pki/tls'']),
     l_MTLSVolume = (\<lambda>m. demo_volume ''memcached-mtls''),
     l_MTLSVolumeMounts = (\<lambda>m. [demo_mount ''memcached-mtls'' ''/etc/mtls'']),
     l_WritableDirVolume = (\<lambda>name. demo_volume name),
     l_WritableDirVolumeMount = (\<lambda>name path. demo_mount name path),
     l_CreateProbeSet = (\<lambda>port scheme o' d. Inr \<lparr>prb_Liveness = Some ''live'', prb_Readiness = Some ''ready'',
        prb_Startup = Some ''start''\<rparr>),
     l_ApplyTopology = (\<lambda>t p. p),
     l_GetBoolFromAnnotation = (\<lambda>m k. (False, False, None)),
     l_NewService = (\<lambda>svc. None),
     l_AddAnnotation = (\<lambda>m svc. svc\<lparr>svc_Annotations := svc_Annotations svc ++ m\<rparr>),
     l_GetServiceType = (\<lambda>svc. ServiceTypeClusterIP),
     l_GetServiceHostname = (\<lambda>svc. svc_Name svc),
     l_EnsureNetworksAnnotation = (\<lambda>xs. (Map.empty, None)),
     l_FloatToInt32 = (\<lambda>x. 0)\<rparr>"

section \<open>Objects\<close>

definition demo_conditions :: conditions where
  "demo_conditions = \<lparr>cs_base = Some [], cs_ops = []\<rparr>"

definition demo_probes :: probes_OverrideSpec where
  "demo_probes = \<lparr>po_LivenessProbes = None, po_ReadinessProbes = None, po_StartupProbes = None\<rparr>"

definition demo_tmpl :: ManilaTemplate where
  "demo_tmpl = \<lparr>mt_ServiceUser = ''manila'', mt_DatabaseAccount = ''manila'', mt_Secret = ''osp-secret'',
     mt_PasswordSelectors = \<lparr>psel_Service = ''ManilaPassword''\<rparr>\<rparr>"

definition demo_st :: ManilaServiceTemplate where
  "demo_st = \<lparr>st_NodeSelector = None, st_CustomServiceConfig = '''', st_CustomServiceConfigSecrets = [],
     st_Resources = '''', st_NetworkAttachments = [], st_TopologyRef = None\<rparr>"

definition demo_tls :: tls_API where
  "demo_tls = \<lparr>tls_Internal = \<lparr>gs_SecretName = None\<rparr>, tls_Public = \<lparr>gs_SecretName = None\<rparr>,
     tls_CaOf = \<lparr>ca_CaBundleSecretName = ''''\<rparr>\<rparr>"

definition demo_api_template :: ManilaAPITemplate where
  "demo_api_template = \<lparr>at_Core = \<lparr>atc_ServiceTemplate = demo_st, atc_Replicas = Some 1,
     atc_Override = \<lparr>ao_Service = Map.empty, ao_Probes = demo_probes\<rparr>, atc_TLS = demo_tls\<rparr>,
     at_ContainerImage = ''api:1''\<rparr>"

definition demo_scheduler_template :: ManilaSchedulerTemplate where
  "demo_scheduler_template = \<lparr>sct_Core = \<lparr>stc_ServiceTemplate = demo_st, stc_Replicas = Some 1,
     stc_Override = \<lparr>so_Probes = demo_probes\<rparr>\<rparr>, sct_ContainerImage = ''scheduler:1''\<rparr>"

definition demo_share_template :: ManilaShareTemplate where
  "demo_share_template = \<lparr>ht_Core = \<lparr>htc_ServiceTemplate = demo_st, htc_Replicas = Some 1,
     htc_Override = \<lparr>sho_Probes = demo_probes\<rparr>\<rparr>, ht_ContainerImage = ''share:1''\<rparr>"

definition demo_meta :: "string \<Rightarrow> string \<Rightarrow> ObjectMeta" where
  "demo_meta name kind = (newMeta name ''openstack'')\<lparr>om_Finalizers := [''openstack.org/'' @ kind],
     om_OwnerReferences := [\<lparr>or_Kind = ''Manila'', or_Name = ''m''\<rparr>]\<rparr>"

definition demo_api :: ManilaAPI where
  "demo_api = \<lparr>api_Kind = ''ManilaAPI'', api_Meta = demo_meta ''m-api'' ''ManilaAPI'',
     api_Spec = \<lparr>as_ManilaTemplate = demo_tmpl, as_Template = demo_api_template,
       as_DatabaseHostname = ''db'', as_TransportURLSecret = ''t'', as_NotificationsURLSecret = '''',
       as_ExtraMounts = [], as_ServiceAccount = ''manila-m'', as_MemcachedInstance = Some ''memcached'',
       as_APITimeout = 60\<rparr>,
     api_Status = \<lparr>ast_Hash = Some Map.empty, ast_Conditions = demo_conditions, ast_ReadyCount = 1,
       ast_NetworkAttachments = Some Map.empty, ast_ObservedGeneration = 0,
       ast_AppliedInputSecretHash = '''', ast_LastAppliedTopology = None\<rparr>\<rparr>"

definition demo_scheduler :: ManilaScheduler where
  "demo_scheduler = \<lparr>sch_Kind = ''ManilaScheduler'', sch_Meta = demo_meta ''m-scheduler'' ''ManilaScheduler'',
     sch_Spec = \<lparr>scs_ManilaTemplate = demo_tmpl, scs_SchedulerTemplate = demo_scheduler_template,
       scs_DatabaseHostname = ''db'', scs_TransportURLSecret = ''t'', scs_NotificationsURLSecret = '''',
       scs_ExtraMounts = [], scs_ServiceAccount = ''manila-m'', scs_MemcachedInstance = Some ''memcached'',
       scs_TLS = \<lparr>ca_CaBundleSecretName = ''''\<rparr>\<rparr>,
     sch_Status = \<lparr>sst_Hash = Some Map.empty, sst_Conditions = demo_conditions, sst_ReadyCount = 1,
       sst_NetworkAttachments = Some Map.empty, sst_ObservedGeneration = 0,
       sst_AppliedInputSecretHash = '''', sst_LastAppliedTopology = None\<rparr>\<rparr>"

definition demo_share :: "string \<Rightarrow> ManilaShare" where
  "demo_share name = \<lparr>shr_Kind = ''ManilaShare'',
     shr_Meta = (demo_meta (''m-share-'' @ name) ''ManilaShare'')\<lparr>om_Labels := [ShareNameLabel \<mapsto> name]\<rparr>,
     shr_Spec = \<lparr>hs_ManilaTemplate = demo_tmpl, hs_ShareTemplate = demo_share_template,
       hs_DatabaseHostname = ''db'', hs_TransportURLSecret = ''t'', hs_NotificationsURLSecret = '''',
       hs_ExtraMounts = [], hs_ServiceAccount = ''manila-m'', hs_MemcachedInstance = Some ''memcached'',
       hs_TLS = \<lparr>ca_CaBundleSecretName = ''''\<rparr>\<rparr>,
     shr_Status = \<lparr>hst_Hash = Some Map.empty, hst_Conditions = demo_conditions, hst_ReadyCount = 1,
       hst_NetworkAttachments = Some Map.empty, hst_ObservedGeneration = 0,
       hst_AppliedInputSecretHash = '''', hst_LastAppliedTopology = None\<rparr>\<rparr>"

definition demo_spec :: ManilaSpec where
  "demo_spec = \<lparr>
     ms_Base = \<lparr>sb_ManilaTemplate = demo_tmpl, sb_DatabaseInstance = ''openstack'',
       sb_RabbitMqClusterName = '''', sb_MessagingBus = \<lparr>rq_User = '''', rq_Vhost = '''', rq_Cluster = ''rabbitmq''\<rparr>,
       sb_NotificationsBus = None, sb_MemcachedInstance = ''memcached'', sb_Debug = \<lparr>dbg_DBPurge = False\<rparr>,
       sb_PreserveJobs = False, sb_CustomServiceConfig = '''', sb_ExtraMounts = [], sb_NodeSelector = None,
       sb_DBPurge = \<lparr>dbp_Age = 30, dbp_Schedule = ''1 0 * * *''\<rparr>, sb_APITimeout = 60,
       sb_TopologyRef = None, sb_NotificationsBusInstance = None,
       sb_Auth = \<lparr>auth_ApplicationCredentialSecret = ''''\<rparr>\<rparr>,
     ms_ManilaAPI = demo_api_template,
     ms_ManilaScheduler = demo_scheduler_template,
     ms_ManilaShares = [(''b'', demo_share_template), (''a'', demo_share_template)]\<rparr>"

definition demo_manila :: Manila where
  "demo_manila = \<lparr>man_Kind = ''Manila'', man_Meta = demo_meta ''m'' ''Manila'', man_Spec = demo_spec,
     man_Status = \<lparr>mst_Hash = Some [''common.InputHashName'' \<mapsto> ''inputs''], mst_Conditions = demo_conditions,
       mst_DatabaseHostname = '''', mst_TransportURLSecret = '''', mst_NotificationsURLSecret = None,
       mst_ManilaAPIReadyCount = 0, mst_ManilaSchedulerReadyCount = 0,
       mst_ManilaSharesReadyCounts = Some Map.empty, mst_ObservedGeneration = 0,
       mst_ApplicationCredentialSecret = ''''\<rparr>\<rparr>"

definition demo_transport :: TransportURL where
  "demo_transport = \<lparr>tu_Meta = newMeta ''m-manila-transport'' ''openstack'',
     tu_RabbitmqClusterName = ''rabbitmq'', tu_Username = '''', tu_Vhost = '''', tu_SecretName = ''t''\<rparr>"

definition demo_database :: Database where
  "demo_database = \<lparr>db_ClientConfig = (\<lambda>tls. ''[client]''), db_AccountUserName = ''manila_1'',
     db_SecretData = Map.empty, db_Hostname = ''db''\<rparr>"

definition demo_memcached :: Memcached where
  "demo_memcached = \<lparr>mc_Name = ''memcached'', mc_IsReady = True, mc_ServerListWithInet = ''inet:[m]'',
     mc_ServerList = ''m:11211'', mc_TLSSupport = False, mc_MTLSSecret = '''', mc_MTLSCert = ''''\<rparr>"

definition demo_secret :: "string \<Rightarrow> Secret" where
  "demo_secret name = \<lparr>sec_Name = name, sec_Data = [(''transport_url'', ''rabbit://''), (''ManilaPassword'', ''pw'')]\<rparr>"

definition demo_keystone :: KeystoneAPI where
  "demo_keystone = \<lparr>ka_Endpoint = (\<lambda>e. Inr ''http://keystone''), ka_Region = ''regionOne''\<rparr>"

definition demo_ss :: StatefulSetData where
  "demo_ss = \<lparr>sd_Name = ''m-api'', sd_Generation = 1, sd_ObservedGeneration = 1, sd_ReadyReplicas = 1\<rparr>"

definition demo_lib :: lib where
  "demo_lib = purelib.extend demo_purelib \<lparr>
     o_GetManila = (\<lambda>h n. Inr demo_manila), o_GetAPI = (\<lambda>h n. Inr demo_api),
     o_GetScheduler = (\<lambda>h n. Inr demo_scheduler), o_GetShare = (\<lambda>h n. Inr (demo_share ''a'')),
     o_GetTransportURL = (\<lambda>h name ns. Inr demo_transport), o_GetDatabase = (\<lambda>h a ns. Inr demo_database),
     o_GetMemcached = (\<lambda>h name ns. Inr demo_memcached), o_GetKeystoneAPI = (\<lambda>h ns. Inr demo_keystone),
     o_GetKeystoneObj = (\<lambda>h kind name ns. Inr (newMeta name ns)),
     o_GetSecret = (\<lambda>h name ns. Inr (demo_secret name, ''hash'')), o_GetNAD = (\<lambda>h n ns. Inr (Some n)),
     o_ListManilas = (\<lambda>h ns f. Inr [demo_manila]), o_ListAPIs = (\<lambda>h ns f. Inr [demo_api]),
     o_ListSchedulers = (\<lambda>h ns f. Inr [demo_scheduler]),
     o_ListShares = (\<lambda>h ns f. Inr [demo_share ''a'', demo_share ''gone'']),
     o_Update = (\<lambda>h k m. None), o_Delete = (\<lambda>h k ns n. None), o_NewHelper = (\<lambda>h k. None),
     o_Patch = (\<lambda>h e. None), o_ReconcileRbac = (\<lambda>h m r. ([], Result0, None)),
     o_CreateOrUpdateTransportURL = (\<lambda>h tu f. ((snd (f tu))\<lparr>tu_SecretName := ''t''\<rparr>, OperationResultNone, None)),
     o_CreateOrUpdateAPI = (\<lambda>h d f. (demo_api\<lparr>api_Status := (api_Status demo_api)\<lparr>ast_AppliedInputSecretHash := ''00000000t''\<rparr>\<rparr>, OperationResultNone, None)),
     o_CreateOrUpdateScheduler = (\<lambda>h d f. (demo_scheduler\<lparr>sch_Status := (sch_Status demo_scheduler)\<lparr>sst_AppliedInputSecretHash := ''00000000t''\<rparr>\<rparr>, OperationResultNone, None)),
     o_CreateOrUpdateShare = (\<lambda>h d f. ((demo_share ''a'')\<lparr>shr_Status := (shr_Status (demo_share ''a''))\<lparr>hst_AppliedInputSecretHash := ''00000000t''\<rparr>\<rparr>, OperationResultNone, None)),
     o_ManageConsumerFinalizer = (\<lambda>h ns s f. None), o_RemoveConsumerFinalizer = (\<lambda>h ns s f. None),
     o_PruneConsumerFinalizers = (\<lambda>h ns f keep. None),
     o_FinalizeSecretRotation = (\<lambda>h ns old new f g. Inr (if g then new else old)),
     o_DeleteDBFinalizer = (\<lambda>h db. None), o_EnsureMariaDBAccount = (\<lambda>h a ns p. None),
     o_CreateOrPatchDB = (\<lambda>h r. (Result0, None)), o_WaitForDBCreated = (\<lambda>h r. (Result0, None)),
     o_DatabaseObj = (\<lambda>h r. demo_database), o_DeleteUnusedAccountFinalizers = (\<lambda>h ns a. None),
     o_VerifySecretFields = (\<lambda>h ns n f t. (''hash'', Result0, None)),
     o_EnsureSecrets = (\<lambda>h ts vars. (vars, None)),
     o_DoJob = (\<lambda>h j n p t hash. (Result0, None, False, hash)),
     o_CronJobCreateOrPatch = (\<lambda>h c t. (Result0, None)),
     o_EnsureServiceTopology = (\<lambda>h a b f ls. Inr None),
     o_EnsureDeletedTopologyRef = (\<lambda>h t f. (Result0, None)),
     o_ValidateCACertSecret = (\<lambda>h n ns. (''ca'', None)), o_ValidateCertSecrets = (\<lambda>h t ns. (''certs'', None)),
     o_ServiceCreateOrPatch = (\<lambda>h s. (Result0, None)),
     o_GetAPIEndpoint = (\<lambda>h s u https p. (''http://manila'' @ p, None)),
     o_KeystoneServiceCreateOrPatch = (\<lambda>h s. (demo_conditions, Result0, None)),
     o_KeystoneEndpointCreateOrPatch = (\<lambda>h s. (demo_conditions, Result0, None)),
     o_StatefulSetCreateOrPatch = (\<lambda>h s t. (demo_ss, Result0, None)),
     o_VerifyNetworkStatus = (\<lambda>h n ls c. (True, Map.empty, None)),
     o_IsReadyForInput = (\<lambda>h n ns hash. (True, None))\<rparr>"

lemmas demo_defs = demo_lib_def demo_purelib_def purelib.defs

lemma demo_RemoveFinalizer_labels: "om_Labels (l_RemoveFinalizer demo_lib m f) = om_Labels m"
  by (simp add: demo_defs demo_RemoveFinalizer_def)

definition demo_state :: "'i \<Rightarrow> 'i st" where
  "demo_state i = \<lparr>inst = i, trace = [], cfgVars = Map.empty, svcLabels = Map.empty\<rparr>"

lemma demo_state_simps [simp]:
  "inst (demo_state i) = i" "trace (demo_state i) = []" "cfgVars (demo_state i) = Map.empty"
  "svcLabels (demo_state i) = Map.empty"
  by (simp_all add: demo_state_def)

lemma demo_lawful_SetHash: "lawful_SetHash demo_lib"
  by (simp add: lawful_SetHash_def demo_defs demo_SetHash_def split: option.splits)

end
