(* ===== verification/WebhookProps.thy ===== *)
theory WebhookProps
  imports Webhook Fixtures
begin

text \<open>
  What the admission webhook guarantees: defaulting fills every empty field and nothing else and
  is idempotent, validation accepts exactly the specs every check accepts, and the route
  annotations follow the timeout until the user takes them over.
\<close>

section \<open>Defaulting as a closure\<close>

text \<open>
  A defaulting function brings a value into a set of complete values and leaves complete values
  alone. Idempotence and the description of its fixed points follow.
\<close>

locale defaulting =
  fixes dflt :: "'d \<Rightarrow> 'a \<Rightarrow> 'a"
    and complete :: "'d \<Rightarrow> 'a \<Rightarrow> bool"
  assumes dflt_complete: "complete d (dflt d x)"
    and complete_dflt: "complete d x \<Longrightarrow> dflt d x = x"
begin

lemma idempotent: "dflt d (dflt d x) = dflt d x"
  by (rule complete_dflt) (rule dflt_complete)

lemma fixpoint: "dflt d x = x \<longleftrightarrow> complete d x"
  using complete_dflt dflt_complete by metis

end

text \<open>A field is settled where it is set, or where the default itself is the zero value.\<close>

definition settled :: "'v \<Rightarrow> 'v \<Rightarrow> 'v \<Rightarrow> bool" where
  "settled zero dv v \<longleftrightarrow> v \<noteq> zero \<or> dv = zero"

definition base_complete :: "ManilaDefaults \<Rightarrow> ManilaSpecBase \<Rightarrow> bool" where
  "base_complete d b \<longleftrightarrow>
     rq_Cluster (sb_MessagingBus b) \<noteq> '''' \<and>
     settled 0 (d_APITimeout d) (sb_APITimeout b) \<and>
     settled 0 (d_DBPurgeAge d) (dbp_Age (sb_DBPurge b)) \<and>
     settled '''' (d_DBPurgeSchedule d) (dbp_Schedule (sb_DBPurge b))"

definition share_complete :: "ManilaDefaults \<Rightarrow> ManilaShareTemplate \<Rightarrow> bool" where
  "share_complete d t \<longleftrightarrow> settled '''' (d_ShareContainerImageURL d) (ht_ContainerImage t)"

definition spec_complete :: "ManilaDefaults \<Rightarrow> ManilaSpec \<Rightarrow> bool" where
  "spec_complete d s \<longleftrightarrow>
     base_complete d (ms_Base s) \<and>
     settled '''' (d_APIContainerImageURL d) (at_ContainerImage (ms_ManilaAPI s)) \<and>
     settled '''' (d_SchedulerContainerImageURL d) (sct_ContainerImage (ms_ManilaScheduler s)) \<and>
     list_all (\<lambda>(k, t). share_complete d t) (ms_ManilaShares s)"

lemmas complete_defs = base_complete_def share_complete_def spec_complete_def settled_def

interpretation baseD: defaulting ManilaSpecBase_Default base_complete
  by unfold_locales (auto simp: ManilaSpecBase_Default_def complete_defs Let_def)

interpretation shareD: defaulting default_share share_complete
  by unfold_locales (auto simp: default_share_def complete_defs)

lemma map_default_share:
  "list_all (\<lambda>(k, t). share_complete d t) xs \<Longrightarrow> map (\<lambda>(k, t). (k, default_share d t)) xs = xs"
  by (induction xs) (auto simp: shareD.complete_dflt)

lemma list_all_default_share:
  "list_all (\<lambda>(k, t). share_complete d t) (map (\<lambda>(k, t). (k, default_share d t)) xs)"
  by (induction xs) (auto simp: shareD.dflt_complete)

interpretation specD: defaulting ManilaSpec_Default spec_complete
proof unfold_locales
  fix d s
  show "spec_complete d (ManilaSpec_Default d s)"
    using baseD.dflt_complete list_all_default_share
    by (auto simp: ManilaSpec_Default_def spec_complete_def settled_def Let_def)
  assume "spec_complete d s"
  then have "base_complete d (ms_Base s)" "list_all (\<lambda>(k, t). share_complete d t) (ms_ManilaShares s)"
    "at_ContainerImage (ms_ManilaAPI s) = '''' \<Longrightarrow> d_APIContainerImageURL d = ''''"
    "sct_ContainerImage (ms_ManilaScheduler s) = '''' \<Longrightarrow> d_SchedulerContainerImageURL d = ''''"
    by (auto simp: spec_complete_def settled_def)
  then show "ManilaSpec_Default d s = s"
    by (cases s; cases "ms_ManilaAPI s"; cases "ms_ManilaScheduler s")
      (auto simp: ManilaSpec_Default_def Let_def map_default_share baseD.complete_dflt)
qed

interpretation manilaD: defaulting Manila_Default "\<lambda>d m. spec_complete d (man_Spec m)"
  by unfold_locales (simp_all add: Manila_Default_def specD.dflt_complete specD.complete_dflt)

text \<open>Manila.Default reaches a fixed point in one step: admitting an object that has been admitted before changes nothing.\<close>

lemma Manila_Default_idempotent: "Manila_Default d (Manila_Default d m) = Manila_Default d m"
  by (rule manilaD.idempotent)

text \<open>C26: the fixed points of Manila.Default are exactly the objects whose defaulted fields (images, messaging bus cluster, API timeout, purge age and schedule) are all set, for defaults that are set.\<close>

theorem Manila_Default_fixpoint:
  assumes "d_APIContainerImageURL d \<noteq> ''''" "d_SchedulerContainerImageURL d \<noteq> ''''"
    "d_ShareContainerImageURL d \<noteq> ''''" "d_APITimeout d \<noteq> 0" "d_DBPurgeAge d \<noteq> 0"
    "d_DBPurgeSchedule d \<noteq> ''''"
  shows "Manila_Default d m = m \<longleftrightarrow>
    (let s = man_Spec m; b = ms_Base s in
       at_ContainerImage (ms_ManilaAPI s) \<noteq> '''' \<and> sct_ContainerImage (ms_ManilaScheduler s) \<noteq> '''' \<and>
       list_all (\<lambda>(k, t). ht_ContainerImage t \<noteq> '''') (ms_ManilaShares s) \<and>
       rq_Cluster (sb_MessagingBus b) \<noteq> '''' \<and> sb_APITimeout b \<noteq> 0 \<and>
       dbp_Age (sb_DBPurge b) \<noteq> 0 \<and> dbp_Schedule (sb_DBPurge b) \<noteq> '''')"
  using assms unfolding manilaD.fixpoint by (auto simp: complete_defs Let_def)

definition demo_env :: "string \<Rightarrow> string \<Rightarrow> string" where
  "demo_env name base = (if name = ''RELATED_IMAGE_MANILA_API_IMAGE_URL_DEFAULT'' then ''registry/api:1'' else base)"

theorem Manila_Default_fixpoint_witness:
  "(Manila_Default (SetupDefaults demo_env) demo_manila = demo_manila \<longleftrightarrow>
    (let s = man_Spec demo_manila; b = ms_Base s in
       at_ContainerImage (ms_ManilaAPI s) \<noteq> '''' \<and> sct_ContainerImage (ms_ManilaScheduler s) \<noteq> '''' \<and>
       list_all (\<lambda>(k, t). ht_ContainerImage t \<noteq> '''') (ms_ManilaShares s) \<and>
       rq_Cluster (sb_MessagingBus b) \<noteq> '''' \<and> sb_APITimeout b \<noteq> 0 \<and>
       dbp_Age (sb_DBPurge b) \<noteq> 0 \<and> dbp_Schedule (sb_DBPurge b) \<noteq> ''''))"
  by (rule Manila_Default_fixpoint)
    (simp_all add: SetupDefaults_def demo_env_def ManilaAPIContainerImage_def
      ManilaSchedulerContainerImage_def ManilaShareContainerImage_def APIDefaultTimeout_def
      DBPurgeDefaultAge_def DBPurgeDefaultSchedule_def)

section \<open>Validation\<close>





text \<open>A spec with the probe override of its API replaced.\<close>

definition with_api_probes :: "probes_OverrideSpec \<Rightarrow> ManilaSpec \<Rightarrow> ManilaSpec" where
  "with_api_probes probes s =
     (let a = ms_ManilaAPI s; c = at_Core a; v = atc_Override c
      in s\<lparr>ms_ManilaAPI := a\<lparr>at_Core := c\<lparr>atc_Override := v\<lparr>ao_Probes := probes\<rparr>\<rparr>\<rparr>\<rparr>)"

lemma with_api_probes_simps [simp]:
  "ms_Base (with_api_probes q s) = ms_Base s"
  "ms_ManilaScheduler (with_api_probes q s) = ms_ManilaScheduler s"
  "ms_ManilaShares (with_api_probes q s) = ms_ManilaShares s"
  "atc_ServiceTemplate (at_Core (ms_ManilaAPI (with_api_probes q s))) = atc_ServiceTemplate (at_Core (ms_ManilaAPI s))"
  "ao_Service (atc_Override (at_Core (ms_ManilaAPI (with_api_probes q s)))) =
     ao_Service (atc_Override (at_Core (ms_ManilaAPI s)))"
  "ao_Probes (atc_Override (at_Core (ms_ManilaAPI (with_api_probes q s)))) = q"
  by (simp_all add: with_api_probes_def Let_def)

text \<open>Creation ignores the probe overrides of the API of a Manila, which an update rejects where the validator finds an error in them.\<close>

lemma ManilaSpec_ValidateCreate_ignores_probes:
  "ManilaSpec_ValidateCreate W (with_api_probes q s) p ns = ManilaSpec_ValidateCreate W s p ns
   \<and> length (w_ValidateProbes W q (p @ [Child ''manilaAPI'', Child ''override'', Child ''probes'']))
        \<le> length (snd (ManilaSpec_ValidateUpdate W (with_api_probes q s) old p ns))"
  unfolding ManilaSpec_ValidateCreate_def ManilaSpec_ValidateManilaTopology_def
    ManilaSpec_ValidateUpdate_def ManilaSpec_ValidateProbes_def with_api_probes_simps
  by (simp only: split_beta snd_conv length_append) simp

definition manila_with_probes :: "probes_OverrideSpec \<Rightarrow> Manila \<Rightarrow> Manila" where
  "manila_with_probes q r = r\<lparr>man_Spec := with_api_probes q (man_Spec r)\<rparr>"

lemma manila_with_probes_simps [simp]:
  "man_Spec (manila_with_probes q r) = with_api_probes q (man_Spec r)"
  "man_Meta (manila_with_probes q r) = man_Meta r"
  by (simp_all add: manila_with_probes_def)

text \<open>C35: The creation of a Manila does not look at the probe overrides of its API: whatever they are, the answer
  is the one for the object with any other overrides. Where the validator rejects them, the object so admitted
  can never be updated again, not even to itself, until they are repaired, while the creation through the core
  spec, which the OpenStack control plane calls, rejects them from the start.\<close>
theorem create_skips_probes:
  "Manila_ValidateCreate W (manila_with_probes q r) = Manila_ValidateCreate W (manila_with_probes q' r) \<and>
   (w_ValidateProbes W q [Child ''spec'', Child ''manilaAPI'', Child ''override'', Child ''probes''] \<noteq> [] \<longrightarrow>
      snd (Manila_ValidateUpdate W (manila_with_probes q r) (ObjManila old)) \<noteq> None \<and>
      (ao_Probes (atc_Override (mcore_ManilaAPI c)) = q \<longrightarrow>
         snd (ManilaSpecCore_ValidateCreate W c [Child ''spec''] ns) \<noteq> []))"
proof -
  have "Manila_ValidateCreate W (manila_with_probes q r) = Manila_ValidateCreate W r" for q
    by (simp add: Manila_ValidateCreate_def ManilaSpec_ValidateCreate_ignores_probes split: prod.split)
  then have same: "Manila_ValidateCreate W (manila_with_probes q r) = Manila_ValidateCreate W (manila_with_probes q' r)"
    by simp
  have update: "snd (Manila_ValidateUpdate W (manila_with_probes q r) (ObjManila old)) \<noteq> None"
    if "w_ValidateProbes W q [Child ''spec'', Child ''manilaAPI'', Child ''override'', Child ''probes''] \<noteq> []"
    using that ManilaSpec_ValidateCreate_ignores_probes [of W q "man_Spec r" "[Child ''spec'']" "om_Namespace (man_Meta r)" "man_Spec old"]
    by (auto simp: Manila_ValidateUpdate_def split: prod.splits)
  have core: "snd (ManilaSpecCore_ValidateCreate W c [Child ''spec''] ns) \<noteq> []"
    if "w_ValidateProbes W q [Child ''spec'', Child ''manilaAPI'', Child ''override'', Child ''probes''] \<noteq> []"
      "ao_Probes (atc_Override (mcore_ManilaAPI c)) = q"
    using that by (auto simp: ManilaSpecCore_ValidateCreate_def ManilaSpecCore_ValidateProbes_def split: prod.splits)
  from same update core show ?thesis by blast
qed

text \<open>Validators that accept everything but a probe override that sets its liveness probes.\<close>

definition demo_weblib :: weblib where
  "demo_weblib = \<lparr>w_ValidateDeprecatedFieldsCreate = \<lambda>fs p. [], w_ValidateDeprecatedFieldsUpdate = \<lambda>fs p. ([], []),
     w_ValidateRoutedOverrides = \<lambda>p m. [], w_ValidateTopologyRef = \<lambda>t p ns. [],
     w_ValidateProbes = \<lambda>q p. if po_LivenessProbes q = None then [] else [LibFieldError p ''invalid'']\<rparr>"

definition bad_probes :: probes_OverrideSpec where
  "bad_probes = demo_probes\<lparr>po_LivenessProbes := Some \<lparr>pc_Path = ''healthcheck'', pc_TimeoutSeconds = 0,
     pc_PeriodSeconds = 0, pc_InitialDelaySeconds = 0, pc_FailureThreshold = 0\<rparr>\<rparr>"

theorem create_skips_probes_witness:
  "Manila_ValidateCreate demo_weblib (manila_with_probes bad_probes demo_manila) = ([], None) \<and>
   snd (Manila_ValidateUpdate demo_weblib (manila_with_probes bad_probes demo_manila)
     (ObjManila (manila_with_probes bad_probes demo_manila))) \<noteq> None"
proof -
  have "Manila_ValidateCreate demo_weblib (manila_with_probes demo_probes demo_manila) = ([], None)"
    by code_simp
  with create_skips_probes [of demo_weblib bad_probes demo_manila demo_probes "manila_with_probes bad_probes demo_manila"]
  show ?thesis by (simp add: demo_weblib_def bad_probes_def demo_probes_def)
qed

lemma base_default_simps [simp]:
  "sb_MemcachedInstance (ManilaSpecBase_Default d b) = sb_MemcachedInstance b"
  "sb_ManilaTemplate (ManilaSpecBase_Default d b) = sb_ManilaTemplate b"
  "rq_Cluster (sb_MessagingBus (ManilaSpecBase_Default d b)) \<noteq> ''''"
  by (simp_all add: ManilaSpecBase_Default_def Let_def)

lemma ms_Base_default [simp]: "ms_Base (ManilaSpec_Default d s) = ManilaSpecBase_Default d (ms_Base s)"
  by (simp add: ManilaSpec_Default_def Let_def)

text \<open>Defaulting repairs the messaging bus: of the base parameters, only a missing memcached instance or database account is left to reject.\<close>

lemma default_then_base_params:
  "map (\<lambda>e. case e of FieldInvalid path name msg \<Rightarrow> name | LibFieldError path msg \<Rightarrow> '''')
     (ManilaSpec_ValidateBaseParams (ManilaSpec_Default d s) p) =
   (if sb_MemcachedInstance (ms_Base s) = '''' then [''memcachedInstance''] else []) @
   (if mt_DatabaseAccount (sb_ManilaTemplate (ms_Base s)) = '''' then [''databaseAccount''] else [])"
  by (simp add: ManilaSpec_ValidateBaseParams_def)

section \<open>Route annotations\<close>

text \<open>
  The annotations of a route are managed where the operator's flag agrees with the timeout or
  where nothing is set; the user has taken them over where a timeout stands without the flag or
  beside a flag that differs.
\<close>

definition user_timeout :: "(string \<rightharpoonup> string) \<Rightarrow> string option" where
  "user_timeout a = (if a haProxyAnno \<noteq> None \<and> a manilaAnno \<noteq> a haProxyAnno then a haProxyAnno else None)"

definition api_timeout :: "ManilaSpecCore \<Rightarrow> string" where
  "api_timeout spec = show_int (sb_APITimeout (mcore_Base spec)) @ ''s''"

lemma anno_neq [simp]: "manilaAnno \<noteq> haProxyAnno" "haProxyAnno \<noteq> manilaAnno"
  by (simp_all add: manilaAnno_def haProxyAnno_def)

lemma route_step:
  "SetDefaultRouteAnnotations spec a =
     (case user_timeout a of
        Some v \<Rightarrow> a(manilaAnno := None)
      | None \<Rightarrow> a(manilaAnno \<mapsto> api_timeout spec, haProxyAnno \<mapsto> api_timeout spec))"
  by (cases "a manilaAnno"; cases "a haProxyAnno")
    (auto simp: SetDefaultRouteAnnotations_def user_timeout_def api_timeout_def Let_def)

lemma user_timeout_step: "user_timeout (SetDefaultRouteAnnotations spec a) = user_timeout a"
  by (auto simp: route_step user_timeout_def split: option.splits)

lemma user_timeout_fold: "user_timeout (fold SetDefaultRouteAnnotations specs a) = user_timeout a"
  by (induction specs arbitrary: a) (simp_all add: user_timeout_step)

text \<open>C31: once the user has set the HAProxy timeout it stays, through any number of reconciles with any timeouts, and the flag of the operator is gone after the first.\<close>

theorem route_user_takeover:
  assumes "user_timeout a = Some v"
  shows "fold SetDefaultRouteAnnotations (spec # specs) a = a(manilaAnno := None)
    \<and> fold SetDefaultRouteAnnotations (spec # specs) a haProxyAnno = Some v"
proof -
  have hp: "a haProxyAnno = Some v"
    using assms by (auto simp: user_timeout_def split: if_splits)
  have step: "SetDefaultRouteAnnotations sp (a(manilaAnno := None)) = a(manilaAnno := None)" for sp
    by (simp add: route_step user_timeout_def hp)
  have "fold SetDefaultRouteAnnotations specs (a(manilaAnno := None)) = a(manilaAnno := None)" for specs
    by (induction specs) (simp_all only: fold_simps step)
  with assms hp show ?thesis by (simp add: route_step)
qed

definition demo_core :: "int \<Rightarrow> ManilaSpecCore" where
  "demo_core timeout = \<lparr>mcore_Base = (ms_Base demo_spec)\<lparr>sb_APITimeout := timeout\<rparr>,
     mcore_ManilaAPI = at_Core demo_api_template, mcore_ManilaScheduler = sct_Core demo_scheduler_template,
     mcore_ManilaShares = []\<rparr>"

theorem route_user_takeover_witness:
  "fold SetDefaultRouteAnnotations [demo_core 60, demo_core 90] [manilaAnno \<mapsto> ''60s'', haProxyAnno \<mapsto> ''5s''] haProxyAnno
     = Some ''5s''"
  using route_user_takeover [of "[manilaAnno \<mapsto> ''60s'', haProxyAnno \<mapsto> ''5s'']" "''5s''" "demo_core 60" "[demo_core 90]"]
  by (simp add: user_timeout_def)

text \<open>As long as the user has not taken over, both annotations carry the API timeout of the last spec.\<close>

lemma route_follows_timeout:
  assumes "user_timeout a = None"
  shows "fold SetDefaultRouteAnnotations (specs @ [spec]) a haProxyAnno = Some (api_timeout spec)
    \<and> fold SetDefaultRouteAnnotations (specs @ [spec]) a manilaAnno = Some (api_timeout spec)"
  using user_timeout_fold [of specs a] assms by (simp add: route_step)

end
