(* ===== verification/StatefulSets.thy ===== *)
theory StatefulSets
  imports ManilaPkg
begin

text \<open>
  Packages \<open>internal/manilaapi\<close>, \<open>internal/manilascheduler\<close> and \<open>internal/manilashare\<close>: the
  volumes, the mounts and the stateful set of each service. A stateful set is \<open>None\<close> where
  building it panics (an extra volume that does not convert), \<open>Inl\<close> where it returns an error.
\<close>

section \<open>Volumes of the three services\<close>

definition config_data_custom :: "string \<Rightarrow> Volume" where
  "config_data_custom name =
     \<lparr>vol_Name = ''config-data-custom'',
      vol_Source = SecretVolume configMode (name @ ''-config-data'') []\<rparr>"

definition config_data_custom_mount :: VolumeMount where
  "config_data_custom_mount =
     \<lparr>vm_Name = ''config-data-custom'', vm_MountPath = ''/etc/manila/manila.conf.d'',
      vm_SubPath = '''', vm_ReadOnly = True\<rparr>"

definition config_data_mount :: "string \<Rightarrow> string \<Rightarrow> VolumeMount" where
  "config_data_mount path sub =
     \<lparr>vm_Name = ''config-data'', vm_MountPath = path, vm_SubPath = sub, vm_ReadOnly = True\<rparr>"

definition api_GetVolumes :: "lib \<Rightarrow> string \<Rightarrow> string \<Rightarrow> ManilaExtraVolMounts list \<Rightarrow>
  Volume list option" where
  "api_GetVolumes L parentName name extraVol =
     map_option (\<lambda>vs. vs @
         [config_data_custom name,
          l_WritableDirVolume L (l_const L ''volume.RunHttpdVolumeName''),
          l_WritableDirVolume L (l_const L ''volume.VarLogHttpdVolumeName'')])
       (manila_GetVolumes L parentName extraVol ManilaAPIPropagation)"

definition api_GetVolumeMounts :: "lib \<Rightarrow> ManilaExtraVolMounts list \<Rightarrow> VolumeMount list" where
  "api_GetVolumeMounts L extraVol =
     manila_GetVolumeMounts L extraVol ManilaAPIPropagation @
       [config_data_custom_mount,
        config_data_mount ''/etc/httpd/conf/httpd.conf'' ''httpd.conf'',
        config_data_mount ''/etc/httpd/conf.d/ssl.conf'' ''ssl.conf'',
        config_data_mount ''/etc/httpd/conf.d/10-manila_wsgi.conf'' ''10-manila_wsgi.conf'',
        l_WritableDirVolumeMount L (l_const L ''volume.RunHttpdVolumeName'')
          (l_const L ''volume.RunHttpdMountPath''),
        l_WritableDirVolumeMount L (l_const L ''volume.VarLogHttpdVolumeName'')
          (l_const L ''volume.VarLogHttpdMountPath'')]"

definition GetLogVolumeMount :: "lib \<Rightarrow> VolumeMount" where
  "GetLogVolumeMount L = l_WritableDirVolumeMount L ''logs'' ''/var/log/manila''"

definition GetLogVolume :: "lib \<Rightarrow> Volume" where
  "GetLogVolume L = l_WritableDirVolume L ''logs''"

definition scheduler_GetVolumes :: "lib \<Rightarrow> string \<Rightarrow> string \<Rightarrow> ManilaExtraVolMounts list \<Rightarrow>
  Volume list option" where
  "scheduler_GetVolumes L parentName name extraVol =
     map_option (\<lambda>vs. vs @ [config_data_custom name])
       (manila_GetVolumes L parentName extraVol ManilaSchedulerPropagation)"

definition scheduler_GetVolumeMounts :: "lib \<Rightarrow> ManilaExtraVolMounts list \<Rightarrow> VolumeMount list" where
  "scheduler_GetVolumeMounts L extraVol =
     manila_GetVolumeMounts L extraVol ManilaSchedulerPropagation @ [config_data_custom_mount]"

definition share_GetVolumes :: "lib \<Rightarrow> string \<Rightarrow> string \<Rightarrow> ManilaExtraVolMounts list \<Rightarrow> string \<Rightarrow>
  Volume list option" where
  "share_GetVolumes L parentName name extraVol propagationInstanceName =
     map_option (\<lambda>vs. vs @ [config_data_custom name])
       (manila_GetVolumes L parentName extraVol
          (ManilaSharePropagation @ [propagationInstanceName]))"

definition share_GetVolumeMounts :: "lib \<Rightarrow> ManilaExtraVolMounts list \<Rightarrow> string \<Rightarrow>
  VolumeMount list" where
  "share_GetVolumeMounts L extraVol propagationInstanceName =
     manila_GetVolumeMounts L extraVol (ManilaSharePropagation @ [propagationInstanceName]) @
       [config_data_custom_mount]"

section \<open>ManilaAPI\<close>

definition api_ComponentName :: string where "api_ComponentName = ''manila-api''"
definition api_LogFile :: string where "api_LogFile = ''/var/log/manila/manila-api.log''"

text \<open>The loop over the endpoints that adds their certificates.\<close>

fun api_tls_volumes :: "lib \<Rightarrow> tls_API \<Rightarrow> endpoint list \<Rightarrow> Volume list \<Rightarrow> VolumeMount list \<Rightarrow>
  gerr + (Volume list \<times> VolumeMount list)" where
  "api_tls_volumes L tls [] volumes volumeMounts = Inr (volumes, volumeMounts)"
| "api_tls_volumes L tls (endpt # endpts) volumes volumeMounts =
     (if l_TLSEnabled L tls endpt then
        (let tlsEndptCfg = (case endpt of EndpointPublic \<Rightarrow> tls_Public tls
                                        | EndpointInternal \<Rightarrow> tls_Internal tls)
         in case l_ToService L tlsEndptCfg of
              Inl err \<Rightarrow> Inl err
            | Inr svc0 \<Rightarrow>
                (let e = endpoint_String endpt;
                     svc = svc0\<lparr>ts_CertMount := Some (''/etc/pki/tls/certs/'' @ e @ ''.crt''),
                                ts_KeyMount := Some (''/etc/pki/tls/private/'' @ e @ ''.key'')\<rparr>
                 in api_tls_volumes L tls endpts (volumes @ [l_TLSVolume L svc e])
                      (volumeMounts @ l_TLSVolumeMounts L svc e)))
      else api_tls_volumes L tls endpts volumes volumeMounts)"

text \<open>The pod template, with its topology or else the default affinity of the component.\<close>

definition place_template :: "lib \<Rightarrow> Topology option \<Rightarrow> string \<Rightarrow> PodTemplateSpec \<Rightarrow> PodTemplateSpec" where
  "place_template L topology component pt =
     (case topology of
        Some t \<Rightarrow> l_ApplyTopology L t pt
      | None \<Rightarrow> pt\<lparr>pt_Spec := (pt_Spec pt)\<lparr>ps_Affinity := Some (GetPodAffinity L component)\<rparr>\<rparr>)"

definition api_template :: "lib \<Rightarrow> ManilaAPI \<Rightarrow> string \<Rightarrow> (string \<rightharpoonup> string) \<Rightarrow> (string \<rightharpoonup> string) \<Rightarrow>
  probe_set \<Rightarrow> Volume list \<Rightarrow> VolumeMount list \<Rightarrow> PodTemplateSpec" where
  "api_template L a configHash labels annotations apiProbes volumes volumeMounts =
     (let spec = api_Spec a;
          core = at_Core (as_Template spec);
          tmpl = atc_ServiceTemplate core;
          envVars = [''CONFIG_HASH'' \<mapsto> configHash];
          secctx = RestrictiveSecurityContext ''users.ManilaUID'' ''users.ManilaGID''
      in \<lparr>pt_Annotations = annotations, pt_Labels = labels,
          pt_Spec = \<lparr>
            ps_RestartPolicy = RestartDefault,
            ps_ServiceAccountName = as_ServiceAccount spec,
            ps_AutomountServiceAccountToken = Some False,
            ps_SecurityContext = RestrictivePodSecurityContext
              [''users.ManilaUID'', ''users.ManilaGID'', ''users.ApacheGID''],
            ps_Containers =
              [\<lparr>ct_Name = om_Name (api_Meta a) @ ''-log'',
                ct_Command = [''/usr/bin/dumb-init''],
                ct_Args = [''--single-child'', ''--'', ''/bin/bash'', ''-c'',
                           ''tail -n+1 -F '' @ api_LogFile],
                ct_Image = at_ContainerImage (as_Template spec),
                ct_SecurityContext = secctx,
                ct_Env = MergeEnvs envVars,
                ct_VolumeMounts = [GetLogVolumeMount L],
                ct_Resources = Some (st_Resources tmpl),
                ct_LivenessProbe = None, ct_ReadinessProbe = None, ct_StartupProbe = None\<rparr>,
               \<lparr>ct_Name = api_ComponentName,
                ct_Command = [''/usr/bin/dumb-init''],
                ct_Args = [''--single-child'', ''--'', ''/usr/sbin/httpd'', ''-DFOREGROUND''],
                ct_Image = at_ContainerImage (as_Template spec),
                ct_SecurityContext = secctx,
                ct_Env = MergeEnvs envVars,
                ct_VolumeMounts = volumeMounts,
                ct_Resources = Some (st_Resources tmpl),
                ct_LivenessProbe = prb_Liveness apiProbes,
                ct_ReadinessProbe = prb_Readiness apiProbes,
                ct_StartupProbe = None\<rparr>],
            ps_Volumes = volumes,
            ps_NodeSelector = st_NodeSelector tmpl,
            ps_Affinity = None\<rparr>\<rparr>)"

definition api_StatefulSet :: "lib \<Rightarrow> ManilaAPI \<Rightarrow> string \<Rightarrow> (string \<rightharpoonup> string) \<Rightarrow>
  (string \<rightharpoonup> string) \<Rightarrow> Topology option \<Rightarrow> Memcached \<Rightarrow> int \<Rightarrow> (gerr + StatefulSet) option" where
  "api_StatefulSet L a configHash labels annotations topology memcached timeout =
     (let spec = api_Spec a;
          core = at_Core (as_Template spec);
          tls = atc_TLS core;
          scheme = (if l_TLSEnabled L tls EndpointPublic then l_const L ''corev1.URISchemeHTTPS''
                    else l_const L ''corev1.URISchemeHTTP'')
      in case l_CreateProbeSet L ManilaPublicPort scheme (ao_Probes (atc_Override core))
                (GetDefaultProbesAPI (l_FloatToInt32 L) timeout) of
           Inl err \<Rightarrow> Some (Inl err)
         | Inr apiProbes \<Rightarrow>
             (case api_GetVolumes L (GetOwningManilaName (api_Meta a)) (om_Name (api_Meta a))
                     (as_ExtraMounts spec) of
                None \<Rightarrow> None
              | Some vs \<Rightarrow>
                  (let volumes0 = vs @ [GetLogVolume L];
                       mounts0 = api_GetVolumeMounts L (as_ExtraMounts spec) @ [GetLogVolumeMount L];
                       ca = ca_CaBundleSecretName (tls_CaOf tls) \<noteq> '''';
                       volumes1 = (if ca then volumes0 @ [l_CaVolume L (tls_CaOf tls)] else volumes0);
                       mounts1 = (if ca then mounts0 @ l_CaVolumeMounts L (tls_CaOf tls) else mounts0);
                       mtls = mc_MTLSCert memcached \<noteq> '''' \<and> as_MemcachedInstance spec \<noteq> None;
                       volumes2 = (if mtls then volumes1 @ [l_MTLSVolume L memcached] else volumes1);
                       mounts2 = (if mtls then mounts1 @ l_MTLSVolumeMounts L memcached else mounts1)
                   in case api_tls_volumes L tls [EndpointInternal, EndpointPublic] volumes2 mounts2 of
                        Inl err \<Rightarrow> Some (Inl err)
                      | Inr (volumes, volumeMounts) \<Rightarrow>
                          Some (Inr \<lparr>ss_Name = om_Name (api_Meta a),
                            ss_Namespace = om_Namespace (api_Meta a),
                            ss_Labels = labels,
                            ss_MatchLabels = labels,
                            ss_ParallelPodManagement = True,
                            ss_Replicas = atc_Replicas core,
                            ss_Template = place_template L topology api_ComponentName
                              (api_template L a configHash labels annotations apiProbes volumes
                                 volumeMounts)\<rparr>))))"

section \<open>ManilaScheduler\<close>

definition scheduler_ComponentName :: string where "scheduler_ComponentName = ''manila-scheduler''"

definition scheduler_template :: "lib \<Rightarrow> ManilaScheduler \<Rightarrow> string \<Rightarrow> (string \<rightharpoonup> string) \<Rightarrow>
  (string \<rightharpoonup> string) \<Rightarrow> probe_set \<Rightarrow> Volume list \<Rightarrow> VolumeMount list \<Rightarrow> PodTemplateSpec" where
  "scheduler_template L a configHash labels annotations schedProbes volumes volumeMounts =
     (let spec = sch_Spec a;
          tmpl = stc_ServiceTemplate (sct_Core (scs_SchedulerTemplate spec));
          image = sct_ContainerImage (scs_SchedulerTemplate spec);
          secctx = RestrictiveSecurityContext ''users.ManilaUID'' ''users.ManilaGID''
      in \<lparr>pt_Annotations = annotations, pt_Labels = labels,
          pt_Spec = \<lparr>
            ps_RestartPolicy = RestartDefault,
            ps_ServiceAccountName = scs_ServiceAccount spec,
            ps_AutomountServiceAccountToken = Some False,
            ps_SecurityContext = RestrictivePodSecurityContext [''users.ManilaUID'', ''users.ManilaGID''],
            ps_Containers =
              [\<lparr>ct_Name = scheduler_ComponentName,
                ct_Command = [''/usr/bin/dumb-init''],
                ct_Args = [''--single-child'', ''--'', ''/usr/bin/manila-scheduler'',
                           ''--config-dir'', ''/etc/manila/manila.conf.d''],
                ct_Image = image,
                ct_SecurityContext = secctx,
                ct_Env = MergeEnvs [''CONFIG_HASH'' \<mapsto> configHash],
                ct_VolumeMounts = volumeMounts,
                ct_Resources = Some (st_Resources tmpl),
                ct_LivenessProbe = prb_Liveness schedProbes,
                ct_ReadinessProbe = None,
                ct_StartupProbe = prb_Startup schedProbes\<rparr>,
               \<lparr>ct_Name = ''probe'',
                ct_Command = [''/usr/local/bin/container-scripts/healthcheck.py'', ''scheduler'',
                              ''/etc/manila/manila.conf.d''],
                ct_Args = [],
                ct_Image = image,
                ct_SecurityContext = secctx,
                ct_Env = NoEnv,
                ct_VolumeMounts = volumeMounts,
                ct_Resources = None,
                ct_LivenessProbe = None, ct_ReadinessProbe = None, ct_StartupProbe = None\<rparr>],
            ps_Volumes = volumes,
            ps_NodeSelector = st_NodeSelector tmpl,
            ps_Affinity = None\<rparr>\<rparr>)"

definition scheduler_StatefulSet :: "lib \<Rightarrow> ManilaScheduler \<Rightarrow> string \<Rightarrow> (string \<rightharpoonup> string) \<Rightarrow>
  (string \<rightharpoonup> string) \<Rightarrow> Topology option \<Rightarrow> Memcached \<Rightarrow> (gerr + StatefulSet) option" where
  "scheduler_StatefulSet L a configHash labels annotations topology memcached =
     (let spec = sch_Spec a;
          core = sct_Core (scs_SchedulerTemplate spec)
      in case l_CreateProbeSet L 8080 (l_const L ''corev1.URISchemeHTTP'')
                (so_Probes (stc_Override core))
                (GetDefaultProbesRPCWorker (l_FloatToInt32 L) ManilaServiceDownTime) of
           Inl err \<Rightarrow> Some (Inl err)
         | Inr schedProbes \<Rightarrow>
             (case scheduler_GetVolumes L (GetOwningManilaName (sch_Meta a)) (om_Name (sch_Meta a))
                     (scs_ExtraMounts spec) of
                None \<Rightarrow> None
              | Some volumes0 \<Rightarrow>
                  (let mounts0 = scheduler_GetVolumeMounts L (scs_ExtraMounts spec);
                       ca = ca_CaBundleSecretName (scs_TLS spec) \<noteq> '''';
                       volumes1 = (if ca then volumes0 @ [l_CaVolume L (scs_TLS spec)] else volumes0);
                       mounts1 = (if ca then mounts0 @ l_CaVolumeMounts L (scs_TLS spec) else mounts0);
                       mtls = mc_MTLSCert memcached \<noteq> '''' \<and> scs_MemcachedInstance spec \<noteq> None;
                       volumes = (if mtls then volumes1 @ [l_MTLSVolume L memcached] else volumes1);
                       volumeMounts = (if mtls then mounts1 @ l_MTLSVolumeMounts L memcached else mounts1)
                   in Some (Inr \<lparr>ss_Name = om_Name (sch_Meta a),
                        ss_Namespace = om_Namespace (sch_Meta a),
                        ss_Labels = labels,
                        ss_MatchLabels = labels,
                        ss_ParallelPodManagement = False,
                        ss_Replicas = stc_Replicas core,
                        ss_Template = place_template L topology scheduler_ComponentName
                          (scheduler_template L a configHash labels annotations schedProbes volumes
                             volumeMounts)\<rparr>))))"

section \<open>ManilaShare\<close>

definition share_ComponentName :: string where "share_ComponentName = ''manila-share''"

definition share_template :: "lib \<Rightarrow> ManilaShare \<Rightarrow> string \<Rightarrow> (string \<rightharpoonup> string) \<Rightarrow>
  (string \<rightharpoonup> string) \<Rightarrow> probe_set \<Rightarrow> Volume list \<Rightarrow> VolumeMount list \<Rightarrow> PodTemplateSpec" where
  "share_template L a configHash labels annotations shareProbes volumes volumeMounts =
     (let spec = shr_Spec a;
          tmpl = htc_ServiceTemplate (ht_Core (hs_ShareTemplate spec));
          image = ht_ContainerImage (hs_ShareTemplate spec);
          envVars = [''CONFIG_HASH'' \<mapsto> configHash,
                     ''MALLOC_ARENA_MAX'' \<mapsto> ''1'',
                     ''MALLOC_MMAP_THRESHOLD_'' \<mapsto> ''131072'',
                     ''MALLOC_TRIM_THRESHOLD_'' \<mapsto> ''262144''];
          secctx = RestrictiveSecurityContext ''users.ManilaUID'' ''users.ManilaGID''
      in \<lparr>pt_Annotations = annotations, pt_Labels = labels,
          pt_Spec = \<lparr>
            ps_RestartPolicy = RestartDefault,
            ps_ServiceAccountName = hs_ServiceAccount spec,
            ps_AutomountServiceAccountToken = Some False,
            ps_SecurityContext = RestrictivePodSecurityContext [''users.ManilaUID'', ''users.ManilaGID''],
            ps_Containers =
              [\<lparr>ct_Name = share_ComponentName,
                ct_Command = [''/usr/bin/dumb-init''],
                ct_Args = [''--single-child'', ''--'', ''/usr/bin/manila-share'',
                           ''--config-dir'', ''/etc/manila/manila.conf.d''],
                ct_Image = image,
                ct_SecurityContext = secctx,
                ct_Env = MergeEnvs envVars,
                ct_VolumeMounts = volumeMounts,
                ct_Resources = Some (st_Resources tmpl),
                ct_LivenessProbe = prb_Liveness shareProbes,
                ct_ReadinessProbe = None,
                ct_StartupProbe = prb_Startup shareProbes\<rparr>,
               \<lparr>ct_Name = ''probe'',
                ct_Command = [''/usr/local/bin/container-scripts/healthcheck.py'', ''share'',
                              ''/etc/manila/manila.conf.d''],
                ct_Args = [],
                ct_Image = image,
                ct_SecurityContext = secctx,
                ct_Env = NoEnv,
                ct_VolumeMounts = volumeMounts,
                ct_Resources = None,
                ct_LivenessProbe = None, ct_ReadinessProbe = None, ct_StartupProbe = None\<rparr>],
            ps_Volumes = volumes,
            ps_NodeSelector = st_NodeSelector tmpl,
            ps_Affinity = None\<rparr>\<rparr>)"

definition share_StatefulSet :: "lib \<Rightarrow> ManilaShare \<Rightarrow> string \<Rightarrow> (string \<rightharpoonup> string) \<Rightarrow>
  (string \<rightharpoonup> string) \<Rightarrow> Topology option \<Rightarrow> Memcached \<Rightarrow> (gerr + StatefulSet) option" where
  "share_StatefulSet L a configHash labels annotations topology memcached =
     (let spec = shr_Spec a;
          core = ht_Core (hs_ShareTemplate spec)
      in case l_CreateProbeSet L 8080 (l_const L ''corev1.URISchemeHTTP'')
                (sho_Probes (htc_Override core))
                (GetDefaultProbesRPCWorker (l_FloatToInt32 L) ManilaServiceDownTime) of
           Inl err \<Rightarrow> Some (Inl err)
         | Inr shareProbes \<Rightarrow>
             (case share_GetVolumes L (GetOwningManilaName (shr_Meta a)) (om_Name (shr_Meta a))
                     (hs_ExtraMounts spec) (ShareName a) of
                None \<Rightarrow> None
              | Some volumes0 \<Rightarrow>
                  (let mounts0 = share_GetVolumeMounts L (hs_ExtraMounts spec) (ShareName a);
                       ca = ca_CaBundleSecretName (hs_TLS spec) \<noteq> '''';
                       volumes1 = (if ca then volumes0 @ [l_CaVolume L (hs_TLS spec)] else volumes0);
                       mounts1 = (if ca then mounts0 @ l_CaVolumeMounts L (hs_TLS spec) else mounts0);
                       mtls = mc_MTLSCert memcached \<noteq> '''' \<and> hs_MemcachedInstance spec \<noteq> None;
                       volumes = (if mtls then volumes1 @ [l_MTLSVolume L memcached] else volumes1);
                       volumeMounts = (if mtls then mounts1 @ l_MTLSVolumeMounts L memcached else mounts1)
                   in Some (Inr \<lparr>ss_Name = om_Name (shr_Meta a),
                        ss_Namespace = om_Namespace (shr_Meta a),
                        ss_Labels = labels,
                        ss_MatchLabels = labels,
                        ss_ParallelPodManagement = False,
                        ss_Replicas = htc_Replicas core,
                        ss_Template = place_template L topology share_ComponentName
                          (share_template L a configHash labels annotations shareProbes volumes
                             volumeMounts)\<rparr>))))"

end
