(* ===== verification/ApiController.thy ===== *)
theory ApiController
  imports ChildConfig StatefulSets
begin

text \<open>
  The controller of the \<open>ManilaAPI\<close> resource (\<open>internal/controller/manilaapi_controller.go\<close>). The
  state is the custom resource, the trace of library calls, the config variables of the run and
  the service labels. \<open>reconcileNormal\<close> is cut into the phases its comments name; an early return
  of a phase is an early return of \<open>reconcileNormal\<close>.
\<close>

section \<open>The Keystone services\<close>

record keystone_service =
  ks_type :: string
  ks_name :: string
  ks_desc :: string

definition keystoneServices :: "keystone_service list" where
  "keystoneServices =
     [\<lparr>ks_type = manila_ServiceTypeSFS, ks_name = manila_ServiceNameSFS,
       ks_desc = ''Manila Shared File System Service''\<rparr>,
      \<lparr>ks_type = manila_ServiceTypeV2, ks_name = manila_ServiceNameV2,
       ks_desc = ''Manila V2 Service''\<rparr>,
      \<lparr>ks_type = manila_ServiceType, ks_name = manila_ServiceName,
       ks_desc = ''Manila V1 Service''\<rparr>]"

section \<open>Deletion\<close>

definition api_release_keystone :: "lib \<Rightarrow> string \<Rightarrow> string \<Rightarrow>
  (ManilaAPI st, reconcile_result, unit) prog" where
  "api_release_keystone L kind name =
     bindP (getI (\<lambda>i. om_Namespace (api_Meta i))) (\<lambda>ns.
     bindP (call (EGet kind ns name) (\<lambda>h. o_GetKeystoneObj L h kind name ns)) (\<lambda>r.
     case r of
       Inl err \<Rightarrow> if l_IsNotFound L err then pureP () else ret (Result0, Some err)
     | Inr obj \<Rightarrow>
         (let obj' = l_RemoveFinalizer L obj (l_GetFinalizer L ''ManilaAPI'') in
          bindP (call (EUpdate kind obj') (\<lambda>h. o_Update L h kind obj')) (\<lambda>uerr.
          case uerr of
            Some e \<Rightarrow> if l_IsNotFound L e then pureP () else ret (Result0, Some e)
          | None \<Rightarrow> pureP ()))))"

definition api_reconcileDelete :: "lib \<Rightarrow> (ManilaAPI st, reconcile_result, reconcile_result) prog" where
  "api_reconcileDelete L =
     func (
       thenP (forP keystoneServices (\<lambda>ksSvc.
                thenP (api_release_keystone L ''KeystoneEndpoint'' (ks_name ksSvc))
                  (api_release_keystone L ''KeystoneService'' (ks_name ksSvc))))
       (bindP (getI (\<lambda>i. (ast_LastAppliedTopology (api_Status i), om_Name (api_Meta i)))) (\<lambda>(topo, name).
       bindP (call (EEnsureDeletedTopologyRef topo name)
                (\<lambda>h. o_EnsureDeletedTopologyRef L h topo name)) (\<lambda>(ctrlResult, err).
       case err of
         Some e \<Rightarrow> ret (ctrlResult, Some e)
       | None \<Rightarrow>
           thenP (updI (\<lambda>i. i\<lparr>api_Meta := l_RemoveFinalizer L (api_Meta i) (l_GetFinalizer L ''ManilaAPI'')\<rparr>))
             (ret (Result0, None))))))"

section \<open>Services and endpoints (reconcileInit)\<close>

definition api_endpoint_failed :: "gerr \<Rightarrow> (ManilaAPI st, reconcile_result, 'a) prog" where
  "api_endpoint_failed e =
     thenP (markFalse ManilaAPI_updC CreateServiceReadyCondition ErrorReason SeverityWarning
              (LibMsg ''CreateServiceReadyErrorMessage'') [GErr e])
       (ret (Result0, Some e))"

text \<open>The port and the path of each endpoint type, and the service object of one.\<close>

definition endpoint_data :: "endpoint \<Rightarrow> int \<times> string" where
  "endpoint_data ep = (case ep of
       EndpointPublic \<Rightarrow> (ManilaPublicPort, ''/v2'')
     | EndpointInternal \<Rightarrow> (ManilaInternalPort, ''/v2''))"

definition api_service_override :: "ManilaAPI \<Rightarrow> endpoint \<Rightarrow> RoutedOverrideSpec" where
  "api_service_override i ep =
     (let o0 = (case ao_Service (atc_Override (at_Core (as_Template (api_Spec i)))) (endpoint_String ep) of
                  Some v \<Rightarrow> v
                | None \<Rightarrow> \<lparr>ro_EmbeddedLabelsAnnotations = None, ro_OverrideRest = '''', ro_EndpointURL = None\<rparr>)
      in case ro_EmbeddedLabelsAnnotations o0 of
           None \<Rightarrow> o0\<lparr>ro_EmbeddedLabelsAnnotations := Some ''''\<rparr>
         | Some x \<Rightarrow> o0)"

definition api_service :: "lib \<Rightarrow> ManilaAPI \<Rightarrow> (string \<rightharpoonup> string) \<Rightarrow> endpoint \<Rightarrow> ServiceObj" where
  "api_service L i serviceLabels ep =
     \<lparr>svc_Name = manila_ServiceName @ ''-'' @ endpoint_String ep,
      svc_Namespace = om_Namespace (api_Meta i),
      svc_Labels = l_MergeStringMaps L serviceLabels
        [l_const L ''service.AnnotationEndpointKey'' \<mapsto> endpoint_String ep],
      svc_Selector = serviceLabels,
      svc_Port = fst (endpoint_data ep),
      svc_Override = api_service_override i ep,
      svc_Annotations = Map.empty\<rparr>"

definition api_annotate :: "lib \<Rightarrow> endpoint \<Rightarrow> ServiceObj \<Rightarrow> ServiceObj" where
  "api_annotate L ep svc0 =
     (let ingress = l_const L ''service.AnnotationIngressCreateKey'';
          svc = l_AddAnnotation L [l_const L ''service.AnnotationEndpointKey'' \<mapsto> endpoint_String ep] svc0
      in if ep = EndpointPublic \<and> l_GetServiceType L svc = ServiceTypeClusterIP
         then l_AddAnnotation L [ingress \<mapsto> ''true''] svc
         else
           (let svc' = l_AddAnnotation L [ingress \<mapsto> ''false''] svc
            in if l_GetServiceType L svc' = ServiceTypeLoadBalancer
               then l_AddAnnotation L
                      [l_const L ''service.AnnotationHostnameKey'' \<mapsto> l_GetServiceHostname L svc'] svc'
               else svc'))"

text \<open>
  One round of the endpoint loop: the service is created, then its V2 endpoint and, where share
  v1 is enabled, its V1 endpoint are added to the two maps.
\<close>

definition api_expose_endpoint :: "lib \<Rightarrow> bool \<Rightarrow> endpoint \<Rightarrow>
  (string \<rightharpoonup> string) \<times> (string \<rightharpoonup> string) \<Rightarrow>
  (ManilaAPI st, reconcile_result, (string \<rightharpoonup> string) \<times> (string \<rightharpoonup> string)) prog" where
  "api_expose_endpoint L v1Enabled ep = (\<lambda>(apiEndpointsV2, apiEndpointsV1).
     bindP (getP (\<lambda>s. (inst s, svcLabels s))) (\<lambda>(i, serviceLabels).
     let svc0 = api_service L i serviceLabels ep in
     case l_NewService L svc0 of
       Some e \<Rightarrow>
         thenP (setFalse ManilaAPI_updC CreateServiceReadyCondition ErrorReason SeverityWarning
                  (LibMsg ''CreateServiceReadyErrorMessage'') [GErr e])
           (ret (Result0, Some e))
     | None \<Rightarrow>
         (let svc = api_annotate L ep svc0 in
          bindP (call (ECreateOrPatchService svc) (\<lambda>h. o_ServiceCreateOrPatch L h svc)) (\<lambda>(ctrlResult, err).
          case err of
            Some e \<Rightarrow>
              thenP (setFalse ManilaAPI_updC CreateServiceReadyCondition ErrorReason SeverityWarning
                       (LibMsg ''CreateServiceReadyErrorMessage'') [GErr e])
                (ret (ctrlResult, Some e))
          | None \<Rightarrow>
              if ctrlResult \<noteq> Result0 then
                thenP (setFalse ManilaAPI_updC CreateServiceReadyCondition RequestedReason SeverityInfo
                         (LibMsg ''CreateServiceReadyRunningMessage'') [])
                  (ret (ctrlResult, None))
              else
                (let https = l_TLSEnabled L (atc_TLS (at_Core (as_Template (api_Spec i)))) ep;
                     url = ro_EndpointURL (svc_Override svc0)
                 in
                 bindP (call (EGetAPIEndpoint svc)
                          (\<lambda>h. o_GetAPIEndpoint L h svc url https (snd (endpoint_data ep)))) (\<lambda>(v2, err2).
                 case err2 of
                   Some e \<Rightarrow> api_endpoint_failed e
                 | None \<Rightarrow>
                     if v1Enabled then
                       bindP (call (EGetAPIEndpoint svc)
                                (\<lambda>h. o_GetAPIEndpoint L h svc url https ''/v1/%(project_id)s'')) (\<lambda>(v1, err1).
                       case err1 of
                         Some e \<Rightarrow> api_endpoint_failed e
                       | None \<Rightarrow> pureP (apiEndpointsV2(endpoint_String ep \<mapsto> v2),
                                        apiEndpointsV1(endpoint_String ep \<mapsto> v1)))
                     else pureP (apiEndpointsV2(endpoint_String ep \<mapsto> v2), apiEndpointsV1)))))))"

text \<open>One round of the Keystone loop.\<close>

definition api_keystone_service :: "lib \<Rightarrow> bool \<Rightarrow> (string \<rightharpoonup> (string \<rightharpoonup> string)) \<Rightarrow> keystone_service \<Rightarrow>
  (ManilaAPI st, reconcile_result, unit) prog" where
  "api_keystone_service L v1Enabled apiEndpoints ksSvc =
     (if ks_name ksSvc = manila_ServiceName \<and> \<not> v1Enabled then pureP ()
      else
        bindP (getI (\<lambda>i. as_ManilaTemplate (api_Spec i))) (\<lambda>tmpl.
        let ksSvcSpec = \<lparr>kss_ServiceType = ks_type ksSvc, kss_ServiceName = ks_name ksSvc,
              kss_ServiceDescription = ks_desc ksSvc, kss_Enabled = True,
              kss_ServiceUser = mt_ServiceUser tmpl, kss_Secret = mt_Secret tmpl,
              kss_PasswordSelector = psel_Service (mt_PasswordSelectors tmpl)\<rparr> in
        bindP (call (ECreateOrPatchKeystoneService ksSvcSpec)
                 (\<lambda>h. o_KeystoneServiceCreateOrPatch L h ksSvcSpec)) (\<lambda>(conds, ctrlResult, err).
        case err of
          Some e \<Rightarrow>
            thenP (markFalse ManilaAPI_updC KeystoneServiceReadyCondition ErrorReason SeverityWarning
                     (Text ''Creating KeyStoneService CR %s'') [GErr e])
              (ret (ctrlResult, Some e))
        | None \<Rightarrow>
            (let c = l_Mirror L conds KeystoneServiceReadyCondition in
             thenP (whenP (c \<noteq> None) (condP ManilaAPI_updC (CSet c)))
             (if ctrlResult \<noteq> Result0 then ret (ctrlResult, None)
              else
                (let ksEndptSpec = \<lparr>kse_ServiceName = ks_name ksSvc,
                       kse_Endpoints = (case apiEndpoints (ks_name ksSvc) of Some m \<Rightarrow> m | None \<Rightarrow> Map.empty)\<rparr> in
                 bindP (call (ECreateOrPatchKeystoneEndpoint ksEndptSpec)
                          (\<lambda>h. o_KeystoneEndpointCreateOrPatch L h ksEndptSpec)) (\<lambda>(econds, ectrlResult, eerr).
                 case eerr of
                   Some e \<Rightarrow>
                     thenP (markFalse ManilaAPI_updC KeystoneEndpointReadyCondition ErrorReason SeverityWarning
                              (Text ''Creating KeyStoneEndpoint CR %s'') [GErr e])
                       (ret (ectrlResult, Some e))
                 | None \<Rightarrow>
                     (let ec = l_Mirror L econds KeystoneEndpointReadyCondition in
                      thenP (whenP (ec \<noteq> None) (condP ManilaAPI_updC (CSet ec)))
                      (if ectrlResult \<noteq> Result0 then ret (ectrlResult, None) else pureP ())))))))))"

definition api_expose_services :: "lib \<Rightarrow> bool \<Rightarrow> (ManilaAPI st, reconcile_result, reconcile_result) prog" where
  "api_expose_services L v1Enabled =
     bindP (foldP (api_expose_endpoint L v1Enabled) (sort [EndpointPublic, EndpointInternal])
              (Map.empty, Map.empty)) (\<lambda>(apiEndpointsV2, apiEndpointsV1).
     let apiEndpoints = [manila_ServiceNameSFS \<mapsto> apiEndpointsV2,
           manila_ServiceNameV2 \<mapsto> apiEndpointsV2,
           manila_ServiceName \<mapsto> apiEndpointsV1] in
     thenP (markTrue ManilaAPI_updC CreateServiceReadyCondition (LibMsg ''CreateServiceReadyMessage''))
     (thenP (forP keystoneServices (api_keystone_service L v1Enabled apiEndpoints))
        (ret (Result0, None))))"

definition api_reconcileInit :: "lib \<Rightarrow> (ManilaAPI st, reconcile_result, reconcile_result) prog" where
  "api_reconcileInit L =
     func (
       bindP (getI (IsShareV1Enabled (l_GetBoolFromAnnotation L))) (\<lambda>(v1Enabled, err).
       case err of
         Some e \<Rightarrow> api_endpoint_failed e
       | None \<Rightarrow> api_expose_services L v1Enabled))"

section \<open>Configuration\<close>

definition api_spec_service :: "ManilaAPI \<Rightarrow> ManilaServiceTemplate" where
  "api_spec_service i = atc_ServiceTemplate (at_Core (as_Template (api_Spec i)))"

definition api_CaBundle :: "ManilaAPI \<Rightarrow> string" where
  "api_CaBundle i = ca_CaBundleSecretName (tls_CaOf (atc_TLS (at_Core (as_Template (api_Spec i)))))"

definition api_generateServiceConfig :: "lib \<Rightarrow> (ManilaAPI st, reconcile_result, gerr option) prog" where
  "api_generateServiceConfig L =
     func (
       bindP (getP (\<lambda>s. (inst s, svcLabels s))) (\<lambda>(i, serviceLabels).
       let labels = l_GetLabels L (api_Meta i) manila_ServiceName serviceLabels;
           ns = om_Namespace (api_Meta i);
           account = mt_DatabaseAccount (as_ManilaTemplate (api_Spec i)) in
       bindP (call (EGet ''MariaDBDatabase'' ns manila_DatabaseCRName)
                (\<lambda>h. o_GetDatabase L h account ns)) (\<lambda>dbr.
       case dbr of
         Inl err \<Rightarrow> ret (Some err)
       | Inr db \<Rightarrow>
           bindP (get_secret L ns (GetOwningManilaName (api_Meta i) @ ''-config-data'')) (\<lambda>sr.
           case sr of
             Inl err \<Rightarrow> ret (Some err)
           | Inr (manilaSecret, h0) \<Rightarrow>
               bindP (custom_secrets L ns (st_CustomServiceConfigSecrets (api_spec_service i))) (\<lambda>customSecrets.
               let customData =
                     [''my.cnf'' \<mapsto> db_ClientConfig db (api_CaBundle i \<noteq> ''''),
                      CustomServiceConfigFileName \<mapsto> st_CustomServiceConfig (api_spec_service i),
                      DefaultsConfigFileName \<mapsto> secret_data manilaSecret DefaultsConfigFileName,
                      CustomConfigFileName \<mapsto> secret_data manilaSecret CustomConfigFileName,
                      CustomServiceConfigSecretsFileName \<mapsto> customSecrets];
                   configTemplates =
                     [\<lparr>tm_Name = om_Name (api_Meta i) @ ''-config-data'',
                       tm_Namespace = ns,
                       tm_Type = TemplateTypeConfig,
                       tm_InstanceType = api_Kind i,
                       tm_CustomData = customData,
                       tm_ConfigOptions = [''LogFile'' \<mapsto> TStr api_LogFile],
                       tm_CommonTemplates = [],
                       tm_Labels = labels\<rparr>] in
               bindP (getP cfgVars) (\<lambda>vars.
               bindP (call (EEnsureSecrets configTemplates)
                        (\<lambda>h. o_EnsureSecrets L h configTemplates vars)) (\<lambda>(vars', err).
               thenP (setVars vars') (ret err))))))))"

definition api_Hash :: "ManilaAPI \<Rightarrow> (string \<rightharpoonup> string) option" where
  "api_Hash i = ast_Hash (api_Status i)"

definition api_setHash :: "(string \<rightharpoonup> string) option \<Rightarrow> ManilaAPI \<Rightarrow> ManilaAPI" where
  "api_setHash m i = i\<lparr>api_Status := (api_Status i)\<lparr>ast_Hash := m\<rparr>\<rparr>"

interpretation apiH: hash_holder api_Hash api_setHash
  by unfold_locales (simp add: api_Hash_def api_setHash_def)

definition api_createHashOfInputHashes :: "lib \<Rightarrow>
  (ManilaAPI st, reconcile_result, string \<times> bool \<times> gerr option) prog" where
  "api_createHashOfInputHashes L = createHash L api_Hash api_setHash"

section \<open>The phases of reconcileNormal\<close>

text \<open>The secrets the service needs, and their hashes.\<close>

definition api_inputs :: "lib \<Rightarrow> (ManilaAPI st, reconcile_result, unit) prog" where
  "api_inputs L =
     thenP (setVars Map.empty)
     (bindP (getI id) (\<lambda>i.
      let ns = om_Namespace (api_Meta i);
          tmpl = as_ManilaTemplate (api_Spec i) in
      bindP (verifyServiceSecret L ManilaAPI_updC ns (mt_Secret tmpl)
               [psel_Service (mt_PasswordSelectors tmpl)] NormalDuration) (\<lambda>(ctrlResult, err).
      if err \<noteq> None \<or> ctrlResult \<noteq> Result0 then ret (ctrlResult, err)
      else
        (let parentManilaName = GetOwningManilaName (api_Meta i);
             secretNames =
               [as_NotificationsURLSecret (api_Spec i),
                as_TransportURLSecret (api_Spec i),
                parentManilaName @ ''-scripts'',
                parentManilaName @ ''-config-data''] @
               st_CustomServiceConfigSecrets (api_spec_service i) in
         bindP (verifyConfigSecrets L ManilaAPI_updC secretNames ns) (\<lambda>(ctrlResult, err).
         if err \<noteq> None \<or> ctrlResult \<noteq> Result0 then ret (ctrlResult, err)
         else markTrue ManilaAPI_updC InputReadyCondition (LibMsg ''InputReadyMessage''))))))"

text \<open>The TLS inputs: the service certificates are validated only where a CA bundle is given.\<close>

definition api_certs :: "lib \<Rightarrow> ManilaAPI \<Rightarrow> (ManilaAPI st, reconcile_result, unit) prog" where
  "api_certs L i =
     (let tls = atc_TLS (at_Core (as_Template (api_Spec i)));
          ns = om_Namespace (api_Meta i) in
      bindP (call (EValidateCertSecrets ns) (\<lambda>h. o_ValidateCertSecrets L h tls ns)) (\<lambda>(certsHash, err).
      case err of
        Some e \<Rightarrow>
          if l_IsNotFound L e then
            thenP (setFalse ManilaAPI_updC TLSInputReadyCondition RequestedReason SeverityInfo
                     (LibMsg ''TLSInputReadyWaitingMessage'') [GErr e])
              (ret (Result0, None))
          else
            thenP (setFalse ManilaAPI_updC TLSInputReadyCondition ErrorReason SeverityWarning
                     (LibMsg ''TLSInputErrorMessage'') [GErr e])
              (ret (Result0, Some e))
      | None \<Rightarrow> setVar (l_const L ''tls.TLSHashName'') certsHash))"

definition api_tls :: "lib \<Rightarrow> (ManilaAPI st, reconcile_result, unit) prog" where
  "api_tls L =
     thenP
       (bindP (getI id) (\<lambda>i.
        let bundle = api_CaBundle i; ns = om_Namespace (api_Meta i) in
        whenP (bundle \<noteq> '''')
          (bindP (call (EValidateCACert ns bundle) (\<lambda>h. o_ValidateCACertSecret L h bundle ns)) (\<lambda>(hash, err).
           case err of
             Some e \<Rightarrow>
               if l_IsNotFound L e then
                 thenP (setFalse ManilaAPI_updC TLSInputReadyCondition ErrorReason SeverityWarning
                          (LibMsg ''TLSInputReadyWaitingMessage'') [GStr bundle])
                   (ret (Result0, None))
               else
                 thenP (setFalse ManilaAPI_updC TLSInputReadyCondition ErrorReason SeverityWarning
                          (LibMsg ''TLSInputErrorMessage'') [GErr e])
                   (ret (Result0, Some e))
           | None \<Rightarrow>
               thenP (whenP (hash \<noteq> '''') (setVar (l_const L ''tls.CABundleKey'') hash))
                 (api_certs L i)))))
       (markTrue ManilaAPI_updC TLSInputReadyCondition (LibMsg ''InputReadyMessage''))"

text \<open>The service configuration and the hash of all inputs.\<close>

definition api_config :: "lib \<Rightarrow> (ManilaAPI st, reconcile_result, string) prog" where
  "api_config L =
     thenP (setLabels [l_const L ''common.AppSelector'' \<mapsto> manila_ServiceName,
              l_const L ''common.ComponentSelector'' \<mapsto> api_ComponentName])
     (bindP (api_generateServiceConfig L) (\<lambda>cerr.
      case cerr of
        Some e \<Rightarrow>
          thenP (setFalse ManilaAPI_updC ServiceConfigReadyCondition ErrorReason SeverityWarning
                   (LibMsg ''ServiceConfigReadyErrorMessage'') [GErr e])
            (ret (Result0, Some e))
      | None \<Rightarrow>
          bindP (api_createHashOfInputHashes L) (\<lambda>(inputHash, hashChanged, herr).
          case herr of
            Some e \<Rightarrow>
              thenP (setFalse ManilaAPI_updC ServiceConfigReadyCondition ErrorReason SeverityWarning
                       (LibMsg ''ServiceConfigReadyErrorMessage'') [GErr e])
                (ret (Result0, Some e))
          | None \<Rightarrow>
              if hashChanged then
                thenP (markFalse ManilaAPI_updC ServiceConfigReadyCondition InitReason SeverityInfo
                         (LibMsg ''ServiceConfigReadyInitMessage'') [])
                  (ret (Result0, None))
              else
                thenP (markTrue ManilaAPI_updC ServiceConfigReadyCondition
                         (LibMsg ''ServiceConfigReadyMessage''))
                  (pureP inputHash))))"

text \<open>
  The deployment: the network attachments (whose requeue result is dropped), the service init, the
  topology, memcached, and the stateful set. A missing memcached instance name and a volume source
  that cannot be converted are panics.
\<close>

definition api_topology_step :: "lib \<Rightarrow> (ManilaAPI st, reconcile_result, Topology option) prog" where
  "api_topology_step L =
     bindP (getP (\<lambda>s. (om_Name (api_Meta (inst s)), svcLabels s))) (\<lambda>(name, serviceLabels).
     bindP (ensureTopology L api_topology ManilaAPI_updC name serviceLabels) (\<lambda>(topology, terr).
     case terr of
       Some e \<Rightarrow>
         thenP (setFalse ManilaAPI_updC TopologyReadyCondition ErrorReason SeverityWarning
                  (LibMsg ''TopologyReadyErrorMessage'') [GErr e])
           (ret (Result0, Some (Errorf ''waiting for Topology requirements: %w'' [GErr e])))
     | None \<Rightarrow> pureP topology))"

definition api_memcached :: "lib \<Rightarrow> (ManilaAPI st, reconcile_result, Memcached) prog" where
  "api_memcached L =
     bindP (getI id) (\<lambda>i.
     case as_MemcachedInstance (api_Spec i) of
       None \<Rightarrow> panic
     | Some name \<Rightarrow>
         bindP (call (EGet ''Memcached'' (om_Namespace (api_Meta i)) name)
                  (\<lambda>h. o_GetMemcached L h name (om_Namespace (api_Meta i)))) (\<lambda>r.
         case r of Inl e \<Rightarrow> ret (Result0, Some e) | Inr memcached \<Rightarrow> pureP memcached))"

definition api_apply_statefulset :: "lib \<Rightarrow> string \<Rightarrow> (string \<rightharpoonup> string) \<Rightarrow> Topology option \<Rightarrow>
  Memcached \<Rightarrow> (ManilaAPI st, reconcile_result, StatefulSetData) prog" where
  "api_apply_statefulset L inputHash serviceAnnotations topology memcached =
     bindP (getP (\<lambda>s. (inst s, svcLabels s))) (\<lambda>(i, serviceLabels).
     case api_StatefulSet L i inputHash serviceLabels serviceAnnotations topology memcached
            (as_APITimeout (api_Spec i)) of
       None \<Rightarrow> panic
     | Some (Inl e) \<Rightarrow>
         thenP (setFalse ManilaAPI_updC DeploymentReadyCondition ErrorReason SeverityWarning
                  (LibMsg ''DeploymentReadyErrorMessage'') [GErr e])
           (ret (Result0, Some e))
     | Some (Inr ssDef) \<Rightarrow>
         bindP (call (ECreateOrPatchStatefulSet ssDef)
                  (\<lambda>h. o_StatefulSetCreateOrPatch L h ssDef ShortDuration)) (\<lambda>(ss, ctrlResult, err).
         case err of
           Some e \<Rightarrow>
             thenP (setFalse ManilaAPI_updC DeploymentReadyCondition ErrorReason SeverityWarning
                      (LibMsg ''DeploymentReadyErrorMessage'') [GErr e])
               (ret (ctrlResult, Some e))
         | None \<Rightarrow>
             if ctrlResult \<noteq> Result0 then
               thenP (setFalse ManilaAPI_updC DeploymentReadyCondition RequestedReason SeverityInfo
                        (LibMsg ''DeploymentReadyRunningMessage'') [])
                 (ret (ctrlResult, None))
             else pureP ss))"

definition api_deploy :: "lib \<Rightarrow> string \<Rightarrow> (ManilaAPI st, reconcile_result, StatefulSetData) prog" where
  "api_deploy L inputHash =
     bindP (getI id) (\<lambda>i.
     bindP (ensureNAD L ManilaAPI_updC (om_Namespace (api_Meta i))
              (st_NetworkAttachments (api_spec_service i))) (\<lambda>(serviceAnnotations, ctrlResult, err).
     if err \<noteq> None then ret (ctrlResult, err)
     else
       bindP (api_reconcileInit L) (\<lambda>(ctrlResult, err).
       if err \<noteq> None then ret (ctrlResult, err)
       else if ctrlResult \<noteq> Result0 then ret (ctrlResult, None)
       else
         bindP (api_topology_step L) (\<lambda>topology.
         bindP (api_memcached L) (\<lambda>memcached.
         api_apply_statefulset L inputHash serviceAnnotations topology memcached)))))"

text \<open>
  The status of a stateful set whose generation is observed: the ready count, the networks, and
  the readiness for the current input hash, on which alone the applied hash is updated.
\<close>

definition api_network_status :: "lib \<Rightarrow> (ManilaAPI st, reconcile_result, unit) prog" where
  "api_network_status L =
     bindP (getP (\<lambda>s. (inst s, svcLabels s))) (\<lambda>(i, serviceLabels).
     let nads = st_NetworkAttachments (api_spec_service i) in
     case atc_Replicas (at_Core (as_Template (api_Spec i))) of
       None \<Rightarrow> panic
     | Some replicas \<Rightarrow>
         bindP (if replicas > 0
                then call (EVerifyNetworkStatus nads) (\<lambda>h. o_VerifyNetworkStatus L h nads serviceLabels
                       (ast_ReadyCount (api_Status i)))
                else pureP (True, Map.empty, None))
           (\<lambda>(networkReady, networkAttachmentStatus, err).
         case err of
           Some e \<Rightarrow>
             (let nerr = Errorf ''verifying API NetworkAttachments (%s) %w'' [GStrs nads, GErr e] in
              thenP (markFalse ManilaAPI_updC NetworkAttachmentsReadyCondition ErrorReason SeverityWarning
                       (LibMsg ''NetworkAttachmentsReadyErrorMessage'') [GErr nerr])
                (ret (Result0, Some nerr)))
         | None \<Rightarrow>
             thenP (updI (\<lambda>i. i\<lparr>api_Status :=
                      (api_Status i)\<lparr>ast_NetworkAttachments := Some networkAttachmentStatus\<rparr>\<rparr>))
             (if networkReady then
                markTrue ManilaAPI_updC NetworkAttachmentsReadyCondition
                  (LibMsg ''NetworkAttachmentsReadyMessage'')
              else
                (let nerr = Errorf ''%w: %s'' [GErr ErrNetworkAttachmentConfig, GStrs nads] in
                 thenP (setFalse ManilaAPI_updC NetworkAttachmentsReadyCondition ErrorReason SeverityWarning
                          (LibMsg ''NetworkAttachmentsReadyErrorMessage'') [GErr nerr])
                   (ret (Result0, Some nerr))))))"

definition api_rollout_status :: "lib \<Rightarrow> string \<Rightarrow> (ManilaAPI st, reconcile_result, unit) prog" where
  "api_rollout_status L inputHash =
     bindP (getI id) (\<lambda>i.
     let name = om_Name (api_Meta i); ns = om_Namespace (api_Meta i) in
     bindP (call (EIsReadyForInput name ns inputHash)
              (\<lambda>h. o_IsReadyForInput L h name ns inputHash)) (\<lambda>(ready, err).
     case err of
       Some e \<Rightarrow>
         ret (Result0, Some (Errorf ''failed to check statefulset readiness for %s: %w'' [GStr name, GErr e]))
     | None \<Rightarrow>
         if ready then
           thenP (markTrue ManilaAPI_updC DeploymentReadyCondition (LibMsg ''DeploymentReadyMessage''))
           (case l_ObjectHash L [as_TransportURLSecret (api_Spec i), as_NotificationsURLSecret (api_Spec i)] of
              (h, Some e) \<Rightarrow>
                ret (Result0, Some (Errorf ''failed to compute input secret hash for %s: %w'' [GStr name, GErr e]))
            | (inputSecretHash, None) \<Rightarrow>
                updI (\<lambda>i. i\<lparr>api_Status :=
                  (api_Status i)\<lparr>ast_AppliedInputSecretHash := inputSecretHash\<rparr>\<rparr>))
         else
           (case atc_Replicas (at_Core (as_Template (api_Spec i))) of
              None \<Rightarrow> panic
            | Some replicas \<Rightarrow>
                if replicas > 0 then
                  setFalse ManilaAPI_updC DeploymentReadyCondition RequestedReason SeverityInfo
                    (LibMsg ''DeploymentReadyRunningMessage'') []
                else
                  markFalse ManilaAPI_updC DeploymentReadyCondition RequestedReason SeverityInfo
                    (LibMsg ''DeploymentReadyRunningMessage'') [])))"

definition api_finish :: "lib \<Rightarrow> string \<Rightarrow> StatefulSetData \<Rightarrow>
  (ManilaAPI st, reconcile_result, reconcile_result) prog" where
  "api_finish L inputHash ss =
     thenP (whenP (sd_Generation ss = sd_ObservedGeneration ss)
              (thenP (updI (\<lambda>i. i\<lparr>api_Status := (api_Status i)\<lparr>ast_ReadyCount := sd_ReadyReplicas ss\<rparr>\<rparr>))
               (thenP (api_network_status L) (api_rollout_status L inputHash))))
     (bindP (getI ManilaAPI_IsReady) (\<lambda>ready.
      case ready of
        None \<Rightarrow> panic
      | Some b \<Rightarrow>
          thenP (whenP b (markTrue ManilaAPI_updC ReadyCondition (LibMsg ''ReadyMessage'')))
            (ret (Result0, None))))"

definition api_reconcileNormal :: "lib \<Rightarrow> (ManilaAPI st, reconcile_result, reconcile_result) prog" where
  "api_reconcileNormal L =
     func (
       thenP (api_inputs L)
       (thenP (api_tls L)
       (bindP (api_config L) (\<lambda>inputHash.
        bindP (api_deploy L inputHash) (\<lambda>ss.
        api_finish L inputHash ss)))))"

section \<open>Reconcile\<close>

definition api_conditions :: "condition list" where
  "api_conditions =
     [UnknownCondition ReadyCondition InitReason (LibMsg ''ReadyInitMessage''),
      UnknownCondition CreateServiceReadyCondition InitReason (LibMsg ''CreateServiceReadyInitMessage''),
      UnknownCondition InputReadyCondition InitReason (LibMsg ''InputReadyInitMessage''),
      UnknownCondition ServiceConfigReadyCondition InitReason (LibMsg ''ServiceConfigReadyInitMessage''),
      UnknownCondition DeploymentReadyCondition InitReason (LibMsg ''DeploymentReadyInitMessage''),
      UnknownCondition KeystoneServiceReadyCondition InitReason (Text ''''),
      UnknownCondition KeystoneEndpointReadyCondition InitReason (Text ''''),
      UnknownCondition NetworkAttachmentsReadyCondition InitReason
        (LibMsg ''NetworkAttachmentsReadyInitMessage''),
      UnknownCondition TLSInputReadyCondition InitReason (LibMsg ''InputReadyInitMessage'')]"

text \<open>
  What runs under the deferred exit. The topology condition a reference would add is set on the
  local list after the list was handed to \<open>Init\<close>, and the list is not read again: it leaves no
  trace here.
\<close>

definition api_body :: "lib \<Rightarrow> bool \<Rightarrow> (ManilaAPI st, reconcile_result, reconcile_result) prog" where
  "api_body L isNewInstance =
     thenP (condP ManilaAPI_updC (CInit api_conditions))
     (thenP (updI (\<lambda>i. i\<lparr>api_Status :=
        (api_Status i)\<lparr>ast_ObservedGeneration := om_Generation (api_Meta i)\<rparr>\<rparr>))
     (bindP (getI api_Meta) (\<lambda>meta.
      let deleting = om_DeletionTimestamp meta \<noteq> None;
          added = l_AddFinalizer L meta (l_GetFinalizer L ''ManilaAPI'') in
      thenP (whenP (\<not> deleting) (updI (\<lambda>i. i\<lparr>api_Meta := snd added\<rparr>)))
      (if (\<not> deleting \<and> fst added) \<or> isNewInstance then ret (Result0, None)
       else
         thenP (updI (\<lambda>i. if ast_Hash (api_Status i) = None
                  then i\<lparr>api_Status := (api_Status i)\<lparr>ast_Hash := Some Map.empty\<rparr>\<rparr> else i))
         (thenP (updI (\<lambda>i. if ast_NetworkAttachments (api_Status i) = None
                  then i\<lparr>api_Status := (api_Status i)\<lparr>ast_NetworkAttachments := Some Map.empty\<rparr>\<rparr> else i))
         (if deleting then api_reconcileDelete L else api_reconcileNormal L))))))"

definition api_Reconcile :: "lib \<Rightarrow> NamespacedName \<Rightarrow> (ManilaAPI st, reconcile_result, reconcile_result) prog" where
  "api_Reconcile L req =
     func (
       bindP (call (EGet ''ManilaAPI'' (nn_Namespace req) (nn_Name req)) (\<lambda>h. o_GetAPI L h req)) (\<lambda>r.
       case r of
         Inl err \<Rightarrow> if l_IsNotFound L err then ret (Result0, None) else ret (Result0, Some err)
       | Inr i0 \<Rightarrow>
           thenP (updI (\<lambda>_. i0))
           (bindP (ask (\<lambda>h. o_NewHelper L h ''ManilaAPI'')) (\<lambda>herr.
            case herr of
              Some err \<Rightarrow> ret (Result0, Some err)
            | None \<Rightarrow>
                (let isNewInstance = conds_nil (ast_Conditions (api_Status i0)) in
                 thenP (whenP isNewInstance (updI (ManilaAPI_updC (\<lambda>_. conds_empty))))
                   (with_deferred L (\<lambda>i. ast_Conditions (api_Status i)) ManilaAPI_updC EPatchAPI
                      (api_body L isNewInstance)))))))"

end
