(* ===== verification/Reasoning.thy ===== *)
theory Reasoning
  imports ChildConfig "HOL-Library.Sublist"
begin

text \<open>
  The proof rules the controllers share: the events of a run, the frames of the common helpers,
  programs that only talk to the cluster, and the frame behind the applied input hash of a
  service.
\<close>

section \<open>The events of a run\<close>

definition events_of :: "('i st, 'r, 'a) prog \<Rightarrow> 'i st \<Rightarrow> event list" where
  "events_of m s = drop (length (trace s)) (trace (snd (m s)))"

lemma emits_events: "emits E m \<Longrightarrow> list_all E (events_of m s)"
  by (auto simp: frames_def emits_rel_def events_of_def dest!: spec [of _ s])

lemma emits_trace: "emits E m \<Longrightarrow> trace (snd (m s)) = trace s @ events_of m s"
  by (auto simp: frames_def emits_rel_def events_of_def dest!: spec [of _ s])

text \<open>A continuation needs its frame only from the states its first part reaches.\<close>

lemma emits_rel_bind:
  assumes m: "emits E m" and f: "\<And>a t. m s = (Next a, t) \<Longrightarrow> emits_rel E t (snd (f a t))"
  shows "emits_rel E s (snd (bindP m f s))"
proof -
  obtain x t where ms: "m s = (x, t)" by fastforce
  have t: "emits_rel E s t" by (rule framesD [OF m ms])
  show ?thesis
  proof (cases x)
    case (Next a)
    with f ms have "emits_rel E t (snd (f a t))" by simp
    with t have "emits_rel E s (snd (f a t))" by (rule emits.R_trans)
    with ms Next show ?thesis by (simp add: bindP_def)
  qed (use ms t in \<open>simp_all add: bindP_def\<close>)
qed

lemma emits_rel_events: "emits_rel E s (snd (m s)) \<Longrightarrow> list_all E (events_of m s)"
  by (auto simp: emits_rel_def events_of_def)

lemma emits_relI: "emits E m \<Longrightarrow> emits_rel E s (snd (m s))"
  by (simp add: frames_def)

lemma emits_rel_func: "emits_rel E s (snd (m s)) \<Longrightarrow> emits_rel E s (snd (func m s))"
  by (auto simp: func_def split: prod.splits outcome.splits)

section \<open>Events in the light of what went before\<close>

text \<open>Every event of a list satisfies a predicate of the trace before it.\<close>

fun ordered :: "(hist \<Rightarrow> event \<Rightarrow> bool) \<Rightarrow> hist \<Rightarrow> event list \<Rightarrow> bool" where
  "ordered P tr [] = True"
| "ordered P tr (e # es) = (P tr e \<and> ordered P (tr @ [e]) es)"

lemma ordered_append: "ordered P tr (xs @ ys) \<longleftrightarrow> ordered P tr xs \<and> ordered P (tr @ xs) ys"
  by (induction xs arbitrary: tr) auto

definition traced_rel :: "(hist \<Rightarrow> event \<Rightarrow> bool) \<Rightarrow> 'i st \<Rightarrow> 'i st \<Rightarrow> bool" where
  "traced_rel P s s' \<longleftrightarrow> (\<exists>es. trace s' = trace s @ es \<and> ordered P (trace s) es)"

interpretation traced: effect_frame "traced_rel P" for P
proof unfold_locales
  fix s t u :: "'a st"
  show "traced_rel P s s" by (simp add: traced_rel_def)
  assume "traced_rel P s t" and "traced_rel P t u"
  then show "traced_rel P s u" by (auto simp: traced_rel_def ordered_append)
qed

lemma ordered_all: "list_all E es \<Longrightarrow> (\<And>xs e. E e \<Longrightarrow> P (tr @ xs) e) \<Longrightarrow> ordered P tr es"
proof (induction es arbitrary: tr)
  case (Cons e es)
  have "P tr e" using Cons.prems(1) Cons.prems(2) [of e "[]"] by simp
  moreover have "ordered P (tr @ [e]) es"
    using Cons.prems by (intro Cons.IH) (simp_all add: append_assoc)
  ultimately show ?case by simp
qed simp

lemma traced_emits: "emits_rel E s s' \<Longrightarrow> (\<And>xs e. E e \<Longrightarrow> P (trace s @ xs) e) \<Longrightarrow> traced_rel P s s'"
  unfolding emits_rel_def traced_rel_def using ordered_all by metis

lemma traced_bind:
  assumes m: "traced_rel P s (snd (m s))" and f: "\<And>a t. m s = (Next a, t) \<Longrightarrow> traced_rel P t (snd (f a t))"
  shows "traced_rel P s (snd (bindP m f s))"
proof -
  obtain x t where ms: "m s = (x, t)" by fastforce
  show ?thesis
  proof (cases x)
    case (Next a)
    with f ms have "traced_rel P t (snd (f a t))" by simp
    with m ms have "traced_rel P s (snd (f a t))" using traced.R_trans by fastforce
    with ms Next show ?thesis by (simp add: bindP_def)
  qed (use ms m in \<open>simp_all add: bindP_def\<close>)
qed

lemma traced_func: "traced_rel P s (snd (m s)) \<Longrightarrow> traced_rel P s (snd (func m s))"
  by (auto simp: func_def split: prod.splits outcome.splits)

lemma traced_events: "traced_rel P s (snd (m s)) \<Longrightarrow> ordered P (trace s) (events_of m s)"
  by (auto simp: traced_rel_def events_of_def)

section \<open>Frames of the common helpers\<close>

lemma emits_common:
  assumes "\<And>k ns n. E (EGet k ns n)"
  shows "emits E (ensureNAD L upd ns nads)" "emits E (get_secret L ns n)"
    "emits E (custom_secrets L ns names)" "emits E (createHash L g st)"
    "emits E (verifyConfigSecrets L upd names ns)"
  unfolding ensureNAD_def ensureNAD_step_def custom_secrets_def createHash_def get_secret_def
    verifyConfigSecrets_def verifyConfigSecrets_step_def
  by (intro emits_rules assms)+

lemma emits_verifyServiceSecret:
  "(\<And>ns n f. E (EVerifySecretFields ns n f)) \<Longrightarrow> emits E (verifyServiceSecret L upd ns n f d)"
  unfolding verifyServiceSecret_def by (intro emits_rules) simp_all

lemma emits_ensureTopology:
  "(\<And>a b f. E (EEnsureServiceTopology a b f)) \<Longrightarrow> emits E (ensureTopology L th upd fin ls)"
  unfolding ensureTopology_def by (intro emits_rules) simp_all

lemmas emits_helpers = emits_common emits_verifyServiceSecret emits_ensureTopology

lemma keepsI_helpers:
  assumes "\<And>f i. g (upd f i) = g i"
  shows "keepsI g (ensureNAD L upd ns nads)" "keepsI g (get_secret L ns n)"
    "keepsI g (custom_secrets L ns names)" "keepsI g (verifyServiceSecret L upd ns n fs d)"
    "keepsI g (verifyConfigSecrets L upd names ns)"
  unfolding ensureNAD_def ensureNAD_step_def custom_secrets_def get_secret_def
    verifyServiceSecret_def verifyConfigSecrets_def verifyConfigSecrets_step_def
  by (intro keepsI_rules assms)+

lemma keepsI_ensureTopology:
  assumes "\<And>f i. g (upd f i) = g i" "\<And>t i. g (SetLastAppliedTopology th t i) = g i"
  shows "keepsI g (ensureTopology L th upd fin ls)"
  unfolding ensureTopology_def by (intro keepsI_rules) (simp_all add: assms)

lemma keepsI_createHash:
  "(\<And>m i. g (st m i) = g i) \<Longrightarrow> keepsI g (createHash L h st)"
  unfolding createHash_def by (intro keepsI_rules) simp_all

text \<open>Two projections that are kept are kept together.\<close>

lemma keepsI_pair: "keepsI f m \<Longrightarrow> keepsI g m \<Longrightarrow> keepsI (\<lambda>i. (f i, g i)) m"
  by (simp add: frames_def keeps_rel_def)

lemma keepsI_D: "keepsI g m \<Longrightarrow> g (inst (snd (m s))) = g (inst s)"
  by (simp add: frames_def keeps_rel_def)

lemma keepsI_run: "keepsI g m \<Longrightarrow> m s = (x, s') \<Longrightarrow> g (inst s') = g (inst s)"
  by (metis keepsI_D snd_conv)

section \<open>Programs that only talk to the cluster\<close>

text \<open>
  Such a program changes nothing but the trace. It goes on with a value that satisfies \<open>Q\<close> (of
  the resource, its events and the value), or it returns an error.
\<close>

definition talks :: "('i \<Rightarrow> event list \<Rightarrow> 'a \<Rightarrow> bool) \<Rightarrow> ('i st, reconcile_result, 'a) prog \<Rightarrow> bool" where
  "talks Q m \<longleftrightarrow> (\<forall>s. \<exists>es. snd (m s) = s\<lparr>trace := trace s @ es\<rparr> \<and>
     (case fst (m s) of Next a \<Rightarrow> Q (inst s) es a | Return r \<Rightarrow> snd r \<noteq> None | Panic \<Rightarrow> False))"

lemma talksI:
  "(\<And>s. \<exists>es. snd (m s) = s\<lparr>trace := trace s @ es\<rparr> \<and>
     (case fst (m s) of Next a \<Rightarrow> Q (inst s) es a | Return r \<Rightarrow> snd r \<noteq> None | Panic \<Rightarrow> False)) \<Longrightarrow> talks Q m"
  by (simp add: talks_def)

lemma talks_bind:
  assumes m: "talks Q m" and f: "\<And>a. talks (R a) (f a)"
  shows "talks (\<lambda>i es b. \<exists>es1 es2 a. es = es1 @ es2 \<and> Q i es1 a \<and> R a i es2 b) (bindP m f)"
proof (rule talksI)
  fix s
  from m obtain es1 where s1: "snd (m s) = s\<lparr>trace := trace s @ es1\<rparr>"
    and q: "case fst (m s) of Next a \<Rightarrow> Q (inst s) es1 a | Return r \<Rightarrow> snd r \<noteq> None | Panic \<Rightarrow> False"
    unfolding talks_def by blast
  show "\<exists>es. snd (bindP m f s) = s\<lparr>trace := trace s @ es\<rparr> \<and>
     (case fst (bindP m f s) of
        Next b \<Rightarrow> \<exists>es1 es2 a. es = es1 @ es2 \<and> Q (inst s) es1 a \<and> R a (inst s) es2 b
      | Return r \<Rightarrow> snd r \<noteq> None | Panic \<Rightarrow> False)"
  proof (cases "fst (m s)")
    case (Next a)
    let ?t = "s\<lparr>trace := trace s @ es1\<rparr>"
    from f [of a] obtain es2 where s2: "snd (f a ?t) = ?t\<lparr>trace := trace ?t @ es2\<rparr>"
      and r: "case fst (f a ?t) of Next b \<Rightarrow> R a (inst ?t) es2 b | Return r \<Rightarrow> snd r \<noteq> None | Panic \<Rightarrow> False"
      unfolding talks_def by blast
    have b: "bindP m f s = f a ?t"
      using Next s1 by (cases "m s") (simp add: bindP_def)
    show ?thesis
      unfolding b using s2 r q Next
      by (intro exI [of _ "es1 @ es2"]) (auto split: outcome.splits)
  qed (use s1 q in \<open>cases "m s"; auto simp: bindP_def\<close>)+
qed

lemma talks_mono:
  assumes m: "talks Q m" and QR: "\<And>i es a. Q i es a \<Longrightarrow> R i es a"
  shows "talks R m"
proof (rule talksI)
  fix s
  from m obtain es where "snd (m s) = s\<lparr>trace := trace s @ es\<rparr>"
    and "case fst (m s) of Next a \<Rightarrow> Q (inst s) es a | Return r \<Rightarrow> snd r \<noteq> None | Panic \<Rightarrow> False"
    unfolding talks_def by blast
  with QR show "\<exists>es. snd (m s) = s\<lparr>trace := trace s @ es\<rparr> \<and>
     (case fst (m s) of Next a \<Rightarrow> R (inst s) es a | Return r \<Rightarrow> snd r \<noteq> None | Panic \<Rightarrow> False)"
    by (intro exI [of _ es]) (cases "fst (m s)"; simp)
qed

lemma talks_pure: "(\<And>i. Q i [] a) \<Longrightarrow> talks Q (pureP a)"
  unfolding talks_def by (auto simp: pureP_def intro!: exI [of _ "[]"])

lemma talks_for:
  assumes "\<And>x. talks (\<lambda>i es u. Q x i es) (f x)"
  shows "talks (\<lambda>i es u. \<exists>ess. es = concat ess \<and> list_all2 (\<lambda>x e. Q x i e) xs ess) (forP xs f)"
proof (induction xs)
  case Nil
  show ?case by (simp add: talks_pure)
next
  case (Cons x xs)
  show ?case
    unfolding forP.simps
    by (rule talks_mono [OF talks_bind [OF assms Cons]])
      (metis concat.simps(2) list.rel_intros(2))
qed

text \<open>In the events of a finished loop every element has its events.\<close>

lemma list_all2_concat:
  assumes "list_all2 (\<lambda>x e. P x \<in> set e) xs ess"
  shows "list_all (\<lambda>x. P x \<in> set (concat ess)) xs"
  using assms by (induction rule: list_all2_induct) (auto simp: list_all_iff)

section \<open>The applied input hash\<close>

text \<open>
  A rollout is confirmed in a trace where the cluster answered at that point that the stateful
  set of the name is ready for the input hash.
\<close>

definition rollout_confirmed :: "lib \<Rightarrow> hist \<Rightarrow> string \<Rightarrow> string \<Rightarrow> bool" where
  "rollout_confirmed L tr name ns \<longleftrightarrow> (\<exists>pre post h. tr = pre @ EIsReadyForInput name ns h # post \<and>
     o_IsReadyForInput L pre name ns h = (True, None))"

lemma rollout_confirmed_append: "rollout_confirmed L tr name ns \<Longrightarrow> rollout_confirmed L (tr @ es) name ns"
  unfolding rollout_confirmed_def by (metis append_Cons append_assoc)

text \<open>
  The frame: the key of the resource (name, namespace, secret names) stays, and the applied hash
  changes only under a confirmed rollout, to the hash of the secret names.
\<close>

definition applied_rel :: "lib \<Rightarrow> ('i \<Rightarrow> string \<times> string \<times> string list) \<Rightarrow> ('i \<Rightarrow> string) \<Rightarrow>
  'i st \<Rightarrow> 'i st \<Rightarrow> bool" where
  "applied_rel L key app s s' \<longleftrightarrow>
     (\<exists>es. trace s' = trace s @ es) \<and> key (inst s') = key (inst s) \<and>
     (app (inst s') = app (inst s) \<or>
      (case key (inst s) of (name, ns, secrets) \<Rightarrow>
         rollout_confirmed L (trace s') name ns \<and> l_ObjectHash L secrets = (app (inst s'), None)))"

interpretation applied: effect_frame "applied_rel L key app" for L key app
proof unfold_locales
  fix s t u :: "'a st"
  show "applied_rel L key app s s" by (simp add: applied_rel_def)
  assume a: "applied_rel L key app s t" and b: "applied_rel L key app t u"
  obtain name ns secrets where k: "key (inst s) = (name, ns, secrets)" by (metis prod_cases3)
  from a k have kt: "key (inst t) = (name, ns, secrets)" by (simp add: applied_rel_def)
  from b obtain es where "trace u = trace t @ es" by (auto simp: applied_rel_def)
  then have mono: "rollout_confirmed L (trace t) name ns \<Longrightarrow> rollout_confirmed L (trace u) name ns"
    by (simp add: rollout_confirmed_append)
  from a b k kt mono show "applied_rel L key app s u"
    by (auto simp: applied_rel_def)
qed

lemma applied_keep:
  assumes "emits (\<lambda>e. True) m" "keepsI key m" "keepsI app m"
  shows "frames (applied_rel L key app) m"
  using assms unfolding frames_def applied_rel_def emits_rel_def keeps_rel_def by blast

lemma applied_D:
  assumes "frames (applied_rel L key app) m" and "key (inst s) = (name, ns, secrets)"
  shows "app (inst (snd (m s))) = app (inst s) \<or>
    (rollout_confirmed L (trace (snd (m s))) name ns \<and> l_ObjectHash L secrets = (app (inst (snd (m s))), None))"
  using assms unfolding frames_def applied_rel_def by (metis (mono_tags, lifting) case_prod_conv)

text \<open>
  The whole of a \<open>Reconcile\<close>: the deferred exit touches neither the key nor the applied hash, and
  the finalizer helpers, as they document, touch only the finalizers.
\<close>

definition lawful_finalizers :: "lib \<Rightarrow> bool" where
  "lawful_finalizers L \<longleftrightarrow> (\<forall>m f.
     om_Name (snd (l_AddFinalizer L m f)) = om_Name m \<and>
     om_Namespace (snd (l_AddFinalizer L m f)) = om_Namespace m \<and>
     om_Name (l_RemoveFinalizer L m f) = om_Name m \<and>
     om_Namespace (l_RemoveFinalizer L m f) = om_Namespace m)"

context patched_resource
begin

lemma with_deferred_applied:
  assumes key: "\<And>f i. key (updC f i) = key i" and app: "\<And>f i. app (updC f i) = app i"
    and body: "frames (applied_rel L key app) body"
  shows "frames (applied_rel L key app) (with_deferred L getC updC patch body)"
proof -
  have "emits (\<lambda>e. True) (deferred L getC updC patch res)" for res
    unfolding deferred_def by (intro emits_rules emits_patch_instance TrueI)
  then show ?thesis
    unfolding with_deferred_def
    by (intro applied.frame_bind applied.frame_func body applied_keep deferred_keeps key app)
qed

end

section \<open>The order of the calls of one kind\<close>

text \<open>
  A run spells a word where the calls that \<open>g\<close> picks out, in their order, are the word; a run that
  leaves early spells a prefix of it. The resource satisfies \<open>P\<close> all the time.
\<close>

definition spells :: "('i \<Rightarrow> bool) \<Rightarrow> (event \<Rightarrow> 'n option) \<Rightarrow> 'n list \<Rightarrow> ('i st, 'r, 'a) prog \<Rightarrow> bool" where
  "spells P g w m \<longleftrightarrow> (\<forall>s. P (inst s) \<longrightarrow> P (inst (snd (m s))) \<and>
     (\<exists>es. trace (snd (m s)) = trace s @ es \<and> prefix (List.map_filter g es) w \<and>
       (case fst (m s) of Next a \<Rightarrow> List.map_filter g es = w | _ \<Rightarrow> True)))"

lemma map_filter_append: "List.map_filter g (xs @ ys) = List.map_filter g xs @ List.map_filter g ys"
  by (simp add: List.map_filter_def)

lemma map_filter_Nil: "list_all (\<lambda>e. g e = None) es \<Longrightarrow> List.map_filter g es = []"
  by (induction es) (auto simp: List.map_filter_def)

lemma spells_silent:
  fixes m :: "('i st, 'r, 'a) prog"
  assumes "emits (\<lambda>e. g e = None) m" and "keepsI P m"
  shows "spells P g [] m"
  unfolding spells_def
proof (intro allI impI)
  fix s :: "'i st"
  assume P: "P (inst s)"
  from assms(1) obtain es where es: "trace (snd (m s)) = trace s @ es" "list_all (\<lambda>e. g e = None) es"
    unfolding frames_def emits_rel_def by blast
  from assms(2) P have "P (inst (snd (m s)))" by (simp add: frames_def keeps_rel_def)
  with es show "P (inst (snd (m s))) \<and> (\<exists>es. trace (snd (m s)) = trace s @ es \<and>
      prefix (List.map_filter g es) [] \<and>
      (case fst (m s) of Next a \<Rightarrow> List.map_filter g es = [] | _ \<Rightarrow> True))"
    by (intro conjI exI [of _ es]) (simp_all add: map_filter_Nil split: outcome.split)
qed

lemma spells_call: "g ev = Some n \<Longrightarrow> spells P g [n] (call ev answer)"
  by (auto simp: spells_def run_call List.map_filter_def)

lemma spells_run:
  fixes m :: "('i st, 'r, 'a) prog"
  assumes m: "spells P g w m" and run: "m s = (x, t)" and P: "P (inst s)"
  obtains es where "P (inst t)" "trace t = trace s @ es" "prefix (List.map_filter g es) w"
    "\<And>a. x = Next a \<Longrightarrow> List.map_filter g es = w"
proof -
  from m P have "P (inst (snd (m s))) \<and> (\<exists>es. trace (snd (m s)) = trace s @ es \<and>
      prefix (List.map_filter g es) w \<and> (case fst (m s) of Next a \<Rightarrow> List.map_filter g es = w | _ \<Rightarrow> True))"
    unfolding spells_def by blast
  with run that show thesis by (cases x) auto
qed

lemma spells_bind:
  fixes m :: "('i st, 'r, 'a) prog"
  assumes m: "spells P g w m" and f: "\<And>a. spells P g v (f a)"
  shows "spells P g (w @ v) (bindP m f)"
  unfolding spells_def
proof (intro allI impI)
  fix s :: "'i st"
  assume P: "P (inst s)"
  obtain x t where ms: "m s = (x, t)" by fastforce
  obtain es where t: "P (inst t)" "trace t = trace s @ es" "prefix (List.map_filter g es) w"
    "\<And>a. x = Next a \<Longrightarrow> List.map_filter g es = w"
    using spells_run [OF m ms P] by blast
  show "P (inst (snd (bindP m f s))) \<and> (\<exists>es. trace (snd (bindP m f s)) = trace s @ es \<and>
      prefix (List.map_filter g es) (w @ v) \<and>
      (case fst (bindP m f s) of Next a \<Rightarrow> List.map_filter g es = w @ v | _ \<Rightarrow> True))"
  proof (cases x)
    case (Next a)
    obtain y u where fa: "f a t = (y, u)" by fastforce
    obtain es2 where u: "P (inst u)" "trace u = trace t @ es2" "prefix (List.map_filter g es2) v"
      "\<And>b. y = Next b \<Longrightarrow> List.map_filter g es2 = v"
      using spells_run [OF f fa t(1)] by blast
    have "bindP m f s = (y, u)" using ms Next fa by (simp add: bindP_def)
    then show ?thesis
      using u t Next
      by (intro conjI exI [of _ "es @ es2"]) (auto simp: map_filter_append split: outcome.split)
  next
    case (Return r)
    then show ?thesis using t ms by (auto simp: bindP_def prefix_def)
  next
    case Panic
    then show ?thesis using t ms by (auto simp: bindP_def prefix_def)
  qed
qed

lemma spells_then_silent: "spells P g w m \<Longrightarrow> (\<And>a. spells P g [] (f a)) \<Longrightarrow> spells P g w (bindP m f)"
  using spells_bind [of P g w m "[]" f] by simp

lemma spells_silent_then: "spells P g [] m \<Longrightarrow> (\<And>a. spells P g w (f a)) \<Longrightarrow> spells P g w (bindP m f)"
  using spells_bind [of P g "[]" m w f] by simp

lemma spells_pure: "spells P g [] (pureP a)"
  by (auto simp: spells_def pureP_def List.map_filter_def)

lemma spells_stop: "spells P g w (ret r)" "spells P g w panic"
  by (auto simp: spells_def ret_def panic_def List.map_filter_def)

text \<open>Whatever is silent and never goes on may stand for the end of any word.\<close>

lemma spells_dead:
  assumes "spells P g [] m"
  shows "spells P g w (bindP m (\<lambda>a. ret r))"
  by (rule spells_silent_then [OF assms]) (rule spells_stop)

lemma spells_fold:
  assumes "\<And>x acc. spells P g (w x) (f x acc)"
  shows "spells P g (concat (map w xs)) (foldP f xs acc)"
proof (induction xs arbitrary: acc)
  case Nil
  show ?case by (simp add: spells_pure)
next
  case (Cons x xs)
  show ?case by (simp add: spells_bind [OF assms Cons])
qed

lemma spells_for:
  assumes "\<And>x. spells P g (w x) (f x)"
  shows "spells P g (concat (map w xs)) (forP xs f)"
proof (induction xs)
  case Nil
  show ?case by (simp add: spells_pure)
next
  case (Cons x xs)
  show ?case by (simp add: spells_bind [OF assms Cons])
qed

lemma concat_silent [simp]: "concat (map (\<lambda>x. []) xs) = []"
  by (induction xs) simp_all

lemma spells_fold_silent:
  "(\<And>x acc. spells P g [] (f x acc)) \<Longrightarrow> spells P g [] (foldP f xs acc)"
  using spells_fold [where w = "\<lambda>x. []" and f = f and P = P and g = g and xs = xs and acc = acc] by simp

lemma spells_func: "spells P g w m \<Longrightarrow> P (inst s) \<Longrightarrow>
    prefix (List.map_filter g (events_of (func m) s)) w"
  unfolding spells_def events_of_def func_def
  by (auto split: prod.splits outcome.splits dest!: spec [of _ s])

lemma spells_events: "spells P g w m \<Longrightarrow> P (inst s) \<Longrightarrow> prefix (List.map_filter g (events_of m s)) w"
  unfolding spells_def events_of_def by (auto dest!: spec [of _ s])

lemma spells_Next:
  "spells P g w m \<Longrightarrow> m s = (Next a, t) \<Longrightarrow> P (inst s) \<Longrightarrow> List.map_filter g (events_of m s) = w"
  unfolding spells_def events_of_def by (auto dest!: spec [of _ s])

lemma spells_case_option:
  "spells P g w f \<Longrightarrow> (\<And>v. spells P g w (h v)) \<Longrightarrow> spells P g w (case x of None \<Rightarrow> f | Some v \<Rightarrow> h v)"
  by (cases x) simp_all

lemma spells_case_sum:
  "(\<And>e. spells P g w (f e)) \<Longrightarrow> (\<And>v. spells P g w (h v)) \<Longrightarrow>
   spells P g w (case x of Inl e \<Rightarrow> f e | Inr v \<Rightarrow> h v)"
  by (cases x) simp_all

lemma spells_case_prod: "(\<And>a b. spells P g w (f a b)) \<Longrightarrow> spells P g w (case x of (a, b) \<Rightarrow> f a b)"
  by (cases x) simp_all

lemma spells_if: "spells P g w m \<Longrightarrow> spells P g w n \<Longrightarrow> spells P g w (if b then m else n)"
  by simp

lemma spells_let: "(\<And>x. spells P g w (f x)) \<Longrightarrow> spells P g w (let x = e in f x)"
  by simp

lemmas spells_case = spells_case_option spells_case_sum spells_case_prod spells_if spells_let

lemma spells_getI:
  assumes "\<And>i. P i \<Longrightarrow> spells P g w (h (f i))"
  shows "spells P g w (bindP (getI f) h)"
  using assms unfolding spells_def run_bindP run_getI by simp

lemma keepsI_const: "keepsI (\<lambda>i. c) m"
  by (simp add: frames_def keeps_rel_def)

section \<open>How a program may leave\<close>

text \<open>
  From any state: what holds where the program goes on (of the value and the state), and what
  holds where it leaves its function (of the result and the state).
\<close>

definition leaves :: "('a \<Rightarrow> 's \<Rightarrow> bool) \<Rightarrow> ('r \<Rightarrow> 's \<Rightarrow> bool) \<Rightarrow> ('s, 'r, 'a) prog \<Rightarrow> bool" where
  "leaves N R m \<longleftrightarrow> (\<forall>s. case m s of (Next a, t) \<Rightarrow> N a t | (Return r, t) \<Rightarrow> R r t | (Panic, t) \<Rightarrow> True)"

lemma leaves_bind:
  fixes m :: "('s, 'r, 'a) prog" and f :: "'a \<Rightarrow> ('s, 'r, 'b) prog"
  assumes m: "leaves (\<lambda>a t. True) R m" and f: "\<And>a. leaves N R (f a)"
  shows "leaves N R (bindP m f)"
  unfolding leaves_def
proof
  fix s :: 's
  obtain x t where ms: "m s = (x, t)" by fastforce
  with m have r: "case x of Return r \<Rightarrow> R r t | _ \<Rightarrow> True"
    unfolding leaves_def by (auto dest!: spec [of _ s] split: outcome.splits)
  show "case bindP m f s of (Next a, t) \<Rightarrow> N a t | (Return r, t) \<Rightarrow> R r t | (Panic, t) \<Rightarrow> True"
  proof (cases x)
    case (Next a)
    with f [of a] ms show ?thesis by (simp add: leaves_def bindP_def)
  qed (use ms r in \<open>simp_all add: bindP_def\<close>)
qed

lemma leaves_ret: "(\<And>s. R r s) \<Longrightarrow> leaves N R (ret r)"
  by (simp add: leaves_def ret_def)

lemma leaves_pure: "(\<And>s. N a s) \<Longrightarrow> leaves N R (pureP a)"
  by (simp add: leaves_def pureP_def)

lemma leaves_panic: "leaves N R panic"
  by (simp add: leaves_def panic_def)

lemma leaves_func: "leaves R R m \<Longrightarrow> (\<And>r t. R r t \<Longrightarrow> N r t) \<Longrightarrow> leaves N Q (func m)"
  unfolding leaves_def func_def by (auto split: outcome.splits prod.splits)

lemma leaves_local:
  "leaves (\<lambda>a t. True) R (call ev answer)" "leaves (\<lambda>a t. True) R (ask g)" "leaves (\<lambda>a t. True) R (getI h)"
  "leaves (\<lambda>a t. True) R (getP k)" "leaves (\<lambda>a t. True) R (setVars vs)" "leaves (\<lambda>a t. True) R (updI f)"
  "leaves (\<lambda>a t. True) R (setFalse upd t r sev m args)" "leaves (\<lambda>a t. True) R (markTrue upd t m)"
  "leaves (\<lambda>a t. True) R (markFalse upd t r sev m args)" "leaves (\<lambda>a t. True) R (condP upd c)"
  by (simp_all add: leaves_def st_defs getP_def modP_def)

lemma leaves_func_any: "leaves (\<lambda>a t. True) Q (func m)"
  by (simp add: leaves_def func_def split: outcome.splits prod.splits)

lemma leaves_case:
  "leaves N R f \<Longrightarrow> (\<And>v. leaves N R (h v)) \<Longrightarrow> leaves N R (case x of None \<Rightarrow> f | Some v \<Rightarrow> h v)"
  "(\<And>e. leaves N R (k e)) \<Longrightarrow> (\<And>v. leaves N R (l v)) \<Longrightarrow> leaves N R (case y of Inl e \<Rightarrow> k e | Inr v \<Rightarrow> l v)"
  "(\<And>a b. leaves N R (p a b)) \<Longrightarrow> leaves N R (case z of (a, b) \<Rightarrow> p a b)"
  "leaves N R m \<Longrightarrow> leaves N R n \<Longrightarrow> leaves N R (if b then m else n)"
  "(\<And>v. leaves N R (q v)) \<Longrightarrow> leaves N R (let v = w in q v)"
  by (cases x, simp_all, cases y, simp_all, cases z, simp_all)

lemmas leaves_rules = leaves_case leaves_bind leaves_local leaves_ret leaves_pure leaves_panic

lemma leaves_Next: "leaves N R m \<Longrightarrow> m s = (Next a, t) \<Longrightarrow> N a t"
  unfolding leaves_def by (auto dest!: spec [of _ s])

lemma leaves_Return: "leaves N R m \<Longrightarrow> m s = (Return r, t) \<Longrightarrow> R r t"
  unfolding leaves_def by (auto dest!: spec [of _ s])

end
