(* ===== verification/ApiProps.thy ===== *)
theory ApiProps
  imports ApiController Reasoning Fixtures
begin

text \<open>
  The properties of the \<open>ManilaAPI\<close> controller: what its phases emit and keep, the applied input
  hash, the hash a stateful set is built from, deletion, the Keystone services, and the exit.
\<close>

section \<open>Frames of the phases\<close>

lemma api_input_emits:
  assumes "\<And>k ns n. E (EGet k ns n)" "\<And>ns n f. E (EVerifySecretFields ns n f)"
  shows "emits E (api_inputs L)"
  unfolding api_inputs_def by (intro emits_rules emits_helpers assms)

lemma api_tls_emits:
  assumes "\<And>ns n. E (EValidateCACert ns n)" "\<And>ns. E (EValidateCertSecrets ns)"
  shows "emits E (api_tls L)"
  unfolding api_tls_def api_certs_def by (intro emits_rules assms)

lemma api_config_emits:
  assumes "\<And>k ns n. E (EGet k ns n)" "\<And>t. E (EEnsureSecrets t)"
  shows "emits E (api_config L)"
  unfolding api_config_def api_generateServiceConfig_def api_createHashOfInputHashes_def
  by (intro emits_rules emits_helpers assms)

lemma api_init_emits:
  assumes "\<And>x. E (ECreateOrPatchService x)" "\<And>x. E (EGetAPIEndpoint x)"
    "\<And>x. E (ECreateOrPatchKeystoneService x)" "\<And>x. E (ECreateOrPatchKeystoneEndpoint x)"
  shows "emits E (api_reconcileInit L)"
  unfolding api_reconcileInit_def api_expose_services_def api_expose_endpoint_def api_keystone_service_def api_endpoint_failed_def
  by (intro emits_rules assms)

lemma api_deploy_steps_emits:
  assumes "\<And>k ns n. E (EGet k ns n)" "\<And>a b f. E (EEnsureServiceTopology a b f)"
  shows "emits E (api_topology_step L)" "emits E (api_memcached L)"
  unfolding api_topology_step_def api_memcached_def
  by (intro emits_rules emits_helpers assms)+

lemma emits_statefulset:
  assumes "\<And>i lbl ss. api_StatefulSet L i h lbl ann topo mc (as_APITimeout (api_Spec i)) = Some (Inr ss) \<Longrightarrow>
     E (ECreateOrPatchStatefulSet ss)"
  shows "emits E (api_apply_statefulset L h ann topo mc)"
proof (rule framesI)
  fix s
  show "emits_rel E s (snd (api_apply_statefulset L h ann topo mc s))"
    using assms [of "inst s" "svcLabels s"]
    by (auto simp: api_apply_statefulset_def prog_simps emits_rel_def Let_def
        split: option.splits sum.splits prod.splits)
qed

lemma api_deploy_emits:
  assumes "\<And>k ns n. E (EGet k ns n)" "\<And>a b f. E (EEnsureServiceTopology a b f)"
    "\<And>x. E (ECreateOrPatchService x)" "\<And>x. E (EGetAPIEndpoint x)"
    "\<And>x. E (ECreateOrPatchKeystoneService x)" "\<And>x. E (ECreateOrPatchKeystoneEndpoint x)"
    "\<And>i lbl ann topo mc ss. api_StatefulSet L i h lbl ann topo mc (as_APITimeout (api_Spec i)) = Some (Inr ss) \<Longrightarrow>
       E (ECreateOrPatchStatefulSet ss)"
  shows "emits E (api_deploy L h)"
  unfolding api_deploy_def
  by (intro emits_rules emits_helpers api_init_emits api_deploy_steps_emits emits_statefulset assms)

lemma api_finish_emits:
  assumes "\<And>x. E (EVerifyNetworkStatus x)" "\<And>n ns h. E (EIsReadyForInput n ns h)"
  shows "emits E (api_finish L h ss)"
  unfolding api_finish_def api_network_status_def api_rollout_status_def
  by (intro emits_rules assms)

lemmas api_phase_emits = api_input_emits api_tls_emits api_config_emits api_deploy_emits api_finish_emits

text \<open>What the phases keep of the resource, for a projection that the writes of the phase keep.\<close>

lemma api_front_keeps:
  assumes "\<And>f i. g (ManilaAPI_updC f i) = g i"
  shows "keepsI g (api_inputs L)" "keepsI g (api_tls L)" "keepsI g (api_reconcileInit L)"
  unfolding api_inputs_def api_tls_def api_certs_def api_reconcileInit_def api_expose_services_def api_expose_endpoint_def
    api_keystone_service_def api_endpoint_failed_def
  by (intro keepsI_rules keepsI_helpers assms)+

lemma api_generate_keeps: "keepsI g (api_generateServiceConfig L)"
  unfolding api_generateServiceConfig_def custom_secrets_def get_secret_def by (intro keepsI_rules)

lemma api_config_keeps:
  assumes "\<And>f i. g (ManilaAPI_updC f i) = g i" "\<And>m i. g (api_setHash m i) = g i"
  shows "keepsI g (api_config L)"
  unfolding api_config_def api_createHashOfInputHashes_def
  by (intro keepsI_rules keepsI_createHash api_generate_keeps assms)

lemma api_deploy_keeps:
  assumes "\<And>f i. g (ManilaAPI_updC f i) = g i" "\<And>t i. g (ManilaAPI_SetLastAppliedTopology t i) = g i"
  shows "keepsI g (api_deploy L h)"
  unfolding api_deploy_def api_topology_step_def api_memcached_def api_apply_statefulset_def
  by (intro keepsI_rules keepsI_helpers keepsI_ensureTopology api_front_keeps)
    (simp_all add: assms api_topology_def)

lemma api_finish_keeps:
  assumes "\<And>f i. g (ManilaAPI_updC f i) = g i"
    "\<And>i n. g (i\<lparr>api_Status := (api_Status i)\<lparr>ast_ReadyCount := n\<rparr>\<rparr>) = g i"
    "\<And>i n. g (i\<lparr>api_Status := (api_Status i)\<lparr>ast_NetworkAttachments := n\<rparr>\<rparr>) = g i"
    "\<And>i n. g (i\<lparr>api_Status := (api_Status i)\<lparr>ast_AppliedInputSecretHash := n\<rparr>\<rparr>) = g i"
  shows "keepsI g (api_finish L h ss)"
  unfolding api_finish_def api_network_status_def api_rollout_status_def
  by (intro keepsI_rules assms)

lemmas api_phase_keeps = api_front_keeps api_config_keeps api_deploy_keeps api_finish_keeps

lemma api_reconcileNormal_keeps:
  "keepsI api_Spec (api_reconcileNormal L)" "keepsI api_Meta (api_reconcileNormal L)"
  "keepsI api_Kind (api_reconcileNormal L)"
  unfolding api_reconcileNormal_def
  by (intro keeps.frame_func keeps.frame_bind api_phase_keeps;
      simp add: ManilaAPI_updC_def api_setHash_def ManilaAPI_SetLastAppliedTopology_def)+

section \<open>The applied input hash\<close>

definition api_key :: "ManilaAPI \<Rightarrow> string \<times> string \<times> string list" where
  "api_key i = (om_Name (api_Meta i), om_Namespace (api_Meta i),
     [as_TransportURLSecret (api_Spec i), as_NotificationsURLSecret (api_Spec i)])"

definition api_applied :: "ManilaAPI \<Rightarrow> string" where
  "api_applied i = ast_AppliedInputSecretHash (api_Status i)"

lemma api_rollout_applied: "frames (applied_rel L api_key api_applied) (api_rollout_status L h)"
proof (rule framesI)
  fix s
  show "applied_rel L api_key api_applied s (snd (api_rollout_status L h s))"
    by (auto simp: api_rollout_status_def prog_simps applied_rel_def api_key_def api_applied_def
        ManilaAPI_updC_def rollout_confirmed_def Let_def split: prod.splits option.splits)
qed

lemma api_network_applied: "frames (applied_rel L api_key api_applied) (api_network_status L)"
  by (rule applied_keep; unfold api_network_status_def)
    (intro emits_rules keepsI_rules; simp add: ManilaAPI_updC_def api_key_def api_applied_def)+

lemma api_update_applied:
  assumes "\<And>i. api_key (f i) = api_key i" "\<And>i. api_applied (f i) = api_applied i"
  shows "frames (applied_rel L api_key api_applied) (updI f)"
  by (rule applied_keep) (intro emits_rules keepsI_rules assms TrueI)+

lemma api_finish_applied: "frames (applied_rel L api_key api_applied) (api_finish L h ss)"
proof -
  have "frames (applied_rel L api_key api_applied) (markTrue ManilaAPI_updC t m)" for t m
    by (rule applied_keep) (intro emits_rules keepsI_rules; simp add: ManilaAPI_updC_def api_key_def api_applied_def)+
  moreover have "frames (applied_rel L api_key api_applied) (getI g)" for g :: "ManilaAPI \<Rightarrow> 'z"
    unfolding getI_def by (rule applied.frame_get)
  ultimately show ?thesis
    unfolding api_finish_def
    by (intro applied.frame_rules frames_case api_rollout_applied api_network_applied api_update_applied)
      (simp_all add: api_key_def api_applied_def)
qed

lemma api_phase_applied:
  "frames (applied_rel L api_key api_applied) (api_inputs L)"
  "frames (applied_rel L api_key api_applied) (api_tls L)"
  "frames (applied_rel L api_key api_applied) (api_config L)"
  "frames (applied_rel L api_key api_applied) (api_deploy L h)"
  by (rule applied_keep; intro api_phase_emits api_phase_keeps;
      simp add: ManilaAPI_updC_def api_setHash_def ManilaAPI_SetLastAppliedTopology_def api_key_def api_applied_def)+

lemma api_reconcileNormal_applied: "frames (applied_rel L api_key api_applied) (api_reconcileNormal L)"
  unfolding api_reconcileNormal_def by (intro applied.frame_rules api_phase_applied api_finish_applied)

text \<open>ReconcileNormal of the API moves AppliedInputSecretHash only after the cluster confirmed, in the same run, that the stateful set of the resource is ready for the input hash; the new value is then the hash of the two secret names of the spec.\<close>

lemma api_applied_hash_confirmed:
  "let s' = snd (api_reconcileNormal L s); i = inst s in
   ast_AppliedInputSecretHash (api_Status (inst s')) = ast_AppliedInputSecretHash (api_Status i) \<or>
   (rollout_confirmed L (trace s') (om_Name (api_Meta i)) (om_Namespace (api_Meta i)) \<and>
    l_ObjectHash L [as_TransportURLSecret (api_Spec i), as_NotificationsURLSecret (api_Spec i)] =
      (ast_AppliedInputSecretHash (api_Status (inst s')), None))"
  using applied_D [OF api_reconcileNormal_applied, where s = s] by (simp add: api_key_def api_applied_def Let_def)

section \<open>The hash a stateful set carries\<close>






section \<open>Deletion\<close>





section \<open>The Keystone services\<close>

definition ks_call :: "event \<Rightarrow> string option" where
  "ks_call e = (case e of ECreateOrPatchKeystoneService k \<Rightarrow> Some (kss_ServiceName k) | _ \<Rightarrow> None)"

definition v1_is :: "lib \<Rightarrow> bool \<Rightarrow> ManilaAPI \<Rightarrow> bool" where
  "v1_is L b i \<longleftrightarrow> fst (IsShareV1Enabled (l_GetBoolFromAnnotation L) i) = b"

lemma v1_is_updC [simp]: "v1_is L b (ManilaAPI_updC f i) = v1_is L b i"
  by (simp add: v1_is_def IsShareV1Enabled_def ManilaAPI_updC_def)

lemma api_cond_silent:
  "spells (v1_is L b) ks_call [] (markFalse ManilaAPI_updC t r sv m a)"
  "spells (v1_is L b) ks_call [] (markTrue ManilaAPI_updC t m)"
  "spells (v1_is L b) ks_call [] (whenP c (condP ManilaAPI_updC op0))"
  by (rule spells_silent; intro emits_rules keepsI_rules; simp add: ks_call_def)+

lemma api_failed_spells: "spells (v1_is L b) ks_call w (api_endpoint_failed e)"
  unfolding api_endpoint_failed_def
  by (rule spells_silent_then [OF api_cond_silent(1)]) (rule spells_stop)

lemma api_expose_spells: "spells (v1_is L b) ks_call [] (api_expose_endpoint L v ep acc)"
  unfolding api_expose_endpoint_def api_endpoint_failed_def
  by (rule spells_silent; intro emits_rules keepsI_rules; simp add: ks_call_def)

definition ks_word :: "bool \<Rightarrow> keystone_service \<Rightarrow> string list" where
  "ks_word v1Enabled ks = (if ks_name ks = manila_ServiceName \<and> \<not> v1Enabled then [] else [ks_name ks])"

lemma api_keystone_spells: "spells (v1_is L b) ks_call (ks_word v ks) (api_keystone_service L v eps ks)"
proof (cases "ks_name ks = manila_ServiceName \<and> \<not> v")
  case True
  then show ?thesis by (simp add: api_keystone_service_def ks_word_def spells_pure)
next
  case False
  then have w: "ks_word v ks = [ks_name ks]" by (auto simp: ks_word_def)
  show ?thesis
    unfolding api_keystone_service_def w if_not_P [OF False] Let_def
    apply (rule spells_getI, rule spells_then_silent)
     apply (rule spells_call, simp add: ks_call_def)
    apply (rule spells_silent)
     apply (intro emits_rules; simp add: ks_call_def)
    apply (intro keepsI_rules; simp)
    done
qed

text \<open>The service init registers the Keystone services in the order of the table, and the deprecated V1 service among them exactly where the annotation enables share v1; a run that leaves early has registered a prefix.\<close>

lemma api_keystone_order:
  "prefix (List.map_filter ks_call (events_of (api_reconcileInit L) s))
     (if fst (IsShareV1Enabled (l_GetBoolFromAnnotation L) (inst s))
      then [manila_ServiceNameSFS, manila_ServiceNameV2, manila_ServiceName]
      else [manila_ServiceNameSFS, manila_ServiceNameV2])"
proof -
  define b where "b = fst (IsShareV1Enabled (l_GetBoolFromAnnotation L) (inst s))"
  let ?w = "concat (map (ks_word b) keystoneServices)"
  have fold: "spells (v1_is L b) ks_call [] (foldP (api_expose_endpoint L b) xs acc)" for xs acc
    by (rule spells_fold_silent) (rule api_expose_spells)
  have rest: "spells (v1_is L b) ks_call ?w (api_expose_services L b)"
    unfolding api_expose_services_def
    by (intro spells_silent_then [OF fold] spells_case spells_silent_then [OF api_cond_silent(2)]
        spells_then_silent [OF spells_for [OF api_keystone_spells]] spells_stop)
  have "prefix (List.map_filter ks_call (events_of (api_reconcileInit L) s)) ?w"
    unfolding api_reconcileInit_def
  proof (intro spells_func spells_getI)
    show "v1_is L b (inst s)" by (simp add: v1_is_def b_def)
    fix i
    assume "v1_is L b i"
    then obtain err where v: "IsShareV1Enabled (l_GetBoolFromAnnotation L) i = (b, err)"
      by (cases "IsShareV1Enabled (l_GetBoolFromAnnotation L) i") (simp add: v1_is_def)
    show "spells (v1_is L b) ks_call ?w (case IsShareV1Enabled (l_GetBoolFromAnnotation L) i of
        (v1Enabled, err) \<Rightarrow> case err of Some e \<Rightarrow> api_endpoint_failed e | None \<Rightarrow> api_expose_services L v1Enabled)"
      unfolding v prod.case by (intro spells_case api_failed_spells rest)
  qed
  moreover have "?w = (if b then [manila_ServiceNameSFS, manila_ServiceNameV2, manila_ServiceName]
      else [manila_ServiceNameSFS, manila_ServiceNameV2])"
    by (simp add: keystoneServices_def ks_word_def manila_ServiceName_def manila_ServiceNameSFS_def
        manila_ServiceNameV2_def)
  ultimately show ?thesis by (simp add: b_def)
qed

section \<open>The exit\<close>

lemma api_body_keeps:
  "keepsI api_Spec (api_body L b)" "keepsI api_Kind (api_body L b)"
proof -
  have "keepsI api_Spec (api_reconcileDelete L)" "keepsI api_Kind (api_reconcileDelete L)"
    unfolding api_reconcileDelete_def api_release_keystone_def by (intro keepsI_rules; simp)+
  then show "keepsI api_Spec (api_body L b)" "keepsI api_Kind (api_body L b)"
    unfolding api_body_def
    by (intro keepsI_rules api_reconcileNormal_keeps; simp add: ManilaAPI_updC_def)+
qed

text \<open>A Reconcile of the API that reaches its instance ends, unless it panics, with the patch of the instance it leaves; the instance has the spec that was fetched, and a failed patch is the error of the run.\<close>

lemma api_Reconcile_patches:
  "case o_GetAPI L (trace s) req of
     Inl e \<Rightarrow> fst (api_Reconcile L req s) = Next (Result0, if l_IsNotFound L e then None else Some e)
   | Inr i0 \<Rightarrow>
       (case o_NewHelper L (trace s @ [EGet ''ManilaAPI'' (nn_Namespace req) (nn_Name req)]) ''ManilaAPI'' of
          Some e \<Rightarrow> fst (api_Reconcile L req s) = Next (Result0, Some e)
        | None \<Rightarrow>
            (case api_Reconcile L req s of
               (Next (res, err), s') \<Rightarrow>
                 (\<exists>tr. trace s' = tr @ [EPatchAPI (inst s')] \<and>
                   (case o_Patch L tr (EPatchAPI (inst s')) of Some e \<Rightarrow> err = Some e | None \<Rightarrow> True)) \<and>
                 api_Spec (inst s') = api_Spec i0
             | (Return r, s') \<Rightarrow> False
             | (Panic, s') \<Rightarrow> True))"
proof (cases "o_GetAPI L (trace s) req")
  case (Inl e)
  then show ?thesis by (simp add: api_Reconcile_def prog_simps)
next
  case (Inr i0)
  show ?thesis
  proof (cases "o_NewHelper L (trace s @ [EGet ''ManilaAPI'' (nn_Namespace req) (nn_Name req)]) ''ManilaAPI''")
    case (Some e)
    with Inr show ?thesis by (simp add: api_Reconcile_def prog_simps)
  next
    case None
    let ?new = "conds_nil (ast_Conditions (api_Status i0))"
    let ?wd = "with_deferred L (\<lambda>i. ast_Conditions (api_Status i)) ManilaAPI_updC EPatchAPI (api_body L ?new)
      :: (ManilaAPI st, reconcile_result, reconcile_result) prog"
    define s1 where "s1 = s\<lparr>trace := trace s @ [EGet ''ManilaAPI'' (nn_Namespace req) (nn_Name req)],
      inst := if ?new then ManilaAPI_updC (\<lambda>_. conds_empty) i0 else i0\<rparr>"
    have run: "api_Reconcile L req s = func ?wd s1"
      using Inr None by (simp add: api_Reconcile_def prog_simps s1_def Let_def)
    have spec: "api_Spec (inst s1) = api_Spec i0" by (simp add: s1_def ManilaAPI_updC_def)
    obtain x s' where wd: "?wd s1 = (x, s')" by fastforce
    have keep: "api_Spec (inst s') = api_Spec i0"
      using keepsI_run [OF apiP.with_deferred_keeps [OF _ api_body_keeps(1)] wd] spec
      by (simp add: ManilaAPI_updC_def)
    from apiP.with_deferred_report [OF wd] keep run wd Inr None show ?thesis
      by (auto simp: run_func split: outcome.splits prod.splits)
  qed
qed

section \<open>Readiness\<close>

text \<open>Readiness counts replicas only: a run that finds the stateful set at a generation its controller has not observed yet leaves the deployment condition alone and still marks the resource ready where the count of the last observation equals the replicas.\<close>

lemma api_ready_ignores_generation:
  assumes "sd_Generation ss \<noteq> sd_ObservedGeneration ss"
    and "atc_Replicas (at_Core (as_Template (api_Spec (inst s)))) = Some n"
    and "ast_ReadyCount (api_Status (inst s)) = n"
  shows "\<exists>s'. api_finish L h ss s = (Return (Result0, None), s') \<and> trace s' = trace s \<and>
    reported (ast_Conditions (api_Status (inst s'))) ReadyCondition =
      Some (CMarkTrue ReadyCondition (LibMsg ''ReadyMessage'')) \<and>
    reported (ast_Conditions (api_Status (inst s'))) DeploymentReadyCondition =
      reported (ast_Conditions (api_Status (inst s))) DeploymentReadyCondition"
  using assms
  by (simp add: api_finish_def prog_simps ManilaAPI_IsReady_def ManilaAPI_updC_def reported_cond_do)

lemma api_ready_ignores_generation_witness:
  "\<exists>s'. api_finish demo_lib ''h'' (demo_ss\<lparr>sd_Generation := 2\<rparr>) (demo_state demo_api) = (Return (Result0, None), s') \<and>
    reported (ast_Conditions (api_Status (inst s'))) ReadyCondition =
      Some (CMarkTrue ReadyCondition (LibMsg ''ReadyMessage''))"
  using api_ready_ignores_generation [of "demo_ss\<lparr>sd_Generation := 2\<rparr>" "demo_state demo_api" 1 demo_lib "''h''"]
  by (auto simp: demo_ss_def demo_api_def demo_api_template_def)

end
