(* ===== verification/SchedulerController.thy ===== *)
theory SchedulerController
  imports ChildConfig StatefulSets
begin

text \<open>
  The controller of the \<open>ManilaScheduler\<close> resource (\<open>internal/controller/manilascheduler_controller.go\<close>), in
  the phases of \<open>reconcileNormal\<close>; an early return of a phase is an early return of
  \<open>reconcileNormal\<close>.
\<close>

section \<open>Deletion\<close>

text \<open>
  The finalizer of the resource goes first, and the topology is released after it: where the
  release fails, the resource has lost its finalizer already.
\<close>

definition scheduler_reconcileDelete :: "lib \<Rightarrow> (ManilaScheduler st, reconcile_result, reconcile_result) prog" where
  "scheduler_reconcileDelete L =
     func (
       thenP (updI (\<lambda>i. i\<lparr>sch_Meta := l_RemoveFinalizer L (sch_Meta i) (l_GetFinalizer L ''ManilaScheduler'')\<rparr>))
       (bindP (getI (\<lambda>i. (sst_LastAppliedTopology (sch_Status i), om_Name (sch_Meta i)))) (\<lambda>(topo, name).
        bindP (call (EEnsureDeletedTopologyRef topo name)
                 (\<lambda>h. o_EnsureDeletedTopologyRef L h topo name)) (\<lambda>(ctrlResult, err).
        case err of
          Some e \<Rightarrow> ret (ctrlResult, Some e)
        | None \<Rightarrow> ret (Result0, None)))))"

section \<open>Configuration\<close>

definition scheduler_spec_service :: "ManilaScheduler \<Rightarrow> ManilaServiceTemplate" where
  "scheduler_spec_service i = stc_ServiceTemplate (sct_Core (scs_SchedulerTemplate (sch_Spec i)))"

definition scheduler_CaBundle :: "ManilaScheduler \<Rightarrow> string" where
  "scheduler_CaBundle i = ca_CaBundleSecretName (scs_TLS (sch_Spec i))"

definition scheduler_generateServiceConfig :: "lib \<Rightarrow> (ManilaScheduler st, reconcile_result, gerr option) prog" where
  "scheduler_generateServiceConfig L =
     func (
       bindP (getP (\<lambda>s. (inst s, svcLabels s))) (\<lambda>(i, serviceLabels).
       let labels = l_GetLabels L (sch_Meta i) manila_ServiceName serviceLabels;
           ns = om_Namespace (sch_Meta i);
           account = mt_DatabaseAccount (scs_ManilaTemplate (sch_Spec i)) in
       bindP (call (EGet ''MariaDBDatabase'' ns manila_DatabaseCRName)
                (\<lambda>h. o_GetDatabase L h account ns)) (\<lambda>dbr.
       case dbr of
         Inl err \<Rightarrow> ret (Some err)
       | Inr db \<Rightarrow>
           bindP (get_secret L ns (GetOwningManilaName (sch_Meta i) @ ''-config-data'')) (\<lambda>sr.
           case sr of
             Inl err \<Rightarrow> ret (Some err)
           | Inr (manilaSecret, h0) \<Rightarrow>
               bindP (custom_secrets L ns (st_CustomServiceConfigSecrets (scheduler_spec_service i))) (\<lambda>customSecrets.
               let customData =
                     [''my.cnf'' \<mapsto> db_ClientConfig db (scheduler_CaBundle i \<noteq> ''''),
                      CustomServiceConfigFileName \<mapsto> st_CustomServiceConfig (scheduler_spec_service i),
                      DefaultsConfigFileName \<mapsto> secret_data manilaSecret DefaultsConfigFileName,
                      CustomConfigFileName \<mapsto> secret_data manilaSecret CustomConfigFileName,
                      CustomServiceConfigSecretsFileName \<mapsto> customSecrets];
                   configTemplates =
                     [\<lparr>tm_Name = om_Name (sch_Meta i) @ ''-config-data'',
                       tm_Namespace = ns,
                       tm_Type = TemplateTypeConfig,
                       tm_InstanceType = sch_Kind i,
                       tm_CustomData = customData,
                       tm_ConfigOptions = Map.empty,
                       tm_CommonTemplates = [],
                       tm_Labels = labels\<rparr>] in
               bindP (getP cfgVars) (\<lambda>vars.
               bindP (call (EEnsureSecrets configTemplates)
                        (\<lambda>h. o_EnsureSecrets L h configTemplates vars)) (\<lambda>(vars', err).
               thenP (setVars vars') (ret err))))))))"

definition scheduler_Hash :: "ManilaScheduler \<Rightarrow> (string \<rightharpoonup> string) option" where
  "scheduler_Hash i = sst_Hash (sch_Status i)"

definition scheduler_setHash :: "(string \<rightharpoonup> string) option \<Rightarrow> ManilaScheduler \<Rightarrow> ManilaScheduler" where
  "scheduler_setHash m i = i\<lparr>sch_Status := (sch_Status i)\<lparr>sst_Hash := m\<rparr>\<rparr>"

interpretation schedH: hash_holder scheduler_Hash scheduler_setHash
  by unfold_locales (simp add: scheduler_Hash_def scheduler_setHash_def)

definition scheduler_createHashOfInputHashes :: "lib \<Rightarrow>
  (ManilaScheduler st, reconcile_result, string \<times> bool \<times> gerr option) prog" where
  "scheduler_createHashOfInputHashes L = createHash L scheduler_Hash scheduler_setHash"

section \<open>The phases of reconcileNormal\<close>

text \<open>The secrets the service needs, and their hashes.\<close>

definition scheduler_inputs :: "lib \<Rightarrow> (ManilaScheduler st, reconcile_result, unit) prog" where
  "scheduler_inputs L =
     thenP (setVars Map.empty)
     (bindP (getI id) (\<lambda>i.
      let ns = om_Namespace (sch_Meta i);
          tmpl = scs_ManilaTemplate (sch_Spec i) in
      bindP (verifyServiceSecret L ManilaScheduler_updC ns (mt_Secret tmpl)
               [psel_Service (mt_PasswordSelectors tmpl)] NormalDuration) (\<lambda>(ctrlResult, err).
      if err \<noteq> None \<or> ctrlResult \<noteq> Result0 then ret (ctrlResult, err)
      else
        (let parentManilaName = GetOwningManilaName (sch_Meta i);
             secretNames =
               [scs_NotificationsURLSecret (sch_Spec i),
                scs_TransportURLSecret (sch_Spec i),
                parentManilaName @ ''-scripts'',
                parentManilaName @ ''-config-data''] @
               st_CustomServiceConfigSecrets (scheduler_spec_service i) in
         bindP (verifyConfigSecrets L ManilaScheduler_updC secretNames ns) (\<lambda>(ctrlResult, err).
         if err \<noteq> None \<or> ctrlResult \<noteq> Result0 then ret (ctrlResult, err)
         else markTrue ManilaScheduler_updC InputReadyCondition (LibMsg ''InputReadyMessage''))))))"

text \<open>The TLS input: the CA bundle.\<close>

definition scheduler_tls :: "lib \<Rightarrow> (ManilaScheduler st, reconcile_result, unit) prog" where
  "scheduler_tls L =
     thenP
       (bindP (getI id) (\<lambda>i.
        let bundle = scheduler_CaBundle i; ns = om_Namespace (sch_Meta i) in
        whenP (bundle \<noteq> '''')
          (bindP (call (EValidateCACert ns bundle) (\<lambda>h. o_ValidateCACertSecret L h bundle ns)) (\<lambda>(hash, err).
           case err of
             Some e \<Rightarrow>
               if l_IsNotFound L e then
                 thenP (setFalse ManilaScheduler_updC TLSInputReadyCondition ErrorReason SeverityWarning
                          (LibMsg ''TLSInputReadyWaitingMessage'') [GErr e])
                   (ret (Result0, None))
               else
                 thenP (setFalse ManilaScheduler_updC TLSInputReadyCondition ErrorReason SeverityWarning
                          (LibMsg ''TLSInputErrorMessage'') [GErr e])
                   (ret (Result0, Some e))
           | None \<Rightarrow>
               whenP (hash \<noteq> '''') (setVar (l_const L ''tls.CABundleKey'') hash)))))
       (markTrue ManilaScheduler_updC TLSInputReadyCondition (LibMsg ''InputReadyMessage''))"

text \<open>The service configuration and the hash of all inputs.\<close>

definition scheduler_config :: "lib \<Rightarrow> (ManilaScheduler st, reconcile_result, string) prog" where
  "scheduler_config L =
     thenP (setLabels [l_const L ''common.AppSelector'' \<mapsto> manila_ServiceName,
              l_const L ''common.ComponentSelector'' \<mapsto> scheduler_ComponentName])
     (bindP (scheduler_generateServiceConfig L) (\<lambda>cerr.
      case cerr of
        Some e \<Rightarrow>
          thenP (setFalse ManilaScheduler_updC ServiceConfigReadyCondition ErrorReason SeverityWarning
                   (LibMsg ''ServiceConfigReadyErrorMessage'') [GErr e])
            (ret (Result0, Some e))
      | None \<Rightarrow>
          bindP (scheduler_createHashOfInputHashes L) (\<lambda>(inputHash, hashChanged, herr).
          case herr of
            Some e \<Rightarrow>
              thenP (setFalse ManilaScheduler_updC ServiceConfigReadyCondition ErrorReason SeverityWarning
                       (LibMsg ''ServiceConfigReadyErrorMessage'') [GErr e])
                (ret (Result0, Some e))
          | None \<Rightarrow>
              if hashChanged then
                thenP (markFalse ManilaScheduler_updC ServiceConfigReadyCondition InitReason SeverityInfo
                         (LibMsg ''ServiceConfigReadyInitMessage'') [])
                  (ret (Result0, None))
              else
                thenP (markTrue ManilaScheduler_updC ServiceConfigReadyCondition
                         (LibMsg ''ServiceConfigReadyMessage''))
                  (pureP inputHash))))"

text \<open>
  The deployment: the network attachments (whose requeue result is dropped), the topology,
  memcached, and the stateful set. A missing memcached instance name and a volume source
  that cannot be converted are panics.
\<close>

definition scheduler_topology_step :: "lib \<Rightarrow> (ManilaScheduler st, reconcile_result, Topology option) prog" where
  "scheduler_topology_step L =
     bindP (getP (\<lambda>s. (om_Name (sch_Meta (inst s)), svcLabels s))) (\<lambda>(name, serviceLabels).
     bindP (ensureTopology L scheduler_topology ManilaScheduler_updC name serviceLabels) (\<lambda>(topology, terr).
     case terr of
       Some e \<Rightarrow>
         thenP (setFalse ManilaScheduler_updC TopologyReadyCondition ErrorReason SeverityWarning
                  (LibMsg ''TopologyReadyErrorMessage'') [GErr e])
           (ret (Result0, Some (Errorf ''waiting for Topology requirements: %w'' [GErr e])))
     | None \<Rightarrow> pureP topology))"

definition scheduler_memcached :: "lib \<Rightarrow> (ManilaScheduler st, reconcile_result, Memcached) prog" where
  "scheduler_memcached L =
     bindP (getI id) (\<lambda>i.
     case scs_MemcachedInstance (sch_Spec i) of
       None \<Rightarrow> panic
     | Some name \<Rightarrow>
         bindP (call (EGet ''Memcached'' (om_Namespace (sch_Meta i)) name)
                  (\<lambda>h. o_GetMemcached L h name (om_Namespace (sch_Meta i)))) (\<lambda>r.
         case r of Inl e \<Rightarrow> ret (Result0, Some e) | Inr memcached \<Rightarrow> pureP memcached))"

definition scheduler_apply_statefulset :: "lib \<Rightarrow> string \<Rightarrow> (string \<rightharpoonup> string) \<Rightarrow> Topology option \<Rightarrow>
  Memcached \<Rightarrow> (ManilaScheduler st, reconcile_result, StatefulSetData) prog" where
  "scheduler_apply_statefulset L inputHash serviceAnnotations topology memcached =
     bindP (getP (\<lambda>s. (inst s, svcLabels s))) (\<lambda>(i, serviceLabels).
     case scheduler_StatefulSet L i inputHash serviceLabels serviceAnnotations topology memcached of
       None \<Rightarrow> panic
     | Some (Inl e) \<Rightarrow>
         thenP (setFalse ManilaScheduler_updC DeploymentReadyCondition ErrorReason SeverityWarning
                  (LibMsg ''DeploymentReadyErrorMessage'') [GErr e])
           (ret (Result0, Some e))
     | Some (Inr ssDef) \<Rightarrow>
         bindP (call (ECreateOrPatchStatefulSet ssDef)
                  (\<lambda>h. o_StatefulSetCreateOrPatch L h ssDef ShortDuration)) (\<lambda>(ss, ctrlResult, err).
         case err of
           Some e \<Rightarrow>
             thenP (setFalse ManilaScheduler_updC DeploymentReadyCondition ErrorReason SeverityWarning
                      (LibMsg ''DeploymentReadyErrorMessage'') [GErr e])
               (ret (ctrlResult, Some e))
         | None \<Rightarrow>
             if ctrlResult \<noteq> Result0 then
               thenP (setFalse ManilaScheduler_updC DeploymentReadyCondition RequestedReason SeverityInfo
                        (LibMsg ''DeploymentReadyRunningMessage'') [])
                 (ret (ctrlResult, None))
             else pureP ss))"

definition scheduler_deploy :: "lib \<Rightarrow> string \<Rightarrow> (ManilaScheduler st, reconcile_result, StatefulSetData) prog" where
  "scheduler_deploy L inputHash =
     bindP (getI id) (\<lambda>i.
     bindP (ensureNAD L ManilaScheduler_updC (om_Namespace (sch_Meta i))
              (st_NetworkAttachments (scheduler_spec_service i))) (\<lambda>(serviceAnnotations, ctrlResult, err).
     if err \<noteq> None then ret (ctrlResult, err)
     else
       bindP (scheduler_topology_step L) (\<lambda>topology.
       bindP (scheduler_memcached L) (\<lambda>memcached.
       scheduler_apply_statefulset L inputHash serviceAnnotations topology memcached))))"

text \<open>
  The status of a stateful set whose generation is observed: the ready count, the networks, and
  the readiness for the current input hash, on which alone the applied hash is updated.
\<close>

definition scheduler_network_status :: "lib \<Rightarrow> (ManilaScheduler st, reconcile_result, unit) prog" where
  "scheduler_network_status L =
     bindP (getP (\<lambda>s. (inst s, svcLabels s))) (\<lambda>(i, serviceLabels).
     let nads = st_NetworkAttachments (scheduler_spec_service i) in
     case stc_Replicas (sct_Core (scs_SchedulerTemplate (sch_Spec i))) of
       None \<Rightarrow> panic
     | Some replicas \<Rightarrow>
         bindP (if replicas > 0
                then call (EVerifyNetworkStatus nads) (\<lambda>h. o_VerifyNetworkStatus L h nads serviceLabels
                       (sst_ReadyCount (sch_Status i)))
                else pureP (True, Map.empty, None))
           (\<lambda>(networkReady, networkAttachmentStatus, err).
         case err of
           Some e \<Rightarrow>
             (let nerr = Errorf ''verifying API NetworkAttachments (%s) %w'' [GStrs nads, GErr e] in
              thenP (markFalse ManilaScheduler_updC NetworkAttachmentsReadyCondition ErrorReason SeverityWarning
                       (LibMsg ''NetworkAttachmentsReadyErrorMessage'') [GErr nerr])
                (ret (Result0, Some nerr)))
         | None \<Rightarrow>
             thenP (updI (\<lambda>i. i\<lparr>sch_Status :=
                      (sch_Status i)\<lparr>sst_NetworkAttachments := Some networkAttachmentStatus\<rparr>\<rparr>))
             (if networkReady then
                markTrue ManilaScheduler_updC NetworkAttachmentsReadyCondition
                  (LibMsg ''NetworkAttachmentsReadyMessage'')
              else
                (let nerr = Errorf ''%w: %s'' [GErr ErrNetworkAttachmentConfig, GStrs nads] in
                 thenP (setFalse ManilaScheduler_updC NetworkAttachmentsReadyCondition ErrorReason SeverityWarning
                          (LibMsg ''NetworkAttachmentsReadyErrorMessage'') [GErr nerr])
                   (ret (Result0, Some nerr))))))"

definition scheduler_rollout_status :: "lib \<Rightarrow> string \<Rightarrow> (ManilaScheduler st, reconcile_result, unit) prog" where
  "scheduler_rollout_status L inputHash =
     bindP (getI id) (\<lambda>i.
     let name = om_Name (sch_Meta i); ns = om_Namespace (sch_Meta i) in
     bindP (call (EIsReadyForInput name ns inputHash)
              (\<lambda>h. o_IsReadyForInput L h name ns inputHash)) (\<lambda>(ready, err).
     case err of
       Some e \<Rightarrow>
         ret (Result0, Some (Errorf ''failed to check statefulset readiness for %s: %w'' [GStr name, GErr e]))
     | None \<Rightarrow>
         if ready then
           thenP (markTrue ManilaScheduler_updC DeploymentReadyCondition (LibMsg ''DeploymentReadyMessage''))
           (case l_ObjectHash L [scs_TransportURLSecret (sch_Spec i), scs_NotificationsURLSecret (sch_Spec i)] of
              (h, Some e) \<Rightarrow>
                ret (Result0, Some (Errorf ''failed to compute input secret hash for %s: %w'' [GStr name, GErr e]))
            | (inputSecretHash, None) \<Rightarrow>
                updI (\<lambda>i. i\<lparr>sch_Status :=
                  (sch_Status i)\<lparr>sst_AppliedInputSecretHash := inputSecretHash\<rparr>\<rparr>))
         else
           (case stc_Replicas (sct_Core (scs_SchedulerTemplate (sch_Spec i))) of
              None \<Rightarrow> panic
            | Some replicas \<Rightarrow>
                if replicas > 0 then
                  setFalse ManilaScheduler_updC DeploymentReadyCondition RequestedReason SeverityInfo
                    (LibMsg ''DeploymentReadyRunningMessage'') []
                else
                  markFalse ManilaScheduler_updC DeploymentReadyCondition RequestedReason SeverityInfo
                    (LibMsg ''DeploymentReadyRunningMessage'') [])))"

definition scheduler_finish :: "lib \<Rightarrow> string \<Rightarrow> StatefulSetData \<Rightarrow>
  (ManilaScheduler st, reconcile_result, reconcile_result) prog" where
  "scheduler_finish L inputHash ss =
     thenP (whenP (sd_Generation ss = sd_ObservedGeneration ss)
              (thenP (updI (\<lambda>i. i\<lparr>sch_Status := (sch_Status i)\<lparr>sst_ReadyCount := sd_ReadyReplicas ss\<rparr>\<rparr>))
               (thenP (scheduler_network_status L) (scheduler_rollout_status L inputHash))))
     (bindP (getI ManilaScheduler_IsReady) (\<lambda>ready.
      case ready of
        None \<Rightarrow> panic
      | Some b \<Rightarrow>
          thenP (whenP b (markTrue ManilaScheduler_updC ReadyCondition (LibMsg ''ReadyMessage'')))
            (ret (Result0, None))))"

definition scheduler_reconcileNormal :: "lib \<Rightarrow> (ManilaScheduler st, reconcile_result, reconcile_result) prog" where
  "scheduler_reconcileNormal L =
     func (
       thenP (scheduler_inputs L)
       (thenP (scheduler_tls L)
       (bindP (scheduler_config L) (\<lambda>inputHash.
        bindP (scheduler_deploy L inputHash) (\<lambda>ss.
        scheduler_finish L inputHash ss)))))"

section \<open>Reconcile\<close>

definition scheduler_conditions :: "condition list" where
  "scheduler_conditions =
     [UnknownCondition ReadyCondition InitReason (LibMsg ''ReadyInitMessage''),
      UnknownCondition InputReadyCondition InitReason (LibMsg ''InputReadyInitMessage''),
      UnknownCondition ServiceConfigReadyCondition InitReason (LibMsg ''ServiceConfigReadyInitMessage''),
      UnknownCondition DeploymentReadyCondition InitReason (LibMsg ''DeploymentReadyInitMessage''),
      UnknownCondition NetworkAttachmentsReadyCondition InitReason
        (LibMsg ''NetworkAttachmentsReadyInitMessage''),
      UnknownCondition TLSInputReadyCondition InitReason (LibMsg ''InputReadyInitMessage'')]"

text \<open>
  What runs under the deferred exit. The topology condition a reference would add is set on the
  local list after the list was handed to \<open>Init\<close>, and the list is not read again: it leaves no
  trace here.
\<close>

definition scheduler_body :: "lib \<Rightarrow> bool \<Rightarrow> (ManilaScheduler st, reconcile_result, reconcile_result) prog" where
  "scheduler_body L isNewInstance =
     thenP (condP ManilaScheduler_updC (CInit scheduler_conditions))
     (thenP (updI (\<lambda>i. i\<lparr>sch_Status :=
        (sch_Status i)\<lparr>sst_ObservedGeneration := om_Generation (sch_Meta i)\<rparr>\<rparr>))
     (bindP (getI sch_Meta) (\<lambda>meta.
      let deleting = om_DeletionTimestamp meta \<noteq> None;
          added = l_AddFinalizer L meta (l_GetFinalizer L ''ManilaScheduler'') in
      thenP (whenP (\<not> deleting) (updI (\<lambda>i. i\<lparr>sch_Meta := snd added\<rparr>)))
      (if (\<not> deleting \<and> fst added) \<or> isNewInstance then ret (Result0, None)
       else
         thenP (updI (\<lambda>i. if sst_Hash (sch_Status i) = None
                  then i\<lparr>sch_Status := (sch_Status i)\<lparr>sst_Hash := Some Map.empty\<rparr>\<rparr> else i))
         (if deleting then scheduler_reconcileDelete L else scheduler_reconcileNormal L)))))"

definition scheduler_Reconcile :: "lib \<Rightarrow> NamespacedName \<Rightarrow> (ManilaScheduler st, reconcile_result, reconcile_result) prog" where
  "scheduler_Reconcile L req =
     func (
       bindP (call (EGet ''ManilaScheduler'' (nn_Namespace req) (nn_Name req)) (\<lambda>h. o_GetScheduler L h req)) (\<lambda>r.
       case r of
         Inl err \<Rightarrow> if l_IsNotFound L err then ret (Result0, None) else ret (Result0, Some err)
       | Inr i0 \<Rightarrow>
           thenP (updI (\<lambda>_. i0))
           (bindP (ask (\<lambda>h. o_NewHelper L h ''ManilaScheduler'')) (\<lambda>herr.
            case herr of
              Some err \<Rightarrow> ret (Result0, Some err)
            | None \<Rightarrow>
                (let isNewInstance = conds_nil (sst_Conditions (sch_Status i0)) in
                 thenP (whenP isNewInstance (updI (ManilaScheduler_updC (\<lambda>_. conds_empty))))
                   (with_deferred L (\<lambda>i. sst_Conditions (sch_Status i)) ManilaScheduler_updC EPatchScheduler
                      (scheduler_body L isNewInstance)))))))"

end
