(* ===== verification/SchedulerProps.thy ===== *)
theory SchedulerProps
  imports SchedulerController Reasoning Fixtures
begin

text \<open>
  The properties of the \<open>ManilaScheduler\<close> controller: what its phases emit and keep, the applied input
  hash, deletion.
\<close>

section \<open>Frames of the phases\<close>

lemma scheduler_input_emits:
  assumes "\<And>k ns n. E (EGet k ns n)" "\<And>ns n f. E (EVerifySecretFields ns n f)"
  shows "emits E (scheduler_inputs L)"
  unfolding scheduler_inputs_def by (intro emits_rules emits_helpers assms)

lemma scheduler_tls_emits:
  assumes "\<And>ns n. E (EValidateCACert ns n)"
  shows "emits E (scheduler_tls L)"
  unfolding scheduler_tls_def by (intro emits_rules assms)

lemma scheduler_config_emits:
  assumes "\<And>k ns n. E (EGet k ns n)" "\<And>t. E (EEnsureSecrets t)"
  shows "emits E (scheduler_config L)"
  unfolding scheduler_config_def scheduler_generateServiceConfig_def scheduler_createHashOfInputHashes_def
  by (intro emits_rules emits_helpers assms)

lemma scheduler_deploy_steps_emits:
  assumes "\<And>k ns n. E (EGet k ns n)" "\<And>a b f. E (EEnsureServiceTopology a b f)"
  shows "emits E (scheduler_topology_step L)" "emits E (scheduler_memcached L)"
  unfolding scheduler_topology_step_def scheduler_memcached_def
  by (intro emits_rules emits_helpers assms)+

lemma scheduler_emits_statefulset:
  assumes "\<And>i lbl ss. scheduler_StatefulSet L i h lbl ann topo mc = Some (Inr ss) \<Longrightarrow>
     E (ECreateOrPatchStatefulSet ss)"
  shows "emits E (scheduler_apply_statefulset L h ann topo mc)"
proof (rule framesI)
  fix s
  show "emits_rel E s (snd (scheduler_apply_statefulset L h ann topo mc s))"
    using assms [of "inst s" "svcLabels s"]
    by (auto simp: scheduler_apply_statefulset_def prog_simps emits_rel_def Let_def
        split: option.splits sum.splits prod.splits)
qed

lemma scheduler_deploy_emits:
  assumes "\<And>k ns n. E (EGet k ns n)" "\<And>a b f. E (EEnsureServiceTopology a b f)"
    "\<And>i lbl ann topo mc ss. scheduler_StatefulSet L i h lbl ann topo mc = Some (Inr ss) \<Longrightarrow>
       E (ECreateOrPatchStatefulSet ss)"
  shows "emits E (scheduler_deploy L h)"
  unfolding scheduler_deploy_def
  by (intro emits_rules emits_helpers scheduler_deploy_steps_emits scheduler_emits_statefulset assms)

lemma scheduler_finish_emits:
  assumes "\<And>x. E (EVerifyNetworkStatus x)" "\<And>n ns h. E (EIsReadyForInput n ns h)"
  shows "emits E (scheduler_finish L h ss)"
  unfolding scheduler_finish_def scheduler_network_status_def scheduler_rollout_status_def
  by (intro emits_rules assms)

lemmas scheduler_phase_emits = scheduler_input_emits scheduler_tls_emits scheduler_config_emits scheduler_deploy_emits scheduler_finish_emits

text \<open>What the phases keep of the resource, for a projection that the writes of the phase keep.\<close>

lemma scheduler_front_keeps:
  assumes "\<And>f i. g (ManilaScheduler_updC f i) = g i"
  shows "keepsI g (scheduler_inputs L)" "keepsI g (scheduler_tls L)"
  unfolding scheduler_inputs_def scheduler_tls_def
  by (intro keepsI_rules keepsI_helpers assms)+

lemma scheduler_generate_keeps: "keepsI g (scheduler_generateServiceConfig L)"
  unfolding scheduler_generateServiceConfig_def custom_secrets_def get_secret_def by (intro keepsI_rules)

lemma scheduler_config_keeps:
  assumes "\<And>f i. g (ManilaScheduler_updC f i) = g i" "\<And>m i. g (scheduler_setHash m i) = g i"
  shows "keepsI g (scheduler_config L)"
  unfolding scheduler_config_def scheduler_createHashOfInputHashes_def
  by (intro keepsI_rules keepsI_createHash scheduler_generate_keeps assms)

lemma scheduler_deploy_keeps:
  assumes "\<And>f i. g (ManilaScheduler_updC f i) = g i" "\<And>t i. g (ManilaScheduler_SetLastAppliedTopology t i) = g i"
  shows "keepsI g (scheduler_deploy L h)"
  unfolding scheduler_deploy_def scheduler_topology_step_def scheduler_memcached_def scheduler_apply_statefulset_def
  by (intro keepsI_rules keepsI_helpers keepsI_ensureTopology scheduler_front_keeps)
    (simp_all add: assms scheduler_topology_def)

lemma scheduler_finish_keeps:
  assumes "\<And>f i. g (ManilaScheduler_updC f i) = g i"
    "\<And>i n. g (i\<lparr>sch_Status := (sch_Status i)\<lparr>sst_ReadyCount := n\<rparr>\<rparr>) = g i"
    "\<And>i n. g (i\<lparr>sch_Status := (sch_Status i)\<lparr>sst_NetworkAttachments := n\<rparr>\<rparr>) = g i"
    "\<And>i n. g (i\<lparr>sch_Status := (sch_Status i)\<lparr>sst_AppliedInputSecretHash := n\<rparr>\<rparr>) = g i"
  shows "keepsI g (scheduler_finish L h ss)"
  unfolding scheduler_finish_def scheduler_network_status_def scheduler_rollout_status_def
  by (intro keepsI_rules assms)

lemmas scheduler_phase_keeps = scheduler_front_keeps scheduler_config_keeps scheduler_deploy_keeps scheduler_finish_keeps

lemma scheduler_reconcileNormal_keeps:
  "keepsI sch_Spec (scheduler_reconcileNormal L)" "keepsI sch_Meta (scheduler_reconcileNormal L)"
  "keepsI sch_Kind (scheduler_reconcileNormal L)"
  unfolding scheduler_reconcileNormal_def
  by (intro keeps.frame_func keeps.frame_bind scheduler_phase_keeps;
      simp add: ManilaScheduler_updC_def scheduler_setHash_def ManilaScheduler_SetLastAppliedTopology_def)+

section \<open>The applied input hash\<close>

definition scheduler_key :: "ManilaScheduler \<Rightarrow> string \<times> string \<times> string list" where
  "scheduler_key i = (om_Name (sch_Meta i), om_Namespace (sch_Meta i),
     [scs_TransportURLSecret (sch_Spec i), scs_NotificationsURLSecret (sch_Spec i)])"

definition scheduler_applied :: "ManilaScheduler \<Rightarrow> string" where
  "scheduler_applied i = sst_AppliedInputSecretHash (sch_Status i)"

lemma scheduler_rollout_applied: "frames (applied_rel L scheduler_key scheduler_applied) (scheduler_rollout_status L h)"
proof (rule framesI)
  fix s
  show "applied_rel L scheduler_key scheduler_applied s (snd (scheduler_rollout_status L h s))"
    by (auto simp: scheduler_rollout_status_def prog_simps applied_rel_def scheduler_key_def scheduler_applied_def
        ManilaScheduler_updC_def rollout_confirmed_def Let_def split: prod.splits option.splits)
qed

lemma scheduler_network_applied: "frames (applied_rel L scheduler_key scheduler_applied) (scheduler_network_status L)"
  by (rule applied_keep; unfold scheduler_network_status_def)
    (intro emits_rules keepsI_rules; simp add: ManilaScheduler_updC_def scheduler_key_def scheduler_applied_def)+

lemma scheduler_update_applied:
  assumes "\<And>i. scheduler_key (f i) = scheduler_key i" "\<And>i. scheduler_applied (f i) = scheduler_applied i"
  shows "frames (applied_rel L scheduler_key scheduler_applied) (updI f)"
  by (rule applied_keep) (intro emits_rules keepsI_rules assms TrueI)+

lemma scheduler_finish_applied: "frames (applied_rel L scheduler_key scheduler_applied) (scheduler_finish L h ss)"
proof -
  have "frames (applied_rel L scheduler_key scheduler_applied) (markTrue ManilaScheduler_updC t m)" for t m
    by (rule applied_keep) (intro emits_rules keepsI_rules; simp add: ManilaScheduler_updC_def scheduler_key_def scheduler_applied_def)+
  moreover have "frames (applied_rel L scheduler_key scheduler_applied) (getI g)" for g :: "ManilaScheduler \<Rightarrow> 'z"
    unfolding getI_def by (rule applied.frame_get)
  ultimately show ?thesis
    unfolding scheduler_finish_def
    by (intro applied.frame_rules frames_case scheduler_rollout_applied scheduler_network_applied scheduler_update_applied)
      (simp_all add: scheduler_key_def scheduler_applied_def)
qed

lemma scheduler_phase_applied:
  "frames (applied_rel L scheduler_key scheduler_applied) (scheduler_inputs L)"
  "frames (applied_rel L scheduler_key scheduler_applied) (scheduler_tls L)"
  "frames (applied_rel L scheduler_key scheduler_applied) (scheduler_config L)"
  "frames (applied_rel L scheduler_key scheduler_applied) (scheduler_deploy L h)"
  by (rule applied_keep; intro scheduler_phase_emits scheduler_phase_keeps;
      simp add: ManilaScheduler_updC_def scheduler_setHash_def ManilaScheduler_SetLastAppliedTopology_def scheduler_key_def scheduler_applied_def)+

lemma scheduler_reconcileNormal_applied: "frames (applied_rel L scheduler_key scheduler_applied) (scheduler_reconcileNormal L)"
  unfolding scheduler_reconcileNormal_def by (intro applied.frame_rules scheduler_phase_applied scheduler_finish_applied)

text \<open>ReconcileNormal of the scheduler moves AppliedInputSecretHash only after the cluster confirmed, in the same run, that the stateful set of the resource is ready for the input hash; the new value is then the hash of the two secret names of the spec.\<close>

lemma scheduler_applied_hash_confirmed:
  "let s' = snd (scheduler_reconcileNormal L s); i = inst s in
   sst_AppliedInputSecretHash (sch_Status (inst s')) = sst_AppliedInputSecretHash (sch_Status i) \<or>
   (rollout_confirmed L (trace s') (om_Name (sch_Meta i)) (om_Namespace (sch_Meta i)) \<and>
    l_ObjectHash L [scs_TransportURLSecret (sch_Spec i), scs_NotificationsURLSecret (sch_Spec i)] =
      (sst_AppliedInputSecretHash (sch_Status (inst s')), None))"
  using applied_D [OF scheduler_reconcileNormal_applied, where s = s] by (simp add: scheduler_key_def scheduler_applied_def Let_def)

section \<open>Deletion\<close>

text \<open>C38: deleting the scheduler removes its finalizer whatever the release of the topology answers: an error of that release leaves the resource without the finalizer that would bring it back.\<close>

theorem scheduler_delete_drops_finalizer_first:
  "case scheduler_reconcileDelete L s of
     (Next (res, err), s') \<Rightarrow>
       inst s' = (inst s)\<lparr>sch_Meta := l_RemoveFinalizer L (sch_Meta (inst s)) (l_GetFinalizer L ''ManilaScheduler'')\<rparr> \<and>
       (let topo = sst_LastAppliedTopology (sch_Status (inst s)); name = om_Name (sch_Meta (inst s')) in
        trace s' = trace s @ [EEnsureDeletedTopologyRef topo name] \<and>
        (res, err) = (case o_EnsureDeletedTopologyRef L (trace s) topo name of
            (r, Some e) \<Rightarrow> (r, Some e) | (r, None) \<Rightarrow> (Result0, None)))
   | _ \<Rightarrow> False"
  by (simp add: scheduler_reconcileDelete_def prog_simps Let_def split: prod.split option.split)

end
