(* ===== verification/ShareController.thy ===== *)
theory ShareController
  imports ChildConfig StatefulSets
begin

text \<open>
  The controller of the \<open>ManilaShare\<close> resource (\<open>internal/controller/manilashare_controller.go\<close>), in
  the phases of \<open>reconcileNormal\<close>; an early return of a phase is an early return of
  \<open>reconcileNormal\<close>. A share carries its name in a label, which
  its topology release and its service labels use.
\<close>

section \<open>Deletion\<close>

text \<open>
  The finalizer of the resource goes first, and the topology is released after it: where the
  release fails, the resource has lost its finalizer already.
\<close>

definition share_reconcileDelete :: "lib \<Rightarrow> (ManilaShare st, reconcile_result, reconcile_result) prog" where
  "share_reconcileDelete L =
     func (
       thenP (updI (\<lambda>i. i\<lparr>shr_Meta := l_RemoveFinalizer L (shr_Meta i) (l_GetFinalizer L ''ManilaShare'')\<rparr>))
       (bindP (getI (\<lambda>i. (hst_LastAppliedTopology (shr_Status i), ShareName i))) (\<lambda>(topo, name).
        bindP (call (EEnsureDeletedTopologyRef topo name)
                 (\<lambda>h. o_EnsureDeletedTopologyRef L h topo name)) (\<lambda>(ctrlResult, err).
        case err of
          Some e \<Rightarrow> ret (ctrlResult, Some e)
        | None \<Rightarrow> ret (Result0, None)))))"

section \<open>Configuration\<close>

definition share_spec_service :: "ManilaShare \<Rightarrow> ManilaServiceTemplate" where
  "share_spec_service i = htc_ServiceTemplate (ht_Core (hs_ShareTemplate (shr_Spec i)))"

definition share_CaBundle :: "ManilaShare \<Rightarrow> string" where
  "share_CaBundle i = ca_CaBundleSecretName (hs_TLS (shr_Spec i))"

definition share_generateServiceConfig :: "lib \<Rightarrow> (ManilaShare st, reconcile_result, gerr option) prog" where
  "share_generateServiceConfig L =
     func (
       bindP (getP (\<lambda>s. (inst s, svcLabels s))) (\<lambda>(i, serviceLabels).
       let labels = l_GetLabels L (shr_Meta i) manila_ServiceName serviceLabels;
           ns = om_Namespace (shr_Meta i);
           account = mt_DatabaseAccount (hs_ManilaTemplate (shr_Spec i)) in
       bindP (call (EGet ''MariaDBDatabase'' ns manila_DatabaseCRName)
                (\<lambda>h. o_GetDatabase L h account ns)) (\<lambda>dbr.
       case dbr of
         Inl err \<Rightarrow> ret (Some err)
       | Inr db \<Rightarrow>
           bindP (get_secret L ns (GetOwningManilaName (shr_Meta i) @ ''-config-data'')) (\<lambda>sr.
           case sr of
             Inl err \<Rightarrow> ret (Some err)
           | Inr (manilaSecret, h0) \<Rightarrow>
               bindP (custom_secrets L ns (st_CustomServiceConfigSecrets (share_spec_service i))) (\<lambda>customSecrets.
               let customData =
                     [''my.cnf'' \<mapsto> db_ClientConfig db (share_CaBundle i \<noteq> ''''),
                      CustomServiceConfigFileName \<mapsto> st_CustomServiceConfig (share_spec_service i),
                      DefaultsConfigFileName \<mapsto> secret_data manilaSecret DefaultsConfigFileName,
                      CustomConfigFileName \<mapsto> secret_data manilaSecret CustomConfigFileName,
                      CustomServiceConfigSecretsFileName \<mapsto> customSecrets];
                   configTemplates =
                     [\<lparr>tm_Name = om_Name (shr_Meta i) @ ''-config-data'',
                       tm_Namespace = ns,
                       tm_Type = TemplateTypeConfig,
                       tm_InstanceType = shr_Kind i,
                       tm_CustomData = customData,
                       tm_ConfigOptions = Map.empty,
                       tm_CommonTemplates = [],
                       tm_Labels = labels\<rparr>] in
               bindP (getP cfgVars) (\<lambda>vars.
               bindP (call (EEnsureSecrets configTemplates)
                        (\<lambda>h. o_EnsureSecrets L h configTemplates vars)) (\<lambda>(vars', err).
               thenP (setVars vars') (ret err))))))))"

definition share_Hash :: "ManilaShare \<Rightarrow> (string \<rightharpoonup> string) option" where
  "share_Hash i = hst_Hash (shr_Status i)"

definition share_setHash :: "(string \<rightharpoonup> string) option \<Rightarrow> ManilaShare \<Rightarrow> ManilaShare" where
  "share_setHash m i = i\<lparr>shr_Status := (shr_Status i)\<lparr>hst_Hash := m\<rparr>\<rparr>"

interpretation shareH: hash_holder share_Hash share_setHash
  by unfold_locales (simp add: share_Hash_def share_setHash_def)

definition share_createHashOfInputHashes :: "lib \<Rightarrow>
  (ManilaShare st, reconcile_result, string \<times> bool \<times> gerr option) prog" where
  "share_createHashOfInputHashes L = createHash L share_Hash share_setHash"

section \<open>The phases of reconcileNormal\<close>

text \<open>The secrets the service needs, and their hashes.\<close>

definition share_inputs :: "lib \<Rightarrow> (ManilaShare st, reconcile_result, unit) prog" where
  "share_inputs L =
     thenP (setVars Map.empty)
     (bindP (getI id) (\<lambda>i.
      let ns = om_Namespace (shr_Meta i);
          tmpl = hs_ManilaTemplate (shr_Spec i) in
      bindP (verifyServiceSecret L ManilaShare_updC ns (mt_Secret tmpl)
               [psel_Service (mt_PasswordSelectors tmpl)] NormalDuration) (\<lambda>(ctrlResult, err).
      if err \<noteq> None \<or> ctrlResult \<noteq> Result0 then ret (ctrlResult, err)
      else
        (let parentManilaName = GetOwningManilaName (shr_Meta i);
             secretNames =
               [hs_NotificationsURLSecret (shr_Spec i),
                hs_TransportURLSecret (shr_Spec i),
                parentManilaName @ ''-scripts'',
                parentManilaName @ ''-config-data''] @
               st_CustomServiceConfigSecrets (share_spec_service i) in
         bindP (verifyConfigSecrets L ManilaShare_updC secretNames ns) (\<lambda>(ctrlResult, err).
         if err \<noteq> None \<or> ctrlResult \<noteq> Result0 then ret (ctrlResult, err)
         else markTrue ManilaShare_updC InputReadyCondition (LibMsg ''InputReadyMessage''))))))"

text \<open>The TLS input: the CA bundle.\<close>

definition share_tls :: "lib \<Rightarrow> (ManilaShare st, reconcile_result, unit) prog" where
  "share_tls L =
     thenP
       (bindP (getI id) (\<lambda>i.
        let bundle = share_CaBundle i; ns = om_Namespace (shr_Meta i) in
        whenP (bundle \<noteq> '''')
          (bindP (call (EValidateCACert ns bundle) (\<lambda>h. o_ValidateCACertSecret L h bundle ns)) (\<lambda>(hash, err).
           case err of
             Some e \<Rightarrow>
               if l_IsNotFound L e then
                 thenP (setFalse ManilaShare_updC TLSInputReadyCondition ErrorReason SeverityWarning
                          (LibMsg ''TLSInputReadyWaitingMessage'') [GErr e])
                   (ret (Result0, None))
               else
                 thenP (setFalse ManilaShare_updC TLSInputReadyCondition ErrorReason SeverityWarning
                          (LibMsg ''TLSInputErrorMessage'') [GErr e])
                   (ret (Result0, Some e))
           | None \<Rightarrow>
               whenP (hash \<noteq> '''') (setVar (l_const L ''tls.CABundleKey'') hash)))))
       (markTrue ManilaShare_updC TLSInputReadyCondition (LibMsg ''InputReadyMessage''))"

text \<open>The service configuration and the hash of all inputs.\<close>

definition share_config :: "lib \<Rightarrow> (ManilaShare st, reconcile_result, string) prog" where
  "share_config L =
     thenP (bindP (getI id) (\<lambda>i.
            setLabels [l_const L ''common.AppSelector'' \<mapsto> manila_ServiceName,
              l_const L ''common.ComponentSelector'' \<mapsto> share_ComponentName,
              ShareNameLabel \<mapsto> ShareName i]))
     (bindP (share_generateServiceConfig L) (\<lambda>cerr.
      case cerr of
        Some e \<Rightarrow>
          thenP (setFalse ManilaShare_updC ServiceConfigReadyCondition ErrorReason SeverityWarning
                   (LibMsg ''ServiceConfigReadyErrorMessage'') [GErr e])
            (ret (Result0, Some e))
      | None \<Rightarrow>
          bindP (share_createHashOfInputHashes L) (\<lambda>(inputHash, hashChanged, herr).
          case herr of
            Some e \<Rightarrow>
              thenP (setFalse ManilaShare_updC ServiceConfigReadyCondition ErrorReason SeverityWarning
                       (LibMsg ''ServiceConfigReadyErrorMessage'') [GErr e])
                (ret (Result0, Some e))
          | None \<Rightarrow>
              if hashChanged then
                thenP (markFalse ManilaShare_updC ServiceConfigReadyCondition InitReason SeverityInfo
                         (LibMsg ''ServiceConfigReadyInitMessage'') [])
                  (ret (Result0, None))
              else
                thenP (markTrue ManilaShare_updC ServiceConfigReadyCondition
                         (LibMsg ''ServiceConfigReadyMessage''))
                  (pureP inputHash))))"

text \<open>
  The deployment: the network attachments (whose requeue result is dropped), the topology,
  memcached, and the stateful set. A missing memcached instance name and a volume source
  that cannot be converted are panics.
\<close>

definition share_topology_step :: "lib \<Rightarrow> (ManilaShare st, reconcile_result, Topology option) prog" where
  "share_topology_step L =
     bindP (getP (\<lambda>s. (om_Name (shr_Meta (inst s)), svcLabels s))) (\<lambda>(name, serviceLabels).
     bindP (ensureTopology L share_topology ManilaShare_updC name serviceLabels) (\<lambda>(topology, terr).
     case terr of
       Some e \<Rightarrow>
         thenP (setFalse ManilaShare_updC TopologyReadyCondition ErrorReason SeverityWarning
                  (LibMsg ''TopologyReadyErrorMessage'') [GErr e])
           (ret (Result0, Some (Errorf ''waiting for Topology requirements: %w'' [GErr e])))
     | None \<Rightarrow> pureP topology))"

definition share_memcached :: "lib \<Rightarrow> (ManilaShare st, reconcile_result, Memcached) prog" where
  "share_memcached L =
     bindP (getI id) (\<lambda>i.
     case hs_MemcachedInstance (shr_Spec i) of
       None \<Rightarrow> panic
     | Some name \<Rightarrow>
         bindP (call (EGet ''Memcached'' (om_Namespace (shr_Meta i)) name)
                  (\<lambda>h. o_GetMemcached L h name (om_Namespace (shr_Meta i)))) (\<lambda>r.
         case r of Inl e \<Rightarrow> ret (Result0, Some e) | Inr memcached \<Rightarrow> pureP memcached))"

definition share_apply_statefulset :: "lib \<Rightarrow> string \<Rightarrow> (string \<rightharpoonup> string) \<Rightarrow> Topology option \<Rightarrow>
  Memcached \<Rightarrow> (ManilaShare st, reconcile_result, StatefulSetData) prog" where
  "share_apply_statefulset L inputHash serviceAnnotations topology memcached =
     bindP (getP (\<lambda>s. (inst s, svcLabels s))) (\<lambda>(i, serviceLabels).
     case share_StatefulSet L i inputHash serviceLabels serviceAnnotations topology memcached of
       None \<Rightarrow> panic
     | Some (Inl e) \<Rightarrow>
         thenP (setFalse ManilaShare_updC DeploymentReadyCondition ErrorReason SeverityWarning
                  (LibMsg ''DeploymentReadyErrorMessage'') [GErr e])
           (ret (Result0, Some e))
     | Some (Inr ssDef) \<Rightarrow>
         bindP (call (ECreateOrPatchStatefulSet ssDef)
                  (\<lambda>h. o_StatefulSetCreateOrPatch L h ssDef ShortDuration)) (\<lambda>(ss, ctrlResult, err).
         case err of
           Some e \<Rightarrow>
             thenP (setFalse ManilaShare_updC DeploymentReadyCondition ErrorReason SeverityWarning
                      (LibMsg ''DeploymentReadyErrorMessage'') [GErr e])
               (ret (ctrlResult, Some e))
         | None \<Rightarrow>
             (let waiting = ctrlResult = Result0 \<and> sd_Generation ss \<noteq> sd_ObservedGeneration ss;
                  ctrlResult' = (if waiting then ResultRequeue else ctrlResult);
                  err' = (if waiting then Some (Errorf ''%w: %s'' [GErr ErrStatefulSetWaiting, GStr (sd_Name ss)])
                          else None)
              in if ctrlResult' \<noteq> Result0 then
                   thenP (setFalse ManilaShare_updC DeploymentReadyCondition RequestedReason SeverityInfo
                            (LibMsg ''DeploymentReadyRunningMessage'') [])
                     (ret (ctrlResult', err'))
                 else pureP ss)))"

definition share_deploy :: "lib \<Rightarrow> string \<Rightarrow> (ManilaShare st, reconcile_result, StatefulSetData) prog" where
  "share_deploy L inputHash =
     bindP (getI id) (\<lambda>i.
     bindP (ensureNAD L ManilaShare_updC (om_Namespace (shr_Meta i))
              (st_NetworkAttachments (share_spec_service i))) (\<lambda>(serviceAnnotations, ctrlResult, err).
     if err \<noteq> None then ret (ctrlResult, err)
     else
       bindP (share_topology_step L) (\<lambda>topology.
       bindP (share_memcached L) (\<lambda>memcached.
       share_apply_statefulset L inputHash serviceAnnotations topology memcached))))"

text \<open>
  The status of a stateful set whose generation is observed: the ready count, the networks, and
  the readiness for the current input hash, on which alone the applied hash is updated.
\<close>

definition share_network_status :: "lib \<Rightarrow> (ManilaShare st, reconcile_result, unit) prog" where
  "share_network_status L =
     bindP (getP (\<lambda>s. (inst s, svcLabels s))) (\<lambda>(i, serviceLabels).
     let nads = st_NetworkAttachments (share_spec_service i) in
     case htc_Replicas (ht_Core (hs_ShareTemplate (shr_Spec i))) of
       None \<Rightarrow> panic
     | Some replicas \<Rightarrow>
         bindP (if replicas > 0
                then call (EVerifyNetworkStatus nads) (\<lambda>h. o_VerifyNetworkStatus L h nads serviceLabels
                       (hst_ReadyCount (shr_Status i)))
                else pureP (True, Map.empty, None))
           (\<lambda>(networkReady, networkAttachmentStatus, err).
         case err of
           Some e \<Rightarrow>
             (let nerr = Errorf ''verifying API NetworkAttachments (%s) %w'' [GStrs nads, GErr e] in
              thenP (markFalse ManilaShare_updC NetworkAttachmentsReadyCondition ErrorReason SeverityWarning
                       (LibMsg ''NetworkAttachmentsReadyErrorMessage'') [GErr nerr])
                (ret (Result0, Some nerr)))
         | None \<Rightarrow>
             thenP (updI (\<lambda>i. i\<lparr>shr_Status :=
                      (shr_Status i)\<lparr>hst_NetworkAttachments := Some networkAttachmentStatus\<rparr>\<rparr>))
             (if networkReady then
                markTrue ManilaShare_updC NetworkAttachmentsReadyCondition
                  (LibMsg ''NetworkAttachmentsReadyMessage'')
              else
                (let nerr = Errorf ''%w: %s'' [GErr ErrNetworkAttachmentConfig, GStrs nads] in
                 thenP (setFalse ManilaShare_updC NetworkAttachmentsReadyCondition ErrorReason SeverityWarning
                          (LibMsg ''NetworkAttachmentsReadyErrorMessage'') [GErr nerr])
                   (ret (Result0, Some nerr))))))"

definition share_rollout_status :: "lib \<Rightarrow> string \<Rightarrow> (ManilaShare st, reconcile_result, unit) prog" where
  "share_rollout_status L inputHash =
     bindP (getI id) (\<lambda>i.
     let name = om_Name (shr_Meta i); ns = om_Namespace (shr_Meta i) in
     bindP (call (EIsReadyForInput name ns inputHash)
              (\<lambda>h. o_IsReadyForInput L h name ns inputHash)) (\<lambda>(ready, err).
     case err of
       Some e \<Rightarrow>
         ret (Result0, Some (Errorf ''failed to check statefulset readiness for %s: %w'' [GStr name, GErr e]))
     | None \<Rightarrow>
         if ready then
           thenP (markTrue ManilaShare_updC DeploymentReadyCondition (LibMsg ''DeploymentReadyMessage''))
           (case l_ObjectHash L [hs_TransportURLSecret (shr_Spec i), hs_NotificationsURLSecret (shr_Spec i)] of
              (h, Some e) \<Rightarrow>
                ret (Result0, Some (Errorf ''failed to compute input secret hash for %s: %w'' [GStr name, GErr e]))
            | (inputSecretHash, None) \<Rightarrow>
                updI (\<lambda>i. i\<lparr>shr_Status :=
                  (shr_Status i)\<lparr>hst_AppliedInputSecretHash := inputSecretHash\<rparr>\<rparr>))
         else
           (case htc_Replicas (ht_Core (hs_ShareTemplate (shr_Spec i))) of
              None \<Rightarrow> panic
            | Some replicas \<Rightarrow>
                if replicas > 0 then
                  setFalse ManilaShare_updC DeploymentReadyCondition RequestedReason SeverityInfo
                    (LibMsg ''DeploymentReadyRunningMessage'') []
                else
                  markFalse ManilaShare_updC DeploymentReadyCondition NotRequestedReason SeverityInfo
                    (LibMsg ''DeploymentReadyInitMessage'') [])))"

definition share_finish :: "lib \<Rightarrow> string \<Rightarrow> StatefulSetData \<Rightarrow>
  (ManilaShare st, reconcile_result, reconcile_result) prog" where
  "share_finish L inputHash ss =
     thenP (whenP (sd_Generation ss = sd_ObservedGeneration ss)
              (thenP (updI (\<lambda>i. i\<lparr>shr_Status := (shr_Status i)\<lparr>hst_ReadyCount := sd_ReadyReplicas ss\<rparr>\<rparr>))
               (thenP (share_network_status L) (share_rollout_status L inputHash))))
     (bindP (getI ManilaShare_IsReady) (\<lambda>ready.
      case ready of
        None \<Rightarrow> panic
      | Some b \<Rightarrow>
          thenP (whenP b (markTrue ManilaShare_updC ReadyCondition (LibMsg ''ReadyMessage'')))
            (ret (Result0, None))))"

definition share_reconcileNormal :: "lib \<Rightarrow> (ManilaShare st, reconcile_result, reconcile_result) prog" where
  "share_reconcileNormal L =
     func (
       thenP (share_inputs L)
       (thenP (share_tls L)
       (bindP (share_config L) (\<lambda>inputHash.
        bindP (share_deploy L inputHash) (\<lambda>ss.
        share_finish L inputHash ss)))))"

section \<open>Reconcile\<close>

definition share_conditions :: "condition list" where
  "share_conditions =
     [UnknownCondition ReadyCondition InitReason (LibMsg ''ReadyInitMessage''),
      UnknownCondition InputReadyCondition InitReason (LibMsg ''InputReadyInitMessage''),
      UnknownCondition ServiceConfigReadyCondition InitReason (LibMsg ''ServiceConfigReadyInitMessage''),
      UnknownCondition DeploymentReadyCondition InitReason (LibMsg ''DeploymentReadyInitMessage''),
      UnknownCondition NetworkAttachmentsReadyCondition InitReason
        (LibMsg ''NetworkAttachmentsReadyInitMessage''),
      UnknownCondition TLSInputReadyCondition InitReason (LibMsg ''InputReadyInitMessage'')]"

text \<open>
  What runs under the deferred exit. The topology condition a reference would add is set on the
  local list after the list was handed to \<open>Init\<close>, and the list is not read again: it leaves no
  trace here.
\<close>

definition share_body :: "lib \<Rightarrow> bool \<Rightarrow> (ManilaShare st, reconcile_result, reconcile_result) prog" where
  "share_body L isNewInstance =
     thenP (condP ManilaShare_updC (CInit share_conditions))
     (thenP (updI (\<lambda>i. i\<lparr>shr_Status :=
        (shr_Status i)\<lparr>hst_ObservedGeneration := om_Generation (shr_Meta i)\<rparr>\<rparr>))
     (bindP (getI shr_Meta) (\<lambda>meta.
      let deleting = om_DeletionTimestamp meta \<noteq> None;
          added = l_AddFinalizer L meta (l_GetFinalizer L ''ManilaShare'') in
      thenP (whenP (\<not> deleting) (updI (\<lambda>i. i\<lparr>shr_Meta := snd added\<rparr>)))
      (if (\<not> deleting \<and> fst added) \<or> isNewInstance then ret (Result0, None)
       else
         thenP (updI (\<lambda>i. if hst_Hash (shr_Status i) = None
                  then i\<lparr>shr_Status := (shr_Status i)\<lparr>hst_Hash := Some Map.empty\<rparr>\<rparr> else i))
         (if deleting then share_reconcileDelete L else share_reconcileNormal L)))))"

definition share_Reconcile :: "lib \<Rightarrow> NamespacedName \<Rightarrow> (ManilaShare st, reconcile_result, reconcile_result) prog" where
  "share_Reconcile L req =
     func (
       bindP (call (EGet ''ManilaShare'' (nn_Namespace req) (nn_Name req)) (\<lambda>h. o_GetShare L h req)) (\<lambda>r.
       case r of
         Inl err \<Rightarrow> if l_IsNotFound L err then ret (Result0, None) else ret (Result0, Some err)
       | Inr i0 \<Rightarrow>
           thenP (updI (\<lambda>_. i0))
           (bindP (ask (\<lambda>h. o_NewHelper L h ''ManilaShare'')) (\<lambda>herr.
            case herr of
              Some err \<Rightarrow> ret (Result0, Some err)
            | None \<Rightarrow>
                (let isNewInstance = conds_nil (hst_Conditions (shr_Status i0)) in
                 thenP (whenP isNewInstance (updI (ManilaShare_updC (\<lambda>_. conds_empty))))
                   (with_deferred L (\<lambda>i. hst_Conditions (shr_Status i)) ManilaShare_updC EPatchShare
                      (share_body L isNewInstance)))))))"

end
