(* ===== verification/ShareProps.thy ===== *)
theory ShareProps
  imports ShareController Reasoning Fixtures
begin

text \<open>
  The properties of the \<open>ManilaShare\<close> controller: what its phases emit and keep, the applied input
  hash, deletion and the wait for the generation of the stateful set.
\<close>

section \<open>Frames of the phases\<close>

lemma share_input_emits:
  assumes "\<And>k ns n. E (EGet k ns n)" "\<And>ns n f. E (EVerifySecretFields ns n f)"
  shows "emits E (share_inputs L)"
  unfolding share_inputs_def by (intro emits_rules emits_helpers assms)

lemma share_tls_emits:
  assumes "\<And>ns n. E (EValidateCACert ns n)"
  shows "emits E (share_tls L)"
  unfolding share_tls_def by (intro emits_rules assms)

lemma share_config_emits:
  assumes "\<And>k ns n. E (EGet k ns n)" "\<And>t. E (EEnsureSecrets t)"
  shows "emits E (share_config L)"
  unfolding share_config_def share_generateServiceConfig_def share_createHashOfInputHashes_def
  by (intro emits_rules emits_helpers assms)

lemma share_deploy_steps_emits:
  assumes "\<And>k ns n. E (EGet k ns n)" "\<And>a b f. E (EEnsureServiceTopology a b f)"
  shows "emits E (share_topology_step L)" "emits E (share_memcached L)"
  unfolding share_topology_step_def share_memcached_def
  by (intro emits_rules emits_helpers assms)+

lemma share_emits_statefulset:
  assumes "\<And>i lbl ss. share_StatefulSet L i h lbl ann topo mc = Some (Inr ss) \<Longrightarrow>
     E (ECreateOrPatchStatefulSet ss)"
  shows "emits E (share_apply_statefulset L h ann topo mc)"
proof (rule framesI)
  fix s
  show "emits_rel E s (snd (share_apply_statefulset L h ann topo mc s))"
    using assms [of "inst s" "svcLabels s"]
    by (auto simp: share_apply_statefulset_def prog_simps emits_rel_def Let_def
        split: option.splits sum.splits prod.splits)
qed

lemma share_deploy_emits:
  assumes "\<And>k ns n. E (EGet k ns n)" "\<And>a b f. E (EEnsureServiceTopology a b f)"
    "\<And>i lbl ann topo mc ss. share_StatefulSet L i h lbl ann topo mc = Some (Inr ss) \<Longrightarrow>
       E (ECreateOrPatchStatefulSet ss)"
  shows "emits E (share_deploy L h)"
  unfolding share_deploy_def
  by (intro emits_rules emits_helpers share_deploy_steps_emits share_emits_statefulset assms)

lemma share_finish_emits:
  assumes "\<And>x. E (EVerifyNetworkStatus x)" "\<And>n ns h. E (EIsReadyForInput n ns h)"
  shows "emits E (share_finish L h ss)"
  unfolding share_finish_def share_network_status_def share_rollout_status_def
  by (intro emits_rules assms)

lemmas share_phase_emits = share_input_emits share_tls_emits share_config_emits share_deploy_emits share_finish_emits

text \<open>What the phases keep of the resource, for a projection that the writes of the phase keep.\<close>

lemma share_front_keeps:
  assumes "\<And>f i. g (ManilaShare_updC f i) = g i"
  shows "keepsI g (share_inputs L)" "keepsI g (share_tls L)"
  unfolding share_inputs_def share_tls_def
  by (intro keepsI_rules keepsI_helpers assms)+

lemma share_generate_keeps: "keepsI g (share_generateServiceConfig L)"
  unfolding share_generateServiceConfig_def custom_secrets_def get_secret_def by (intro keepsI_rules)

lemma share_config_keeps:
  assumes "\<And>f i. g (ManilaShare_updC f i) = g i" "\<And>m i. g (share_setHash m i) = g i"
  shows "keepsI g (share_config L)"
  unfolding share_config_def share_createHashOfInputHashes_def
  by (intro keepsI_rules keepsI_createHash share_generate_keeps assms)

lemma share_deploy_keeps:
  assumes "\<And>f i. g (ManilaShare_updC f i) = g i" "\<And>t i. g (ManilaShare_SetLastAppliedTopology t i) = g i"
  shows "keepsI g (share_deploy L h)"
  unfolding share_deploy_def share_topology_step_def share_memcached_def share_apply_statefulset_def
  by (intro keepsI_rules keepsI_helpers keepsI_ensureTopology share_front_keeps)
    (simp_all add: assms share_topology_def)

lemma share_finish_keeps:
  assumes "\<And>f i. g (ManilaShare_updC f i) = g i"
    "\<And>i n. g (i\<lparr>shr_Status := (shr_Status i)\<lparr>hst_ReadyCount := n\<rparr>\<rparr>) = g i"
    "\<And>i n. g (i\<lparr>shr_Status := (shr_Status i)\<lparr>hst_NetworkAttachments := n\<rparr>\<rparr>) = g i"
    "\<And>i n. g (i\<lparr>shr_Status := (shr_Status i)\<lparr>hst_AppliedInputSecretHash := n\<rparr>\<rparr>) = g i"
  shows "keepsI g (share_finish L h ss)"
  unfolding share_finish_def share_network_status_def share_rollout_status_def
  by (intro keepsI_rules assms)

lemmas share_phase_keeps = share_front_keeps share_config_keeps share_deploy_keeps share_finish_keeps

lemma share_reconcileNormal_keeps:
  "keepsI shr_Spec (share_reconcileNormal L)" "keepsI shr_Meta (share_reconcileNormal L)"
  "keepsI shr_Kind (share_reconcileNormal L)"
  unfolding share_reconcileNormal_def
  by (intro keeps.frame_func keeps.frame_bind share_phase_keeps;
      simp add: ManilaShare_updC_def share_setHash_def ManilaShare_SetLastAppliedTopology_def)+

section \<open>The applied input hash\<close>

definition share_key :: "ManilaShare \<Rightarrow> string \<times> string \<times> string list" where
  "share_key i = (om_Name (shr_Meta i), om_Namespace (shr_Meta i),
     [hs_TransportURLSecret (shr_Spec i), hs_NotificationsURLSecret (shr_Spec i)])"

definition share_applied :: "ManilaShare \<Rightarrow> string" where
  "share_applied i = hst_AppliedInputSecretHash (shr_Status i)"

lemma share_rollout_applied: "frames (applied_rel L share_key share_applied) (share_rollout_status L h)"
proof (rule framesI)
  fix s
  show "applied_rel L share_key share_applied s (snd (share_rollout_status L h s))"
    by (auto simp: share_rollout_status_def prog_simps applied_rel_def share_key_def share_applied_def
        ManilaShare_updC_def rollout_confirmed_def Let_def split: prod.splits option.splits)
qed

lemma share_network_applied: "frames (applied_rel L share_key share_applied) (share_network_status L)"
  by (rule applied_keep; unfold share_network_status_def)
    (intro emits_rules keepsI_rules; simp add: ManilaShare_updC_def share_key_def share_applied_def)+

lemma share_update_applied:
  assumes "\<And>i. share_key (f i) = share_key i" "\<And>i. share_applied (f i) = share_applied i"
  shows "frames (applied_rel L share_key share_applied) (updI f)"
  by (rule applied_keep) (intro emits_rules keepsI_rules assms TrueI)+

lemma share_finish_applied: "frames (applied_rel L share_key share_applied) (share_finish L h ss)"
proof -
  have "frames (applied_rel L share_key share_applied) (markTrue ManilaShare_updC t m)" for t m
    by (rule applied_keep) (intro emits_rules keepsI_rules; simp add: ManilaShare_updC_def share_key_def share_applied_def)+
  moreover have "frames (applied_rel L share_key share_applied) (getI g)" for g :: "ManilaShare \<Rightarrow> 'z"
    unfolding getI_def by (rule applied.frame_get)
  ultimately show ?thesis
    unfolding share_finish_def
    by (intro applied.frame_rules frames_case share_rollout_applied share_network_applied share_update_applied)
      (simp_all add: share_key_def share_applied_def)
qed

lemma share_phase_applied:
  "frames (applied_rel L share_key share_applied) (share_inputs L)"
  "frames (applied_rel L share_key share_applied) (share_tls L)"
  "frames (applied_rel L share_key share_applied) (share_config L)"
  "frames (applied_rel L share_key share_applied) (share_deploy L h)"
  by (rule applied_keep; intro share_phase_emits share_phase_keeps;
      simp add: ManilaShare_updC_def share_setHash_def ManilaShare_SetLastAppliedTopology_def share_key_def share_applied_def)+

lemma share_reconcileNormal_applied: "frames (applied_rel L share_key share_applied) (share_reconcileNormal L)"
  unfolding share_reconcileNormal_def by (intro applied.frame_rules share_phase_applied share_finish_applied)

text \<open>ReconcileNormal of the share moves AppliedInputSecretHash only after the cluster confirmed, in the same run, that the stateful set of the resource is ready for the input hash; the new value is then the hash of the two secret names of the spec.\<close>

lemma share_applied_hash_confirmed:
  "let s' = snd (share_reconcileNormal L s); i = inst s in
   hst_AppliedInputSecretHash (shr_Status (inst s')) = hst_AppliedInputSecretHash (shr_Status i) \<or>
   (rollout_confirmed L (trace s') (om_Name (shr_Meta i)) (om_Namespace (shr_Meta i)) \<and>
    l_ObjectHash L [hs_TransportURLSecret (shr_Spec i), hs_NotificationsURLSecret (shr_Spec i)] =
      (hst_AppliedInputSecretHash (shr_Status (inst s')), None))"
  using applied_D [OF share_reconcileNormal_applied, where s = s] by (simp add: share_key_def share_applied_def Let_def)

section \<open>The topology finalizer\<close>

definition share_named :: "string \<Rightarrow> ManilaShare \<Rightarrow> bool" where
  "share_named nm i \<longleftrightarrow> om_Name (shr_Meta i) = nm"

definition topology_finalizer :: "event \<Rightarrow> string option" where
  "topology_finalizer e = (case e of
     EEnsureServiceTopology a b fin \<Rightarrow> Some fin
   | EEnsureDeletedTopologyRef a fin \<Rightarrow> Some fin
   | _ \<Rightarrow> None)"

lemma share_named_simps [simp]:
  "share_named nm (ManilaShare_updC f i) = share_named nm i"
  "share_named nm (share_setHash m i) = share_named nm i"
  "share_named nm (ManilaShare_SetLastAppliedTopology t i) = share_named nm i"
  "share_named nm (i\<lparr>shr_Status := st\<rparr>) = share_named nm i"
  by (simp_all add: share_named_def ManilaShare_updC_def share_setHash_def ManilaShare_SetLastAppliedTopology_def)

lemma share_topology_spells: "spells (share_named nm) topology_finalizer [nm] (share_topology_step L)"
  unfolding spells_def
  by (auto simp: share_topology_step_def ensureTopology_def prog_simps share_named_def topology_finalizer_def
      List.map_filter_def share_topology_def ManilaShare_updC_def ManilaShare_SetLastAppliedTopology_def
      split: sum.splits option.splits)

lemma share_quiet:
  "spells (share_named nm) topology_finalizer [] (share_inputs L)"
  "spells (share_named nm) topology_finalizer [] (share_tls L)"
  "spells (share_named nm) topology_finalizer [] (share_config L)"
  "spells (share_named nm) topology_finalizer [] (share_finish L h ss)"
  by (rule spells_silent; intro share_phase_emits share_phase_keeps; simp add: topology_finalizer_def)+

lemma share_deploy_quiet:
  "spells (share_named nm) topology_finalizer [] (ensureNAD L ManilaShare_updC ns nads)"
  "spells (share_named nm) topology_finalizer [] (share_memcached L)"
  "spells (share_named nm) topology_finalizer [] (share_apply_statefulset L h ann topo mc)"
    apply (rule spells_silent)
     apply (intro emits_helpers; simp add: topology_finalizer_def)
    apply (intro keepsI_helpers; simp)
   apply (rule spells_silent)
    apply (unfold share_memcached_def, intro emits_rules; simp add: topology_finalizer_def)
   apply (unfold share_memcached_def, intro keepsI_rules)
  apply (rule spells_silent)
   apply (rule share_emits_statefulset, simp add: topology_finalizer_def)
  apply (unfold share_apply_statefulset_def, intro keepsI_rules; simp)
  done

lemma share_deploy_spells: "spells (share_named nm) topology_finalizer [nm] (share_deploy L h)"
  unfolding share_deploy_def
  by (intro spells_getI spells_silent_then [OF share_deploy_quiet(1)] spells_case spells_stop
      spells_then_silent [OF share_topology_spells] spells_silent_then [OF share_deploy_quiet(2)] share_deploy_quiet(3))

lemma share_reconcileNormal_spells:
  assumes "share_named nm (inst s)"
  shows "prefix (List.map_filter topology_finalizer (events_of (share_reconcileNormal L) s)) [nm]"
  unfolding share_reconcileNormal_def
proof (rule spells_func [where P = "share_named nm"])
  show "share_named nm (inst s)" by (rule assms)
qed (intro spells_silent_then [OF share_quiet(1)] spells_silent_then [OF share_quiet(2)]
      spells_silent_then [OF share_quiet(3)] spells_then_silent [OF share_deploy_spells] share_quiet(4))

text \<open>C34: a share takes the topology under its resource name and gives it back under its share name: for the shares the parent creates the two finalizers differ, so the deletion never releases the one that was taken.\<close>

theorem share_topology_finalizer_mismatch:
  assumes "om_Name (shr_Meta (inst s)) = parent @ ''-share-'' @ ShareName (inst s)"
    and "\<And>m f. om_Labels (l_RemoveFinalizer L m f) = om_Labels m"
  shows "prefix (List.map_filter topology_finalizer (events_of (share_reconcileNormal L) s))
           [parent @ ''-share-'' @ ShareName (inst s)]
    \<and> List.map_filter topology_finalizer (events_of (share_reconcileDelete L) s) = [ShareName (inst s)]
    \<and> ShareName (inst s) \<noteq> parent @ ''-share-'' @ ShareName (inst s)"
proof (intro conjI)
  show "prefix (List.map_filter topology_finalizer (events_of (share_reconcileNormal L) s))
      [parent @ ''-share-'' @ ShareName (inst s)]"
    using assms(1) by (intro share_reconcileNormal_spells) (simp add: share_named_def)
  have "ShareName ((inst s)\<lparr>shr_Meta := l_RemoveFinalizer L (shr_Meta (inst s)) f\<rparr>) = ShareName (inst s)" for f
    by (simp add: ShareName_def assms(2))
  then show "List.map_filter topology_finalizer (events_of (share_reconcileDelete L) s) = [ShareName (inst s)]"
    by (simp add: share_reconcileDelete_def events_of_def prog_simps topology_finalizer_def List.map_filter_def
        split: prod.split option.split)
  have "length (ShareName (inst s)) < length (parent @ ''-share-'' @ ShareName (inst s))" by simp
  then show "ShareName (inst s) \<noteq> parent @ ''-share-'' @ ShareName (inst s)" by (metis less_irrefl)
qed

theorem share_topology_finalizer_mismatch_witness:
  "List.map_filter topology_finalizer (events_of (share_reconcileDelete demo_lib) (demo_state (demo_share ''a''))) = [''a'']"
proof -
  have "om_Name (shr_Meta (inst (demo_state (demo_share ''a'')))) = ''m'' @ ''-share-'' @ ShareName (inst (demo_state (demo_share ''a'')))"
    and name: "ShareName (inst (demo_state (demo_share ''a''))) = ''a''"
    by (simp_all add: demo_share_def demo_meta_def newMeta_def ShareName_def)
  from share_topology_finalizer_mismatch [where L = demo_lib, OF this(1) demo_RemoveFinalizer_labels]
  show ?thesis unfolding name by blast
qed

section \<open>The generation of the stateful set\<close>

text \<open>A share goes on past its stateful set only at the generation the cluster has observed; before that the run ends with a result or an error, and the deployment condition says that it is running or failed.\<close>

lemma share_waits_for_generation:
  "case share_apply_statefulset L h ann topo mc s of
     (Next ss, s') \<Rightarrow> sd_Generation ss = sd_ObservedGeneration ss \<and> inst s' = inst s
   | (Return (res, err), s') \<Rightarrow> (res, err) \<noteq> (Result0, None) \<and>
       (\<exists>r sv m a. reported (hst_Conditions (shr_Status (inst s'))) DeploymentReadyCondition =
          Some (CSet (Some (FalseCondition DeploymentReadyCondition r sv m a))))
   | (Panic, s') \<Rightarrow> True"
  by (auto simp: share_apply_statefulset_def prog_simps ManilaShare_updC_def reported_cond_do Let_def
      split: prod.splits option.splits sum.splits)

end
