(* ===== verification/ManilaDeploy.thy ===== *)
theory ManilaDeploy
  imports ChildConfig
begin

text \<open>
  The operations of the \<open>Manila\<close> controller on what it owns
  (\<open>internal/controller/manila_controller.go\<close>): the transport URLs, the three kinds of child
  resources, the database and the shares that left the spec.
\<close>

section \<open>Zero values\<close>

text \<open>The zero values Go gives the fields a struct literal leaves out.\<close>

definition conditions_zero :: conditions where
  "conditions_zero = \<lparr>cs_base = None, cs_ops = []\<rparr>"

definition probes_zero :: probes_OverrideSpec where
  "probes_zero = \<lparr>po_LivenessProbes = None, po_ReadinessProbes = None, po_StartupProbes = None\<rparr>"

definition ManilaTemplate_zero :: ManilaTemplate where
  "ManilaTemplate_zero = \<lparr>mt_ServiceUser = '''', mt_DatabaseAccount = '''', mt_Secret = '''',
     mt_PasswordSelectors = \<lparr>psel_Service = ''''\<rparr>\<rparr>"

definition ServiceTemplate_zero :: ManilaServiceTemplate where
  "ServiceTemplate_zero = \<lparr>st_NodeSelector = None, st_CustomServiceConfig = '''',
     st_CustomServiceConfigSecrets = [], st_Resources = '''', st_NetworkAttachments = [],
     st_TopologyRef = None\<rparr>"

definition tls_Ca_zero :: tls_Ca where
  "tls_Ca_zero = \<lparr>ca_CaBundleSecretName = ''''\<rparr>"

definition ManilaAPI_zero :: "ObjectMeta \<Rightarrow> ManilaAPI" where
  "ManilaAPI_zero meta = \<lparr>api_Kind = '''', api_Meta = meta,
     api_Spec = \<lparr>as_ManilaTemplate = ManilaTemplate_zero,
       as_Template = \<lparr>at_Core = \<lparr>atc_ServiceTemplate = ServiceTemplate_zero, atc_Replicas = None,
           atc_Override = \<lparr>ao_Service = Map.empty, ao_Probes = probes_zero\<rparr>,
           atc_TLS = \<lparr>tls_Internal = \<lparr>gs_SecretName = None\<rparr>, tls_Public = \<lparr>gs_SecretName = None\<rparr>,
             tls_CaOf = tls_Ca_zero\<rparr>\<rparr>,
         at_ContainerImage = ''''\<rparr>,
       as_DatabaseHostname = '''', as_TransportURLSecret = '''', as_NotificationsURLSecret = '''',
       as_ExtraMounts = [], as_ServiceAccount = '''', as_MemcachedInstance = None, as_APITimeout = 0\<rparr>,
     api_Status = \<lparr>ast_Hash = None, ast_Conditions = conditions_zero, ast_ReadyCount = 0,
       ast_NetworkAttachments = None, ast_ObservedGeneration = 0, ast_AppliedInputSecretHash = '''',
       ast_LastAppliedTopology = None\<rparr>\<rparr>"

definition ManilaScheduler_zero :: "ObjectMeta \<Rightarrow> ManilaScheduler" where
  "ManilaScheduler_zero meta = \<lparr>sch_Kind = '''', sch_Meta = meta,
     sch_Spec = \<lparr>scs_ManilaTemplate = ManilaTemplate_zero,
       scs_SchedulerTemplate = \<lparr>sct_Core = \<lparr>stc_ServiceTemplate = ServiceTemplate_zero,
           stc_Replicas = None, stc_Override = \<lparr>so_Probes = probes_zero\<rparr>\<rparr>, sct_ContainerImage = ''''\<rparr>,
       scs_DatabaseHostname = '''', scs_TransportURLSecret = '''', scs_NotificationsURLSecret = '''',
       scs_ExtraMounts = [], scs_ServiceAccount = '''', scs_MemcachedInstance = None,
       scs_TLS = tls_Ca_zero\<rparr>,
     sch_Status = \<lparr>sst_Hash = None, sst_Conditions = conditions_zero, sst_ReadyCount = 0,
       sst_NetworkAttachments = None, sst_ObservedGeneration = 0, sst_AppliedInputSecretHash = '''',
       sst_LastAppliedTopology = None\<rparr>\<rparr>"

definition ManilaShare_zero :: "ObjectMeta \<Rightarrow> ManilaShare" where
  "ManilaShare_zero meta = \<lparr>shr_Kind = '''', shr_Meta = meta,
     shr_Spec = \<lparr>hs_ManilaTemplate = ManilaTemplate_zero,
       hs_ShareTemplate = \<lparr>ht_Core = \<lparr>htc_ServiceTemplate = ServiceTemplate_zero,
           htc_Replicas = None, htc_Override = \<lparr>sho_Probes = probes_zero\<rparr>\<rparr>, ht_ContainerImage = ''''\<rparr>,
       hs_DatabaseHostname = '''', hs_TransportURLSecret = '''', hs_NotificationsURLSecret = '''',
       hs_ExtraMounts = [], hs_ServiceAccount = '''', hs_MemcachedInstance = None,
       hs_TLS = tls_Ca_zero\<rparr>,
     shr_Status = \<lparr>hst_Hash = None, hst_Conditions = conditions_zero, hst_ReadyCount = 0,
       hst_NetworkAttachments = None, hst_ObservedGeneration = 0, hst_AppliedInputSecretHash = '''',
       hst_LastAppliedTopology = None\<rparr>\<rparr>"

lemmas zero_defs = ManilaAPI_zero_def ManilaScheduler_zero_def ManilaShare_zero_def
  conditions_zero_def ManilaTemplate_zero_def ServiceTemplate_zero_def tls_Ca_zero_def
  probes_zero_def

section \<open>Transport URLs\<close>

text \<open>The notifications bus, where the spec enables one.\<close>

definition notifications_bus :: "Manila \<Rightarrow> RabbitMqConfig option" where
  "notifications_bus m = (case sb_NotificationsBus (ms_Base (man_Spec m)) of
       Some bus \<Rightarrow> if rq_Cluster bus \<noteq> '''' then Some bus else None
     | None \<Rightarrow> None)"

definition transportURL_name :: "Manila \<Rightarrow> bool \<Rightarrow> string" where
  "transportURL_name m isNotifications =
     (if isNotifications then om_Name (man_Meta m) @ ''-manila-notifications-transport''
      else om_Name (man_Meta m) @ ''-manila-transport'')"

definition transportURL_mutate :: "lib \<Rightarrow> Manila \<Rightarrow> RabbitMqConfig \<Rightarrow> TransportURL \<Rightarrow>
  gerr option \<times> TransportURL" where
  "transportURL_mutate L m rabbitMqConfig tu =
     (let tu1 = tu\<lparr>tu_RabbitmqClusterName := rq_Cluster rabbitMqConfig,
                 tu_Username := rq_User rabbitMqConfig,
                 tu_Vhost := rq_Vhost rabbitMqConfig\<rparr>
      in case l_SetControllerReference L (man_Meta m) (tu_Meta tu1) of
           (err, meta) \<Rightarrow> (err, tu1\<lparr>tu_Meta := meta\<rparr>))"

text \<open>
  The event of a \<open>CreateOrUpdate\<close> carries the object as the mutation leaves the literal it is
  given.
\<close>

definition transportURLCreateOrUpdate :: "lib \<Rightarrow> bool \<Rightarrow> RabbitMqConfig \<Rightarrow>
  (Manila st, reconcile_result, TransportURL \<times> op_result \<times> gerr option) prog" where
  "transportURLCreateOrUpdate L isNotifications rabbitMqConfig =
     bindP (getP (\<lambda>s. (inst s, svcLabels s))) (\<lambda>(m, serviceLabels).
     let transportURL = \<lparr>tu_Meta = (newMeta (transportURL_name m isNotifications)
                             (om_Namespace (man_Meta m)))\<lparr>om_Labels := serviceLabels\<rparr>,
           tu_RabbitmqClusterName = '''', tu_Username = '''', tu_Vhost = '''', tu_SecretName = ''''\<rparr>;
         mutate = transportURL_mutate L m rabbitMqConfig in
     call (ECreateOrUpdateTransportURL (snd (mutate transportURL)))
       (\<lambda>h. o_CreateOrUpdateTransportURL L h transportURL mutate))"

definition transportURLDeleted :: "lib \<Rightarrow> string \<Rightarrow> (Manila st, reconcile_result, gerr option) prog" where
  "transportURLDeleted L transportURLName =
     func (
       bindP (getI (\<lambda>m. om_Namespace (man_Meta m))) (\<lambda>ns.
       bindP (call (EDelete ''TransportURL'' ns transportURLName)
                (\<lambda>h. o_Delete L h ''TransportURL'' ns transportURLName)) (\<lambda>err.
       case err of
         Some e \<Rightarrow> if l_IsNotFound L e then ret None else ret (Some e)
       | None \<Rightarrow> ret None)))"

section \<open>Child resources\<close>

text \<open>A child inherits the node selector and the topology of the parent where it sets none.\<close>

definition inherit_template :: "Manila \<Rightarrow> ManilaServiceTemplate \<Rightarrow> ManilaServiceTemplate" where
  "inherit_template m t =
     (let t1 = (if st_NodeSelector t = None
                then t\<lparr>st_NodeSelector := sb_NodeSelector (ms_Base (man_Spec m))\<rparr> else t)
      in if st_TopologyRef t1 = None
         then t1\<lparr>st_TopologyRef := sb_TopologyRef (ms_Base (man_Spec m))\<rparr> else t1)"

definition manila_apiSpec :: "Manila \<Rightarrow> string \<Rightarrow> ManilaAPISpec" where
  "manila_apiSpec m transportURLSecretName =
     (let tmpl = ms_ManilaAPI (man_Spec m); core = at_Core tmpl in
      \<lparr>as_ManilaTemplate = sb_ManilaTemplate (ms_Base (man_Spec m)),
       as_Template = tmpl\<lparr>at_Core := core\<lparr>atc_ServiceTemplate :=
         inherit_template m (atc_ServiceTemplate core)\<rparr>\<rparr>,
       as_DatabaseHostname = mst_DatabaseHostname (man_Status m),
       as_TransportURLSecret = transportURLSecretName,
       as_NotificationsURLSecret = '''',
       as_ExtraMounts = sb_ExtraMounts (ms_Base (man_Spec m)),
       as_ServiceAccount = RbacResourceName m,
       as_MemcachedInstance = Some (sb_MemcachedInstance (ms_Base (man_Spec m))),
       as_APITimeout = sb_APITimeout (ms_Base (man_Spec m))\<rparr>)"

definition api_mutate :: "lib \<Rightarrow> Manila \<Rightarrow> string \<Rightarrow> string \<Rightarrow> ManilaAPI \<Rightarrow> gerr option \<times> ManilaAPI" where
  "api_mutate L m transportURLSecretName notificationsURLSecretName d =
     (let spec = manila_apiSpec m transportURLSecretName;
          d1 = d\<lparr>api_Spec := (if notifications_bus m \<noteq> None
                 then spec\<lparr>as_NotificationsURLSecret := notificationsURLSecretName\<rparr> else spec)\<rparr>
      in case l_SetControllerReference L (man_Meta m) (api_Meta d1) of
           (err, meta) \<Rightarrow> (err, d1\<lparr>api_Meta := meta\<rparr>))"

definition apiDeploymentCreateOrUpdate :: "lib \<Rightarrow> string \<Rightarrow> string \<Rightarrow>
  (Manila st, reconcile_result, ManilaAPI \<times> op_result \<times> gerr option) prog" where
  "apiDeploymentCreateOrUpdate L transportURLSecretName notificationsURLSecretName =
     bindP (getI id) (\<lambda>m.
     let deployment = ManilaAPI_zero ((newMeta (om_Name (man_Meta m) @ ''-api'')
           (om_Namespace (man_Meta m)))\<lparr>om_Annotations := om_Annotations (man_Meta m)\<rparr>);
         mutate = api_mutate L m transportURLSecretName notificationsURLSecretName in
     call (ECreateOrUpdateAPI (snd (mutate deployment)))
       (\<lambda>h. o_CreateOrUpdateAPI L h deployment mutate))"

definition manila_schedulerSpec :: "Manila \<Rightarrow> string \<Rightarrow> ManilaSchedulerSpec" where
  "manila_schedulerSpec m transportURLSecretName =
     (let tmpl = ms_ManilaScheduler (man_Spec m); core = sct_Core tmpl in
      \<lparr>scs_ManilaTemplate = sb_ManilaTemplate (ms_Base (man_Spec m)),
       scs_SchedulerTemplate = tmpl\<lparr>sct_Core := core\<lparr>stc_ServiceTemplate :=
         inherit_template m (stc_ServiceTemplate core)\<rparr>\<rparr>,
       scs_DatabaseHostname = mst_DatabaseHostname (man_Status m),
       scs_TransportURLSecret = transportURLSecretName,
       scs_NotificationsURLSecret = '''',
       scs_ExtraMounts = sb_ExtraMounts (ms_Base (man_Spec m)),
       scs_ServiceAccount = RbacResourceName m,
       scs_MemcachedInstance = Some (sb_MemcachedInstance (ms_Base (man_Spec m))),
       scs_TLS = manila_tls_Ca m\<rparr>)"

definition scheduler_mutate :: "lib \<Rightarrow> Manila \<Rightarrow> string \<Rightarrow> string \<Rightarrow> ManilaScheduler \<Rightarrow>
  gerr option \<times> ManilaScheduler" where
  "scheduler_mutate L m transportURLSecretName notificationsURLSecretName d =
     (let spec = manila_schedulerSpec m transportURLSecretName;
          d1 = d\<lparr>sch_Spec := (if notifications_bus m \<noteq> None
                 then spec\<lparr>scs_NotificationsURLSecret := notificationsURLSecretName\<rparr> else spec)\<rparr>
      in case l_SetControllerReference L (man_Meta m) (sch_Meta d1) of
           (err, meta) \<Rightarrow> (err, d1\<lparr>sch_Meta := meta\<rparr>))"

definition schedulerDeploymentCreateOrUpdate :: "lib \<Rightarrow> string \<Rightarrow> string \<Rightarrow>
  (Manila st, reconcile_result, ManilaScheduler \<times> op_result \<times> gerr option) prog" where
  "schedulerDeploymentCreateOrUpdate L transportURLSecretName notificationsURLSecretName =
     bindP (getI id) (\<lambda>m.
     let deployment = ManilaScheduler_zero (newMeta (om_Name (man_Meta m) @ ''-scheduler'')
           (om_Namespace (man_Meta m)));
         mutate = scheduler_mutate L m transportURLSecretName notificationsURLSecretName in
     call (ECreateOrUpdateScheduler (snd (mutate deployment)))
       (\<lambda>h. o_CreateOrUpdateScheduler L h deployment mutate))"

definition manila_shareSpec :: "Manila \<Rightarrow> ManilaShareTemplate \<Rightarrow> string \<Rightarrow> ManilaShareSpec" where
  "manila_shareSpec m share transportURLSecretName =
     (let core = ht_Core share in
      \<lparr>hs_ManilaTemplate = sb_ManilaTemplate (ms_Base (man_Spec m)),
       hs_ShareTemplate = share\<lparr>ht_Core := core\<lparr>htc_ServiceTemplate :=
         inherit_template m (htc_ServiceTemplate core)\<rparr>\<rparr>,
       hs_DatabaseHostname = mst_DatabaseHostname (man_Status m),
       hs_TransportURLSecret = transportURLSecretName,
       hs_NotificationsURLSecret = '''',
       hs_ExtraMounts = sb_ExtraMounts (ms_Base (man_Spec m)),
       hs_ServiceAccount = RbacResourceName m,
       hs_MemcachedInstance = Some (sb_MemcachedInstance (ms_Base (man_Spec m))),
       hs_TLS = manila_tls_Ca m\<rparr>)"

definition share_mutate :: "lib \<Rightarrow> Manila \<Rightarrow> ManilaShareTemplate \<Rightarrow> string \<Rightarrow> string \<Rightarrow> ManilaShare \<Rightarrow>
  gerr option \<times> ManilaShare" where
  "share_mutate L m share transportURLSecretName notificationsURLSecretName d =
     (let spec = manila_shareSpec m share transportURLSecretName;
          d1 = d\<lparr>shr_Spec := (if notifications_bus m \<noteq> None
                 then spec\<lparr>hs_NotificationsURLSecret := notificationsURLSecretName\<rparr> else spec)\<rparr>
      in case l_SetControllerReference L (man_Meta m) (shr_Meta d1) of
           (err, meta) \<Rightarrow> (err, d1\<lparr>shr_Meta := meta\<rparr>))"

text \<open>The share name is written into the label map of the caller, which the labels of the share are.\<close>

definition shareDeploymentCreateOrUpdate :: "lib \<Rightarrow> string \<Rightarrow> ManilaShareTemplate \<Rightarrow> string \<Rightarrow>
  string \<Rightarrow> (Manila st, reconcile_result, ManilaShare \<times> op_result \<times> gerr option) prog" where
  "shareDeploymentCreateOrUpdate L name share transportURLSecretName notificationsURLSecretName =
     bindP (getP svcLabels) (\<lambda>labels0.
     thenP (setLabels (labels0(ShareNameLabel \<mapsto> name)))
     (bindP (getP (\<lambda>s. (inst s, svcLabels s))) (\<lambda>(m, serviceLabels).
     let deployment = ManilaShare_zero ((newMeta (om_Name (man_Meta m) @ ''-share-'' @ name)
           (om_Namespace (man_Meta m)))\<lparr>om_Labels := serviceLabels\<rparr>);
         mutate = share_mutate L m share transportURLSecretName notificationsURLSecretName in
     call (ECreateOrUpdateShare (snd (mutate deployment)))
       (\<lambda>h. o_CreateOrUpdateShare L h deployment mutate))))"

section \<open>The database\<close>

definition manila_db_request :: "Manila \<Rightarrow> DatabaseRequest" where
  "manila_db_request m =
     \<lparr>dr_Instance = sb_DatabaseInstance (ms_Base (man_Spec m)),
      dr_DatabaseName = manila_DatabaseName,
      dr_CRName = manila_DatabaseCRName,
      dr_Account = mt_DatabaseAccount (sb_ManilaTemplate (ms_Base (man_Spec m))),
      dr_Namespace = om_Namespace (man_Meta m)\<rparr>"

definition ensureDB_failed :: "gerr \<Rightarrow> (Manila st, 'r, unit) prog" where
  "ensureDB_failed e =
     setFalse Manila_updC DBReadyCondition ErrorReason SeverityWarning
       (LibMsg ''DBReadyErrorMessage'') [GErr e]"

definition ensureDB_running :: "(Manila st, 'r, unit) prog" where
  "ensureDB_running =
     setFalse Manila_updC DBReadyCondition RequestedReason SeverityInfo
       (LibMsg ''DBReadyRunningMessage'') []"

definition ensureDB :: "lib \<Rightarrow>
  (Manila st, reconcile_result, Database option \<times> ctrl_result \<times> gerr option) prog" where
  "ensureDB L =
     func (
       bindP (getI id) (\<lambda>m.
       let account = mt_DatabaseAccount (sb_ManilaTemplate (ms_Base (man_Spec m)));
           ns = om_Namespace (man_Meta m);
           req = manila_db_request m in
       bindP (call (EEnsureMariaDBAccount account ns)
                (\<lambda>h. o_EnsureMariaDBAccount L h account ns manila_DatabaseUsernamePrefix)) (\<lambda>aerr.
       case aerr of
         Some e \<Rightarrow>
           thenP (setFalse Manila_updC MariaDBAccountReadyCondition ErrorReason SeverityWarning
                    (LibMsg ''MariaDBAccountNotReadyMessage'') [GErr e])
             (ret (None, Result0, Some e))
       | None \<Rightarrow>
           thenP (markTrue Manila_updC MariaDBAccountReadyCondition
                    (LibMsg ''MariaDBAccountReadyMessage''))
           (bindP (call (ECreateOrPatchDB req) (\<lambda>h. o_CreateOrPatchDB L h req)) (\<lambda>(ctrlResult, err).
            bindP (ask (\<lambda>h. o_DatabaseObj L h req)) (\<lambda>db.
            case err of
              Some e \<Rightarrow> thenP (ensureDB_failed e) (ret (Some db, Result0, Some e))
            | None \<Rightarrow>
                if ctrlResult \<noteq> Result0 then
                  thenP ensureDB_running (ret (Some db, ctrlResult, None))
                else
                  bindP (call (EWaitForDBCreated req) (\<lambda>h. o_WaitForDBCreated L h req)) (\<lambda>(wres, werr).
                  bindP (ask (\<lambda>h. o_DatabaseObj L h req)) (\<lambda>db.
                  case werr of
                    Some e \<Rightarrow> thenP (ensureDB_failed e) (ret (Some db, wres, Some e))
                  | None \<Rightarrow>
                      if wres \<noteq> Result0 then
                        thenP ensureDB_running (ret (Some db, wres, None))
                      else
                        thenP (updI (\<lambda>m. m\<lparr>man_Status :=
                                 (man_Status m)\<lparr>mst_DatabaseHostname := db_Hostname db\<rparr>\<rparr>))
                        (thenP (markTrue Manila_updC DBReadyCondition (LibMsg ''DBReadyMessage''))
                           (ret (Some db, wres, None)))))))))))"

section \<open>Shares that left the spec\<close>

definition shareCleanup_step :: "lib \<Rightarrow> ManilaShare \<Rightarrow> bool \<times> string list \<Rightarrow>
  (Manila st, bool \<times> string \<times> gerr option, bool \<times> string list) prog" where
  "shareCleanup_step L share = (\<lambda>(cleanJob, deletedShares).
     bindP (getI id) (\<lambda>m.
     if GetOwningManilaName (shr_Meta share) \<noteq> om_Name (man_Meta m) then pureP (cleanJob, deletedShares)
     else if map_of (ms_ManilaShares (man_Spec m)) (ShareName share) = None \<and>
             om_DeletionTimestamp (shr_Meta share) = None then
       (let ns = om_Namespace (shr_Meta share); name = om_Name (shr_Meta share) in
        bindP (call (EDelete ''ManilaShare'' ns name) (\<lambda>h. o_Delete L h ''ManilaShare'' ns name)) (\<lambda>err.
        case (case err of Some e \<Rightarrow> if l_IsNotFound L e then None else Some e | None \<Rightarrow> None) of
          Some e \<Rightarrow> ret (cleanJob, '''', Some (Errorf ''error cleaning up %s: %w'' [GStr name, GErr e]))
        | None \<Rightarrow>
            thenP (updI (\<lambda>m. m\<lparr>man_Status := (man_Status m)\<lparr>mst_ManilaSharesReadyCounts :=
                     map_option (\<lambda>c. c(ShareName share := None))
                       (mst_ManilaSharesReadyCounts (man_Status m))\<rparr>\<rparr>))
              (pureP (True, deletedShares @ [ShareName share]))))
     else pureP (cleanJob, deletedShares)))"

definition shareCleanup :: "lib \<Rightarrow> (Manila st, reconcile_result, bool \<times> string \<times> gerr option) prog" where
  "shareCleanup L =
     func (
       bindP (getI (\<lambda>m. om_Namespace (man_Meta m))) (\<lambda>ns.
       bindP (call (EList ''ManilaShare'' ns None) (\<lambda>h. o_ListShares L h ns None)) (\<lambda>r.
       case r of
         Inl err \<Rightarrow> ret (False, '''', None)
       | Inr items \<Rightarrow>
           bindP (foldP (shareCleanup_step L) items (False, [])) (\<lambda>(cleanJob, deletedShares).
           case SharesListHash L deletedShares of
             (hash, Some e) \<Rightarrow> ret (False, hash, Some e)
           | (hash, None) \<Rightarrow> ret (cleanJob, hash, None)))))"

section \<open>Configuration\<close>

definition manila_Hash :: "Manila \<Rightarrow> (string \<rightharpoonup> string) option" where
  "manila_Hash m = mst_Hash (man_Status m)"

definition manila_setHash :: "(string \<rightharpoonup> string) option \<Rightarrow> Manila \<Rightarrow> Manila" where
  "manila_setHash h m = m\<lparr>man_Status := (man_Status m)\<lparr>mst_Hash := h\<rparr>\<rparr>"

interpretation manilaH: hash_holder manila_Hash manila_setHash
  by unfold_locales (simp add: manila_Hash_def manila_setHash_def)

definition manila_createHashOfInputHashes :: "lib \<Rightarrow>
  (Manila st, reconcile_result, string \<times> bool \<times> gerr option) prog" where
  "manila_createHashOfInputHashes L = createHash L manila_Hash manila_setHash"

text \<open>The virtual hosts of the API, one map for each endpoint type.\<close>

definition vhost_config :: "lib \<Rightarrow> Manila \<Rightarrow> endpoint \<Rightarrow> tval" where
  "vhost_config L m endpt =
     TMap ([(''ServerName'', TStr (manila_ServiceName @ ''-'' @ endpoint_String endpt @ ''.'' @
               om_Namespace (man_Meta m) @ ''.svc''))] @
       (if l_TLSEnabled L (atc_TLS (at_Core (ms_ManilaAPI (man_Spec m)))) endpt
        then [(''TLS'', TBool True),
              (''SSLCertificateFile'', TStr (''/etc/pki/tls/certs/'' @ endpoint_String endpt @ ''.crt'')),
              (''SSLCertificateKeyFile'', TStr (''/etc/pki/tls/private/'' @ endpoint_String endpt @ ''.key''))]
        else [(''TLS'', TBool False)]))"

text \<open>The parameters every instance has.\<close>

definition base_parameters :: "lib \<Rightarrow> Manila \<Rightarrow> Memcached \<Rightarrow> Database \<Rightarrow> Secret \<Rightarrow> Secret \<Rightarrow>
  KeystoneAPI \<Rightarrow> string \<Rightarrow> string \<Rightarrow> (string \<rightharpoonup> tval)" where
  "base_parameters L m memcached db ospSecret transportURLSecret keystoneAPI publicURL internalURL =
     (let tmpl = sb_ManilaTemplate (ms_Base (man_Spec m));
          password = (case db_SecretData db (l_const L ''mariadbv1.DatabasePasswordSelector'') of
                        Some v \<Rightarrow> v | None \<Rightarrow> '''') in
      [''ServiceUser'' \<mapsto> TStr (mt_ServiceUser tmpl),
       ''ServicePassword'' \<mapsto> TStr (secret_data ospSecret (psel_Service (mt_PasswordSelectors tmpl))),
       ''KeystonePublicURL'' \<mapsto> TStr publicURL,
       ''KeystoneInternalURL'' \<mapsto> TStr internalURL,
       ''TransportURL'' \<mapsto> TStr (secret_data transportURLSecret ''transport_url''),
       ''DatabaseConnection'' \<mapsto> TStr (''mysql+pymysql://'' @ db_AccountUserName db @ '':'' @ password @
          ''@'' @ mst_DatabaseHostname (man_Status m) @ ''/'' @ manila_DatabaseCRName @
          ''?read_default_file=/etc/my.cnf''),
       ''MemcachedServersWithInet'' \<mapsto> TStr (mc_ServerListWithInet memcached),
       ''MemcachedServers'' \<mapsto> TStr (mc_ServerList memcached),
       ''MemcachedTLS'' \<mapsto> TBool (mc_TLSSupport memcached),
       ''TimeOut'' \<mapsto> TInt (sb_APITimeout (ms_Base (man_Spec m))),
       ''Region'' \<mapsto> TStr (ka_Region keystoneAPI)])"

definition mtls_parameters :: "lib \<Rightarrow> Memcached \<Rightarrow> (string \<rightharpoonup> tval)" where
  "mtls_parameters L memcached =
     (if mc_MTLSSecret memcached \<noteq> '''' then
        [''MemcachedAuthCert'' \<mapsto> TStr (l_const L ''memcachedv1.CertMountPath()''),
         ''MemcachedAuthKey'' \<mapsto> TStr (l_const L ''memcachedv1.KeyMountPath()''),
         ''MemcachedAuthCa'' \<mapsto> TStr (l_const L ''memcachedv1.CaMountPath()'')]
      else Map.empty)"

text \<open>The application credential: both keys have to be there and not empty.\<close>

definition ac_parameters :: "lib \<Rightarrow> (Manila st, gerr option, (string \<rightharpoonup> tval)) prog" where
  "ac_parameters L =
     bindP (getI id) (\<lambda>m.
     let acSecret = auth_ApplicationCredentialSecret (sb_Auth (ms_Base (man_Spec m)));
         ns = om_Namespace (man_Meta m) in
     if acSecret = '''' then pureP Map.empty
     else
       bindP (get_secret L ns acSecret) (\<lambda>r.
       case r of
         Inl err \<Rightarrow>
           if l_IsNotFound L err then ret (Some (Errorf ''%w: %s'' [GErr ErrACSecretNotFound, GStr acSecret]))
           else ret (Some err)
       | Inr (acSecretObj, h0) \<Rightarrow>
           (case (map_of (sec_Data acSecretObj) (l_const L ''keystonev1.ACIDSecretKey''),
                  map_of (sec_Data acSecretObj) (l_const L ''keystonev1.ACSecretSecretKey'')) of
              (Some acID, Some acSecretData) \<Rightarrow>
                if length acID > 0 \<and> length acSecretData > 0 then
                  pureP [''ApplicationCredentialID'' \<mapsto> TStr acID,
                         ''ApplicationCredentialSecret'' \<mapsto> TStr acSecretData]
                else ret (Some (Errorf ''%w: %s'' [GErr ErrACSecretMissingKeys, GStr acSecret]))
            | (i0, s0) \<Rightarrow> ret (Some (Errorf ''%w: %s'' [GErr ErrACSecretMissingKeys, GStr acSecret])))))"

text \<open>The notifications URL: the messaging URL where the cluster is the same.\<close>

definition notification_cluster :: "Manila \<Rightarrow> string" where
  "notification_cluster m =
     (case notifications_bus m of
        Some bus \<Rightarrow> rq_Cluster bus
      | None \<Rightarrow> (case sb_NotificationsBusInstance (ms_Base (man_Spec m)) of
                   Some c \<Rightarrow> c
                 | None \<Rightarrow> sb_RabbitMqClusterName (ms_Base (man_Spec m))))"

definition notifications_parameters :: "lib \<Rightarrow> string \<Rightarrow> string \<Rightarrow>
  (Manila st, gerr option, (string \<rightharpoonup> tval)) prog" where
  "notifications_parameters L transportURLSecretData notificationsURLSecretName =
     bindP (getI id) (\<lambda>m.
     if notificationsURLSecretName = '''' then pureP Map.empty
     else if sb_RabbitMqClusterName (ms_Base (man_Spec m)) \<noteq> notification_cluster m then
       bindP (get_secret L (om_Namespace (man_Meta m)) notificationsURLSecretName) (\<lambda>r.
       case r of
         Inl err \<Rightarrow> ret (Some err)
       | Inr (sec, h0) \<Rightarrow> pureP [''NotificationsURL'' \<mapsto> TStr (secret_data sec ''transport_url'')])
     else pureP [''NotificationsURL'' \<mapsto> TStr transportURLSecretData])"

text \<open>The two secrets of the instance: the scripts and the configuration.\<close>

definition manila_templates :: "Manila \<Rightarrow> (string \<rightharpoonup> string) \<Rightarrow> (string \<rightharpoonup> string) \<Rightarrow> (string \<rightharpoonup> tval) \<Rightarrow>
  Template list" where
  "manila_templates m labels customData templateParameters =
     [\<lparr>tm_Name = om_Name (man_Meta m) @ ''-scripts'', tm_Namespace = om_Namespace (man_Meta m),
       tm_Type = TemplateTypeScripts, tm_InstanceType = man_Kind m, tm_CustomData = Map.empty,
       tm_ConfigOptions = Map.empty, tm_CommonTemplates = [], tm_Labels = labels\<rparr>,
      \<lparr>tm_Name = om_Name (man_Meta m) @ ''-config-data'', tm_Namespace = om_Namespace (man_Meta m),
       tm_Type = TemplateTypeConfig, tm_InstanceType = man_Kind m, tm_CustomData = customData,
       tm_ConfigOptions = templateParameters, tm_CommonTemplates = [''ssl.conf''],
       tm_Labels = labels\<rparr>]"

definition manila_keystone_urls :: "lib \<Rightarrow> (Manila st, gerr option, KeystoneAPI \<times> string \<times> string) prog" where
  "manila_keystone_urls L =
     bindP (getI (\<lambda>m. om_Namespace (man_Meta m))) (\<lambda>ns.
     bindP (call (EGet ''KeystoneAPI'' ns '''') (\<lambda>h. o_GetKeystoneAPI L h ns)) (\<lambda>r.
     case r of
       Inl err \<Rightarrow> ret (Some err)
     | Inr keystoneAPI \<Rightarrow>
         (case ka_Endpoint keystoneAPI EndpointPublic of
            Inl err \<Rightarrow> ret (Some err)
          | Inr publicURL \<Rightarrow>
              (case ka_Endpoint keystoneAPI EndpointInternal of
                 Inl err \<Rightarrow> ret (Some err)
               | Inr internalURL \<Rightarrow> pureP (keystoneAPI, publicURL, internalURL)))))"

definition manila_generateServiceConfig :: "lib \<Rightarrow> Memcached \<Rightarrow> Database \<Rightarrow> string \<Rightarrow> string \<Rightarrow>
  (Manila st, reconcile_result, gerr option) prog" where
  "manila_generateServiceConfig L memcached db transportURLSecretName notificationsURLSecretName =
     func (
       bindP (getP (\<lambda>s. (inst s, svcLabels s))) (\<lambda>(m, serviceLabels).
       let labels = l_GetLabels L (man_Meta m) manila_ServiceName serviceLabels;
           ns = om_Namespace (man_Meta m);
           base = ms_Base (man_Spec m);
           customData = [CustomConfigFileName \<mapsto> sb_CustomServiceConfig base,
             ''my.cnf'' \<mapsto> db_ClientConfig db (ca_CaBundleSecretName (manila_tls_Ca m) \<noteq> '''')] in
       bindP (manila_keystone_urls L) (\<lambda>(keystoneAPI, publicURL, internalURL).
       bindP (get_secret L ns (mt_Secret (sb_ManilaTemplate base))) (\<lambda>or.
       case or of
         Inl err \<Rightarrow> ret (Some err)
       | Inr (ospSecret, h1) \<Rightarrow>
           bindP (get_secret L ns transportURLSecretName) (\<lambda>tr.
           case tr of
             Inl err \<Rightarrow> ret (Some err)
           | Inr (transportURLSecret, h2) \<Rightarrow>
               bindP (ac_parameters L) (\<lambda>acParams.
               bindP (notifications_parameters L (secret_data transportURLSecret ''transport_url'')
                        notificationsURLSecretName) (\<lambda>notifParams.
               let quorum = (secret_data transportURLSecret ''quorumqueues'' = ''true'');
                   vhosts = TMap (map (\<lambda>e. (endpoint_String e, vhost_config L m e))
                     [EndpointInternal, EndpointPublic]);
                   templateParameters =
                     base_parameters L m memcached db ospSecret transportURLSecret keystoneAPI
                       publicURL internalURL ++ mtls_parameters L memcached ++
                     [''QuorumQueues'' \<mapsto> TBool quorum] ++ acParams ++ [''VHosts'' \<mapsto> vhosts] ++ notifParams;
                   templates = manila_templates m labels customData templateParameters in
               bindP (getP cfgVars) (\<lambda>vars.
               bindP (call (EEnsureSecrets templates) (\<lambda>h. o_EnsureSecrets L h templates vars)) (\<lambda>(vars', err).
               thenP (setVars vars') (ret err))))))))))"

end
