(* ===== verification/ManilaController.thy ===== *)
theory ManilaController
  imports ManilaDeploy
begin

text \<open>
  The controller of the \<open>Manila\<close> resource (\<open>internal/controller/manila_controller.go\<close>): deletion,
  the db sync, the phases of \<open>reconcileNormal\<close> in the order of the code, and \<open>Reconcile\<close> under its
  deferred exit. The label map of the run is the state's \<open>svcLabels\<close>, which the share loop writes.
\<close>

type_synonym 'a manila_phase = "(Manila st, reconcile_result, 'a) prog"

definition manila_ns :: "Manila \<Rightarrow> string" where
  "manila_ns m = om_Namespace (man_Meta m)"

definition manila_ac_secret :: "Manila \<Rightarrow> string" where
  "manila_ac_secret m = auth_ApplicationCredentialSecret (sb_Auth (ms_Base (man_Spec m)))"

definition manila_account :: "Manila \<Rightarrow> string" where
  "manila_account m = mt_DatabaseAccount (sb_ManilaTemplate (ms_Base (man_Spec m)))"

section \<open>Library calls that can only fail or succeed\<close>

definition try_call :: "event \<Rightarrow> (hist \<Rightarrow> gerr option) \<Rightarrow> unit manila_phase" where
  "try_call ev answer =
     bindP (call ev answer) (\<lambda>err. case err of Some e \<Rightarrow> ret (Result0, Some e) | None \<Rightarrow> pureP ())"

definition release_secret :: "lib \<Rightarrow> string \<Rightarrow> string \<Rightarrow> unit manila_phase" where
  "release_secret L fin secretName =
     bindP (getI manila_ns) (\<lambda>ns.
     try_call (ERemoveConsumerFinalizer ns secretName fin)
       (\<lambda>h. o_RemoveConsumerFinalizer L h ns secretName fin))"

definition manage_secret :: "lib \<Rightarrow> string \<Rightarrow> string \<Rightarrow> unit manila_phase" where
  "manage_secret L fin secretName =
     bindP (getI manila_ns) (\<lambda>ns.
     try_call (EManageConsumerFinalizer ns secretName fin)
       (\<lambda>h. o_ManageConsumerFinalizer L h ns secretName fin))"

definition prune_secrets :: "lib \<Rightarrow> string \<Rightarrow> string list \<Rightarrow> unit manila_phase" where
  "prune_secrets L fin keep =
     bindP (getI manila_ns) (\<lambda>ns.
     try_call (EPruneConsumerFinalizers ns fin keep)
       (\<lambda>h. o_PruneConsumerFinalizers L h ns fin keep))"

section \<open>Deletion\<close>

text \<open>The database finalizer goes first; a database that is gone has none.\<close>

definition delete_db_finalizer :: "lib \<Rightarrow> unit manila_phase" where
  "delete_db_finalizer L =
     bindP (getI (\<lambda>m. (manila_ns m, manila_account m))) (\<lambda>(ns, account).
     bindP (call (EGet ''MariaDBDatabase'' ns manila_DatabaseCRName)
              (\<lambda>h. o_GetDatabase L h account ns)) (\<lambda>r.
     case r of
       Inl err \<Rightarrow> if l_IsNotFound L err then pureP () else ret (Result0, Some err)
     | Inr db \<Rightarrow> try_call EDeleteDBFinalizer (\<lambda>h. o_DeleteDBFinalizer L h db)))"

text \<open>The secrets of the two transport URLs, as far as the cluster still has them.\<close>

definition collect_transport_secrets :: "lib \<Rightarrow> string list manila_phase" where
  "collect_transport_secrets L =
     bindP (getI id) (\<lambda>m.
     foldP (\<lambda>tuName secrets.
         bindP (call (EGet ''TransportURL'' (manila_ns m) tuName)
                  (\<lambda>h. o_GetTransportURL L h tuName (manila_ns m))) (\<lambda>r.
         case r of
           Inl err \<Rightarrow> if l_IsNotFound L err then pureP secrets else ret (Result0, Some err)
         | Inr tu \<Rightarrow> pureP (secrets @ [tu_SecretName tu])))
       [transportURL_name m False, transportURL_name m True]
       [mst_TransportURLSecret (man_Status m)])"

definition manila_reconcileDelete :: "lib \<Rightarrow> (Manila st, reconcile_result, reconcile_result) prog" where
  "manila_reconcileDelete L =
     func (
       thenP (delete_db_finalizer L)
       (bindP (collect_transport_secrets L) (\<lambda>secrets.
        bindP (getI id) (\<lambda>m.
        let transportSecrets = (case mst_NotificationsURLSecret (man_Status m) of
              Some s \<Rightarrow> secrets @ [s] | None \<Rightarrow> secrets) in
        thenP (forP transportSecrets (release_secret L TransportConsumerFinalizer))
        (thenP (forP [mst_ApplicationCredentialSecret (man_Status m), manila_ac_secret m]
                  (release_secret L ACConsumerFinalizer))
        (thenP (prune_secrets L TransportConsumerFinalizer [])
        (thenP (prune_secrets L ACConsumerFinalizer [])
        (thenP (updI (\<lambda>m. m\<lparr>man_Meta := l_RemoveFinalizer L (man_Meta m) (l_GetFinalizer L ''Manila'')\<rparr>))
           (ret (Result0, None))))))))))"

section \<open>The db sync (reconcileInit)\<close>

text \<open>
  The result of the job is looked at before its error: a job that answers both is still running.
  A changed job writes its hash into the hash map of the status, which panics where that is nil.
\<close>

definition manila_reconcileInit :: "lib \<Rightarrow> (string \<rightharpoonup> string) \<Rightarrow> (Manila st, reconcile_result, reconcile_result) prog" where
  "manila_reconcileInit L serviceAnnotations =
     func (
       bindP (getP (\<lambda>s. (inst s, svcLabels s))) (\<lambda>(m, serviceLabels).
       let dbSyncHash = (case mst_Hash (man_Status m) of
             Some h \<Rightarrow> (case h DbSyncHash of Some v \<Rightarrow> v | None \<Rightarrow> '''') | None \<Rightarrow> '''');
           jobDef = manila_Job L m serviceLabels serviceAnnotations None DBSyncJobName DBSyncCommand 0
             ComponentDBSync;
           preserve = sb_PreserveJobs (ms_Base (man_Spec m)) in
       bindP (call (EDoJob jobDef DbSyncHash preserve dbSyncHash)
                (\<lambda>h. o_DoJob L h jobDef DbSyncHash preserve ShortDuration dbSyncHash))
         (\<lambda>(ctrlResult, err, changed, hash).
       if ctrlResult \<noteq> Result0 then
         thenP (setFalse Manila_updC DBSyncReadyCondition RequestedReason SeverityInfo
                  (LibMsg ''DBSyncReadyRunningMessage'') [])
           (ret (ctrlResult, None))
       else
         (case err of
            Some e \<Rightarrow>
              thenP (setFalse Manila_updC DBSyncReadyCondition ErrorReason SeverityWarning
                       (LibMsg ''DBSyncReadyErrorMessage'') [GErr e])
                (ret (Result0, Some e))
          | None \<Rightarrow>
              thenP (if changed then
                       (case mst_Hash (man_Status m) of
                          None \<Rightarrow> panic
                        | Some h \<Rightarrow> updI (manila_setHash (Some (h(DbSyncHash \<mapsto> hash)))))
                     else pureP ())
              (thenP (markTrue Manila_updC DBSyncReadyCondition (LibMsg ''DBSyncReadyMessage''))
                 (ret (Result0, None)))))))"

section \<open>The phases of reconcileNormal\<close>

subsection \<open>Access and message buses\<close>

definition manila_rbacRules :: "PolicyRule list" where
  "manila_rbacRules =
     [\<lparr>pr_APIGroups = [''security.openshift.io''],
       pr_ResourceNames = [''hostmount-anyuid'', ''nonroot-v2''],
       pr_Resources = [''securitycontextconstraints''],
       pr_Verbs = [''use'']\<rparr>]"

text \<open>The library sets the conditions it reports on the instance it is given.\<close>

definition manila_rbac :: "lib \<Rightarrow> unit manila_phase" where
  "manila_rbac L =
     bindP (getI id) (\<lambda>m.
     bindP (call (EReconcileRbac manila_rbacRules) (\<lambda>h. o_ReconcileRbac L h m manila_rbacRules))
       (\<lambda>(conds, rbacResult, err).
     thenP (forP conds (\<lambda>c. condP Manila_updC (CSet (Some c))))
     (case err of
        Some e \<Rightarrow> ret (rbacResult, Some e)
      | None \<Rightarrow> if rbacResult \<noteq> Result0 then ret (rbacResult, None) else pureP ())))"

definition manila_transport :: "lib \<Rightarrow> TransportURL manila_phase" where
  "manila_transport L =
     bindP (getI (\<lambda>m. sb_MessagingBus (ms_Base (man_Spec m)))) (\<lambda>bus.
     bindP (transportURLCreateOrUpdate L False bus) (\<lambda>(transportURL, op0, err).
     case err of
       Some e \<Rightarrow>
         thenP (setFalse Manila_updC RabbitMqTransportURLReadyCondition ErrorReason SeverityWarning
                  (LibMsg ''RabbitMqTransportURLReadyErrorMessage'') [GErr e])
           (ret (Result0, Some e))
     | None \<Rightarrow>
         if tu_SecretName transportURL = '''' then
           thenP (setFalse Manila_updC RabbitMqTransportURLReadyCondition RequestedReason SeverityInfo
                    (LibMsg ''RabbitMqTransportURLReadyRunningMessage'') [])
             (ret (ResultRequeue, None))
         else
           thenP (markTrue Manila_updC RabbitMqTransportURLReadyCondition
                    (LibMsg ''RabbitMqTransportURLReadyMessage''))
           (thenP (updI (\<lambda>m. if mst_TransportURLSecret (man_Status m) = ''''
                      then m\<lparr>man_Status := (man_Status m)\<lparr>mst_TransportURLSecret :=
                             tu_SecretName transportURL\<rparr>\<rparr> else m))
           (thenP (manage_secret L TransportConsumerFinalizer (tu_SecretName transportURL))
              (pureP transportURL)))))"

definition set_NotificationsURLSecret :: "string option \<Rightarrow> Manila \<Rightarrow> Manila" where
  "set_NotificationsURLSecret v m = m\<lparr>man_Status := (man_Status m)\<lparr>mst_NotificationsURLSecret := v\<rparr>\<rparr>"

definition manila_notifications_enabled :: "lib \<Rightarrow> RabbitMqConfig \<Rightarrow> TransportURL manila_phase" where
  "manila_notifications_enabled L bus =
     thenP (updI (\<lambda>m. if mst_NotificationsURLSecret (man_Status m) = None
              then set_NotificationsURLSecret (Some '''') m else m))
     (bindP (transportURLCreateOrUpdate L True bus) (\<lambda>(url, op0, err).
      case err of
        Some e \<Rightarrow>
          thenP (setFalse Manila_updC NotificationBusInstanceReadyCondition ErrorReason SeverityWarning
                   (LibMsg ''NotificationBusInstanceReadyErrorMessage'') [GErr e])
            (ret (Result0, Some e))
      | None \<Rightarrow>
          if tu_SecretName url = '''' then
            thenP (setFalse Manila_updC NotificationBusInstanceReadyCondition RequestedReason SeverityInfo
                     (LibMsg ''NotificationBusInstanceReadyRunningMessage'') [])
              (ret (ResultRequeue, None))
          else
            thenP (updI (\<lambda>m. if mst_NotificationsURLSecret (man_Status m) = None
                     then set_NotificationsURLSecret (Some (tu_SecretName url)) m else m))
            (thenP (manage_secret L TransportConsumerFinalizer (tu_SecretName url))
            (thenP (markTrue Manila_updC NotificationBusInstanceReadyCondition
                      (LibMsg ''NotificationBusInstanceReadyMessage''))
               (pureP url)))))"

definition manila_notifications :: "lib \<Rightarrow> TransportURL option manila_phase" where
  "manila_notifications L =
     bindP (getI notifications_bus) (\<lambda>nbus.
     case nbus of
       Some bus \<Rightarrow> bindP (manila_notifications_enabled L bus) (\<lambda>url. pureP (Some url))
     | None \<Rightarrow>
         thenP (condP Manila_updC (CRemove NotificationBusInstanceReadyCondition)) (pureP None))"

definition url_secret :: "TransportURL option \<Rightarrow> string" where
  "url_secret u = (case u of Some url \<Rightarrow> tu_SecretName url | None \<Rightarrow> '''')"

subsection \<open>Memcached, passwords, database\<close>

definition manila_memcached :: "lib \<Rightarrow> Memcached manila_phase" where
  "manila_memcached L =
     bindP (getI (\<lambda>m. (manila_ns m, sb_MemcachedInstance (ms_Base (man_Spec m))))) (\<lambda>(ns, name).
     bindP (call (EGet ''Memcached'' ns name) (\<lambda>h. o_GetMemcached L h name ns)) (\<lambda>r.
     case r of
       Inl err \<Rightarrow>
         if l_IsNotFound L err then
           thenP (setFalse Manila_updC MemcachedReadyCondition ErrorReason SeverityWarning
                    (LibMsg ''MemcachedReadyWaitingMessage'') [])
             (ret (ResultRequeue, None))
         else
           thenP (setFalse Manila_updC MemcachedReadyCondition ErrorReason SeverityWarning
                    (LibMsg ''MemcachedReadyErrorMessage'') [GErr err])
             (ret (Result0, Some err))
     | Inr memcached \<Rightarrow>
         if \<not> mc_IsReady memcached then
           thenP (setFalse Manila_updC MemcachedReadyCondition RequestedReason SeverityInfo
                    (LibMsg ''MemcachedReadyWaitingMessage'') [])
             (ret (ResultRequeue, None))
         else
           thenP (markTrue Manila_updC MemcachedReadyCondition (LibMsg ''MemcachedReadyMessage''))
             (pureP memcached)))"

text \<open>An error of the secret check is dropped: the handler returns its result with no error.\<close>

definition manila_passwords :: "lib \<Rightarrow> unit manila_phase" where
  "manila_passwords L =
     bindP (getI id) (\<lambda>m.
     let tmpl = sb_ManilaTemplate (ms_Base (man_Spec m)) in
     bindP (verifyServiceSecret L Manila_updC (manila_ns m) (mt_Secret tmpl)
              [psel_Service (mt_PasswordSelectors tmpl)] NormalDuration) (\<lambda>(ctrlResult, err).
     if err \<noteq> None \<or> ctrlResult \<noteq> Result0 then ret (ctrlResult, None)
     else markTrue Manila_updC InputReadyCondition (LibMsg ''InputReadyMessage'')))"

text \<open>\<open>None\<close> for a database is a nil pointer, which the use of the database would dereference.\<close>

definition manila_database :: "lib \<Rightarrow> Database manila_phase" where
  "manila_database L =
     bindP (ensureDB L) (\<lambda>(db, result, err).
     case err of
       Some e \<Rightarrow> ret (Result0, Some e)
     | None \<Rightarrow>
         if result \<noteq> Result0 then ret (result, None)
         else (case db of Some d \<Rightarrow> pureP d | None \<Rightarrow> panic))"

subsection \<open>Configuration\<close>

definition manila_config_failed :: "gerr \<Rightarrow> 'a manila_phase" where
  "manila_config_failed e =
     thenP (setFalse Manila_updC ServiceConfigReadyCondition ErrorReason SeverityWarning
              (LibMsg ''ServiceConfigReadyErrorMessage'') [GErr e])
       (ret (Result0, Some e))"

definition manila_config :: "lib \<Rightarrow> Memcached \<Rightarrow> Database \<Rightarrow> string \<Rightarrow> string \<Rightarrow> unit manila_phase" where
  "manila_config L memcached db transportSecret notificationsSecret =
     bindP (manila_generateServiceConfig L memcached db transportSecret notificationsSecret) (\<lambda>cerr.
     case cerr of
       Some e \<Rightarrow> manila_config_failed e
     | None \<Rightarrow>
         bindP (manila_createHashOfInputHashes L) (\<lambda>(inputHash, hashChanged, herr).
         case herr of
           Some e \<Rightarrow> manila_config_failed e
         | None \<Rightarrow>
             if hashChanged then
               thenP (markFalse Manila_updC ServiceConfigReadyCondition InitReason SeverityInfo
                        (LibMsg ''ServiceConfigReadyInitMessage'') [])
                 (ret (Result0, None))
             else pureP ()))"

text \<open>The finalizer on the application credential secret, taken before the deployment.\<close>

definition manila_ac_finalizer :: "lib \<Rightarrow> unit manila_phase" where
  "manila_ac_finalizer L =
     bindP (getI (\<lambda>m. (manila_ns m, manila_ac_secret m))) (\<lambda>(ns, acSecret).
     if acSecret \<noteq> '''' then
       bindP (call (EManageConsumerFinalizer ns acSecret ACConsumerFinalizer)
                (\<lambda>h. o_ManageConsumerFinalizer L h ns acSecret ACConsumerFinalizer)) (\<lambda>err.
       case err of Some e \<Rightarrow> manila_config_failed e | None \<Rightarrow> pureP ())
     else pureP ())"

text \<open>
  The network annotations and the db sync. The requeue result of \<open>ensureNAD\<close> is dropped and the
  condition is marked true whatever it says.
\<close>

definition manila_init :: "lib \<Rightarrow> (string \<rightharpoonup> string) manila_phase" where
  "manila_init L =
     thenP (markTrue Manila_updC ServiceConfigReadyCondition (LibMsg ''ServiceConfigReadyMessage''))
     (bindP (getI (\<lambda>m. (manila_ns m, st_NetworkAttachments (atc_ServiceTemplate
               (at_Core (ms_ManilaAPI (man_Spec m))))))) (\<lambda>(ns, nads).
      bindP (ensureNAD L Manila_updC ns nads) (\<lambda>(serviceAnnotations, ctrlResult, err).
      if err \<noteq> None then ret (ctrlResult, err)
      else
        thenP (markTrue Manila_updC NetworkAttachmentsReadyCondition
                 (LibMsg ''NetworkAttachmentsReadyMessage''))
        (bindP (manila_reconcileInit L serviceAnnotations) (\<lambda>(ctrlResult, err).
         if err \<noteq> None then ret (ctrlResult, err)
         else if ctrlResult \<noteq> Result0 then ret (ctrlResult, None)
         else pureP serviceAnnotations)))))"

subsection \<open>The three services\<close>

text \<open>
  A child is observed where its controller has seen the generation the parent wrote and has rolled
  out the secrets the parent passed, as the hash of their names tells.
\<close>

definition api_observed :: "ManilaAPI \<Rightarrow> string \<Rightarrow> bool" where
  "api_observed c expected \<longleftrightarrow>
     om_Generation (api_Meta c) = ast_ObservedGeneration (api_Status c) \<and>
     ast_AppliedInputSecretHash (api_Status c) = expected"

definition scheduler_observed :: "ManilaScheduler \<Rightarrow> string \<Rightarrow> bool" where
  "scheduler_observed c expected \<longleftrightarrow>
     om_Generation (sch_Meta c) = sst_ObservedGeneration (sch_Status c) \<and>
     sst_AppliedInputSecretHash (sch_Status c) = expected"

definition share_observed :: "ManilaShare \<Rightarrow> string \<Rightarrow> bool" where
  "share_observed c expected \<longleftrightarrow>
     om_Generation (shr_Meta c) = hst_ObservedGeneration (shr_Status c) \<and>
     hst_AppliedInputSecretHash (shr_Status c) = expected"

text \<open>\<open>allServicesReady && observed && child.IsReady()\<close>, from left to right.\<close>

definition all_ready :: "bool \<Rightarrow> bool \<Rightarrow> bool option \<Rightarrow> bool manila_phase" where
  "all_ready allServicesReady observed isReady =
     (if allServicesReady \<and> observed then
        (case isReady of None \<Rightarrow> panic | Some b \<Rightarrow> pureP b)
      else pureP False)"

definition service_failed :: "ctype \<Rightarrow> string \<Rightarrow> gerr \<Rightarrow> 'a manila_phase" where
  "service_failed t msg e =
     thenP (setFalse Manila_updC t ErrorReason SeverityWarning (Text msg) [GErr e]) (ret (Result0, Some e))"

definition service_running :: "ctype \<Rightarrow> unit manila_phase" where
  "service_running t =
     setFalse Manila_updC t RequestedReason SeverityInfo (LibMsg ''DeploymentReadyRunningMessage'') []"

definition mirror_condition :: "lib \<Rightarrow> conditions \<Rightarrow> ctype \<Rightarrow> unit manila_phase" where
  "mirror_condition L cs t =
     (let c = l_Mirror L cs t in whenP (c \<noteq> None) (condP Manila_updC (CSet c)))"

definition manila_deploy_api :: "lib \<Rightarrow> string \<Rightarrow> string \<Rightarrow> string \<Rightarrow> bool manila_phase" where
  "manila_deploy_api L transportSecret notificationsSecret expected =
     bindP (apiDeploymentCreateOrUpdate L transportSecret notificationsSecret) (\<lambda>(c, op0, err).
     case err of
       Some e \<Rightarrow> service_failed ManilaAPIReadyCondition ManilaAPIReadyErrorMessage e
     | None \<Rightarrow>
         thenP (if api_observed c expected then
                  thenP (updI (\<lambda>m. m\<lparr>man_Status := (man_Status m)\<lparr>mst_ManilaAPIReadyCount :=
                           ast_ReadyCount (api_Status c)\<rparr>\<rparr>))
                    (mirror_condition L (ast_Conditions (api_Status c)) ManilaAPIReadyCondition)
                else service_running ManilaAPIReadyCondition)
         (all_ready True (api_observed c expected) (ManilaAPI_IsReady c)))"

definition manila_release_accounts :: "lib \<Rightarrow> unit manila_phase" where
  "manila_release_accounts L =
     bindP (getI (\<lambda>m. (manila_ns m, manila_account m))) (\<lambda>(ns, account).
     try_call (EDeleteUnusedAccountFinalizers ns account)
       (\<lambda>h. o_DeleteUnusedAccountFinalizers L h ns account))"

definition manila_deploy_scheduler :: "lib \<Rightarrow> string \<Rightarrow> string \<Rightarrow> string \<Rightarrow> bool \<Rightarrow> bool manila_phase" where
  "manila_deploy_scheduler L transportSecret notificationsSecret expected allServicesReady =
     bindP (schedulerDeploymentCreateOrUpdate L transportSecret notificationsSecret) (\<lambda>(c, op0, err).
     case err of
       Some e \<Rightarrow> service_failed ManilaSchedulerReadyCondition ManilaSchedulerReadyErrorMessage e
     | None \<Rightarrow>
         thenP (if scheduler_observed c expected then
                  thenP (updI (\<lambda>m. m\<lparr>man_Status := (man_Status m)\<lparr>mst_ManilaSchedulerReadyCount :=
                           sst_ReadyCount (sch_Status c)\<rparr>\<rparr>))
                    (mirror_condition L (sst_Conditions (sch_Status c)) ManilaSchedulerReadyCondition)
                else service_running ManilaSchedulerReadyCondition)
         (all_ready allServicesReady (scheduler_observed c expected) (ManilaScheduler_IsReady c)))"

text \<open>
  One share: its readiness, and the condition of the highest priority among the shares that are
  not ready.
\<close>

definition share_spec_of :: "Manila \<Rightarrow> string \<Rightarrow> ManilaShareTemplate" where
  "share_spec_of m name = (case map_of (ms_ManilaShares (man_Spec m)) name of
       Some share \<Rightarrow> share
     | None \<Rightarrow> hs_ShareTemplate (shr_Spec (ManilaShare_zero (newMeta '''' ''''))))"

definition set_share_count :: "string \<Rightarrow> int \<Rightarrow> Manila \<Rightarrow> Manila" where
  "set_share_count name n m = m\<lparr>man_Status := (man_Status m)\<lparr>mst_ManilaSharesReadyCounts :=
     Some ((case mst_ManilaSharesReadyCounts (man_Status m) of Some c \<Rightarrow> c | None \<Rightarrow> Map.empty)
             (name \<mapsto> n))\<rparr>\<rparr>"

definition manila_deploy_share :: "lib \<Rightarrow> string \<Rightarrow> string \<Rightarrow> string \<Rightarrow> string \<Rightarrow>
  bool \<times> condition option \<Rightarrow> (bool \<times> condition option) manila_phase" where
  "manila_deploy_share L transportSecret notificationsSecret expected name =
     (\<lambda>(allServicesReady, shareCondition).
     bindP (getI (\<lambda>m. share_spec_of m name)) (\<lambda>share.
     bindP (shareDeploymentCreateOrUpdate L name share transportSecret notificationsSecret) (\<lambda>(c, op0, err).
     case err of
       Some e \<Rightarrow> service_failed ManilaShareReadyCondition ManilaShareReadyErrorMessage e
     | None \<Rightarrow>
         if share_observed c expected then
           thenP (updI (set_share_count name (hst_ReadyCount (shr_Status c))))
           (bindP (all_ready allServicesReady True (ManilaShare_IsReady c)) (\<lambda>allServicesReady'.
            case ManilaShare_IsReady c of
              None \<Rightarrow> panic
            | Some True \<Rightarrow> pureP (allServicesReady', shareCondition)
            | Some False \<Rightarrow>
                pureP (allServicesReady', l_GetHigherPrioCondition L
                  (l_Mirror L (hst_Conditions (shr_Status c)) ManilaShareReadyCondition) shareCondition)))
         else
           pureP (False, l_GetHigherPrioCondition L
             (Some (FalseCondition ManilaShareReadyCondition RequestedReason SeverityInfo
               (LibMsg ''DeploymentReadyRunningMessage'') [])) shareCondition))))"

definition manila_deploy_shares :: "lib \<Rightarrow> string \<Rightarrow> string \<Rightarrow> string \<Rightarrow> bool \<Rightarrow> bool manila_phase" where
  "manila_deploy_shares L transportSecret notificationsSecret expected allServicesReady =
     bindP (getI (\<lambda>m. sorted_keys (ms_ManilaShares (man_Spec m)))) (\<lambda>names.
     bindP (foldP (manila_deploy_share L transportSecret notificationsSecret expected) names
              (allServicesReady, None)) (\<lambda>(ready, shareCondition).
     thenP (if shareCondition \<noteq> None then condP Manila_updC (CSet shareCondition)
            else markTrue Manila_updC ManilaShareReadyCondition (LibMsg ''DeploymentReadyMessage''))
       (pureP ready)))"

text \<open>All three, with the expected hash of the secret names.\<close>

definition manila_services :: "lib \<Rightarrow> string \<Rightarrow> string \<Rightarrow> bool manila_phase" where
  "manila_services L transportSecret notificationsSecret =
     (case l_ObjectHash L [transportSecret, notificationsSecret] of
        (h, Some e) \<Rightarrow> ret (Result0, Some (Errorf ''failed to compute expected input hash: %w'' [GErr e]))
      | (expected, None) \<Rightarrow>
          bindP (manila_deploy_api L transportSecret notificationsSecret expected) (\<lambda>ready1.
          thenP (manila_release_accounts L)
          (bindP (manila_deploy_scheduler L transportSecret notificationsSecret expected ready1) (\<lambda>ready2.
          manila_deploy_shares L transportSecret notificationsSecret expected ready2))))"

subsection \<open>The cron job and the cleanup of shares\<close>

definition manila_cronjob :: "lib \<Rightarrow> (string \<rightharpoonup> string) \<Rightarrow> unit manila_phase" where
  "manila_cronjob L serviceAnnotations =
     bindP (getP (\<lambda>s. (inst s, svcLabels s))) (\<lambda>(m, serviceLabels).
     let cronjobDef = manila_CronJob L m serviceLabels serviceAnnotations in
     bindP (call (ECreateOrPatchCronJob cronjobDef)
              (\<lambda>h. o_CronJobCreateOrPatch L h cronjobDef ShortDuration)) (\<lambda>(ctrlResult, err).
     case err of
       Some e \<Rightarrow>
         thenP (setFalse Manila_updC CronJobReadyCondition ErrorReason SeverityWarning
                  (LibMsg ''CronJobReadyErrorMessage'') [GErr e])
           (ret (ctrlResult, Some e))
     | None \<Rightarrow> markTrue Manila_updC CronJobReadyCondition (LibMsg ''CronJobReadyMessage'')))"

text \<open>The job name takes the first eight characters of the hash: a shorter hash panics.\<close>

definition manila_cleanup :: "lib \<Rightarrow> (string \<rightharpoonup> string) \<Rightarrow> unit manila_phase" where
  "manila_cleanup L serviceAnnotations =
     bindP (shareCleanup L) (\<lambda>(cleanJob, hash, err).
     case err of
       Some e \<Rightarrow> ret (Result0, Some e)
     | None \<Rightarrow>
         whenP cleanJob
           (if length hash < TruncateHash then panic
            else
              bindP (getP (\<lambda>s. (inst s, svcLabels s))) (\<lambda>(m, serviceLabels).
              let jobDef = manila_Job L m serviceLabels serviceAnnotations (Some TTL)
                    (SvcCleanupJobName @ ''-'' @ take TruncateHash hash) SvcCleanupCommand
                    ManilaServiceCleanupDelay ComponentSvcCleanup in
              bindP (call (EDoJob jobDef SvcCleanupHash False '''')
                       (\<lambda>h. o_DoJob L h jobDef SvcCleanupHash False ShortDuration '''')) (\<lambda>(res, jerr, ch, hv).
              case jerr of Some e \<Rightarrow> ret (res, Some e) | None \<Rightarrow> pureP ()))))"

subsection \<open>Rotation of the secrets\<close>

text \<open>The library releases the old secret only under the guard, and says which one is now consumed.\<close>

definition finalize_rotation :: "lib \<Rightarrow> string \<Rightarrow> string \<Rightarrow> string \<Rightarrow> bool \<Rightarrow> string manila_phase" where
  "finalize_rotation L old new fin guardReady =
     bindP (getI manila_ns) (\<lambda>ns.
     bindP (call (EFinalizeSecretRotation ns old new fin guardReady)
              (\<lambda>h. o_FinalizeSecretRotation L h ns old new fin guardReady)) (\<lambda>r.
     case r of Inl e \<Rightarrow> ret (Result0, Some e) | Inr name \<Rightarrow> pureP name))"

definition manila_rotate_transport :: "lib \<Rightarrow> string \<Rightarrow> bool \<Rightarrow> unit manila_phase" where
  "manila_rotate_transport L transportSecret guardReady =
     bindP (getI (\<lambda>m. mst_TransportURLSecret (man_Status m))) (\<lambda>old.
     bindP (finalize_rotation L old transportSecret TransportConsumerFinalizer guardReady) (\<lambda>name.
     updI (\<lambda>m. m\<lparr>man_Status := (man_Status m)\<lparr>mst_TransportURLSecret := name\<rparr>\<rparr>)))"

definition manila_rotate_notifications :: "lib \<Rightarrow> TransportURL option \<Rightarrow> bool \<Rightarrow> unit manila_phase" where
  "manila_rotate_notifications L nurl guardReady =
     bindP (getI id) (\<lambda>m.
     let status = mst_NotificationsURLSecret (man_Status m) in
     case nurl of
       Some url \<Rightarrow>
         bindP (finalize_rotation L (case status of Some x \<Rightarrow> x | None \<Rightarrow> '''') (tu_SecretName url)
                  TransportConsumerFinalizer guardReady) (\<lambda>name.
         updI (set_NotificationsURLSecret (Some name)))
     | None \<Rightarrow>
         (case status of
            Some old \<Rightarrow>
              whenP (old \<noteq> '''' \<and> guardReady)
                (thenP (release_secret L TransportConsumerFinalizer old)
                 (bindP (transportURLDeleted L (transportURL_name m True)) (\<lambda>derr.
                  case derr of
                    Some e \<Rightarrow> ret (Result0, Some e)
                  | None \<Rightarrow> updI (set_NotificationsURLSecret None))))
          | None \<Rightarrow> pureP ()))"

definition manila_rotate_ac :: "lib \<Rightarrow> bool \<Rightarrow> unit manila_phase" where
  "manila_rotate_ac L guardReady =
     bindP (getI id) (\<lambda>m.
     bindP (finalize_rotation L (mst_ApplicationCredentialSecret (man_Status m)) (manila_ac_secret m)
              ACConsumerFinalizer guardReady) (\<lambda>name.
     updI (\<lambda>m. m\<lparr>man_Status := (man_Status m)\<lparr>mst_ApplicationCredentialSecret := name\<rparr>\<rparr>)))"

definition manila_prune :: "lib \<Rightarrow> string \<Rightarrow> TransportURL option \<Rightarrow> unit manila_phase" where
  "manila_prune L transportSecret nurl =
     bindP (getI id) (\<lambda>m.
     let notifKeep = (case mst_NotificationsURLSecret (man_Status m) of Some x \<Rightarrow> x | None \<Rightarrow> '''');
         currentNotifKeep = url_secret nurl in
     thenP (prune_secrets L TransportConsumerFinalizer
              [mst_TransportURLSecret (man_Status m), transportSecret, notifKeep, currentNotifKeep])
       (prune_secrets L ACConsumerFinalizer
          [mst_ApplicationCredentialSecret (man_Status m), manila_ac_secret m]))"

definition manila_rotation :: "lib \<Rightarrow> string \<Rightarrow> TransportURL option \<Rightarrow> bool \<Rightarrow> unit manila_phase" where
  "manila_rotation L transportSecret nurl guardReady =
     thenP (manila_rotate_transport L transportSecret guardReady)
     (thenP (manila_rotate_notifications L nurl guardReady)
     (thenP (manila_rotate_ac L guardReady)
        (manila_prune L transportSecret nurl)))"

section \<open>reconcileNormal\<close>

text \<open>The first half ends where the configuration is settled and the database is synced.\<close>

definition manila_prepare :: "lib \<Rightarrow> (TransportURL \<times> TransportURL option \<times> (string \<rightharpoonup> string)) manila_phase" where
  "manila_prepare L =
     thenP (manila_rbac L)
     (thenP (setVars Map.empty)
     (thenP (setLabels [l_const L ''common.AppSelector'' \<mapsto> manila_ServiceName])
     (bindP (manila_transport L) (\<lambda>transportURL.
      bindP (manila_notifications L) (\<lambda>nurl.
      bindP (manila_memcached L) (\<lambda>memcached.
      thenP (manila_passwords L)
      (bindP (manila_database L) (\<lambda>db.
       thenP (manila_config L memcached db (tu_SecretName transportURL) (url_secret nurl))
       (thenP (manila_ac_finalizer L)
       (bindP (manila_init L) (\<lambda>serviceAnnotations.
        pureP (transportURL, nurl, serviceAnnotations))))))))))))"

definition manila_reconcileNormal :: "lib \<Rightarrow> (Manila st, reconcile_result, reconcile_result) prog" where
  "manila_reconcileNormal L =
     func (
       bindP (manila_prepare L) (\<lambda>(transportURL, nurl, serviceAnnotations).
       bindP (manila_services L (tu_SecretName transportURL) (url_secret nurl)) (\<lambda>guardReady.
       thenP (manila_cronjob L serviceAnnotations)
       (thenP (manila_cleanup L serviceAnnotations)
       (thenP (manila_rotation L (tu_SecretName transportURL) nurl guardReady)
       (bindP (getI (Manila_IsReady (l_IsTrue L))) (\<lambda>ready.
        thenP (whenP ready (markTrue Manila_updC ReadyCondition (LibMsg ''ReadyMessage'')))
          (ret (Result0, None)))))))))"

section \<open>Reconcile\<close>

definition manila_conditions :: "condition list" where
  "manila_conditions =
     [UnknownCondition ReadyCondition InitReason (LibMsg ''ReadyInitMessage''),
      UnknownCondition DBReadyCondition InitReason (LibMsg ''DBReadyInitMessage''),
      UnknownCondition DBSyncReadyCondition InitReason (LibMsg ''DBSyncReadyInitMessage''),
      UnknownCondition RabbitMqTransportURLReadyCondition InitReason
        (LibMsg ''RabbitMqTransportURLReadyInitMessage''),
      UnknownCondition MemcachedReadyCondition InitReason (LibMsg ''MemcachedReadyInitMessage''),
      UnknownCondition InputReadyCondition InitReason (LibMsg ''InputReadyInitMessage''),
      UnknownCondition ManilaAPIReadyCondition InitReason (Text ManilaAPIReadyInitMessage),
      UnknownCondition ManilaSchedulerReadyCondition InitReason (Text ManilaSchedulerReadyInitMessage),
      UnknownCondition ManilaShareReadyCondition InitReason (Text ManilaShareReadyInitMessage),
      UnknownCondition NetworkAttachmentsReadyCondition InitReason
        (LibMsg ''NetworkAttachmentsReadyInitMessage''),
      UnknownCondition ServiceAccountReadyCondition InitReason (LibMsg ''ServiceAccountReadyInitMessage''),
      UnknownCondition RoleReadyCondition InitReason (LibMsg ''RoleReadyInitMessage''),
      UnknownCondition RoleBindingReadyCondition InitReason (LibMsg ''RoleBindingReadyInitMessage''),
      UnknownCondition CronJobReadyCondition InitReason (LibMsg ''CronJobReadyInitMessage'')]"

text \<open>The list of \<open>Init\<close> carries the notifications condition where the bus is enabled.\<close>

definition manila_init_conditions :: "Manila \<Rightarrow> condition list" where
  "manila_init_conditions m = manila_conditions @
     (if notifications_bus m \<noteq> None
      then [UnknownCondition NotificationBusInstanceReadyCondition InitReason
              (LibMsg ''NotificationBusInstanceReadyInitMessage'')] else [])"

definition manila_body :: "lib \<Rightarrow> bool \<Rightarrow> reconcile_result manila_phase" where
  "manila_body L isNewInstance =
     bindP (getI manila_init_conditions) (\<lambda>cl.
     thenP (condP Manila_updC (CInit cl))
     (thenP (updI (\<lambda>m. m\<lparr>man_Status :=
        (man_Status m)\<lparr>mst_ObservedGeneration := om_Generation (man_Meta m)\<rparr>\<rparr>))
     (bindP (getI man_Meta) (\<lambda>meta.
      let deleting = om_DeletionTimestamp meta \<noteq> None;
          added = l_AddFinalizer L meta (l_GetFinalizer L ''Manila'') in
      thenP (whenP (\<not> deleting) (updI (\<lambda>m. m\<lparr>man_Meta := snd added\<rparr>)))
      (if (\<not> deleting \<and> fst added) \<or> isNewInstance then ret (Result0, None)
       else
         thenP (updI (\<lambda>m. if mst_Hash (man_Status m) = None then manila_setHash (Some Map.empty) m else m))
         (thenP (updI (\<lambda>m. if mst_ManilaSharesReadyCounts (man_Status m) = None
                  then m\<lparr>man_Status := (man_Status m)\<lparr>mst_ManilaSharesReadyCounts := Some Map.empty\<rparr>\<rparr> else m))
         (if deleting then manila_reconcileDelete L else manila_reconcileNormal L)))))))"

definition manila_Reconcile :: "lib \<Rightarrow> NamespacedName \<Rightarrow> (Manila st, reconcile_result, reconcile_result) prog" where
  "manila_Reconcile L req =
     func (
       bindP (call (EGet ''Manila'' (nn_Namespace req) (nn_Name req)) (\<lambda>h. o_GetManila L h req)) (\<lambda>r.
       case r of
         Inl err \<Rightarrow> if l_IsNotFound L err then ret (Result0, None) else ret (Result0, Some err)
       | Inr m0 \<Rightarrow>
           thenP (updI (\<lambda>_. m0))
           (bindP (ask (\<lambda>h. o_NewHelper L h ''Manila'')) (\<lambda>herr.
            case herr of
              Some err \<Rightarrow> ret (Result0, Some err)
            | None \<Rightarrow>
                (let isNewInstance = conds_nil (mst_Conditions (man_Status m0)) in
                 thenP (whenP isNewInstance (updI (Manila_updC (\<lambda>_. conds_empty))))
                   (with_deferred L (\<lambda>m. mst_Conditions (man_Status m)) Manila_updC EPatchManila
                      (manila_body L isNewInstance)))))))"

end
