(* ===== verification/ManilaProps.thy ===== *)
theory ManilaProps
  imports ManilaController Reasoning Fixtures
begin

text \<open>
  The properties of the \<open>Manila\<close> controller: the guard of the secret rotation, the order of
  preparation and deployment, the shares, deletion, the exit, and the places where the code drops
  a result.
\<close>

section \<open>Frames of the phases\<close>

lemmas call_defs = try_call_def manage_secret_def release_secret_def prune_secrets_def

lemma front_emits:
  assumes "\<And>r. E (EReconcileRbac r)" "\<And>t. E (ECreateOrUpdateTransportURL t)"
    "\<And>ns n f. E (EManageConsumerFinalizer ns n f)" "\<And>k ns n. E (EGet k ns n)"
    "\<And>ns n f. E (EVerifySecretFields ns n f)"
  shows "emits E (manila_rbac L)" "emits E (manila_transport L)" "emits E (manila_notifications L)"
    "emits E (manila_memcached L)" "emits E (manila_passwords L)" "emits E (manila_ac_finalizer L)"
  unfolding manila_rbac_def manila_transport_def manila_notifications_def
    manila_notifications_enabled_def transportURLCreateOrUpdate_def manila_memcached_def
    manila_passwords_def manila_ac_finalizer_def manila_config_failed_def call_defs
  by (intro emits_rules emits_helpers assms)+

lemma database_emits:
  assumes "\<And>a ns. E (EEnsureMariaDBAccount a ns)" "\<And>r. E (ECreateOrPatchDB r)" "\<And>r. E (EWaitForDBCreated r)"
  shows "emits E (manila_database L)"
  unfolding manila_database_def ensureDB_def ensureDB_failed_def ensureDB_running_def
  by (intro emits_rules assms)

lemma config_emits:
  assumes "\<And>k ns n. E (EGet k ns n)" "\<And>t. E (EEnsureSecrets t)"
  shows "emits E (manila_config L mc db ts nsec)"
  unfolding manila_config_def manila_generateServiceConfig_def manila_keystone_urls_def ac_parameters_def
    notifications_parameters_def manila_createHashOfInputHashes_def manila_config_failed_def
  by (intro emits_rules emits_helpers assms)

lemma init_emits:
  assumes "\<And>k ns n. E (EGet k ns n)" "\<And>j n p h. E (EDoJob j n p h)"
  shows "emits E (manila_init L)"
  unfolding manila_init_def manila_reconcileInit_def
  by (intro emits_rules emits_helpers assms)

lemma prepare_emits:
  assumes "\<And>r. E (EReconcileRbac r)" "\<And>t. E (ECreateOrUpdateTransportURL t)"
    "\<And>ns n f. E (EManageConsumerFinalizer ns n f)" "\<And>k ns n. E (EGet k ns n)"
    "\<And>ns n f. E (EVerifySecretFields ns n f)" "\<And>a ns. E (EEnsureMariaDBAccount a ns)"
    "\<And>r. E (ECreateOrPatchDB r)" "\<And>r. E (EWaitForDBCreated r)" "\<And>t. E (EEnsureSecrets t)"
    "\<And>j n p h. E (EDoJob j n p h)"
  shows "emits E (manila_prepare L)"
  unfolding manila_prepare_def
  by (intro emits_rules front_emits database_emits config_emits init_emits assms)

lemma services_emits:
  assumes "\<And>d. E (ECreateOrUpdateAPI d)" "\<And>d. E (ECreateOrUpdateScheduler d)"
    "\<And>d. E (ECreateOrUpdateShare d)" "\<And>ns a. E (EDeleteUnusedAccountFinalizers ns a)"
  shows "emits E (manila_deploy_api L ts nsec h)" "emits E (manila_deploy_scheduler L ts nsec h b)"
    "emits E (manila_deploy_share L ts nsec h name acc)" "emits E (manila_deploy_shares L ts nsec h b)"
    "emits E (manila_services L ts nsec)"
  unfolding manila_deploy_api_def manila_deploy_scheduler_def manila_deploy_share_def
    manila_deploy_shares_def manila_services_def manila_release_accounts_def
    apiDeploymentCreateOrUpdate_def schedulerDeploymentCreateOrUpdate_def
    shareDeploymentCreateOrUpdate_def mirror_condition_def service_failed_def service_running_def
    all_ready_def call_defs
  by (intro emits_rules assms)+

lemma cronjob_emits: "(\<And>c. E (ECreateOrPatchCronJob c)) \<Longrightarrow> emits E (manila_cronjob L ann)"
  unfolding manila_cronjob_def by (intro emits_rules)

lemma cleanup_emits:
  assumes "\<And>k ns f. E (EList k ns f)" "\<And>ns n. E (EDelete ''ManilaShare'' ns n)" "\<And>j n p h. E (EDoJob j n p h)"
  shows "emits E (shareCleanup L)" "emits E (manila_cleanup L ann)"
  unfolding manila_cleanup_def shareCleanup_def shareCleanup_step_def
  by (intro emits_rules assms)+

lemma rotation_emits:
  assumes "\<And>ns old fin. E (EFinalizeSecretRotation ns old ts fin g)"
    "\<And>ns old url. nurl = Some url \<Longrightarrow> E (EFinalizeSecretRotation ns old (tu_SecretName url) TransportConsumerFinalizer g)"
    "\<And>ns old new. E (EFinalizeSecretRotation ns old new ACConsumerFinalizer g)"
    "\<And>ns n f. nurl = None \<Longrightarrow> g \<Longrightarrow> E (ERemoveConsumerFinalizer ns n f)"
    "\<And>ns n. nurl = None \<Longrightarrow> g \<Longrightarrow> E (EDelete ''TransportURL'' ns n)"
    "\<And>ns f keep. E (EPruneConsumerFinalizers ns f keep)"
  shows "emits E (manila_rotation L ts nurl g)"
proof -
  have notif: "emits E (manila_rotate_notifications L nurl g)"
  proof (cases nurl)
    case (Some url)
    then show ?thesis
      unfolding manila_rotate_notifications_def finalize_rotation_def
      by (simp only: Some option.case) (intro emits_rules assms(1,3-) assms(2) [OF Some])
  next
    case None
    have w: "(g \<Longrightarrow> emits E m) \<Longrightarrow> emits E (whenP (b \<and> g) m)" for b and m :: "unit manila_phase"
      by (simp add: whenP_def emits.frame_pure)
    show ?thesis
      unfolding manila_rotate_notifications_def transportURLDeleted_def call_defs
      by (simp only: None option.case)
        (intro emits.frame_bind emits_rules(11) frames_let frames_case w emits_rules assms; simp add: None)
  qed
  then show ?thesis
    unfolding manila_rotation_def manila_rotate_transport_def manila_rotate_ac_def manila_prune_def
      finalize_rotation_def call_defs
    by (intro emits_rules assms)
qed

section \<open>The guard of the rotation\<close>

text \<open>
  The child the cluster answered to a \<open>CreateOrUpdate\<close> of a trace whose mutation passed the secrets
  \<open>t\<close> and \<open>n\<close>.
\<close>

definition api_answer :: "lib \<Rightarrow> string \<Rightarrow> string \<Rightarrow> hist \<Rightarrow> ManilaAPI \<Rightarrow> bool" where
  "api_answer L t n tr c \<longleftrightarrow> (\<exists>h d m op rest. tr = h @ ECreateOrUpdateAPI (snd (api_mutate L m t n d)) # rest \<and>
     o_CreateOrUpdateAPI L h d (api_mutate L m t n) = (c, op, None))"

definition scheduler_answer :: "lib \<Rightarrow> string \<Rightarrow> string \<Rightarrow> hist \<Rightarrow> ManilaScheduler \<Rightarrow> bool" where
  "scheduler_answer L t n tr c \<longleftrightarrow> (\<exists>h d m op rest.
     tr = h @ ECreateOrUpdateScheduler (snd (scheduler_mutate L m t n d)) # rest \<and>
     o_CreateOrUpdateScheduler L h d (scheduler_mutate L m t n) = (c, op, None))"

definition share_answer :: "lib \<Rightarrow> string \<Rightarrow> string \<Rightarrow> hist \<Rightarrow> string \<Rightarrow> ManilaShare \<Rightarrow> bool" where
  "share_answer L t n tr name c \<longleftrightarrow> (\<exists>h d m op rest.
     tr = h @ ECreateOrUpdateShare (snd (share_mutate L m (share_spec_of m name) t n d)) # rest \<and>
     om_Labels (shr_Meta d) ShareNameLabel = Some name \<and>
     o_CreateOrUpdateShare L h d (share_mutate L m (share_spec_of m name) t n) = (c, op, None))"

definition api_rolled_out :: "lib \<Rightarrow> string \<Rightarrow> string \<Rightarrow> hist \<Rightarrow> bool" where
  "api_rolled_out L t n tr \<longleftrightarrow> (\<exists>c h. l_ObjectHash L [t, n] = (h, None) \<and> api_answer L t n tr c \<and>
     api_observed c h \<and> ManilaAPI_IsReady c = Some True)"

definition scheduler_rolled_out :: "lib \<Rightarrow> string \<Rightarrow> string \<Rightarrow> hist \<Rightarrow> bool" where
  "scheduler_rolled_out L t n tr \<longleftrightarrow> (\<exists>c h. l_ObjectHash L [t, n] = (h, None) \<and> scheduler_answer L t n tr c \<and>
     scheduler_observed c h \<and> ManilaScheduler_IsReady c = Some True)"

definition share_rolled_out :: "lib \<Rightarrow> string \<Rightarrow> string \<Rightarrow> hist \<Rightarrow> string \<Rightarrow> bool" where
  "share_rolled_out L t n tr name \<longleftrightarrow> (\<exists>c h. l_ObjectHash L [t, n] = (h, None) \<and> share_answer L t n tr name c \<and>
     share_observed c h \<and> ManilaShare_IsReady c = Some True)"

text \<open>Every service of the spec is ready on the secrets \<open>t\<close> and \<open>n\<close>.\<close>

definition rolled_out :: "lib \<Rightarrow> ManilaSpec \<Rightarrow> string \<Rightarrow> string \<Rightarrow> hist \<Rightarrow> bool" where
  "rolled_out L spec t n tr \<longleftrightarrow> api_rolled_out L t n tr \<and> scheduler_rolled_out L t n tr \<and>
     list_all (share_rolled_out L t n tr) (map fst (ms_ManilaShares spec))"

lemma api_rolled_outI:
  "l_ObjectHash L [t, n] = (h, None) \<Longrightarrow> api_observed c h \<Longrightarrow> ManilaAPI_IsReady c = Some True \<Longrightarrow>
   o_CreateOrUpdateAPI L tr d (api_mutate L m t n) = (c, op, None) \<Longrightarrow>
   api_rolled_out L t n (tr @ [ECreateOrUpdateAPI (snd (api_mutate L m t n d))])"
  unfolding api_rolled_out_def api_answer_def by blast

lemma scheduler_rolled_outI:
  "l_ObjectHash L [t, n] = (h, None) \<Longrightarrow> scheduler_observed c h \<Longrightarrow> ManilaScheduler_IsReady c = Some True \<Longrightarrow>
   o_CreateOrUpdateScheduler L tr d (scheduler_mutate L m t n) = (c, op, None) \<Longrightarrow>
   scheduler_rolled_out L t n (tr @ [ECreateOrUpdateScheduler (snd (scheduler_mutate L m t n d))])"
  unfolding scheduler_rolled_out_def scheduler_answer_def by blast

lemma share_rolled_outI:
  "l_ObjectHash L [t, n] = (h, None) \<Longrightarrow> share_observed c h \<Longrightarrow> ManilaShare_IsReady c = Some True \<Longrightarrow>
   om_Labels (shr_Meta d) ShareNameLabel = Some name \<Longrightarrow>
   o_CreateOrUpdateShare L tr d (share_mutate L m (share_spec_of m name) t n) = (c, op, None) \<Longrightarrow>
   share_rolled_out L t n (tr @ [ECreateOrUpdateShare (snd (share_mutate L m (share_spec_of m name) t n d))]) name"
  unfolding share_rolled_out_def share_answer_def by blast

lemma answer_append:
  "api_answer L t n tr c \<Longrightarrow> api_answer L t n (tr @ es) c"
  "scheduler_answer L t n tr d \<Longrightarrow> scheduler_answer L t n (tr @ es) d"
  "share_answer L t n tr name e \<Longrightarrow> share_answer L t n (tr @ es) name e"
  unfolding api_answer_def scheduler_answer_def share_answer_def
  by (metis append_Cons append_assoc)+

lemma service_rolled_out_append:
  "api_rolled_out L t n tr \<Longrightarrow> api_rolled_out L t n (tr @ es)"
  "scheduler_rolled_out L t n tr \<Longrightarrow> scheduler_rolled_out L t n (tr @ es)"
  "share_rolled_out L t n tr name \<Longrightarrow> share_rolled_out L t n (tr @ es) name"
  unfolding api_rolled_out_def scheduler_rolled_out_def share_rolled_out_def
  by (blast intro: answer_append)+

lemma rolled_out_append: "rolled_out L spec t n tr \<Longrightarrow> rolled_out L spec t n (tr @ es)"
  unfolding rolled_out_def by (auto simp: list_all_iff intro: service_rolled_out_append)

text \<open>A run grows the trace, so what was rolled out before it stays rolled out.\<close>

lemma rolled_out_run:
  fixes m :: "(Manila st, reconcile_result, 'a) prog"
  assumes "emits (\<lambda>e. True) m" and "m s = (x, u)"
  shows "api_rolled_out L t n (trace s) \<Longrightarrow> api_rolled_out L t n (trace u)"
    "scheduler_rolled_out L t n (trace s) \<Longrightarrow> scheduler_rolled_out L t n (trace u)"
    "share_rolled_out L t n (trace s) name \<Longrightarrow> share_rolled_out L t n (trace u) name"
proof -
  obtain es where "trace u = trace s @ es"
    using framesD [OF assms] by (auto simp: emits_rel_def)
  then show "api_rolled_out L t n (trace s) \<Longrightarrow> api_rolled_out L t n (trace u)"
    "scheduler_rolled_out L t n (trace s) \<Longrightarrow> scheduler_rolled_out L t n (trace u)"
    "share_rolled_out L t n (trace s) name \<Longrightarrow> share_rolled_out L t n (trace u) name"
    by (simp_all add: service_rolled_out_append)
qed

lemma all_ready_Next: "all_ready acc obs r s = (Next b, t) \<Longrightarrow> t = s \<and> (b \<longrightarrow> acc \<and> obs \<and> r = Some True)"
  by (auto simp: all_ready_def prog_simps split: if_splits option.splits)

text \<open>What one deployment leaves behind where it says that all is ready.\<close>

lemma mirror_trace: "mirror_condition L cs ct s = (x, u) \<Longrightarrow> trace u = trace s \<and> (\<exists>v. x = Next v)"
  by (auto simp: mirror_condition_def prog_simps Let_def split: if_splits)

lemma status_step_trace:
  assumes "(if b then thenP (updI f) (mirror_condition L cs ct) s else service_running ct' s) = (x, u)"
  shows "trace u = trace s"
  using assms by (auto simp: service_running_def prog_simps split: if_splits prod.splits outcome.splits dest!: mirror_trace)

lemma deploy_api_guard:
  assumes h: "l_ObjectHash L [t, n] = (h, None)" and run: "manila_deploy_api L t n h s = (Next True, u)"
  shows "api_rolled_out L t n (trace u)"
proof -
  let ?m = "inst s"
  let ?d = "ManilaAPI_zero ((newMeta (om_Name (man_Meta ?m) @ ''-api'') (om_Namespace (man_Meta ?m)))
    \<lparr>om_Annotations := om_Annotations (man_Meta ?m)\<rparr>)"
  obtain c op err where ans: "o_CreateOrUpdateAPI L (trace s) ?d (api_mutate L ?m t n) = (c, op, err)"
    by (metis prod_cases3)
  define s1 where "s1 = s\<lparr>trace := trace s @ [ECreateOrUpdateAPI (snd (api_mutate L ?m t n ?d))]\<rparr>"
  have "apiDeploymentCreateOrUpdate L t n s = (Next (c, op, err), s1)"
    by (simp add: apiDeploymentCreateOrUpdate_def prog_simps Let_def ans s1_def)
  with run obtain v where e: "err = None" and v: "trace v = trace s1"
    and r: "all_ready True (api_observed c h) (ManilaAPI_IsReady c) v = (Next True, u)"
    unfolding manila_deploy_api_def
    by (auto simp: run_bindP run_if service_failed_def run_setFalse run_ret
        split: option.splits prod.splits outcome.splits dest: status_step_trace)
  from all_ready_Next [OF r] v have "trace u = trace s1" "api_observed c h" "ManilaAPI_IsReady c = Some True"
    by auto
  with api_rolled_outI [OF h, of c "trace s" ?d ?m op] ans e show ?thesis by (simp add: s1_def)
qed

lemma deploy_scheduler_guard:
  assumes h: "l_ObjectHash L [t, n] = (h, None)" and run: "manila_deploy_scheduler L t n h b s = (Next True, u)"
  shows "b \<and> scheduler_rolled_out L t n (trace u)"
proof -
  let ?m = "inst s"
  let ?d = "ManilaScheduler_zero (newMeta (om_Name (man_Meta ?m) @ ''-scheduler'') (om_Namespace (man_Meta ?m)))"
  obtain c op err where ans: "o_CreateOrUpdateScheduler L (trace s) ?d (scheduler_mutate L ?m t n) = (c, op, err)"
    by (metis prod_cases3)
  define s1 where "s1 = s\<lparr>trace := trace s @ [ECreateOrUpdateScheduler (snd (scheduler_mutate L ?m t n ?d))]\<rparr>"
  have "schedulerDeploymentCreateOrUpdate L t n s = (Next (c, op, err), s1)"
    by (simp add: schedulerDeploymentCreateOrUpdate_def prog_simps Let_def ans s1_def)
  with run obtain v where e: "err = None" and v: "trace v = trace s1"
    and r: "all_ready b (scheduler_observed c h) (ManilaScheduler_IsReady c) v = (Next True, u)"
    unfolding manila_deploy_scheduler_def
    by (auto simp: run_bindP run_if service_failed_def run_setFalse run_ret
        split: option.splits prod.splits outcome.splits dest: status_step_trace)
  from all_ready_Next [OF r] v have "b" "trace u = trace s1" "scheduler_observed c h"
    "ManilaScheduler_IsReady c = Some True"
    by auto
  with scheduler_rolled_outI [OF h, of c "trace s" ?d ?m op] ans e show ?thesis by (simp add: s1_def)
qed

lemma deploy_share_guard:
  assumes h: "l_ObjectHash L [t, n] = (h, None)"
    and run: "manila_deploy_share L t n h name (b, sc) s = (Next (True, sc'), u)"
  shows "b \<and> share_rolled_out L t n (trace u) name"
proof -
  let ?m = "inst s"
  let ?share = "share_spec_of ?m name"
  let ?d = "ManilaShare_zero ((newMeta (om_Name (man_Meta ?m) @ ''-share'' @ ''-'' @ name)
    (om_Namespace (man_Meta ?m)))\<lparr>om_Labels := (svcLabels s)(ShareNameLabel \<mapsto> name)\<rparr>)"
  obtain c op err where ans: "o_CreateOrUpdateShare L (trace s) ?d (share_mutate L ?m ?share t n) = (c, op, err)"
    by (metis prod_cases3)
  define s1 where "s1 = s\<lparr>svcLabels := (svcLabels s)(ShareNameLabel \<mapsto> name),
    trace := trace s @ [ECreateOrUpdateShare (snd (share_mutate L ?m ?share t n ?d))]\<rparr>"
  have "shareDeploymentCreateOrUpdate L name ?share t n s = (Next (c, op, err), s1)"
    using ans by (simp add: shareDeploymentCreateOrUpdate_def prog_simps Let_def s1_def)
  moreover define v where "v = s1\<lparr>inst := set_share_count name (hst_ReadyCount (shr_Status c)) (inst s1)\<rparr>"
  ultimately have e: "err = None" and o: "share_observed c h"
    and r: "all_ready b True (ManilaShare_IsReady c) v = (Next True, u)"
    using run
    unfolding manila_deploy_share_def
    by (auto simp: prog_simps service_failed_def split: option.splits prod.splits outcome.splits if_splits bool.splits)
  from all_ready_Next [OF r] have "b" "trace u = trace s1" "ManilaShare_IsReady c = Some True"
    by (auto simp: v_def)
  moreover have "om_Labels (shr_Meta ?d) ShareNameLabel = Some name"
    by (simp add: ManilaShare_zero_def)
  ultimately show ?thesis using share_rolled_outI [OF h o, of ?d name "trace s" ?m op] ans e
    by (simp add: s1_def)
qed

lemma deploy_shares_fold_guard:
  assumes h: "l_ObjectHash L [t, n] = (h, None)"
  shows "foldP (manila_deploy_share L t n h) names (b, sc) s = (Next (True, sc'), u) \<Longrightarrow>
    b \<and> list_all (share_rolled_out L t n (trace u)) names"
proof (induction names arbitrary: b sc s)
  case Nil
  then show ?case by (simp add: pureP_def)
next
  case (Cons name names)
  from Cons.prems obtain b1 sc1 s1 where one: "manila_deploy_share L t n h name (b, sc) s = (Next (b1, sc1), s1)"
    and rest: "foldP (manila_deploy_share L t n h) names (b1, sc1) s1 = (Next (True, sc'), u)"
    unfolding foldP.simps by (elim bindP_NextE) auto
  have all: "b1" "list_all (share_rolled_out L t n (trace u)) names" using Cons.IH [OF rest] by simp_all
  from one all(1) have "manila_deploy_share L t n h name (b, sc) s = (Next (True, sc1), s1)" by simp
  from deploy_share_guard [OF h this] have "b \<and> share_rolled_out L t n (trace s1) name" .
  moreover have e: "emits (\<lambda>e. True) (foldP (manila_deploy_share L t n h) names (b1, sc1))"
    by (intro emits.frame_fold services_emits) simp_all
  ultimately show ?case using rolled_out_run(3) [OF e rest] all by simp
qed

lemma spec_status: "man_Spec (man_Status_update f m) = man_Spec m"
  by simp

lemma services_keeps:
  assumes "\<And>f m. g (man_Status_update f m) = g m"
  shows "keepsI g (manila_deploy_api L t n h)" "keepsI g (manila_deploy_scheduler L t n h b)"
  "keepsI g (manila_deploy_share L t n h name acc)" "keepsI g (manila_deploy_shares L t n h b)"
  "keepsI g (manila_release_accounts L)" "keepsI g (manila_services L t n)"
  unfolding manila_deploy_api_def manila_deploy_scheduler_def manila_deploy_share_def
    manila_deploy_shares_def manila_services_def manila_release_accounts_def
    apiDeploymentCreateOrUpdate_def schedulerDeploymentCreateOrUpdate_def
    shareDeploymentCreateOrUpdate_def mirror_condition_def service_failed_def service_running_def
    all_ready_def call_defs
  by (intro keepsI_rules; simp add: assms Manila_updC_def set_share_count_def)+

lemmas services_keeps_spec = services_keeps [OF spec_status]

text \<open>A run of the services that goes on is made of its four steps.\<close>

lemma services_steps:
  assumes "manila_services L t n s = (Next g, u)"
  obtains h b1 s1 s2 b2 s3 where "l_ObjectHash L [t, n] = (h, None)"
    "manila_deploy_api L t n h s = (Next b1, s1)" "manila_release_accounts L s1 = (Next (), s2)"
    "manila_deploy_scheduler L t n h b1 s2 = (Next b2, s3)" "manila_deploy_shares L t n h b2 s3 = (Next g, u)"
proof -
  obtain h where h: "l_ObjectHash L [t, n] = (h, None)"
    using assms by (auto simp: manila_services_def prog_simps split: prod.splits option.splits)
  from assms h show thesis
    unfolding manila_services_def by (auto elim!: bindP_NextE intro: that)
qed

lemma services_guard:
  assumes "manila_services L t n s = (Next True, u)"
  shows "rolled_out L (man_Spec (inst s)) t n (trace u)"
proof -
  obtain h b1 s1 s2 b2 s3 where h: "l_ObjectHash L [t, n] = (h, None)"
    and r1: "manila_deploy_api L t n h s = (Next b1, s1)"
    and r2: "manila_release_accounts L s1 = (Next (), s2)"
    and r3: "manila_deploy_scheduler L t n h b1 s2 = (Next b2, s3)"
    and r4: "manila_deploy_shares L t n h b2 s3 = (Next True, u)"
    by (rule services_steps [OF assms])
  let ?shares = "manila_deploy_shares L t n h"
  have spec: "man_Spec (inst s3) = man_Spec (inst s)"
    using keepsI_run [OF services_keeps_spec(1) r1] keepsI_run [OF services_keeps_spec(5) r2]
      keepsI_run [OF services_keeps_spec(2) r3] by simp
  from r4 obtain sc v where f: "foldP (manila_deploy_share L t n h) (sorted_keys (ms_ManilaShares (man_Spec (inst s3))))
      (b2, None) s3 = (Next (True, sc), v)" and v: "trace u = trace v"
    unfolding manila_deploy_shares_def
    by (auto elim!: bindP_NextE simp: prog_simps split: if_splits prod.splits outcome.splits)
  from deploy_shares_fold_guard [OF h f] v spec
  have shares: "b2" "list_all (share_rolled_out L t n (trace u)) (map fst (ms_ManilaShares (man_Spec (inst s))))"
    by (auto simp: list_all_iff)
  from deploy_scheduler_guard [OF h] r3 shares(1) have sch: "b1" "scheduler_rolled_out L t n (trace s3)" by auto
  from deploy_api_guard [OF h] r1 sch(1) have api: "api_rolled_out L t n (trace s1)" by auto
  have e: "emits (\<lambda>e. True) (manila_release_accounts L)" "emits (\<lambda>e. True) (manila_deploy_scheduler L t n h b1)"
    "emits (\<lambda>e. True) (?shares b2)"
    unfolding manila_release_accounts_def call_defs by (intro services_emits emits_rules; simp)+
  have "api_rolled_out L t n (trace u)"
    using api rolled_out_run(1) [OF e(1) r2] rolled_out_run(1) [OF e(2) r3] rolled_out_run(1) [OF e(3) r4] by simp
  moreover have "scheduler_rolled_out L t n (trace u)" using sch(2) rolled_out_run(2) [OF e(3) r4] by simp
  ultimately show ?thesis using shares(2) by (simp add: rolled_out_def)
qed

lemma front_keeps:
  assumes "\<And>f m. g (man_Status_update f m) = g m"
  shows "keepsI g (manila_rbac L)" "keepsI g (manila_transport L)" "keepsI g (manila_notifications L)"
  "keepsI g (manila_memcached L)" "keepsI g (manila_passwords L)" "keepsI g (manila_ac_finalizer L)"
  unfolding manila_rbac_def manila_transport_def manila_notifications_def
    manila_notifications_enabled_def transportURLCreateOrUpdate_def manila_memcached_def
    manila_passwords_def manila_ac_finalizer_def manila_config_failed_def set_NotificationsURLSecret_def call_defs
  by (intro keepsI_rules keepsI_helpers; simp add: assms Manila_updC_def)+

lemma config_keeps:
  assumes "\<And>f m. g (man_Status_update f m) = g m"
  shows "keepsI g (manila_database L)" "keepsI g (manila_config L mc db t n)" "keepsI g (manila_init L)"
  unfolding manila_database_def ensureDB_def ensureDB_failed_def ensureDB_running_def manila_config_def
    manila_generateServiceConfig_def manila_keystone_urls_def ac_parameters_def notifications_parameters_def
    manila_createHashOfInputHashes_def manila_config_failed_def manila_init_def manila_reconcileInit_def
  by (intro keepsI_rules keepsI_helpers keepsI_createHash; simp add: assms Manila_updC_def manila_setHash_def)+

lemma prepare_keeps:
  assumes "\<And>f m. g (man_Status_update f m) = g m"
  shows "keepsI g (manila_prepare L)"
  unfolding manila_prepare_def by (intro keepsI_rules front_keeps config_keeps assms)

lemmas prepare_keeps_spec = prepare_keeps [OF spec_status]

text \<open>
  A call that lets go of something the services may still use: the guarded rotation, the release of
  a secret, the deletion of a transport URL. It has to come after every service of the spec
  answered that it is ready on the secrets passed in this run; the messaging secret that the
  rotation installs is one of them.
\<close>

definition release_guarded :: "lib \<Rightarrow> ManilaSpec \<Rightarrow> hist \<Rightarrow> event \<Rightarrow> bool" where
  "release_guarded L spec tr e \<longleftrightarrow> (case e of
       EFinalizeSecretRotation ns old new fin guard \<Rightarrow>
         guard \<longrightarrow> (\<exists>t n. rolled_out L spec t n tr \<and> (fin = TransportConsumerFinalizer \<longrightarrow> new \<in> {t, n}))
     | ERemoveConsumerFinalizer ns old fin \<Rightarrow> (\<exists>t n. rolled_out L spec t n tr)
     | EDelete kind ns name \<Rightarrow> kind = ''TransportURL'' \<longrightarrow> (\<exists>t n. rolled_out L spec t n tr)
     | _ \<Rightarrow> True)"

text \<open>The calls that release nothing.\<close>

definition keeps_all :: "event \<Rightarrow> bool" where
  "keeps_all e \<longleftrightarrow> (case e of
       EFinalizeSecretRotation ns old new fin guard \<Rightarrow> False
     | ERemoveConsumerFinalizer ns old fin \<Rightarrow> False
     | EDelete kind ns name \<Rightarrow> kind \<noteq> ''TransportURL''
     | _ \<Rightarrow> True)"

lemma keeps_all_guarded: "keeps_all e \<Longrightarrow> release_guarded L spec tr e"
  by (auto simp: keeps_all_def release_guarded_def split: event.splits)

lemma phases_keep_all:
  "emits keeps_all (manila_prepare L)" "emits keeps_all (manila_services L t n)"
  "emits keeps_all (manila_cronjob L ann)" "emits keeps_all (manila_cleanup L ann)"
  by (intro prepare_emits services_emits cronjob_emits cleanup_emits; simp add: keeps_all_def)+

lemma rotation_guarded:
  assumes "g \<longrightarrow> rolled_out L spec t (url_secret nurl) (trace s)"
  shows "traced_rel (release_guarded L spec) s (snd (manila_rotation L t nurl g s))"
proof -
  let ?E = "\<lambda>e. case e of
       EFinalizeSecretRotation ns old new fin guard \<Rightarrow> guard = g \<and> (fin = TransportConsumerFinalizer \<longrightarrow> new \<in> {t, url_secret nurl})
     | ERemoveConsumerFinalizer ns old fin \<Rightarrow> g
     | EDelete kind ns name \<Rightarrow> g
     | _ \<Rightarrow> True"
  have "emits ?E (manila_rotation L t nurl g)"
    by (rule rotation_emits)
      (simp_all add: url_secret_def ACConsumerFinalizer_def TransportConsumerFinalizer_def)
  then have "emits_rel ?E s (snd (manila_rotation L t nurl g s))" by (rule emits_relI)
  then show ?thesis
  proof (rule traced_emits)
    fix xs e
    assume "?E e"
    moreover have "g \<longrightarrow> rolled_out L spec t (url_secret nurl) (trace s @ xs)"
      using assms rolled_out_append by blast
    ultimately show "release_guarded L spec (trace s @ xs) e"
      unfolding release_guarded_def by (auto split: event.splits)
  qed
qed

lemma rolled_out_keeps:
  fixes m :: "(Manila st, reconcile_result, 'a) prog"
  assumes "emits keeps_all m" and "m s = (x, u)" and "b \<longrightarrow> rolled_out L spec t n (trace s)"
  shows "b \<longrightarrow> rolled_out L spec t n (trace u)"
  using framesD [OF assms(1,2)] assms(3) by (auto simp: emits_rel_def rolled_out_append)

lemma keeps_all_traced:
  "emits keeps_all m \<Longrightarrow> traced_rel (release_guarded L spec) u (snd (m u))"
  by (rule traced_emits [OF emits_relI [where E = keeps_all]]) (auto intro: keeps_all_guarded)

lemmas phases_traced = phases_keep_all [THEN keeps_all_traced]

text \<open>What follows the services, under the guard they computed.\<close>

lemma release_tail_guarded:
  assumes "g \<longrightarrow> rolled_out L spec (tu_SecretName url) (url_secret nurl) (trace u)"
  shows "traced_rel (release_guarded L spec) u (snd (
    thenP (manila_cronjob L ann)
     (thenP (manila_cleanup L ann)
     (thenP (manila_rotation L (tu_SecretName url) nurl g)
     (bindP (getI (Manila_IsReady (l_IsTrue L))) (\<lambda>ready.
        thenP (whenP ready (markTrue Manila_updC ReadyCondition (LibMsg ''ReadyMessage'')))
          (ret (Result0, None)))))) u))"
proof (intro traced_bind phases_traced rotation_guarded, goal_cases)
  case (1 a t b v)
  then show ?case by (intro rolled_out_keeps [OF phases_keep_all(4) 1(2)] rolled_out_keeps [OF phases_keep_all(3) 1(1)] assms)
qed (rule keeps_all_traced, intro emits_rules)+

lemma releases_guarded:
  "ordered (release_guarded L (man_Spec (inst s))) (trace s) (events_of (manila_reconcileNormal L) s)"
  unfolding manila_reconcileNormal_def
proof (intro traced_events traced_func traced_bind phases_traced(1), goal_cases)
  case (1 a t)
  let ?P = "release_guarded L (man_Spec (inst s))"
  obtain url nurl ann where a: "a = (url, nurl, ann)" by (metis prod_cases3)
  have spec: "man_Spec (inst t) = man_Spec (inst s)" by (rule keepsI_run [OF prepare_keeps_spec 1])
  show ?case
    unfolding a prod.case
  proof (rule traced_bind [OF keeps_all_traced [OF phases_keep_all(2)] release_tail_guarded])
    fix g u
    assume "manila_services L (tu_SecretName url) (url_secret nurl) t = (Next g, u)"
    then show "g \<longrightarrow> rolled_out L (man_Spec (inst s)) (tu_SecretName url) (url_secret nurl) (trace u)"
      using services_guard [of L "tu_SecretName url" "url_secret nurl" t u] spec by (cases g) simp_all
  qed
qed

text \<open>C1: in a reconciliation, every call that gives up a credential (a guarded rotation, the release of a secret, the deletion of the notifications transport) comes after the API, the scheduler and every share of the spec have answered in this run that they are ready at the observed generation with the hash of the secrets that this run passed to them; and a messaging secret that a rotation installs is one of those.\<close>

theorem manila_releases_guarded:
  "ordered (release_guarded L (man_Spec (inst s))) (trace s) (events_of (manila_reconcileNormal L) s)"
  by (rule releases_guarded)

section \<open>Rotation and pruning\<close>

text \<open>C20: with the notifications bus disabled, the old notifications secret is let go only under the guard, and in order: first the consumer finalizer, then the deletion of the transport URL; the status forgets the secret only after the deletion succeeded or found nothing to delete, so that a failed step is retried.\<close>

theorem manila_notifications_teardown:
  "manila_rotate_notifications L None guardReady s =
     (let ns = manila_ns (inst s);
          name = transportURL_name (inst s) True;
          fin = TransportConsumerFinalizer in
      case mst_NotificationsURLSecret (man_Status (inst s)) of
        None \<Rightarrow> (Next (), s)
      | Some old \<Rightarrow>
          if old \<noteq> '''' \<and> guardReady then
            (let s1 = s\<lparr>trace := trace s @ [ERemoveConsumerFinalizer ns old fin]\<rparr> in
            case o_RemoveConsumerFinalizer L (trace s) ns old fin of
              Some e \<Rightarrow> (Return (Result0, Some e), s1)
            | None \<Rightarrow>
                (let s2 = s\<lparr>trace := trace s1 @ [EDelete ''TransportURL'' ns name]\<rparr>;
                     cleared = s2\<lparr>inst := set_NotificationsURLSecret None (inst s)\<rparr> in
                 case o_Delete L (trace s1) ''TransportURL'' ns name of
                   None \<Rightarrow> (Next (), cleared)
                 | Some e \<Rightarrow> if l_IsNotFound L e then (Next (), cleared) else (Return (Result0, Some e), s2)))
          else (Next (), s))"
  by (simp add: manila_rotate_notifications_def release_secret_def try_call_def transportURLDeleted_def
      prog_simps Let_def manila_ns_def split: option.split)

lemma prune_run:
  assumes "manila_prune L t nurl s = (Next (), u)"
  shows "inst u = inst s \<and> trace u = trace s @
    [EPruneConsumerFinalizers (manila_ns (inst s)) TransportConsumerFinalizer
       [mst_TransportURLSecret (man_Status (inst s)), t,
        (case mst_NotificationsURLSecret (man_Status (inst s)) of Some x \<Rightarrow> x | None \<Rightarrow> ''''), url_secret nurl],
     EPruneConsumerFinalizers (manila_ns (inst s)) ACConsumerFinalizer
       [mst_ApplicationCredentialSecret (man_Status (inst s)), manila_ac_secret (inst s)]]"
  using assms
  by (auto simp: manila_prune_def prune_secrets_def try_call_def prog_simps Let_def split: option.splits)

text \<open>A phase that goes on or fails with an error.\<close>

definition fails_with_error :: "unit manila_phase \<Rightarrow> bool" where
  "fails_with_error m \<longleftrightarrow> (\<forall>s. case fst (m s) of Next a \<Rightarrow> True | Return r \<Rightarrow> snd r \<noteq> None | Panic \<Rightarrow> False)"

lemma fails_with_error_bind:
  "fails_with_error m \<Longrightarrow> fails_with_error n \<Longrightarrow> fails_with_error (thenP m n)"
proof (unfold fails_with_error_def, intro allI)
  fix s
  assume m: "\<forall>s. case fst (m s) of Next a \<Rightarrow> True | Return r \<Rightarrow> snd r \<noteq> None | Panic \<Rightarrow> False"
    and n: "\<forall>s. case fst (n s) of Next a \<Rightarrow> True | Return r \<Rightarrow> snd r \<noteq> None | Panic \<Rightarrow> False"
  obtain x t where ms: "m s = (x, t)" by fastforce
  show "case fst (thenP m n s) of Next a \<Rightarrow> True | Return r \<Rightarrow> snd r \<noteq> None | Panic \<Rightarrow> False"
    using m [THEN spec [of _ s]] n [THEN spec [of _ t]] by (cases x) (simp_all add: run_bindP ms)
qed

lemma rotation_fails_with_error: "fails_with_error (manila_rotation L t nurl g)"
  unfolding manila_rotation_def
  by (intro fails_with_error_bind)
    (auto simp: fails_with_error_def manila_rotate_transport_def manila_rotate_ac_def manila_rotate_notifications_def
        finalize_rotation_def release_secret_def try_call_def transportURLDeleted_def manila_prune_def
        prune_secrets_def prog_simps Let_def split: option.split sum.split)

text \<open>C21: a rotation that goes through ends with the two prunes, and their keep lists hold the secrets that the status it leaves names as consumed and the ones the run has configured: pruning never takes the finalizer of a secret in use.\<close>

theorem manila_prune_keeps_current:
  "case manila_rotation L t nurl guardReady s of
     (Next u0, u) \<Rightarrow>
       (\<exists>h. trace u = h @
         [EPruneConsumerFinalizers (manila_ns (inst u)) TransportConsumerFinalizer
            [mst_TransportURLSecret (man_Status (inst u)), t,
             (case mst_NotificationsURLSecret (man_Status (inst u)) of Some x \<Rightarrow> x | None \<Rightarrow> ''''), url_secret nurl],
          EPruneConsumerFinalizers (manila_ns (inst u)) ACConsumerFinalizer
            [mst_ApplicationCredentialSecret (man_Status (inst u)), manila_ac_secret (inst u)]])
   | (Return r, u) \<Rightarrow> snd r \<noteq> None
   | (Panic, u) \<Rightarrow> False"
proof -
  obtain x u where run: "manila_rotation L t nurl guardReady s = (x, u)" by fastforce
  show ?thesis
  proof (cases x)
    case (Next a)
    with run obtain v where "manila_prune L t nurl v = (Next (), u)"
      unfolding manila_rotation_def by (auto elim!: bindP_NextE)
    from prune_run [OF this] run Next show ?thesis by auto
  qed (use rotation_fails_with_error [of L t nurl guardReady] run in \<open>auto simp: fails_with_error_def dest!: spec [of _ s]\<close>)
qed

section \<open>Dropped results\<close>

text \<open>C39: an error of the check of the service secret ends the reconciliation with no error: the run reports the requeue the check came with (none, where the check just failed) and the condition is the only trace of it.\<close>

theorem manila_passwords_drop_error:
  "let m = inst s; tmpl = sb_ManilaTemplate (ms_Base (man_Spec m)) in
   case o_VerifySecretFields L (trace s) (manila_ns m) (mt_Secret tmpl) [psel_Service (mt_PasswordSelectors tmpl)] NormalDuration of
     (h, res, Some e) \<Rightarrow>
       fst (manila_passwords L s) = Return (res, None) \<and>
       reported (mst_Conditions (man_Status (inst (snd (manila_passwords L s))))) InputReadyCondition =
         Some (CSet (Some (FalseCondition InputReadyCondition ErrorReason SeverityWarning
           (LibMsg ''InputReadyErrorMessage'') [GErr e])))
   | (h, res, None) \<Rightarrow>
       (if res = Result0 then fst (manila_passwords L s) = Next () else fst (manila_passwords L s) = Return (res, None))"
  by (auto simp: manila_passwords_def verifyServiceSecret_def prog_simps Let_def Manila_updC_def
      reported_cond_do split: prod.split option.split)

text \<open>C40: where the db sync job answers a requeue, its error is dropped: the run returns the requeue with no error and the condition says the job is running, whatever error came with it; an error with an empty result is reported.\<close>

theorem manila_db_sync_result_first:
  "let m = inst s;
       hash = (case mst_Hash (man_Status m) of Some h \<Rightarrow> (case h DbSyncHash of Some v \<Rightarrow> v | None \<Rightarrow> '''') | None \<Rightarrow> '''');
       job = manila_Job L m (svcLabels s) ann None DBSyncJobName DBSyncCommand 0 ComponentDBSync;
       run = manila_reconcileInit L ann s;
       said = reported (mst_Conditions (man_Status (inst (snd run)))) DBSyncReadyCondition in
   case o_DoJob L (trace s) job DbSyncHash (sb_PreserveJobs (ms_Base (man_Spec m))) ShortDuration hash of
     (res, err, changed, h) \<Rightarrow>
       if res \<noteq> Result0 then
         fst run = Next (res, None) \<and>
         said = Some (CSet (Some (FalseCondition DBSyncReadyCondition RequestedReason SeverityInfo
           (LibMsg ''DBSyncReadyRunningMessage'') [])))
       else (case err of
           Some e \<Rightarrow> fst run = Next (Result0, Some e)
         | None \<Rightarrow> (if changed \<and> mst_Hash (man_Status m) = None then fst run = Panic
              else fst run = Next (Result0, None) \<and> said = Some (CMarkTrue DBSyncReadyCondition (LibMsg ''DBSyncReadyMessage''))))"
  by (auto simp: manila_reconcileInit_def prog_simps Let_def Manila_updC_def manila_setHash_def
      reported_cond_do split: prod.split option.split)

section \<open>Network annotations\<close>

definition nads_ready :: "Manila \<Rightarrow> bool" where
  "nads_ready m \<longleftrightarrow> reported (mst_Conditions (man_Status m)) NetworkAttachmentsReadyCondition =
     Some (CMarkTrue NetworkAttachmentsReadyCondition (LibMsg ''NetworkAttachmentsReadyMessage''))"

text \<open>A condition call of another type keeps a projection that reads one condition.\<close>

lemma keepsI_one:
  "(\<And>i. g (upd (cond_do (CSet (Some (FalseCondition t r sev msg args)))) i) = g i) \<Longrightarrow> keepsI g (setFalse upd t r sev msg args)"
  "(\<And>i. g (upd (cond_do (CMarkTrue t msg)) i) = g i) \<Longrightarrow> keepsI g (markTrue upd t msg)"
  "(\<And>i. g (upd (cond_do c) i) = g i) \<Longrightarrow> keepsI g (condP upd c)"
  by (simp_all add: setFalse_def markTrue_def condP_def keepsI_updI)

lemma reconcileInit_keeps: "keepsI nads_ready (manila_reconcileInit L ann)"
  unfolding manila_reconcileInit_def
  by (intro keeps.frame_rules keepsI_local keepsI_updI keepsI_one frames_case)
    (simp_all add: nads_ready_def Manila_updC_def manila_setHash_def reported_cond_do)

lemma reconcileInit_trace:
  "\<exists>hash. trace (snd (manila_reconcileInit L ann s)) = trace s @
     [EDoJob (manila_Job L (inst s) (svcLabels s) ann None DBSyncJobName DBSyncCommand 0 ComponentDBSync)
        DbSyncHash (sb_PreserveJobs (ms_Base (man_Spec (inst s)))) hash]"
  by (simp add: manila_reconcileInit_def prog_simps Let_def split: prod.split option.split)

lemma ensureNAD_missing:
  assumes "o_GetNAD L (trace s) nad ns = Inl e" and "l_IsNotFound L e"
  shows "ensureNAD L upd ns (nad # nads) s = (Next (Map.empty, ResultRequeue, None),
    s\<lparr>trace := trace s @ [EGet ''NetworkAttachmentDefinition'' ns nad],
      inst := upd (cond_do (CSet (Some (FalseCondition NetworkAttachmentsReadyCondition ErrorReason SeverityWarning
                    (LibMsg ''NetworkAttachmentsReadyWaitingMessage'') [GStr nad])))) (inst s)\<rparr>)"
  using assms by (simp add: ensureNAD_def ensureNAD_step_def prog_simps)

text \<open>C36: a network attachment that does not exist does not hold up the instance: where the first attachment of the API is not found, its requeue is dropped, the condition is still marked true, and the run goes on to the db sync with no annotation.\<close>

theorem manila_missing_nad_marked_ready:
  assumes "st_NetworkAttachments (atc_ServiceTemplate (at_Core (ms_ManilaAPI (man_Spec (inst s))))) = nad # nads"
    and "o_GetNAD L (trace s) nad (manila_ns (inst s)) = Inl e" and "l_IsNotFound L e"
  shows "(\<exists>m preserve hash. trace (snd (manila_init L s)) = trace s @
      [EGet ''NetworkAttachmentDefinition'' (manila_ns (inst s)) nad,
       EDoJob (manila_Job L m (svcLabels s) Map.empty None DBSyncJobName DBSyncCommand 0 ComponentDBSync)
         DbSyncHash preserve hash]) \<and>
    reported (mst_Conditions (man_Status (inst (snd (manila_init L s))))) NetworkAttachmentsReadyCondition =
      Some (CMarkTrue NetworkAttachmentsReadyCondition (LibMsg ''NetworkAttachmentsReadyMessage''))"
proof -
  define v where "v = s\<lparr>trace := trace s @ [EGet ''NetworkAttachmentDefinition'' (manila_ns (inst s)) nad],
    inst := Manila_updC (cond_do (CMarkTrue NetworkAttachmentsReadyCondition (LibMsg ''NetworkAttachmentsReadyMessage'')))
      (Manila_updC (cond_do (CSet (Some (FalseCondition NetworkAttachmentsReadyCondition ErrorReason SeverityWarning
         (LibMsg ''NetworkAttachmentsReadyWaitingMessage'') [GStr nad]))))
        (Manila_updC (cond_do (CMarkTrue ServiceConfigReadyCondition (LibMsg ''ServiceConfigReadyMessage''))) (inst s)))\<rparr>"
  have ready: "nads_ready (inst v)"
    by (simp add: v_def nads_ready_def Manila_updC_def reported_cond_do)
  have end_eq: "snd (manila_init L s) = snd (manila_reconcileInit L Map.empty v)"
    using assms by (simp add: manila_init_def prog_simps ensureNAD_missing manila_ns_def Manila_updC_def v_def
        split: prod.split outcome.split)
  have "nads_ready (inst (snd (manila_init L s)))"
    unfolding end_eq using keepsI_D [OF reconcileInit_keeps [of L Map.empty], of v] ready by simp
  moreover have "\<exists>m preserve hash. trace (snd (manila_init L s)) = trace s @
      [EGet ''NetworkAttachmentDefinition'' (manila_ns (inst s)) nad,
       EDoJob (manila_Job L m (svcLabels s) Map.empty None DBSyncJobName DBSyncCommand 0 ComponentDBSync)
         DbSyncHash preserve hash]"
    using reconcileInit_trace [of L Map.empty v] unfolding end_eq by (auto simp: v_def)
  ultimately show ?thesis by (simp add: nads_ready_def)
qed

definition nad_missing_lib :: lib where
  "nad_missing_lib = demo_lib\<lparr>o_GetNAD := \<lambda>h n ns. Inl demo_not_found\<rparr>"

definition nad_manila :: Manila where
  "nad_manila = demo_manila\<lparr>man_Spec := demo_spec\<lparr>ms_ManilaAPI := demo_api_template\<lparr>at_Core :=
     (at_Core demo_api_template)\<lparr>atc_ServiceTemplate := demo_st\<lparr>st_NetworkAttachments := [''storage'']\<rparr>\<rparr>\<rparr>\<rparr>\<rparr>"

theorem manila_missing_nad_marked_ready_witness:
  "reported (mst_Conditions (man_Status (inst (snd (manila_init nad_missing_lib (demo_state nad_manila)))))) NetworkAttachmentsReadyCondition =
      Some (CMarkTrue NetworkAttachmentsReadyCondition (LibMsg ''NetworkAttachmentsReadyMessage''))"
proof -
  have nads: "st_NetworkAttachments (atc_ServiceTemplate (at_Core (ms_ManilaAPI (man_Spec (inst (demo_state nad_manila)))))) = ''storage'' # []"
    by (simp add: nad_manila_def)
  have miss: "o_GetNAD nad_missing_lib (trace (demo_state nad_manila)) ''storage'' (manila_ns (inst (demo_state nad_manila))) = Inl demo_not_found"
    and nf: "l_IsNotFound nad_missing_lib demo_not_found"
    by (simp_all add: nad_missing_lib_def demo_defs)
  from manila_missing_nad_marked_ready [OF nads miss nf] show ?thesis ..
qed

section \<open>The labels of the share loop\<close>

lemma deploy_share_labels:
  "manila_deploy_share L t n h name acc s = (Next b, u) \<Longrightarrow> svcLabels u = (svcLabels s)(ShareNameLabel \<mapsto> name)"
  by (cases acc) (auto simp: manila_deploy_share_def shareDeploymentCreateOrUpdate_def service_failed_def all_ready_def
      prog_simps Let_def split: prod.splits option.splits if_splits bool.splits)

lemma deploy_shares_fold_labels:
  "foldP (manila_deploy_share L t n h) names acc s = (Next b, u) \<Longrightarrow>
   svcLabels u = (if names = [] then svcLabels s else (svcLabels s)(ShareNameLabel \<mapsto> last names))"
proof (induction names arbitrary: acc s)
  case Nil
  then show ?case by (simp add: pureP_def)
next
  case (Cons name names)
  from Cons.prems obtain acc1 s1 where one: "manila_deploy_share L t n h name acc s = (Next acc1, s1)"
    and rest: "foldP (manila_deploy_share L t n h) names acc1 s1 = (Next b, u)"
    unfolding foldP.simps by (elim bindP_NextE)
  show ?case using deploy_share_labels [OF one] Cons.IH [OF rest] by (auto simp: fun_upd_twist)
qed

lemma cronjob_trace:
  "trace (snd (manila_cronjob L ann u)) = trace u @ [ECreateOrPatchCronJob (manila_CronJob L (inst u) (svcLabels u) ann)]"
  by (simp add: manila_cronjob_def prog_simps Let_def split: prod.split option.split)

lemma CronJob_labels:
  "cj_Labels (manila_CronJob L m labels ann) = labels(l_const L ''common.ComponentSelector'' \<mapsto> ComponentDBPurge)"
  "cj_JobLabels (manila_CronJob L m labels ann) = labels(l_const L ''common.ComponentSelector'' \<mapsto> ComponentDBPurge)"
  "pt_Labels (cj_Template (manila_CronJob L m labels ann)) = labels(l_const L ''common.ComponentSelector'' \<mapsto> ComponentDBPurge)"
  by (simp_all add: manila_CronJob_def Let_def)

text \<open>C37: the share loop leaves its mark on the labels the controller goes on with: once the services are deployed the label map of the run carries the name of the last share, and the purge cron job is given it among its own labels and those of its pods.\<close>

theorem manila_share_label_leaks:
  "case manila_services L t n s of
     (Next g, u) \<Rightarrow>
       (let names = sorted_keys (ms_ManilaShares (man_Spec (inst s)));
            labels = (if names = [] then svcLabels s else (svcLabels s)(ShareNameLabel \<mapsto> last names));
            podLabels = labels(l_const L ''common.ComponentSelector'' \<mapsto> ComponentDBPurge) in
        \<exists>cj. trace (snd (manila_cronjob L ann u)) = trace u @ [ECreateOrPatchCronJob cj] \<and>
          cj_Labels cj = podLabels \<and> cj_JobLabels cj = podLabels \<and> pt_Labels (cj_Template cj) = podLabels)
   | _ \<Rightarrow> True"
proof (cases "manila_services L t n s")
  case (Pair x u)
  show ?thesis
  proof (cases x)
    case (Next g)
    let ?names = "\<lambda>v. sorted_keys (ms_ManilaShares (man_Spec (inst v)))"
    from Pair Next have run: "manila_services L t n s = (Next g, u)" by simp
    obtain h b1 s1 s2 b2 s3 where r1: "manila_deploy_api L t n h s = (Next b1, s1)"
      and r2: "manila_release_accounts L s1 = (Next (), s2)"
      and r3: "manila_deploy_scheduler L t n h b1 s2 = (Next b2, s3)"
      and r4: "manila_deploy_shares L t n h b2 s3 = (Next g, u)"
      by (rule services_steps [OF run])
    have quiet: "frames (keeps_rel svcLabels) (manila_deploy_api L t n h)"
      "frames (keeps_rel svcLabels) (manila_release_accounts L)"
      "frames (keeps_rel svcLabels) (manila_deploy_scheduler L t n h b1)"
      unfolding manila_deploy_api_def manila_deploy_scheduler_def manila_release_accounts_def all_ready_def
        apiDeploymentCreateOrUpdate_def schedulerDeploymentCreateOrUpdate_def mirror_condition_def
        service_failed_def service_running_def call_defs
      by (intro keeps.frame_rules frames_case keeps_call; simp add: st_defs keeps_mod keeps.frame_get)+
    have spec: "man_Spec (inst s3) = man_Spec (inst s)"
      using keepsI_run [OF services_keeps_spec(1) r1] keepsI_run [OF services_keeps_spec(5) r2]
        keepsI_run [OF services_keeps_spec(2) r3] by simp
    have labels: "svcLabels s3 = svcLabels s"
      using framesD [OF quiet(1) r1] framesD [OF quiet(2) r2] framesD [OF quiet(3) r3] by (simp add: keeps_rel_def)
    from r4 obtain acc v where f: "foldP (manila_deploy_share L t n h) (?names s3) (b2, None) s3 = (Next acc, v)"
      and v: "svcLabels u = svcLabels v"
      unfolding manila_deploy_shares_def
      by (auto elim!: bindP_NextE simp: prog_simps split: if_splits prod.splits outcome.splits)
    from deploy_shares_fold_labels [OF f] v spec labels
    have "svcLabels u = (if ?names s = [] then svcLabels s else (svcLabels s)(ShareNameLabel \<mapsto> last (?names s)))" by simp
    then show ?thesis
      unfolding Pair Next prod.case outcome.case Let_def cronjob_trace
      by (intro exI [of _ "manila_CronJob L (inst u) (svcLabels u) ann"]) (simp only: CronJob_labels simp_thms)
  qed (use Pair in simp_all)
qed

section \<open>Shares that left the spec\<close>

definition stale_share :: "Manila \<Rightarrow> ManilaShare \<Rightarrow> bool" where
  "stale_share m share \<longleftrightarrow> GetOwningManilaName (shr_Meta share) = om_Name (man_Meta m) \<and>
     map_of (ms_ManilaShares (man_Spec m)) (ShareName share) = None \<and>
     om_DeletionTimestamp (shr_Meta share) = None"

definition share_deletion :: "event \<Rightarrow> (string \<times> string) option" where
  "share_deletion e = (case e of EDelete kind ns name \<Rightarrow>
     if kind = ''ManilaShare'' then Some (ns, name) else None | _ \<Rightarrow> None)"

definition cleanup_key :: "Manila \<Rightarrow> ObjectMeta \<times> ManilaSpec" where
  "cleanup_key m = (man_Meta m, man_Spec m)"

definition cleanup_word :: "Manila \<Rightarrow> ManilaShare list \<Rightarrow> (string \<times> string) list" where
  "cleanup_word m items = map (\<lambda>share. (om_Namespace (shr_Meta share), om_Name (shr_Meta share)))
     (filter (stale_share m) items)"

lemma cleanup_step_run:
  assumes "shareCleanup_step L share (c, ds) s = (x, t)" and "cleanup_key (inst s) = cleanup_key m"
  shows "cleanup_key (inst t) = cleanup_key m \<and> trace t = trace s @
      (if stale_share m share then [EDelete ''ManilaShare'' (om_Namespace (shr_Meta share)) (om_Name (shr_Meta share))] else []) \<and>
    (case x of Next a \<Rightarrow> a = (c \<or> stale_share m share, ds @ (if stale_share m share then [ShareName share] else []))
     | Return r \<Rightarrow> snd (snd r) \<noteq> None | Panic \<Rightarrow> False)"
  using assms
  by (auto simp: shareCleanup_step_def stale_share_def cleanup_key_def prog_simps Let_def
      split: if_splits option.splits)

lemma cleanup_fold_run:
  assumes "foldP (shareCleanup_step L) items (c, ds) s = (x, t)" and "cleanup_key (inst s) = cleanup_key m"
  shows "\<exists>es. trace t = trace s @ es \<and> prefix (List.map_filter share_deletion es) (cleanup_word m items) \<and>
    (case x of Next a \<Rightarrow> List.map_filter share_deletion es = cleanup_word m items \<and>
         a = (c \<or> filter (stale_share m) items \<noteq> [], ds @ map ShareName (filter (stale_share m) items))
     | Return r \<Rightarrow> snd (snd r) \<noteq> None | Panic \<Rightarrow> False)"
  using assms
proof (induction items arbitrary: c ds s)
  case Nil
  then show ?case by (auto simp: pureP_def cleanup_word_def List.map_filter_def)
next
  case (Cons share items)
  obtain y u where one: "shareCleanup_step L share (c, ds) s = (y, u)" by fastforce
  note step = cleanup_step_run [OF one Cons.prems(2)]
  let ?e = "if stale_share m share then [EDelete ''ManilaShare'' (om_Namespace (shr_Meta share)) (om_Name (shr_Meta share))] else []"
  have w: "cleanup_word m (share # items) = List.map_filter share_deletion ?e @ cleanup_word m items"
    by (simp add: cleanup_word_def List.map_filter_def share_deletion_def)
  show ?case
  proof (cases y)
    case (Next a)
    with step have a: "a = (c \<or> stale_share m share, ds @ (if stale_share m share then [ShareName share] else []))"
      and key: "cleanup_key (inst u) = cleanup_key m" and tr: "trace u = trace s @ ?e" by simp_all
    from Cons.prems(1) one Next have "foldP (shareCleanup_step L) items a u = (x, t)" by (simp add: bindP_def)
    from Cons.IH [OF this [unfolded a] key] obtain es where "trace t = trace u @ es"
      "prefix (List.map_filter share_deletion es) (cleanup_word m items)"
      "case x of Next a \<Rightarrow> List.map_filter share_deletion es = cleanup_word m items \<and>
         a = ((c \<or> stale_share m share) \<or> filter (stale_share m) items \<noteq> [],
              (ds @ (if stale_share m share then [ShareName share] else [])) @ map ShareName (filter (stale_share m) items))
       | Return r \<Rightarrow> snd (snd r) \<noteq> None | Panic \<Rightarrow> False" by blast
    with tr show ?thesis
      unfolding w by (intro exI [of _ "?e @ es"]) (cases x; simp add: map_filter_append)
  next
    case (Return r)
    with Cons.prems(1) one step show ?thesis
      unfolding w by (intro exI [of _ ?e]) (auto simp: bindP_def)
  next
    case Panic
    with step show ?thesis by simp
  qed
qed

text \<open>C19: the cleanup deletes, in the order of the list, exactly the shares that this instance owns, that the spec no longer names and that are not being deleted already; it asks for a cleanup job exactly where there was one; a run that fails deleted a prefix of them, and where the list itself fails it deletes nothing and says nothing.\<close>

theorem manila_shareCleanup_exact:
  "case o_ListShares L (trace s) (manila_ns (inst s)) None of
     Inl e \<Rightarrow> shareCleanup L s = (Next (False, '''', None), s\<lparr>trace := trace s @ [EList ''ManilaShare'' (manila_ns (inst s)) None]\<rparr>)
   | Inr items \<Rightarrow>
       prefix (List.map_filter share_deletion (events_of (shareCleanup L) s)) (cleanup_word (inst s) items) \<and>
       (case fst (shareCleanup L s) of
          Next (clean, hash, None) \<Rightarrow>
            List.map_filter share_deletion (events_of (shareCleanup L) s) = cleanup_word (inst s) items \<and>
            clean = (filter (stale_share (inst s)) items \<noteq> []) \<and>
            (hash, None) = SharesListHash L (map ShareName (filter (stale_share (inst s)) items))
        | Next (clean, hash, Some e) \<Rightarrow> True
        | _ \<Rightarrow> False)"
proof (cases "o_ListShares L (trace s) (manila_ns (inst s)) None")
  case (Inl e)
  then show ?thesis by (simp add: shareCleanup_def prog_simps manila_ns_def)
next
  case (Inr items)
  let ?s1 = "s\<lparr>trace := trace s @ [EList ''ManilaShare'' (manila_ns (inst s)) None]\<rparr>"
  obtain x t where f: "foldP (shareCleanup_step L) items (False, []) ?s1 = (x, t)" by fastforce
  have "cleanup_key (inst ?s1) = cleanup_key (inst s)" by simp
  from cleanup_fold_run [OF f this, unfolded append_Nil simp_thms] obtain es where es: "trace t = trace ?s1 @ es"
    "prefix (List.map_filter share_deletion es) (cleanup_word (inst s) items)"
    and x: "case x of Next a \<Rightarrow> List.map_filter share_deletion es = cleanup_word (inst s) items \<and>
         a = (filter (stale_share (inst s)) items \<noteq> [], map ShareName (filter (stale_share (inst s)) items))
     | Return r \<Rightarrow> snd (snd r) \<noteq> None | Panic \<Rightarrow> False" by blast
  have run: "shareCleanup L s = (case x of
      Next (c, ds) \<Rightarrow> (case SharesListHash L ds of (hash, Some e) \<Rightarrow> (Next (False, hash, Some e), t)
        | (hash, None) \<Rightarrow> (Next (c, hash, None), t))
    | Return r \<Rightarrow> (Next r, t) | Panic \<Rightarrow> (Panic, t))"
    using Inr f by (auto simp: shareCleanup_def prog_simps manila_ns_def split: outcome.split option.split prod.split)
  have ev: "List.map_filter share_deletion (events_of (shareCleanup L) s) = List.map_filter share_deletion es"
    using es(1) unfolding events_of_def run
    by (cases x) (auto simp: List.map_filter_def share_deletion_def split: prod.split option.split)
  show ?thesis
    using x es(2) Inr ev unfolding run
    by (cases x) (auto split: prod.split option.split)
qed

section \<open>Deletion\<close>















section \<open>The exit\<close>

lemma late_keeps:
  assumes "\<And>f m. g (man_Status_update f m) = g m"
  shows "keepsI g (manila_rotation L t nurl b)" "keepsI g (manila_cronjob L ann)" "keepsI g (manila_cleanup L ann)"
  unfolding manila_rotation_def manila_rotate_transport_def manila_rotate_notifications_def
    manila_rotate_ac_def manila_prune_def finalize_rotation_def transportURLDeleted_def
    set_NotificationsURLSecret_def manila_cronjob_def manila_cleanup_def shareCleanup_def
    shareCleanup_step_def call_defs
  by (intro keepsI_rules; simp add: assms Manila_updC_def)+

lemma manila_body_keeps: "keepsI man_Spec (manila_body L b)"
proof -
  have del: "keepsI man_Spec (manila_reconcileDelete L)"
    unfolding manila_reconcileDelete_def delete_db_finalizer_def collect_transport_secrets_def call_defs
    by (intro keepsI_rules; simp)
  have norm: "keepsI man_Spec (manila_reconcileNormal L)"
    unfolding manila_reconcileNormal_def
    by (intro keepsI_rules prepare_keeps_spec services_keeps_spec late_keeps; simp add: Manila_updC_def)
  show ?thesis
    unfolding manila_body_def by (intro keepsI_rules del norm; simp add: Manila_updC_def manila_setHash_def)
qed

text \<open>A Reconcile of the instance that reaches it ends, unless it panics, with the patch of the instance it leaves, whatever step returned; the instance has the spec that was fetched, and a failed patch is the error of the run.\<close>

lemma manila_Reconcile_patches:
  "case o_GetManila L (trace s) req of
     Inl e \<Rightarrow> fst (manila_Reconcile L req s) = Next (Result0, if l_IsNotFound L e then None else Some e)
   | Inr m0 \<Rightarrow>
       (case o_NewHelper L (trace s @ [EGet ''Manila'' (nn_Namespace req) (nn_Name req)]) ''Manila'' of
          Some e \<Rightarrow> fst (manila_Reconcile L req s) = Next (Result0, Some e)
        | None \<Rightarrow>
            (case manila_Reconcile L req s of
               (Next (res, err), s') \<Rightarrow>
                 (\<exists>tr. trace s' = tr @ [EPatchManila (inst s')] \<and>
                   (case o_Patch L tr (EPatchManila (inst s')) of Some e \<Rightarrow> err = Some e | None \<Rightarrow> True)) \<and>
                 man_Spec (inst s') = man_Spec m0
             | (Return r, s') \<Rightarrow> False
             | (Panic, s') \<Rightarrow> True))"
proof (cases "o_GetManila L (trace s) req")
  case (Inl e)
  then show ?thesis by (simp add: manila_Reconcile_def prog_simps)
next
  case (Inr m0)
  show ?thesis
  proof (cases "o_NewHelper L (trace s @ [EGet ''Manila'' (nn_Namespace req) (nn_Name req)]) ''Manila''")
    case (Some e)
    with Inr show ?thesis by (simp add: manila_Reconcile_def prog_simps)
  next
    case None
    let ?new = "conds_nil (mst_Conditions (man_Status m0))"
    let ?wd = "with_deferred L (\<lambda>m. mst_Conditions (man_Status m)) Manila_updC EPatchManila (manila_body L ?new)
      :: (Manila st, reconcile_result, reconcile_result) prog"
    define s1 where "s1 = s\<lparr>trace := trace s @ [EGet ''Manila'' (nn_Namespace req) (nn_Name req)],
      inst := if ?new then Manila_updC (\<lambda>_. conds_empty) m0 else m0\<rparr>"
    have run: "manila_Reconcile L req s = func ?wd s1"
      using Inr None by (simp add: manila_Reconcile_def prog_simps s1_def Let_def)
    have spec: "man_Spec (inst s1) = man_Spec m0" by (simp add: s1_def Manila_updC_def)
    obtain x s' where wd: "?wd s1 = (x, s')" by fastforce
    have keep: "man_Spec (inst s') = man_Spec m0"
      using keepsI_run [OF manilaP.with_deferred_keeps [OF _ manila_body_keeps] wd] spec
      by (simp add: Manila_updC_def)
    from manilaP.with_deferred_report [OF wd] keep run wd Inr None show ?thesis
      by (auto simp: run_func split: outcome.splits prod.splits)
  qed
qed

section \<open>Deployment after preparation\<close>

text \<open>The configuration secrets were written, and the db sync job answered that it is done.\<close>

definition config_written :: "lib \<Rightarrow> hist \<Rightarrow> bool" where
  "config_written L tr \<longleftrightarrow> (\<exists>h ts vars vars' rest. tr = h @ EEnsureSecrets ts # rest \<and>
     o_EnsureSecrets L h ts vars = (vars', None))"

definition db_synced :: "lib \<Rightarrow> hist \<Rightarrow> bool" where
  "db_synced L tr \<longleftrightarrow> (\<exists>h m labels ann preserve hash changed hash' rest.
     tr = h @ EDoJob (manila_Job L m labels ann None DBSyncJobName DBSyncCommand 0 ComponentDBSync) DbSyncHash preserve hash # rest \<and>
     o_DoJob L h (manila_Job L m labels ann None DBSyncJobName DBSyncCommand 0 ComponentDBSync) DbSyncHash preserve ShortDuration hash
       = (Result0, None, changed, hash'))"

lemma prepared_append:
  "config_written L tr \<Longrightarrow> config_written L (tr @ es)" "db_synced L tr \<Longrightarrow> db_synced L (tr @ es)"
  unfolding config_written_def db_synced_def by (metis append_Cons append_assoc)+

definition is_child :: "event \<Rightarrow> bool" where
  "is_child e \<longleftrightarrow> (case e of ECreateOrUpdateAPI d \<Rightarrow> True | ECreateOrUpdateScheduler d \<Rightarrow> True
     | ECreateOrUpdateShare d \<Rightarrow> True | ECreateOrPatchCronJob c \<Rightarrow> True | _ \<Rightarrow> False)"

lemma emits_grows:
  assumes "emits (\<lambda>e. True) m" and "m s = (x, t)"
  obtains es where "trace t = trace s @ es"
  using framesD [OF assms] by (auto simp: emits_rel_def)

lemma generate_written:
  assumes "manila_generateServiceConfig L mc db t n s = (Next None, u)"
  shows "config_written L (trace u)"
proof -
  let ?R = "\<lambda>r t. r = None \<longrightarrow> config_written L (trace t)"
  have last: "leaves ?R ?R (bindP (call (EEnsureSecrets ts) (\<lambda>h. o_EnsureSecrets L h ts vars)) (\<lambda>(vars', err).
      thenP (setVars vars') (ret err)))" for ts vars
    by (auto simp: leaves_def prog_simps config_written_def split: prod.splits)
  have get: "leaves (\<lambda>a t. True) ?R (get_secret L ns name)" for ns name
    unfolding get_secret_def by (rule leaves_local)
  have parts: "leaves (\<lambda>a t. True) ?R (manila_keystone_urls L)" "leaves (\<lambda>a t. True) ?R (ac_parameters L)"
    "leaves (\<lambda>a t. True) ?R (notifications_parameters L d name)" for d name
    unfolding manila_keystone_urls_def ac_parameters_def notifications_parameters_def
    by (intro leaves_rules get; simp)+
  have "leaves ?R (\<lambda>r t. True) (manila_generateServiceConfig L mc db t n)"
    unfolding manila_generateServiceConfig_def
    by (rule leaves_func [where R = ?R]) (intro last leaves_case leaves_bind get parts leaves_local leaves_ret; simp)+
  from leaves_Next [OF this assms] show ?thesis by simp
qed

lemma config_written_run:
  assumes "manila_config L mc db t n s = (Next (), u)"
  shows "config_written L (trace u)"
proof -
  let ?rest = "\<lambda>cerr. case cerr of Some e \<Rightarrow> manila_config_failed e
     | None \<Rightarrow> bindP (manila_createHashOfInputHashes L) (\<lambda>(inputHash, hashChanged, herr).
         case herr of Some e \<Rightarrow> manila_config_failed e
         | None \<Rightarrow> if hashChanged then
               thenP (markFalse Manila_updC ServiceConfigReadyCondition InitReason SeverityInfo
                        (LibMsg ''ServiceConfigReadyInitMessage'') []) (ret (Result0, None))
             else pureP ())"
  obtain v cerr where g: "manila_generateServiceConfig L mc db t n s = (Next cerr, v)"
    and r: "?rest cerr v = (Next (), u)"
    using assms unfolding manila_config_def by (elim bindP_NextE)
  from r have "cerr = None"
    by (cases cerr) (auto simp: manila_config_failed_def prog_simps)
  with g have "config_written L (trace v)" using generate_written by blast
  moreover have "emits (\<lambda>e. True) (?rest cerr)"
    unfolding manila_config_failed_def manila_createHashOfInputHashes_def by (intro emits_rules emits_helpers) simp_all
  then obtain es where "trace u = trace v @ es" using r by (rule emits_grows)
  ultimately show ?thesis by (simp add: prepared_append)
qed

lemma db_synced_run:
  assumes "manila_init L s = (Next ann, u)"
  shows "db_synced L (trace u)"
proof -
  obtain v where i: "manila_reconcileInit L ann v = (Next (Result0, None), u)"
    using assms unfolding manila_init_def
    by (auto elim!: bindP_NextE simp: run_ret run_pureP split: if_splits prod.splits)
  let ?h = "case mst_Hash (man_Status (inst v)) of Some h \<Rightarrow> (case h DbSyncHash of Some x \<Rightarrow> x | None \<Rightarrow> '''') | None \<Rightarrow> ''''"
  let ?job = "manila_Job L (inst v) (svcLabels v) ann None DBSyncJobName DBSyncCommand 0 ComponentDBSync"
  let ?p = "sb_PreserveJobs (ms_Base (man_Spec (inst v)))"
  obtain r e c h' where ans: "o_DoJob L (trace v) ?job DbSyncHash ?p ShortDuration ?h = (r, e, c, h')"
    by (metis prod_cases4)
  with i have "r = Result0" "e = None" "trace u = trace v @ [EDoJob ?job DbSyncHash ?p ?h]"
    by (auto simp: manila_reconcileInit_def prog_simps Let_def split: if_splits option.splits)
  with ans show ?thesis unfolding db_synced_def by blast
qed

lemma prepared_run:
  assumes "manila_prepare L s = (Next a, u)"
  shows "config_written L (trace u) \<and> db_synced L (trace u)"
proof -
  from assms obtain mc db t n v w x ann where c: "manila_config L mc db t n v = (Next (), w)"
    and f: "manila_ac_finalizer L w = (Next (), x)" and i: "manila_init L x = (Next ann, u)"
    unfolding manila_prepare_def by (auto elim!: bindP_NextE simp: run_pureP)
  have e: "emits (\<lambda>e. True) (thenP (manila_ac_finalizer L) (manila_init L))"
    by (intro emits.frame_bind front_emits init_emits) simp_all
  have "thenP (manila_ac_finalizer L) (manila_init L) w = (Next ann, u)" using f i by (simp add: bindP_def)
  from emits_grows [OF e this] obtain es where "trace u = trace w @ es" .
  with config_written_run [OF c] db_synced_run [OF i] show ?thesis by (simp add: prepared_append)
qed

definition deploy_guarded :: "lib \<Rightarrow> hist \<Rightarrow> event \<Rightarrow> bool" where
  "deploy_guarded L tr e \<longleftrightarrow> (is_child e \<longrightarrow> config_written L tr \<and> db_synced L tr)"

text \<open>C4: in a reconciliation nothing is deployed before it can run: the API, the scheduler, the shares and the purge cron job are written only after, in this run, the configuration secrets were written and the db sync job answered that it is done.\<close>

theorem manila_deploys_after_sync:
  "ordered (deploy_guarded L) (trace s) (events_of (manila_reconcileNormal L) s)"
  unfolding manila_reconcileNormal_def
proof (intro traced_events traced_func traced_bind, goal_cases)
  case 1
  have "emits (\<lambda>e. \<not> is_child e) (manila_prepare L)"
    by (rule prepare_emits) (simp_all add: is_child_def)
  from traced_emits [OF emits_relI [OF this]] show ?case
    by (simp add: deploy_guarded_def)
next
  case (2 a t)
  let ?rest = "case a of (transportURL, nurl, serviceAnnotations) \<Rightarrow>
       bindP (manila_services L (tu_SecretName transportURL) (url_secret nurl)) (\<lambda>guardReady.
       thenP (manila_cronjob L serviceAnnotations)
       (thenP (manila_cleanup L serviceAnnotations)
       (thenP (manila_rotation L (tu_SecretName transportURL) nurl guardReady)
       (bindP (getI (Manila_IsReady (l_IsTrue L))) (\<lambda>ready.
        thenP (whenP ready (markTrue Manila_updC ReadyCondition (LibMsg ''ReadyMessage'')))
          (ret (Result0, None)))))))"
  have "emits (\<lambda>e. True) ?rest"
    by (intro frames_case emits.frame_bind services_emits cronjob_emits cleanup_emits rotation_emits emits_rules) simp_all
  then show ?case
    by (rule traced_emits [OF emits_relI]) (use prepared_run [OF 2] in \<open>simp add: deploy_guarded_def prepared_append\<close>)
qed

section \<open>The order of the shares\<close>










end
