(* ===== verification/PackageProps.thy ===== *)
theory PackageProps
  imports StatefulSets Fixtures
begin

text \<open>
  The properties of the packages that build objects: the timing of the default probes, the volumes
  of the service, and that every mount of a pod names one of its volumes.
\<close>

section \<open>Probes\<close>







section \<open>Volumes\<close>

definition propagated :: "lib \<Rightarrow> string list \<Rightarrow> ManilaExtraVolMounts list \<Rightarrow> VolMounts list" where
  "propagated L svc extraVol = concat (map (\<lambda>exv. ExtraVolMounts_Propagate (l_Propagate L) exv svc) extraVol)"

definition core_volumes :: "ExtraVolume list \<Rightarrow> Volume list option" where
  "core_volumes vs = (if list_all (\<lambda>v. ev_CoreVolumeSource v \<noteq> None) vs
     then Some (map (\<lambda>v. \<lparr>vol_Name = ev_Name v, vol_Source = the (ev_CoreVolumeSource v)\<rparr>) vs) else None)"

lemma append_volumes_eq: "append_volumes vs res = map_option ((@) res) (core_volumes vs)"
  by (induction vs arbitrary: res) (auto simp: core_volumes_def split: option.splits)

lemma core_volumes_append:
  "core_volumes (xs @ ys) = (case core_volumes xs of None \<Rightarrow> None | Some a \<Rightarrow> map_option ((@) a) (core_volumes ys))"
  by (auto simp: core_volumes_def)

lemma append_groups_eq: "append_groups gs res = map_option ((@) res) (core_volumes (concat (map vmo_Volumes gs)))"
proof (induction gs arbitrary: res)
  case Nil
  show ?case by (simp add: core_volumes_def)
next
  case (Cons g gs)
  then show ?case
    by (cases "core_volumes (vmo_Volumes g)"; cases "core_volumes (concat (map vmo_Volumes gs))")
      (simp_all add: append_volumes_eq core_volumes_append)
qed

lemma append_extra_eq:
  "append_extra L svc exvs res = map_option ((@) res) (core_volumes (concat (map vmo_Volumes (propagated L svc exvs))))"
proof (induction exvs arbitrary: res)
  case Nil
  show ?case by (simp add: core_volumes_def propagated_def)
next
  case (Cons e exvs)
  let ?g = "ExtraVolMounts_Propagate (l_Propagate L) e svc"
  have p: "propagated L svc (e # exvs) = ?g @ propagated L svc exvs" by (simp add: propagated_def)
  show ?case
    unfolding append_extra.simps append_groups_eq Cons p
    by (cases "core_volumes (concat (map vmo_Volumes ?g))";
        cases "core_volumes (concat (map vmo_Volumes (propagated L svc exvs)))")
      (simp_all add: core_volumes_append)
qed

text \<open>C32: the volumes of a service are the scripts and the configuration, followed by the volumes of every extra mount that propagates to it, in the order of the spec; building them panics exactly where the source of one of those volumes does not convert.\<close>

theorem manila_GetVolumes_exact:
  "manila_GetVolumes L name extraVol svc =
     (let extra = concat (map vmo_Volumes (propagated L svc extraVol)) in
      if list_all (\<lambda>v. ev_CoreVolumeSource v \<noteq> None) extra
      then Some ([\<lparr>vol_Name = ''scripts'', vol_Source = SecretVolume scriptsVolumeDefaultMode (name @ ''-scripts'') []\<rparr>,
                  \<lparr>vol_Name = ''config-data'', vol_Source = SecretVolume configMode (name @ ''-config-data'') []\<rparr>] @
                 map (\<lambda>v. \<lparr>vol_Name = ev_Name v, vol_Source = the (ev_CoreVolumeSource v)\<rparr>) extra)
      else None)"
  by (simp add: manila_GetVolumes_def append_extra_eq core_volumes_def Let_def)

section \<open>Mounts\<close>

text \<open>
  Documented of the libraries: the mounts of a certificate, a CA bundle, an mTLS secret or a
  writable directory name the volume that goes with them, and a topology changes the scheduling
  of a pod only.
\<close>

definition lawful_volumes :: "lib \<Rightarrow> bool" where
  "lawful_volumes L \<longleftrightarrow>
     (\<forall>ca. list_all (\<lambda>m. vm_Name m = vol_Name (l_CaVolume L ca)) (l_CaVolumeMounts L ca)) \<and>
     (\<forall>mc. list_all (\<lambda>m. vm_Name m = vol_Name (l_MTLSVolume L mc)) (l_MTLSVolumeMounts L mc)) \<and>
     (\<forall>sv e. list_all (\<lambda>m. vm_Name m = vol_Name (l_TLSVolume L sv e)) (l_TLSVolumeMounts L sv e)) \<and>
     (\<forall>n p. vm_Name (l_WritableDirVolumeMount L n p) = vol_Name (l_WritableDirVolume L n)) \<and>
     (\<forall>t p. ps_Containers (pt_Spec (l_ApplyTopology L t p)) = ps_Containers (pt_Spec p) \<and>
        ps_Volumes (pt_Spec (l_ApplyTopology L t p)) = ps_Volumes (pt_Spec p))"

definition covers :: "Volume list \<Rightarrow> VolumeMount list \<Rightarrow> bool" where
  "covers volumes mounts \<longleftrightarrow> list_all (\<lambda>m. vm_Name m \<in> vol_Name ` set volumes) mounts"

definition pod_covered :: "PodTemplateSpec \<Rightarrow> bool" where
  "pod_covered pt \<longleftrightarrow> list_all (\<lambda>c. covers (ps_Volumes (pt_Spec pt)) (ct_VolumeMounts c)) (ps_Containers (pt_Spec pt))"

text \<open>The extra mounts of the user bring their own volumes.\<close>

definition extra_covered :: "lib \<Rightarrow> string list \<Rightarrow> ManilaExtraVolMounts list \<Rightarrow> bool" where
  "extra_covered L svc extraVol \<longleftrightarrow>
     list_all (\<lambda>m. vm_Name m \<in> ev_Name ` set (concat (map vmo_Volumes (propagated L svc extraVol))))
       (concat (map vmo_Mounts (propagated L svc extraVol)))"

lemma covers_append [simp]: "covers vs (xs @ ys) \<longleftrightarrow> covers vs xs \<and> covers vs ys"
  by (simp add: covers_def)

lemma covers_more: "covers vs xs \<Longrightarrow> covers (vs @ ws) xs"
  by (auto simp: covers_def list_all_iff)

lemma covers_one: "list_all (\<lambda>m. vm_Name m = vol_Name v) xs \<Longrightarrow> covers (vs @ [v]) xs"
  by (auto simp: covers_def list_all_iff)

lemma covers_named: "vm_Name m \<in> vol_Name ` set vs \<Longrightarrow> covers vs [m]"
  by (simp add: covers_def)

lemma place_covered:
  assumes "lawful_volumes L"
  shows "pod_covered (place_template L topology component pt) = pod_covered pt"
  using assms by (auto simp: place_template_def pod_covered_def lawful_volumes_def split: option.split)

lemma manila_volumes_cover:
  assumes "extra_covered L svc extraVol" and "manila_GetVolumes L name extraVol svc = Some vs"
  shows "covers vs (manila_GetVolumeMounts L extraVol svc)" and "''config-data'' \<in> vol_Name ` set vs"
proof -
  let ?extra = "concat (map vmo_Volumes (propagated L svc extraVol))"
  let ?base = "[\<lparr>vol_Name = ''scripts'', vol_Source = SecretVolume scriptsVolumeDefaultMode (name @ ''-scripts'') []\<rparr>,
     \<lparr>vol_Name = ''config-data'', vol_Source = SecretVolume configMode (name @ ''-config-data'') []\<rparr>]"
  have vs: "vs = ?base @ map (\<lambda>v. \<lparr>vol_Name = ev_Name v, vol_Source = the (ev_CoreVolumeSource v)\<rparr>) ?extra"
    using assms(2) by (auto simp: manila_GetVolumes_def append_extra_eq core_volumes_def split: if_splits)
  have names: "vol_Name ` set vs = {''scripts'', ''config-data''} \<union> ev_Name ` set ?extra"
    unfolding vs by (auto simp: image_image)
  have mounts: "concat (map (\<lambda>exv. concat (map vmo_Mounts (ExtraVolMounts_Propagate (l_Propagate L) exv svc))) extraVol)
      = concat (map vmo_Mounts (propagated L svc extraVol))"
    by (induction extraVol) (simp_all add: propagated_def)
  from assms(1) show "covers vs (manila_GetVolumeMounts L extraVol svc)"
    unfolding manila_GetVolumeMounts_def mounts by (auto simp: covers_def names extra_covered_def list_all_iff)
  show "''config-data'' \<in> vol_Name ` set vs" by (simp add: names)
qed

text \<open>The optional volumes of a service come with their mounts.\<close>

lemma option_covers:
  assumes "covers vs ms" and "list_all (\<lambda>m. vm_Name m = vol_Name v) xs"
  shows "covers (if b then vs @ [v] else vs) (if b then ms @ xs else ms)"
  using assms by (simp add: covers_more covers_one)

lemma worker_covers:
  assumes "extra_covered L svc extraVol" and "manila_GetVolumes L parent extraVol svc = Some vs"
  shows "covers (vs @ [config_data_custom name]) (manila_GetVolumeMounts L extraVol svc @ [config_data_custom_mount])"
  using manila_volumes_cover(1) [OF assms] covers_one [of "config_data_custom name" "[config_data_custom_mount]"]
  by (simp add: covers_more config_data_custom_def config_data_custom_mount_def)

lemma template_covered:
  "pod_covered (scheduler_template L a h labels ann probes vs ms) = covers vs ms"
  "pod_covered (share_template L b h labels ann probes vs ms) = covers vs ms"
  "pod_covered (api_template L c h labels ann probes vs ms) = (covers vs [GetLogVolumeMount L] \<and> covers vs ms)"
  by (simp_all add: pod_covered_def scheduler_template_def share_template_def api_template_def Let_def)

lemma lawful_volumesD:
  assumes "lawful_volumes L"
  shows "list_all (\<lambda>m. vm_Name m = vol_Name (l_CaVolume L ca)) (l_CaVolumeMounts L ca)"
    "list_all (\<lambda>m. vm_Name m = vol_Name (l_MTLSVolume L mc)) (l_MTLSVolumeMounts L mc)"
    "list_all (\<lambda>m. vm_Name m = vol_Name (l_TLSVolume L sv e)) (l_TLSVolumeMounts L sv e)"
    "vm_Name (l_WritableDirVolumeMount L n p) = vol_Name (l_WritableDirVolume L n)"
  using assms by (simp_all add: lawful_volumes_def)


text \<open>C23: in the stateful sets of the scheduler and of a share every mount of every container names a volume of the pod, whatever the TLS, memcached and topology options, provided the extra mounts that propagate to the service bring their volumes.\<close>

theorem worker_mounts_covered:
  assumes "lawful_volumes L"
    and "extra_covered L ManilaSchedulerPropagation (scs_ExtraMounts (sch_Spec a))"
    and "extra_covered L (ManilaSharePropagation @ [ShareName b]) (hs_ExtraMounts (shr_Spec b))"
  shows "(case scheduler_StatefulSet L a h labels ann topology mc of
       Some (Inr ss) \<Rightarrow> pod_covered (ss_Template ss) | _ \<Rightarrow> True) \<and>
    (case share_StatefulSet L b h labels ann topology mc of
       Some (Inr ss) \<Rightarrow> pod_covered (ss_Template ss) | _ \<Rightarrow> True)"
proof
  note option_covers2 = option_covers [OF option_covers [OF _ lawful_volumesD(1) [OF assms(1)]] lawful_volumesD(2) [OF assms(1)]]
  note simps = prod.case option.case sum.case option.map StatefulSet.simps place_covered [OF assms(1)] template_covered
  let ?probes = "l_CreateProbeSet L 8080 (l_const L ''corev1.URISchemeHTTP'')"
  let ?default = "GetDefaultProbesRPCWorker (l_FloatToInt32 L) ManilaServiceDownTime"
  show "case scheduler_StatefulSet L a h labels ann topology mc of
       Some (Inr ss) \<Rightarrow> pod_covered (ss_Template ss) | _ \<Rightarrow> True"
  proof (cases "?probes (so_Probes (stc_Override (sct_Core (scs_SchedulerTemplate (sch_Spec a))))) ?default")
    case probes: (Inr pr)
    show ?thesis
    proof (cases "manila_GetVolumes L (GetOwningManilaName (sch_Meta a)) (scs_ExtraMounts (sch_Spec a)) ManilaSchedulerPropagation")
      case (Some vs)
      show ?thesis
        unfolding scheduler_StatefulSet_def Let_def probes scheduler_GetVolumes_def Some simps scheduler_GetVolumeMounts_def
        by (rule option_covers2 [OF worker_covers [OF assms(2) Some]])
    qed (simp add: scheduler_StatefulSet_def scheduler_GetVolumes_def probes)
  qed (simp add: scheduler_StatefulSet_def)
  show "case share_StatefulSet L b h labels ann topology mc of
       Some (Inr ss) \<Rightarrow> pod_covered (ss_Template ss) | _ \<Rightarrow> True"
  proof (cases "?probes (sho_Probes (htc_Override (ht_Core (hs_ShareTemplate (shr_Spec b))))) ?default")
    case probes: (Inr pr)
    show ?thesis
    proof (cases "manila_GetVolumes L (GetOwningManilaName (shr_Meta b)) (hs_ExtraMounts (shr_Spec b)) (ManilaSharePropagation @ [ShareName b])")
      case (Some vs)
      show ?thesis
        unfolding share_StatefulSet_def Let_def probes share_GetVolumes_def Some simps share_GetVolumeMounts_def
        by (rule option_covers2 [OF worker_covers [OF assms(3) Some]])
    qed (simp add: share_StatefulSet_def share_GetVolumes_def probes)
  qed (simp add: share_StatefulSet_def)
qed

lemma demo_lawful_volumes: "lawful_volumes demo_lib"
  by (simp add: lawful_volumes_def demo_defs demo_volume_def demo_mount_def)

theorem worker_mounts_covered_witness:
  "case share_StatefulSet demo_lib (demo_share ''a'') ''h'' Map.empty Map.empty None demo_memcached of
     Some (Inr ss) \<Rightarrow> pod_covered (ss_Template ss) | _ \<Rightarrow> True"
proof -
  have "extra_covered demo_lib ManilaSchedulerPropagation (scs_ExtraMounts (sch_Spec demo_scheduler))"
    "extra_covered demo_lib (ManilaSharePropagation @ [ShareName (demo_share ''a'')]) (hs_ExtraMounts (shr_Spec (demo_share ''a'')))"
    by (simp_all add: extra_covered_def propagated_def demo_scheduler_def demo_share_def)
  from worker_mounts_covered [OF demo_lawful_volumes this] show ?thesis ..
qed

text \<open>The certificates of the endpoints keep the cover.\<close>

lemma tls_covers:
  assumes "lawful_volumes L" and "api_tls_volumes L tls eps vs ms = Inr (vs', ms')" and "covers vs ms"
  shows "covers vs' ms' \<and> set vs \<subseteq> set vs'"
  using assms(2,3)
proof (induction eps arbitrary: vs ms)
  case (Cons e eps)
  show ?case
  proof (cases "l_TLSEnabled L tls e")
    case True
    with Cons.prems(1) obtain sv0 where sv: "l_ToService L (case e of EndpointPublic \<Rightarrow> tls_Public tls | EndpointInternal \<Rightarrow> tls_Internal tls) = Inr sv0"
      by (auto simp: Let_def split: sum.splits)
    let ?sv = "sv0\<lparr>ts_CertMount := Some (''/etc/pki/tls/certs/'' @ endpoint_String e @ ''.crt''),
      ts_KeyMount := Some (''/etc/pki/tls/private/'' @ endpoint_String e @ ''.key'')\<rparr>"
    have step: "api_tls_volumes L tls eps (vs @ [l_TLSVolume L ?sv (endpoint_String e)])
        (ms @ l_TLSVolumeMounts L ?sv (endpoint_String e)) = Inr (vs', ms')"
      using Cons.prems(1) True sv by (simp add: Let_def)
    have "covers (vs @ [l_TLSVolume L ?sv (endpoint_String e)]) (ms @ l_TLSVolumeMounts L ?sv (endpoint_String e))"
      using Cons.prems(2) covers_one [OF lawful_volumesD(3) [OF assms(1)]] by (simp add: covers_more)
    from Cons.IH [OF step this] show ?thesis by simp
  next
    case False
    with Cons show ?thesis by simp
  qed
qed simp

text \<open>C24: in the stateful set of the API, too, every mount of the API container and of its log sidecar names a volume of the pod, for every combination of endpoint certificates.\<close>

theorem api_mounts_covered:
  assumes "lawful_volumes L" and "extra_covered L ManilaAPIPropagation (as_ExtraMounts (api_Spec a))"
  shows "case api_StatefulSet L a h labels ann topology mc timeout of
       Some (Inr ss) \<Rightarrow> pod_covered (ss_Template ss) | _ \<Rightarrow> True"
proof (cases "l_CreateProbeSet L ManilaPublicPort (if l_TLSEnabled L (atc_TLS (at_Core (as_Template (api_Spec a)))) EndpointPublic
      then l_const L ''corev1.URISchemeHTTPS'' else l_const L ''corev1.URISchemeHTTP'')
    (ao_Probes (atc_Override (at_Core (as_Template (api_Spec a))))) (GetDefaultProbesAPI (l_FloatToInt32 L) timeout)")
  case probes: (Inr pr)
  let ?parent = "GetOwningManilaName (api_Meta a)"
  let ?tls = "atc_TLS (at_Core (as_Template (api_Spec a)))"
  show ?thesis
  proof (cases "manila_GetVolumes L ?parent (as_ExtraMounts (api_Spec a)) ManilaAPIPropagation")
    case (Some vs)
    let ?vs = "(vs @ [config_data_custom (om_Name (api_Meta a)), l_WritableDirVolume L (l_const L ''volume.RunHttpdVolumeName''),
      l_WritableDirVolume L (l_const L ''volume.VarLogHttpdVolumeName'')]) @ [GetLogVolume L]"
    let ?ms = "api_GetVolumeMounts L (as_ExtraMounts (api_Spec a)) @ [GetLogVolumeMount L]"
    note base = manila_volumes_cover [OF assms(2) Some]
    have base_cover: "covers ?vs ?ms" "covers ?vs [GetLogVolumeMount L]"
      using base by (auto simp: api_GetVolumeMounts_def covers_def list_all_iff config_data_custom_def
          config_data_custom_mount_def config_data_mount_def lawful_volumesD(4) [OF assms(1)] GetLogVolume_def GetLogVolumeMount_def)
    let ?ca = "ca_CaBundleSecretName (tls_CaOf ?tls) \<noteq> ''''"
    let ?mtls = "mc_MTLSCert mc \<noteq> '''' \<and> as_MemcachedInstance (api_Spec a) \<noteq> None"
    let ?vs1 = "if ?ca then ?vs @ [l_CaVolume L (tls_CaOf ?tls)] else ?vs"
    let ?vs2 = "if ?mtls then ?vs1 @ [l_MTLSVolume L mc] else ?vs1"
    let ?ms1 = "if ?ca then ?ms @ l_CaVolumeMounts L (tls_CaOf ?tls) else ?ms"
    let ?ms2 = "if ?mtls then ?ms1 @ l_MTLSVolumeMounts L mc else ?ms1"
    have cover2: "covers ?vs2 ?ms2"
      by (rule option_covers [OF option_covers [OF base_cover(1) lawful_volumesD(1) [OF assms(1)]] lawful_volumesD(2) [OF assms(1)]])
    have more: "set ?vs \<subseteq> set ?vs2" by auto
    have run: "api_StatefulSet L a h labels ann topology mc timeout =
      (case api_tls_volumes L ?tls [EndpointInternal, EndpointPublic] ?vs2 ?ms2 of
         Inl err \<Rightarrow> Some (Inl err)
       | Inr (volumes, volumeMounts) \<Rightarrow> Some (Inr \<lparr>ss_Name = om_Name (api_Meta a),
            ss_Namespace = om_Namespace (api_Meta a), ss_Labels = labels, ss_MatchLabels = labels,
            ss_ParallelPodManagement = True, ss_Replicas = atc_Replicas (at_Core (as_Template (api_Spec a))),
            ss_Template = place_template L topology api_ComponentName
              (api_template L a h labels ann pr volumes volumeMounts)\<rparr>))"
      unfolding api_StatefulSet_def Let_def probes api_GetVolumes_def Some option.case sum.case option.map ..
    show ?thesis
    proof (cases "api_tls_volumes L ?tls [EndpointInternal, EndpointPublic] ?vs2 ?ms2")
      case (Inl e)
      show ?thesis unfolding run Inl by simp
    next
      case (Inr b)
      obtain volumes mounts where b: "b = (volumes, mounts)" by fastforce
      from tls_covers [OF assms(1) Inr [unfolded b] cover2] have c: "covers volumes mounts" and "set ?vs2 \<subseteq> set volumes" by auto
      with more base_cover(2) have "covers volumes [GetLogVolumeMount L]" by (auto simp: covers_def)
      with c show ?thesis unfolding run Inr b by (simp add: place_covered [OF assms(1)] template_covered)
    qed
  qed (simp add: api_StatefulSet_def api_GetVolumes_def probes)
qed (simp add: api_StatefulSet_def)

theorem api_mounts_covered_witness:
  "case api_StatefulSet demo_lib demo_api ''h'' Map.empty Map.empty None demo_memcached 60 of
     Some (Inr ss) \<Rightarrow> pod_covered (ss_Template ss) | _ \<Rightarrow> True"
  by (rule api_mounts_covered [OF demo_lawful_volumes]) (simp add: extra_covered_def propagated_def demo_api_def)

end
