(* ===== verification/CommonProps.thy ===== *)
theory CommonProps
  imports Reasoning Fixtures
begin

text \<open>
  The properties of the helpers all controllers share: the topology of a service, its network
  attachments and the secrets of its configuration.
\<close>

section \<open>Topology\<close>

text \<open>For each of the three services, a topology that the library accepted is recorded as applied and reported ready where the spec asks for one; a failure leaves the applied topology as it was, so that its finalizer can still be given back, and reports the failure.\<close>

lemma ensureTopology_records:
  "topology_outcome api_topology (\<lambda>a. ast_Conditions (api_Status a)) (inst s)
     (ensureTopology L api_topology ManilaAPI_updC fin ls s) \<and>
   topology_outcome scheduler_topology (\<lambda>a. sst_Conditions (sch_Status a)) (inst s1)
     (ensureTopology L scheduler_topology ManilaScheduler_updC fin ls s1) \<and>
   topology_outcome share_topology (\<lambda>a. hst_Conditions (shr_Status a)) (inst s2)
     (ensureTopology L share_topology ManilaShare_updC fin ls s2)"
  by (intro conjI apiT.ensureTopology_outcome schedT.ensureTopology_outcome shareT.ensureTopology_outcome)

section \<open>Configuration secrets\<close>

text \<open>The hashes of the named secrets of a list that the cluster has, read in their order.\<close>

definition secret_key :: "string \<Rightarrow> string" where
  "secret_key name = ''secret-'' @ name"

lemma verify_loop:
  "(case forP names (verifyConfigSecrets_step L upd ns) s of
     (Next u, s') \<Rightarrow> inst s' = inst s \<and>
        trace s' = trace s @ map (EGet ''Secret'' ns) (filter (\<lambda>n. n \<noteq> '''') names) \<and>
        list_all (\<lambda>n. n = '''' \<or> secret_key n \<in> dom (cfgVars s')) names \<and>
        dom (cfgVars s) \<subseteq> dom (cfgVars s') \<and>
        (\<forall>k. k \<notin> secret_key ` set names \<longrightarrow> cfgVars s' k = cfgVars s k)
   | (Return (res, err), s') \<Rightarrow> (res, err) \<noteq> (Result0, None)
   | (Panic, s') \<Rightarrow> False)"
proof (induction names arbitrary: s)
  case Nil
  show ?case by (simp add: pureP_def)
next
  case (Cons n names)
  show ?case
  proof (cases "n = ''''")
    case True
    with Cons [of s] show ?thesis
      by (auto simp: verifyConfigSecrets_step_def run_bindP run_pureP split: prod.splits outcome.splits)
  next
    case False
    show ?thesis
    proof (cases "o_GetSecret L (trace s) n ns")
      case (Inl e)
      with False show ?thesis
        by (simp add: verifyConfigSecrets_step_def prog_simps)
    next
      case (Inr sh)
      obtain sec h where sh: "sh = (sec, h)" by fastforce
      define s1 where "s1 = s\<lparr>trace := trace s @ [EGet ''Secret'' ns n], cfgVars := (cfgVars s)(secret_key n \<mapsto> h)\<rparr>"
      have "forP (n # names) (verifyConfigSecrets_step L upd ns) s = forP names (verifyConfigSecrets_step L upd ns) s1"
        using False Inr sh by (simp add: verifyConfigSecrets_step_def prog_simps s1_def secret_key_def)
      moreover have s1: "inst s1 = inst s" "trace s1 = trace s @ [EGet ''Secret'' ns n]"
        "secret_key n \<in> dom (cfgVars s1)" "dom (cfgVars s) \<subseteq> dom (cfgVars s1)"
        "\<And>k. k \<noteq> secret_key n \<Longrightarrow> cfgVars s1 k = cfgVars s k" by (auto simp: s1_def)
      moreover obtain x t where run: "forP names (verifyConfigSecrets_step L upd ns) s1 = (x, t)" by fastforce
      moreover note Cons [of s1, unfolded run]
      ultimately show ?thesis
        using False by (cases x) (simp_all del: forP.simps domIff, blast)
    qed
  qed
qed

text \<open>The check of the configuration secrets succeeds only where every named secret exists: each was read, in order, its hash is among the inputs of the configuration under its own key, nothing else changed; a missing or unreadable secret never ends in the empty result, so the caller never goes on without it.\<close>

lemma verifyConfigSecrets_all:
  "case verifyConfigSecrets L upd names ns s of
     (Next (res, err), s') \<Rightarrow>
       (if (res, err) = (Result0, None) then
          inst s' = inst s \<and>
          trace s' = trace s @ map (EGet ''Secret'' ns) (filter (\<lambda>n. n \<noteq> '''') names) \<and>
          set (map secret_key (filter (\<lambda>n. n \<noteq> '''') names)) \<subseteq> dom (cfgVars s') \<and>
          cfgVars s' |` (- secret_key ` set names) = cfgVars s |` (- secret_key ` set names)
        else True)
   | _ \<Rightarrow> False"
  using verify_loop [where names = names and L = L and upd = upd and ns = ns and s = s]
  by (auto simp: verifyConfigSecrets_def prog_simps list_all_iff restrict_map_def fun_eq_iff
      split: prod.splits outcome.splits)

section \<open>Network attachments\<close>

lemma nad_loop:
  "(case foldP (ensureNAD_step L upd ns) nads acc s of
     (Next found, s') \<Rightarrow> s' = s\<lparr>trace := trace s @ map (EGet ''NetworkAttachmentDefinition'' ns) nads\<rparr>
   | (Return (ann, res, err), s') \<Rightarrow> ann = Map.empty \<and> res = ResultRequeue \<and> err = None
   | (Panic, s') \<Rightarrow> False)"
proof (induction nads arbitrary: acc s)
  case Nil
  show ?case by (simp add: pureP_def)
next
  case (Cons nad nads)
  show ?case
  proof (cases "o_GetNAD L (trace s) nad ns")
    case (Inl e)
    then show ?thesis by (simp add: ensureNAD_step_def prog_simps)
  next
    case (Inr r)
    let ?s1 = "s\<lparr>trace := trace s @ [EGet ''NetworkAttachmentDefinition'' ns nad]\<rparr>"
    have "foldP (ensureNAD_step L upd ns) (nad # nads) acc s =
        foldP (ensureNAD_step L upd ns) nads (case r of Some n \<Rightarrow> acc @ [n] | None \<Rightarrow> acc) ?s1"
      using Inr by (simp add: ensureNAD_step_def prog_simps)
    with Cons [of ?s1 "case r of Some n \<Rightarrow> acc @ [n] | None \<Rightarrow> acc"] show ?thesis
      by (auto split: prod.splits outcome.splits)
  qed
qed

text \<open>The network helper asks for every attachment in order before it answers annotations; a failed lookup, of whatever kind, is never an error of the helper: it answers a requeue and no annotations.\<close>

lemma ensureNAD_all_or_requeue:
  "case ensureNAD L upd ns nads s of
     (Next (ann, res, err), s') \<Rightarrow>
       (if res = Result0 then trace s' = trace s @ map (EGet ''NetworkAttachmentDefinition'' ns) nads \<and>
          (\<exists>found. l_EnsureNetworksAnnotation L found = (ann, err))
        else ann = Map.empty \<and> res = ResultRequeue \<and> err = None)
   | _ \<Rightarrow> False"
  using nad_loop [where nads = nads and L = L and upd = upd and ns = ns and s = s and acc = "[]"]
  by (auto simp: ensureNAD_def prog_simps ResultRequeue_not_zero [symmetric] split: prod.splits outcome.splits option.splits)

end
