(* ===== verification/Watches.thy ===== *)
theory Watches
  imports ManilaPkg
begin

text \<open>
  What the controllers watch besides the resources they own: the field indexes, and the functions
  that map a changed object to the reconcile requests of the resources it concerns. A watch
  function only lists resources; a failed list ends it with what it has so far, or with nothing.
\<close>

type_synonym requests = "NamespacedName list"
type_synonym 'a watch = "(unit st, requests, 'a) prog"

definition request_for :: "string \<Rightarrow> string \<Rightarrow> NamespacedName" where
  "request_for namespace name = \<lparr>nn_Namespace = namespace, nn_Name = name\<rparr>"

section \<open>The indexed fields\<close>

definition passwordSecretField :: string where "passwordSecretField = ''.spec.secret''"
definition caBundleSecretNameField :: string where
  "caBundleSecretNameField = ''.spec.tls.caBundleSecretName''"
definition tlsAPIInternalField :: string where
  "tlsAPIInternalField = ''.spec.tls.api.internal.secretName''"
definition tlsAPIPublicField :: string where
  "tlsAPIPublicField = ''.spec.tls.api.public.secretName''"
definition topologyField :: string where "topologyField = ''.spec.topologyRef.Name''"
definition authAppCredSecretField :: string where
  "authAppCredSecretField = ''.spec.auth.applicationCredentialSecret''"

lemmas field_defs = passwordSecretField_def caBundleSecretNameField_def tlsAPIInternalField_def
  tlsAPIPublicField_def topologyField_def authAppCredSecretField_def

definition commonWatchFields :: "string list" where
  "commonWatchFields = [passwordSecretField, caBundleSecretNameField, topologyField]"

definition manilaAPIWatchFields :: "string list" where
  "manilaAPIWatchFields = [passwordSecretField, caBundleSecretNameField, tlsAPIInternalField,
     tlsAPIPublicField, topologyField]"

definition manilaWatchFields :: "string list" where
  "manilaWatchFields = [authAppCredSecretField]"

text \<open>The index functions, one value at most for each field.\<close>

definition index_string :: "string \<Rightarrow> string list" where
  "index_string v = (if v = '''' then [] else [v])"

definition index_option :: "string option \<Rightarrow> string list" where
  "index_option v = (case v of None \<Rightarrow> [] | Some x \<Rightarrow> [x])"

definition manila_index :: "string \<Rightarrow> Manila \<Rightarrow> string list" where
  "manila_index field cr =
     (if field = authAppCredSecretField
      then index_string (auth_ApplicationCredentialSecret (sb_Auth (ms_Base (man_Spec cr)))) else [])"

definition api_index :: "string \<Rightarrow> ManilaAPI \<Rightarrow> string list" where
  "api_index field cr =
     (let spec = api_Spec cr; tls = atc_TLS (at_Core (as_Template spec)) in
      if field = passwordSecretField then index_string (mt_Secret (as_ManilaTemplate spec))
      else if field = caBundleSecretNameField then index_string (ca_CaBundleSecretName (tls_CaOf tls))
      else if field = tlsAPIInternalField then index_option (gs_SecretName (tls_Internal tls))
      else if field = tlsAPIPublicField then index_option (gs_SecretName (tls_Public tls))
      else if field = topologyField then index_option (map_option tr_Name (ManilaAPI_GetSpecTopologyRef cr))
      else [])"

definition scheduler_index :: "string \<Rightarrow> ManilaScheduler \<Rightarrow> string list" where
  "scheduler_index field cr =
     (if field = passwordSecretField then index_string (mt_Secret (scs_ManilaTemplate (sch_Spec cr)))
      else if field = caBundleSecretNameField then
        index_string (ca_CaBundleSecretName (scs_TLS (sch_Spec cr)))
      else if field = topologyField then
        index_option (map_option tr_Name (ManilaScheduler_GetSpecTopologyRef cr))
      else [])"

definition share_index :: "string \<Rightarrow> ManilaShare \<Rightarrow> string list" where
  "share_index field cr =
     (if field = passwordSecretField then index_string (mt_Secret (hs_ManilaTemplate (shr_Spec cr)))
      else if field = caBundleSecretNameField then
        index_string (ca_CaBundleSecretName (hs_TLS (shr_Spec cr)))
      else if field = topologyField then
        index_option (map_option tr_Name (ManilaShare_GetSpecTopologyRef cr))
      else [])"

section \<open>Resources that name an object in an indexed field\<close>

definition find_objects :: "string \<Rightarrow> (hist \<Rightarrow> string \<Rightarrow> (string \<times> string) option \<Rightarrow> gerr + 'c list) \<Rightarrow>
  ('c \<Rightarrow> ObjectMeta) \<Rightarrow> string list \<Rightarrow> ObjectMeta \<Rightarrow> requests watch" where
  "find_objects kind lister meta flds src =
     func (
       bindP (foldP (\<lambda>field requests.
           bindP (call (EList kind (om_Namespace src) (Some (field, om_Name src)))
                    (\<lambda>h. lister h (om_Namespace src) (Some (field, om_Name src)))) (\<lambda>r.
           case r of
             Inl err \<Rightarrow> ret requests
           | Inr items \<Rightarrow> pureP (requests @
               map (\<lambda>item. request_for (om_Namespace (meta item)) (om_Name (meta item))) items)))
         flds [])
       (\<lambda>requests. ret requests))"

definition manila_findObjectsForSrc :: "lib \<Rightarrow> ObjectMeta \<Rightarrow> requests watch" where
  "manila_findObjectsForSrc L = find_objects ''Manila'' (o_ListManilas L) man_Meta manilaWatchFields"

definition api_findObjectsForSrc :: "lib \<Rightarrow> ObjectMeta \<Rightarrow> requests watch" where
  "api_findObjectsForSrc L = find_objects ''ManilaAPI'' (o_ListAPIs L) api_Meta manilaAPIWatchFields"

definition scheduler_findObjectsForSrc :: "lib \<Rightarrow> ObjectMeta \<Rightarrow> requests watch" where
  "scheduler_findObjectsForSrc L =
     find_objects ''ManilaScheduler'' (o_ListSchedulers L) sch_Meta commonWatchFields"

definition share_findObjectsForSrc :: "lib \<Rightarrow> ObjectMeta \<Rightarrow> requests watch" where
  "share_findObjectsForSrc L = find_objects ''ManilaShare'' (o_ListShares L) shr_Meta commonWatchFields"

text \<open>Every Manila of the namespace of the source.\<close>

definition findObjectForSrc :: "lib \<Rightarrow> ObjectMeta \<Rightarrow> requests watch" where
  "findObjectForSrc L src =
     func (
       bindP (call (EList ''Manila'' (om_Namespace src) None)
                (\<lambda>h. o_ListManilas L h (om_Namespace src) None)) (\<lambda>r.
       case r of
         Inl err \<Rightarrow> ret []
       | Inr items \<Rightarrow>
           ret (map (\<lambda>item. request_for (om_Namespace (man_Meta item)) (om_Name (man_Meta item))) items)))"

section \<open>Secrets and memcached\<close>

definition transportURLSecretFn :: "lib \<Rightarrow> ObjectMeta \<Rightarrow> requests watch" where
  "transportURLSecretFn L src =
     func (
       bindP (call (EList ''Manila'' (om_Namespace src) None)
                (\<lambda>h. o_ListManilas L h (om_Namespace src) None)) (\<lambda>r.
       case r of
         Inl err \<Rightarrow> ret []
       | Inr items \<Rightarrow>
           ret (concat (map (\<lambda>ownerRef.
             if or_Kind ownerRef = ''TransportURL'' then
               map (\<lambda>cr. request_for (om_Namespace src) (om_Name (man_Meta cr)))
                 (filter (\<lambda>cr. or_Name ownerRef = om_Name (man_Meta cr) @ ''-manila-transport'') items)
             else []) (om_OwnerReferences src)))))"

definition memcachedFn :: "lib \<Rightarrow> ObjectMeta \<Rightarrow> requests watch" where
  "memcachedFn L src =
     func (
       bindP (call (EList ''Manila'' (om_Namespace src) None)
                (\<lambda>h. o_ListManilas L h (om_Namespace src) None)) (\<lambda>r.
       case r of
         Inl err \<Rightarrow> ret []
       | Inr items \<Rightarrow>
           ret (map (\<lambda>cr. request_for (om_Namespace src) (om_Name (man_Meta cr)))
             (filter (\<lambda>cr. om_Name src = sb_MemcachedInstance (ms_Base (man_Spec cr))) items))))"

text \<open>
  A secret that carries the owner label of a Manila concerns the children of that Manila; a secret
  among the custom secrets of a child concerns it once for each time it is named there.
\<close>

definition secret_requests :: "lib \<Rightarrow> string \<Rightarrow> (hist \<Rightarrow> string \<Rightarrow> (string \<times> string) option \<Rightarrow> gerr + 'c list) \<Rightarrow>
  ('c \<Rightarrow> ObjectMeta) \<Rightarrow> ('c \<Rightarrow> string list) \<Rightarrow> ObjectMeta \<Rightarrow> requests watch" where
  "secret_requests L kind lister meta customSecrets src =
     func (
       bindP (call (EList kind (om_Namespace src) None) (\<lambda>h. lister h (om_Namespace src) None)) (\<lambda>r.
       case r of
         Inl err \<Rightarrow> ret []
       | Inr items \<Rightarrow>
           (let request = (\<lambda>cr. request_for (om_Namespace src) (om_Name (meta cr)));
                labelled = (case om_Labels src (l_OwnerNameLabelSelector L manila_ServiceName) of
                    Some l \<Rightarrow> map request (filter (\<lambda>cr. l = GetOwningManilaName (meta cr)) items)
                  | None \<Rightarrow> []);
                custom = concat (map (\<lambda>cr. map (\<lambda>v. request cr)
                    (filter (\<lambda>v. v = om_Name src) (customSecrets cr))) items)
            in ret (labelled @ custom))))"

definition api_secretFn :: "lib \<Rightarrow> ObjectMeta \<Rightarrow> requests watch" where
  "api_secretFn L = secret_requests L ''ManilaAPI'' (o_ListAPIs L) api_Meta
     (\<lambda>cr. st_CustomServiceConfigSecrets (atc_ServiceTemplate (at_Core (as_Template (api_Spec cr)))))"

definition scheduler_secretFn :: "lib \<Rightarrow> ObjectMeta \<Rightarrow> requests watch" where
  "scheduler_secretFn L = secret_requests L ''ManilaScheduler'' (o_ListSchedulers L) sch_Meta
     (\<lambda>cr. st_CustomServiceConfigSecrets (stc_ServiceTemplate (sct_Core (scs_SchedulerTemplate (sch_Spec cr)))))"

definition share_secretFn :: "lib \<Rightarrow> ObjectMeta \<Rightarrow> requests watch" where
  "share_secretFn L = secret_requests L ''ManilaShare'' (o_ListShares L) shr_Meta
     (\<lambda>cr. st_CustomServiceConfigSecrets (htc_ServiceTemplate (ht_Core (hs_ShareTemplate (shr_Spec cr)))))"

end
