(* ===== verification/WatchProps.thy ===== *)
theory WatchProps
  imports Watches ManilaDeploy Fixtures
begin

text \<open>
  The properties of the watches: which resources a change of another object asks to reconcile. The
  field indexes of a resource and the list of names its spec refers to are two views of the same
  thing; the locale states that, and every controller provides it.
\<close>

section \<open>Lists and indexes\<close>

text \<open>
  The lists of the API server, as the indexer documents them: the objects of the namespace, and
  where a field is asked for those with the value among its index values.
\<close>

definition lists_by_field :: "(hist \<Rightarrow> string \<Rightarrow> (string \<times> string) option \<Rightarrow> gerr + 'c list) \<Rightarrow>
  ('c \<Rightarrow> ObjectMeta) \<Rightarrow> (string \<Rightarrow> 'c \<Rightarrow> string list) \<Rightarrow> 'c list \<Rightarrow> bool" where
  "lists_by_field lister meta index objs \<longleftrightarrow> (\<forall>h ns f. lister h ns f =
     Inr (filter (\<lambda>c. om_Namespace (meta c) = ns \<and>
       (case f of None \<Rightarrow> True | Some (fld, v) \<Rightarrow> v \<in> set (index fld c))) objs))"

lemma lists_by_field_D:
  "lists_by_field lister meta index objs \<Longrightarrow> lister h ns (Some (fld, v)) =
     Inr (filter (\<lambda>c. om_Namespace (meta c) = ns \<and> v \<in> set (index fld c)) objs)"
  by (simp add: lists_by_field_def)

text \<open>The names a spec refers to, in the fields that concern the controller.\<close>

definition manila_references :: "Manila \<Rightarrow> string list" where
  "manila_references cr = [auth_ApplicationCredentialSecret (sb_Auth (ms_Base (man_Spec cr)))]"

definition api_references :: "ManilaAPI \<Rightarrow> string list" where
  "api_references cr =
     (let tls = atc_TLS (at_Core (as_Template (api_Spec cr))) in
      [mt_Secret (as_ManilaTemplate (api_Spec cr)), ca_CaBundleSecretName (tls_CaOf tls)] @
      index_option (gs_SecretName (tls_Internal tls)) @ index_option (gs_SecretName (tls_Public tls)) @
      index_option (map_option tr_Name (ManilaAPI_GetSpecTopologyRef cr)))"

definition scheduler_references :: "ManilaScheduler \<Rightarrow> string list" where
  "scheduler_references cr =
     [mt_Secret (scs_ManilaTemplate (sch_Spec cr)), ca_CaBundleSecretName (scs_TLS (sch_Spec cr))] @
     index_option (map_option tr_Name (ManilaScheduler_GetSpecTopologyRef cr))"

definition share_references :: "ManilaShare \<Rightarrow> string list" where
  "share_references cr =
     [mt_Secret (hs_ManilaTemplate (shr_Spec cr)), ca_CaBundleSecretName (hs_TLS (shr_Spec cr))] @
     index_option (map_option tr_Name (ManilaShare_GetSpecTopologyRef cr))"

lemmas references_defs = manila_references_def api_references_def scheduler_references_def share_references_def

text \<open>The requests of a run are those of the resources of the namespace with the property.\<close>

definition requests_exactly :: "('r, requests) outcome \<times> unit st \<Rightarrow> string \<Rightarrow> ('c \<Rightarrow> ObjectMeta) \<Rightarrow>
  ('c \<Rightarrow> bool) \<Rightarrow> 'c list \<Rightarrow> bool" where
  "requests_exactly out ns meta P objs \<longleftrightarrow> (case out of
       (Next reqs, s') \<Rightarrow> set reqs = (\<lambda>c. request_for ns (om_Name (meta c))) ` {c \<in> set objs. P c}
     | _ \<Rightarrow> False)"

locale field_watch =
  fixes meta :: "'c \<Rightarrow> ObjectMeta"
    and index :: "string \<Rightarrow> 'c \<Rightarrow> string list"
    and flds :: "string list"
    and refs :: "'c \<Rightarrow> string list"
  assumes index_refs: "v \<noteq> '''' \<Longrightarrow> list_ex (\<lambda>f. v \<in> set (index f c)) flds \<longleftrightarrow> v \<in> set (refs c)"
begin

lemma fold_requests:
  assumes "lists_by_field lister meta index objs"
  shows "foldP (\<lambda>field requests.
      bindP (call (EList kind (om_Namespace src) (Some (field, om_Name src)))
               (\<lambda>h. lister h (om_Namespace src) (Some (field, om_Name src)))) (\<lambda>r.
      case r of
        Inl err \<Rightarrow> ret requests
      | Inr items \<Rightarrow> pureP (requests @
          map (\<lambda>item. request_for (om_Namespace (meta item)) (om_Name (meta item))) items))) fs acc s =
    (Next (acc @ concat (map (\<lambda>field. map (\<lambda>c. request_for (om_Namespace (meta c)) (om_Name (meta c)))
        (filter (\<lambda>c. om_Namespace (meta c) = om_Namespace src \<and> om_Name src \<in> set (index field c)) objs)) fs)),
     s\<lparr>trace := trace s @ map (\<lambda>field. EList kind (om_Namespace src) (Some (field, om_Name src))) fs\<rparr>)"
  by (induction fs arbitrary: acc s) (simp_all add: prog_simps lists_by_field_D [OF assms])

lemma find_objects_exact:
  assumes "lists_by_field lister meta index objs" and "om_Name src \<noteq> ''''"
  shows "requests_exactly (find_objects kind lister meta flds src s) (om_Namespace src) meta
    (\<lambda>c. om_Namespace (meta c) = om_Namespace src \<and> om_Name src \<in> set (refs c)) objs"
proof -
  let ?I = "\<lambda>f. {c \<in> set objs. om_Namespace (meta c) = om_Namespace src \<and> om_Name src \<in> set (index f c)}"
  have "(\<Union>f \<in> set flds. ?I f) =
      {c \<in> set objs. om_Namespace (meta c) = om_Namespace src \<and> om_Name src \<in> set (refs c)}"
    using index_refs [OF assms(2)] unfolding list_ex_iff by blast
  moreover have "(\<lambda>c. request_for (om_Namespace (meta c)) (om_Name (meta c))) ` ?I f =
      (\<lambda>c. request_for (om_Namespace src) (om_Name (meta c))) ` ?I f" for f
    by (rule image_cong) auto
  ultimately show ?thesis
    by (simp add: requests_exactly_def find_objects_def run_func run_bindP run_ret
        fold_requests [OF assms(1)] flip: image_UN)
qed

end

lemma index_string_set: "v \<noteq> '''' \<Longrightarrow> v \<in> set (index_string x) \<longleftrightarrow> v = x"
  by (auto simp: index_string_def)

interpretation manilaW: field_watch man_Meta manila_index manilaWatchFields manila_references
  by unfold_locales (simp add: manilaWatchFields_def manila_index_def manila_references_def index_string_set)

interpretation apiW: field_watch api_Meta api_index manilaAPIWatchFields api_references
  by unfold_locales (simp add: manilaAPIWatchFields_def api_index_def api_references_def Let_def
      index_string_set field_defs)

interpretation schedW: field_watch sch_Meta scheduler_index commonWatchFields scheduler_references
  by unfold_locales (simp add: commonWatchFields_def scheduler_index_def scheduler_references_def
      index_string_set field_defs)

interpretation shareW: field_watch shr_Meta share_index commonWatchFields share_references
  by unfold_locales (simp add: commonWatchFields_def share_index_def share_references_def
      index_string_set field_defs)

text \<open>C27: over an API server that lists by index, the requests that a change of a secret or a topology produces are exactly those of the resources of its namespace whose spec names it: of the Manilas by their application credential, of the APIs by their service secret, CA bundle, either certificate or topology, of schedulers and shares by their service secret, CA bundle or topology. No such resource is forgotten and none is asked for in vain.\<close>

theorem findObjectsForSrc_exact:
  assumes "lists_by_field (o_ListManilas L) man_Meta manila_index manilas"
    and "lists_by_field (o_ListAPIs L) api_Meta api_index apis"
    and "lists_by_field (o_ListSchedulers L) sch_Meta scheduler_index schedulers"
    and "lists_by_field (o_ListShares L) shr_Meta share_index shares"
    and "om_Name src \<noteq> ''''"
  shows
    "requests_exactly (manila_findObjectsForSrc L src s) (om_Namespace src) man_Meta
       (\<lambda>c. om_Namespace (man_Meta c) = om_Namespace src \<and> om_Name src \<in> set (manila_references c)) manilas \<and>
     requests_exactly (api_findObjectsForSrc L src s) (om_Namespace src) api_Meta
       (\<lambda>c. om_Namespace (api_Meta c) = om_Namespace src \<and> om_Name src \<in> set (api_references c)) apis \<and>
     requests_exactly (scheduler_findObjectsForSrc L src s) (om_Namespace src) sch_Meta
       (\<lambda>c. om_Namespace (sch_Meta c) = om_Namespace src \<and> om_Name src \<in> set (scheduler_references c)) schedulers \<and>
     requests_exactly (share_findObjectsForSrc L src s) (om_Namespace src) shr_Meta
       (\<lambda>c. om_Namespace (shr_Meta c) = om_Namespace src \<and> om_Name src \<in> set (share_references c)) shares"
  unfolding manila_findObjectsForSrc_def api_findObjectsForSrc_def scheduler_findObjectsForSrc_def
    share_findObjectsForSrc_def
  by (intro conjI manilaW.find_objects_exact apiW.find_objects_exact schedW.find_objects_exact
      shareW.find_objects_exact assms)

definition demo_lister :: "('c \<Rightarrow> ObjectMeta) \<Rightarrow> (string \<Rightarrow> 'c \<Rightarrow> string list) \<Rightarrow> 'c list \<Rightarrow>
  hist \<Rightarrow> string \<Rightarrow> (string \<times> string) option \<Rightarrow> gerr + 'c list" where
  "demo_lister meta index objs = (\<lambda>h ns f. Inr (filter (\<lambda>c. om_Namespace (meta c) = ns \<and>
       (case f of None \<Rightarrow> True | Some (fld, v) \<Rightarrow> v \<in> set (index fld c))) objs))"

lemma demo_lists: "lists_by_field (demo_lister meta index objs) meta index objs"
  by (simp add: lists_by_field_def demo_lister_def)

definition demo_indexed :: lib where
  "demo_indexed = demo_lib\<lparr>o_ListManilas := demo_lister man_Meta manila_index [demo_manila],
     o_ListAPIs := demo_lister api_Meta api_index [demo_api],
     o_ListSchedulers := demo_lister sch_Meta scheduler_index [demo_scheduler],
     o_ListShares := demo_lister shr_Meta share_index [demo_share ''a'']\<rparr>"

theorem findObjectsForSrc_exact_witness:
  "requests_exactly (api_findObjectsForSrc demo_indexed (newMeta ''osp-secret'' ''openstack'') (demo_state ()))
     ''openstack'' api_Meta
     (\<lambda>c. om_Namespace (api_Meta c) = ''openstack'' \<and> ''osp-secret'' \<in> set (api_references c)) [demo_api] \<and>
   ''osp-secret'' \<in> set (api_references demo_api)"
  using findObjectsForSrc_exact [of demo_indexed "[demo_manila]" "[demo_api]" "[demo_scheduler]"
      "[demo_share ''a'']" "newMeta ''osp-secret'' ''openstack''" "demo_state ()"]
  by (simp add: demo_indexed_def demo_lists newMeta_def api_references_def demo_api_def demo_tmpl_def Let_def)

section \<open>Secrets\<close>

lemma owned_iff:
  "\<lparr>or_Kind = k, or_Name = n\<rparr> \<in> set refs \<longleftrightarrow> (\<exists>r \<in> set refs. or_Kind r = k \<and> or_Name r = n)"
proof
  assume "\<exists>r \<in> set refs. or_Kind r = k \<and> or_Name r = n"
  then obtain r where r: "r \<in> set refs" "or_Kind r = k" "or_Name r = n" by blast
  have "\<lparr>or_Kind = k, or_Name = n\<rparr> = r" by (cases r) (use r in simp)
  with r(1) show "\<lparr>or_Kind = k, or_Name = n\<rparr> \<in> set refs" by simp
qed force

lemma transport_requests:
  "case o_ListManilas L (trace s) (om_Namespace src) None of
     Inl e \<Rightarrow> fst (transportURLSecretFn L src s) = Next []
   | Inr items \<Rightarrow> requests_exactly (transportURLSecretFn L src s) (om_Namespace src) man_Meta
       (\<lambda>m. \<lparr>or_Kind = ''TransportURL'', or_Name = transportURL_name m False\<rparr> \<in> set (om_OwnerReferences src))
       items"
proof (cases "o_ListManilas L (trace s) (om_Namespace src) None")
  case (Inr items)
  have "(\<Union>r \<in> set (om_OwnerReferences src) \<inter> {r. or_Kind r = ''TransportURL''}.
        (\<lambda>m. request_for (om_Namespace src) (om_Name (man_Meta m))) `
          {m \<in> set items. or_Name r = om_Name (man_Meta m) @ ''-manila-transport''}) =
      (\<lambda>m. request_for (om_Namespace src) (om_Name (man_Meta m))) `
        {m \<in> set items. \<exists>r \<in> set (om_OwnerReferences src). or_Kind r = ''TransportURL'' \<and>
          or_Name r = om_Name (man_Meta m) @ ''-manila-transport''}"
    by blast
  with Inr show ?thesis
    by (simp add: transportURLSecretFn_def prog_simps requests_exactly_def owned_iff transportURL_name_def)
qed (simp add: transportURLSecretFn_def prog_simps)

lemma notifications_never:
  "let src' = src\<lparr>om_OwnerReferences := [\<lparr>or_Kind = ''TransportURL'', or_Name = transportURL_name m True\<rparr>]\<rparr>
   in case transportURLSecretFn L src' s of
        (Next reqs, s') \<Rightarrow> request_for (om_Namespace src) (om_Name (man_Meta m)) \<notin> set reqs
      | _ \<Rightarrow> False"
  by (cases "o_ListManilas L (trace s) (om_Namespace src) None")
    (auto simp: Let_def transportURLSecretFn_def run_func run_bindP run_ret run_call
      transportURL_name_def request_for_def)

text \<open>C33: whatever the list answers, a secret asks for exactly the Manilas it lists that own, by name, a TransportURL among its owners, where the name is the one of the messaging transport only: the secret of the notifications transport, owned by a TransportURL of the same Manila, never asks for its Manila.\<close>

theorem transportURLSecretFn_messaging_only:
  "(case o_ListManilas L (trace s) (om_Namespace src) None of
      Inl e \<Rightarrow> fst (transportURLSecretFn L src s) = Next []
    | Inr items \<Rightarrow> requests_exactly (transportURLSecretFn L src s) (om_Namespace src) man_Meta
        (\<lambda>m. \<lparr>or_Kind = ''TransportURL'', or_Name = transportURL_name m False\<rparr> \<in> set (om_OwnerReferences src))
        items) \<and>
   (let src' = src\<lparr>om_OwnerReferences := [\<lparr>or_Kind = ''TransportURL'', or_Name = transportURL_name m True\<rparr>]\<rparr>
    in case transportURLSecretFn L src' s of
         (Next reqs, s') \<Rightarrow> request_for (om_Namespace src) (om_Name (man_Meta m)) \<notin> set reqs
       | _ \<Rightarrow> False)"
  by (intro conjI transport_requests notifications_never)

text \<open>The children a secret concerns: by the owner label it carries, or by their custom secrets.\<close>

definition concerns :: "lib \<Rightarrow> ObjectMeta \<Rightarrow> ObjectMeta \<Rightarrow> string list \<Rightarrow> bool" where
  "concerns L src child customSecrets \<longleftrightarrow>
     om_Labels src (l_OwnerNameLabelSelector L manila_ServiceName) = Some (GetOwningManilaName child) \<or>
     om_Name src \<in> set customSecrets"

lemma secret_requests_exact:
  "case lister (trace s) (om_Namespace src) None of
     Inl e \<Rightarrow> fst (secret_requests L kind lister meta cust src s) = Next []
   | Inr items \<Rightarrow> requests_exactly (secret_requests L kind lister meta cust src s) (om_Namespace src) meta
       (\<lambda>c. concerns L src (meta c) (cust c)) items"
  by (cases "lister (trace s) (om_Namespace src) None")
    (auto simp: secret_requests_def prog_simps requests_exactly_def concerns_def Let_def split: option.splits)

text \<open>Whatever the lists answer, a secret asks for exactly those APIs, schedulers and shares listed in its namespace whose owning Manila the secret names in its owner label, or whose custom configuration secrets name it; a failed list asks for none.\<close>

lemma secretFn_exact:
  "(case o_ListAPIs L (trace s) (om_Namespace src) None of
      Inl e \<Rightarrow> fst (api_secretFn L src s) = Next []
    | Inr items \<Rightarrow> requests_exactly (api_secretFn L src s) (om_Namespace src) api_Meta
        (\<lambda>c. concerns L src (api_Meta c)
          (st_CustomServiceConfigSecrets (atc_ServiceTemplate (at_Core (as_Template (api_Spec c)))))) items) \<and>
   (case o_ListSchedulers L (trace s) (om_Namespace src) None of
      Inl e \<Rightarrow> fst (scheduler_secretFn L src s) = Next []
    | Inr items \<Rightarrow> requests_exactly (scheduler_secretFn L src s) (om_Namespace src) sch_Meta
        (\<lambda>c. concerns L src (sch_Meta c)
          (st_CustomServiceConfigSecrets (stc_ServiceTemplate (sct_Core (scs_SchedulerTemplate (sch_Spec c)))))) items) \<and>
   (case o_ListShares L (trace s) (om_Namespace src) None of
      Inl e \<Rightarrow> fst (share_secretFn L src s) = Next []
    | Inr items \<Rightarrow> requests_exactly (share_secretFn L src s) (om_Namespace src) shr_Meta
        (\<lambda>c. concerns L src (shr_Meta c)
          (st_CustomServiceConfigSecrets (htc_ServiceTemplate (ht_Core (hs_ShareTemplate (shr_Spec c)))))) items)"
  unfolding api_secretFn_def scheduler_secretFn_def share_secretFn_def
  by (intro conjI secret_requests_exact)

end
