(* ===== verification/Progress.thy ===== *)
theory Progress
  imports Reasoning Fixtures
begin

text \<open>
  Progress of the child controllers: where every library call of a run succeeds, the run neither
  fails nor requeues nor panics. It ends with new inputs recorded, or with the stateful set rolled
  out, the deployment reported and the applied hash moved.

  A successful answer is known by its form only: \<open>healthy_answers\<close> rewrites a call to its form over
  a hidden copy of the call, so that the simplifier runs a handler as far as its own code decides.
\<close>

section \<open>A healthy cluster\<close>

definition healthy :: "lib \<Rightarrow> bool" where
  "healthy L \<longleftrightarrow>
     (\<forall>h ns n f d. snd (o_VerifySecretFields L h ns n f d) = (Result0, None)) \<and>
     (\<forall>h n ns. \<not> isl (o_GetSecret L h n ns)) \<and>
     (\<forall>h n ns. snd (o_ValidateCACertSecret L h n ns) = None) \<and>
     (\<forall>h t ns. snd (o_ValidateCertSecrets L h t ns) = None) \<and>
     (\<forall>h a ns. \<not> isl (o_GetDatabase L h a ns)) \<and>
     (\<forall>h ts vars. snd (o_EnsureSecrets L h ts vars) = None) \<and>
     (\<forall>vars. snd (l_ObjectHashEnvs L vars) = None) \<and>
     (\<forall>xs. snd (l_ObjectHash L xs) = None) \<and>
     (\<forall>h n ns. \<not> isl (o_GetNAD L h n ns)) \<and>
     (\<forall>xs. snd (l_EnsureNetworksAnnotation L xs) = None) \<and>
     (\<forall>h a b f ls. \<not> isl (o_EnsureServiceTopology L h a b f ls)) \<and>
     (\<forall>h n ns. \<not> isl (o_GetMemcached L h n ns)) \<and>
     (\<forall>p sc o' d. \<not> isl (l_CreateProbeSet L p sc o' d)) \<and>
     (\<forall>g. \<not> isl (l_ToService L g)) \<and>
     (\<forall>h ss d. snd (o_StatefulSetCreateOrPatch L h ss d) = (Result0, None)) \<and>
     (\<forall>h ss d. sd_Generation (fst (o_StatefulSetCreateOrPatch L h ss d)) =
        sd_ObservedGeneration (fst (o_StatefulSetCreateOrPatch L h ss d))) \<and>
     (\<forall>h n ls c. fst (o_VerifyNetworkStatus L h n ls c)) \<and>
     (\<forall>h n ls c. snd (snd (o_VerifyNetworkStatus L h n ls c)) = None) \<and>
     (\<forall>h n ns hash. o_IsReadyForInput L h n ns hash = (True, None)) \<and>
     (\<forall>svc. l_NewService L svc = None) \<and>
     (\<forall>h svc. o_ServiceCreateOrPatch L h svc = (Result0, None)) \<and>
     (\<forall>h s u https p. snd (o_GetAPIEndpoint L h s u https p) = None) \<and>
     (\<forall>h s. snd (o_KeystoneServiceCreateOrPatch L h s) = (Result0, None)) \<and>
     (\<forall>h s. snd (o_KeystoneEndpointCreateOrPatch L h s) = (Result0, None)) \<and>
     (\<forall>m k. snd (snd (l_GetBoolFromAnnotation L m k)) = None) \<and>
     (\<forall>h k. o_NewHelper L h k = None) \<and>
     (\<forall>h e. o_Patch L h e = None)"

definition hidden :: "'a \<Rightarrow> 'a" where
  "hidden x = x"

lemma prod_form: "snd p = b \<Longrightarrow> p = (fst p, b)"
  by (cases p) simp

lemma sum_form: "\<not> isl x \<Longrightarrow> x = Inr (projr x)"
  by (cases x) simp_all

lemma healthy_answers:
  assumes "healthy L"
  shows "o_VerifySecretFields L h ns n f d = (fst (hidden (o_VerifySecretFields L) h ns n f d), Result0, None)"
    "o_GetSecret L h n ns = Inr (projr (hidden (o_GetSecret L) h n ns))"
    "o_ValidateCACertSecret L h n ns = (fst (hidden (o_ValidateCACertSecret L) h n ns), None)"
    "o_ValidateCertSecrets L h t ns = (fst (hidden (o_ValidateCertSecrets L) h t ns), None)"
    "o_GetDatabase L h a ns = Inr (projr (hidden (o_GetDatabase L) h a ns))"
    "o_EnsureSecrets L h ts vars = (fst (hidden (o_EnsureSecrets L) h ts vars), None)"
    "l_ObjectHashEnvs L vars = (fst (hidden (l_ObjectHashEnvs L) vars), None)"
    "l_ObjectHash L xs = (fst (hidden (l_ObjectHash L) xs), None)"
    "o_GetNAD L h n ns = Inr (projr (hidden (o_GetNAD L) h n ns))"
    "l_EnsureNetworksAnnotation L xs = (fst (hidden (l_EnsureNetworksAnnotation L) xs), None)"
    "o_EnsureServiceTopology L h ta tb fin ls = Inr (projr (hidden (o_EnsureServiceTopology L) h ta tb fin ls))"
    "o_GetMemcached L h n ns = Inr (projr (hidden (o_GetMemcached L) h n ns))"
    "l_CreateProbeSet L p sc o' pd = Inr (projr (hidden (l_CreateProbeSet L) p sc o' pd))"
    "l_ToService L g = Inr (projr (hidden (l_ToService L) g))"
    "o_StatefulSetCreateOrPatch L h ss d = (fst (hidden (o_StatefulSetCreateOrPatch L) h ss d), Result0, None)"
    "o_IsReadyForInput L h n ns hash = (True, None)"
    "l_NewService L svc = None"
    "o_ServiceCreateOrPatch L h svc = (Result0, None)"
    "o_GetAPIEndpoint L h svc u https pth = (fst (hidden (o_GetAPIEndpoint L) h svc u https pth), None)"
    "o_KeystoneServiceCreateOrPatch L h ks = (fst (hidden (o_KeystoneServiceCreateOrPatch L) h ks), Result0, None)"
    "o_KeystoneEndpointCreateOrPatch L h ke = (fst (hidden (o_KeystoneEndpointCreateOrPatch L) h ke), Result0, None)"
    "o_NewHelper L h kind = None" "o_Patch L h e = None"
  using assms by (simp_all add: healthy_def hidden_def prod_form sum_form)

lemma healthy_three:
  assumes "healthy L"
  shows "o_VerifyNetworkStatus L h n ls c = (True, fst (snd (hidden (o_VerifyNetworkStatus L) h n ls c)), None)"
    "l_GetBoolFromAnnotation L m k = (fst (hidden (l_GetBoolFromAnnotation L) m k),
       fst (snd (hidden (l_GetBoolFromAnnotation L) m k)), None)"
  using assms by (simp_all add: healthy_def hidden_def prod_eq_iff)

lemma healthy_observed:
  "healthy L \<Longrightarrow> sd_Generation (fst (hidden (o_StatefulSetCreateOrPatch L) h ss d)) =
     sd_ObservedGeneration (fst (hidden (o_StatefulSetCreateOrPatch L) h ss d))"
  by (simp add: healthy_def hidden_def)

section \<open>Functions that go on\<close>

text \<open>
  A program goes on where it ends with an intermediate value. As an equation over a hidden copy,
  the fact that a loop goes on lets the simplifier step over it.
\<close>

definition goes :: "('s, 'r, 'a) prog \<Rightarrow> bool" where
  "goes m \<longleftrightarrow> (\<forall>s. \<exists>a t. m s = (Next a, t))"

fun next_of :: "('r, 'a) outcome \<times> 's \<Rightarrow> 'a" where
  "next_of (Next a, s) = a"
| "next_of (_, s) = undefined"

lemma goes_run: "goes m \<Longrightarrow> m s = (Next (next_of (hidden m s)), snd (hidden m s))"
  unfolding goes_def hidden_def by (metis next_of.simps(1) snd_conv)

lemma snd_func: "snd (func m s) = snd (m s)"
  by (simp add: func_def split: prod.split outcome.split)

lemma bind_goes_on: "m s = (Next a, t) \<Longrightarrow> bindP m f s = f a t"
  by (simp add: run_bindP)

lemma goesE:
  assumes "goes m" obtains a t where "m s = (Next a, t)"
  using assms unfolding goes_def by blast

lemma goes_bind: "goes m \<Longrightarrow> (\<And>a. goes (f a)) \<Longrightarrow> goes (bindP m f)"
proof -
  assume m: "goes m" and f: "\<And>a. goes (f a)"
  show "goes (bindP m f)"
    unfolding goes_def
  proof
    fix s
    from m obtain a t where "m s = (Next a, t)" by (rule goesE)
    moreover from f obtain b u where "f a t = (Next b, u)" by (rule goesE)
    ultimately show "\<exists>b u. bindP m f s = (Next b, u)" by (simp add: run_bindP)
  qed
qed

lemma goes_pure: "goes (pureP a)"
  by (simp add: goes_def run_pureP)

lemma goes_for: "(\<And>x. goes (f x)) \<Longrightarrow> goes (forP xs f)"
  by (induction xs) (simp_all add: goes_pure goes_bind)

lemma goes_fold: "(\<And>x acc. goes (f x acc)) \<Longrightarrow> goes (foldP f xs acc)"
  by (induction xs arbitrary: acc) (simp_all add: goes_pure goes_bind)

section \<open>The common helpers\<close>

lemma healthy_loops:
  assumes "healthy L"
  shows "goes (forP names (verifyConfigSecrets_step L upd ns))"
    "goes (foldP (ensureNAD_step L upd ns) names acc)" "goes (custom_secrets L ns names)"
  unfolding custom_secrets_def
  by (intro goes_for goes_fold;
      simp add: goes_def prog_simps verifyConfigSecrets_step_def ensureNAD_step_def get_secret_def
        healthy_answers [OF assms] split_def)+

lemmas healthy_loops_run = healthy_loops [THEN goes_run]

lemma helpers_go:
  assumes "healthy L"
  shows "\<exists>t. verifyServiceSecret L upd ns n f d s = (Next (Result0, None), t)"
    "\<exists>t. verifyConfigSecrets L upd names ns s = (Next (Result0, None), t)"
    "\<exists>ann t. ensureNAD L upd ns names s = (Next (ann, Result0, None), t)"
    "\<exists>topo t. ensureTopology L th upd fin ls s = (Next (topo, None), t)"
  by (simp_all add: verifyServiceSecret_def verifyConfigSecrets_def ensureNAD_def ensureTopology_def prog_simps
      healthy_answers [OF assms] healthy_loops_run [OF assms])

lemma hidden_run: "\<exists>t. m s = (Next a, t) \<Longrightarrow> m s = (Next a, snd (hidden m s))"
  by (auto simp: hidden_def)

lemma hidden_run_pair: "\<exists>a t. m s = (Next (a, b), t) \<Longrightarrow> m s = (Next (fst (next_of (hidden m s)), b), snd (hidden m s))"
  by (auto simp: hidden_def)

lemma healthy_verify:
  fixes m :: "('i st, 'r, ctrl_result \<times> gerr option) prog"
  assumes "healthy L"
  shows "m = verifyServiceSecret L upd ns n f d \<Longrightarrow> m s = (Next (Result0, None), snd (hidden m s))"
    "m = verifyConfigSecrets L upd names ns \<Longrightarrow> m s = (Next (Result0, None), snd (hidden m s))"
  by (rule hidden_run, simp add: helpers_go [OF assms])+

lemma healthy_ensure:
  assumes "healthy L"
  shows "m = ensureNAD L upd ns names \<Longrightarrow> m s = (Next (fst (next_of (hidden m s)), Result0, None), snd (hidden m s))"
    "k = ensureTopology L th upd fin ls \<Longrightarrow> k s = (Next (fst (next_of (hidden k s)), None), snd (hidden k s))"
  by (rule hidden_run_pair, simp add: helpers_go [OF assms])+

lemmas healthy_helpers = healthy_verify [OF _ refl] healthy_ensure [OF _ refl]

lemma SetHash_differs: "lawful_SetHash L \<Longrightarrow> l_SetHash L m k v = (m', True) \<Longrightarrow> m' \<noteq> m"
  using SetHash_stored [of L m k v m'] SetHash_changed [of L m k v m' True] by (auto split: option.splits)

lemma SetHash_records:
  assumes "lawful_SetHash L" "l_SetHash L m (l_const L ''common.InputHashName'') h = (m', c)"
  shows "stored_hash L (if c then m' else m) h" "stored_hash L m h = (\<not> c)"
  using assms SetHash_stored [of L m "l_const L ''common.InputHashName''" h m'] SetHash_changed [OF assms]
  by (cases c; auto simp: stored_hash_def split: option.splits)+

text \<open>What a run has to leave: the conditions and the applied hash of a rolled out service.\<close>

definition rolled_out_for :: "lib \<Rightarrow> conditions \<Rightarrow> string \<Rightarrow> string list \<Rightarrow> bool" where
  "rolled_out_for L conds applied secrets \<longleftrightarrow>
     reported conds DeploymentReadyCondition = Some (CMarkTrue DeploymentReadyCondition (LibMsg ''DeploymentReadyMessage'')) \<and>
     l_ObjectHash L secrets = (applied, None)"

section \<open>A run of reconcileNormal\<close>

text \<open>
  The interface: the five phases of a child controller, what each does where its calls succeed, and
  what they keep. The run follows once for all children.
\<close>

locale child_phases =
  fixes inputs tls :: "lib \<Rightarrow> ('i st, reconcile_result, unit) prog"
    and config :: "lib \<Rightarrow> ('i st, reconcile_result, string) prog"
    and deploy :: "lib \<Rightarrow> string \<Rightarrow> ('i st, reconcile_result, StatefulSetData) prog"
    and finish :: "lib \<Rightarrow> string \<Rightarrow> StatefulSetData \<Rightarrow> ('i st, reconcile_result, reconcile_result) prog"
    and hash :: "'i \<Rightarrow> (string \<rightharpoonup> string) option"
    and deployable rolled :: "lib \<Rightarrow> 'i \<Rightarrow> bool"
  assumes inputs_go: "healthy L \<Longrightarrow> goes (inputs L)"
    and tls_go: "healthy L \<Longrightarrow> goes (tls L)"
    and config_go: "healthy L \<Longrightarrow> lawful_SetHash L \<Longrightarrow>
      (\<exists>t. config L s = (Return (Result0, None), t) \<and> hash (inst t) \<noteq> hash (inst s)) \<or> (\<exists>h t. config L s = (Next h, t))"
    and deploy_go: "healthy L \<Longrightarrow> deployable L (inst s) \<Longrightarrow>
      \<exists>ss t. deploy L h s = (Next ss, t) \<and> sd_Generation ss = sd_ObservedGeneration ss"
    and finish_go: "healthy L \<Longrightarrow> deployable L (inst s) \<Longrightarrow> sd_Generation ss = sd_ObservedGeneration ss \<Longrightarrow>
      \<exists>t. finish L h ss s = (Return (Result0, None), t) \<and> rolled L (inst t)"
    and inputs_keep: "keepsI hash (inputs L)" "keepsI (deployable L) (inputs L)"
    and tls_keep: "keepsI hash (tls L)" "keepsI (deployable L) (tls L)"
    and config_keep: "keepsI (deployable L) (config L)"
    and deploy_keep: "keepsI (deployable L) (deploy L h)"
begin

abbreviation run :: "lib \<Rightarrow> ('i st, reconcile_result, reconcile_result) prog" where
  "run L \<equiv> func (thenP (inputs L) (thenP (tls L) (bindP (config L) (\<lambda>h. bindP (deploy L h) (finish L h)))))"

lemma run_progress:
  assumes L: "healthy L" "lawful_SetHash L" and d: "deployable L (inst s)"
  shows "\<exists>s'. run L s = (Next (Result0, None), s') \<and> (hash (inst s') \<noteq> hash (inst s) \<or> rolled L (inst s'))"
proof -
  obtain t1 where i: "inputs L s = (Next (), t1)" using inputs_go [OF L(1)] by (rule goesE) simp
  obtain t2 where t: "tls L t1 = (Next (), t2)" using tls_go [OF L(1)] by (rule goesE) simp
  have d2: "deployable L (inst t2)"
    using d keepsI_run [OF inputs_keep(2) i] keepsI_run [OF tls_keep(2) t] by simp
  have h2: "hash (inst t2) = hash (inst s)"
    using keepsI_run [OF inputs_keep(1) i] keepsI_run [OF tls_keep(1) t] by simp
  from config_go [OF L, of t2] show ?thesis
  proof (elim disjE exE conjE)
    fix t3 assume "config L t2 = (Return (Result0, None), t3)" "hash (inst t3) \<noteq> hash (inst t2)"
    with i t h2 show ?thesis by (simp add: prog_simps)
  next
    fix h t3 assume c: "config L t2 = (Next h, t3)"
    with d2 have d3: "deployable L (inst t3)" using keepsI_run [OF config_keep c] by simp
    then obtain ss t4 where dp: "deploy L h t3 = (Next ss, t4)" "sd_Generation ss = sd_ObservedGeneration ss"
      using deploy_go [OF L(1)] by blast
    with d3 have "deployable L (inst t4)" using keepsI_run [OF deploy_keep dp(1)] by simp
    from finish_go [OF L(1) this dp(2), of h] i t c dp(1) show ?thesis
      by (auto simp: prog_simps)
  qed
qed

end

section \<open>Programs blind to the rest of the state\<close>

text \<open>
  A program reads the state through \<open>p\<close> only: from two states that \<open>p\<close> does not tell apart it goes
  the same way, with the same values, to two such states again. What the front phases do depends
  on the spec and the metadata, and on answers of the cluster that do not change.
\<close>

definition blind :: "('s \<Rightarrow> 'k) \<Rightarrow> ('s, 'r, 'a) prog \<Rightarrow> bool" where
  "blind p m \<longleftrightarrow> (\<forall>s t. p s = p t \<longrightarrow> fst (m s) = fst (m t) \<and> p (snd (m s)) = p (snd (m t)))"

lemma blindI:
  "(\<And>s t. p s = p t \<Longrightarrow> fst (m s) = fst (m t) \<and> p (snd (m s)) = p (snd (m t))) \<Longrightarrow> blind p m"
  unfolding blind_def by blast

lemma blindD: "blind p m \<Longrightarrow> p s = p t \<Longrightarrow> m s = (x, s') \<Longrightarrow> m t = (y, t') \<Longrightarrow> x = y \<and> p s' = p t'"
proof -
  assume "blind p m" and "p s = p t" and r: "m s = (x, s')" "m t = (y, t')"
  then have "fst (m s) = fst (m t) \<and> p (snd (m s)) = p (snd (m t))" unfolding blind_def by blast
  with r show ?thesis by simp
qed

lemma blind_bind:
  assumes "blind p m" "\<And>a. blind p (f a)"
  shows "blind p (bindP m f)"
proof (rule blindI)
  fix s t assume st: "p s = p t"
  obtain x s' y t' where r: "m s = (x, s')" "m t = (y, t')" by fastforce
  with assms(1) st have xy: "x = y" "p s' = p t'" by (blast dest: blindD)+
  show "fst (bindP m f s) = fst (bindP m f t) \<and> p (snd (bindP m f s)) = p (snd (bindP m f t))"
  proof (cases y)
    case (Next a)
    from assms(2) xy(2) have "fst (f a s') = fst (f a t') \<and> p (snd (f a s')) = p (snd (f a t'))"
      unfolding blind_def by blast
    with r xy(1) Next show ?thesis by (simp add: run_bindP)
  qed (use r xy in \<open>simp_all add: run_bindP\<close>)
qed

lemma blind_steps:
  "blind p (pureP a)" "blind p (ret r)" "blind p panic"
  by (simp_all add: blind_def prog_simps)

lemma blind_func: "blind p m \<Longrightarrow> blind p (func m)"
proof (rule blindI)
  fix s t assume "blind p m" and "p s = p t"
  then have "fst (m s) = fst (m t) \<and> p (snd (m s)) = p (snd (m t))" unfolding blind_def by blast
  then show "fst (func m s) = fst (func m t) \<and> p (snd (func m s)) = p (snd (func m t))"
    by (cases "m s"; cases "m t") (auto simp: run_func split: outcome.splits)
qed

lemma blind_when: "blind p m \<Longrightarrow> blind p (whenP b m)"
  by (simp add: whenP_def blind_steps)

lemma blind_if: "blind p m \<Longrightarrow> blind p n \<Longrightarrow> blind p (if b then m else n)"
  by simp

lemma blind_for: "(\<And>x. blind p (f x)) \<Longrightarrow> blind p (forP xs f)"
  by (induction xs) (simp_all add: blind_steps blind_bind)

lemma blind_fold: "(\<And>x acc. blind p (f x acc)) \<Longrightarrow> blind p (foldP f xs acc)"
  by (induction xs arbitrary: acc) (simp_all add: blind_steps blind_bind)

lemma blind_read:
  assumes "\<And>s t. p s = p t \<Longrightarrow> f (g s) = f (g t)" "\<And>a. blind p (f a)"
  shows "blind p (bindP (getP g) f)"
proof (rule blindI)
  fix s t assume st: "p s = p t"
  from assms(2) st have "fst (f (g t) s) = fst (f (g t) t) \<and> p (snd (f (g t) s)) = p (snd (f (g t) t))"
    unfolding blind_def by blast
  with assms(1) [OF st] show "fst (bindP (getP g) f s) = fst (bindP (getP g) f t) \<and>
      p (snd (bindP (getP g) f s)) = p (snd (bindP (getP g) f t))"
    by (simp add: run_bindP run_getP)
qed

lemma blind_case:
  "(\<And>e. blind p (f1 e)) \<Longrightarrow> (\<And>v. blind p (f2 v)) \<Longrightarrow> blind p (case x of Inl e \<Rightarrow> f1 e | Inr v \<Rightarrow> f2 v)"
  "blind p g1 \<Longrightarrow> (\<And>v. blind p (g2 v)) \<Longrightarrow> blind p (case y of None \<Rightarrow> g1 | Some v \<Rightarrow> g2 v)"
  "(\<And>a b. blind p (h1 a b)) \<Longrightarrow> blind p (case z of (a, b) \<Rightarrow> h1 a b)"
  by (auto split: sum.split option.split prod.split)

text \<open>
  A view of the state: it sees a part \<open>K\<close> of the resource and the config variables, and not the
  trace. The common helpers are blind to what the view leaves out.
\<close>

locale state_view =
  fixes p :: "'i st \<Rightarrow> 'k" and K :: "'i \<Rightarrow> 'v"
  assumes view_trace: "p (s\<lparr>trace := tr\<rparr>) = p s"
    and view_inst: "p s = p t \<Longrightarrow> K (inst s) = K (inst t)"
    and view_keep: "K i = K (inst s) \<Longrightarrow> p (s\<lparr>inst := i\<rparr>) = p s"
    and view_vars: "p s = p t \<Longrightarrow> cfgVars s = cfgVars t"
    and view_set: "p s = p t \<Longrightarrow> p (s\<lparr>cfgVars := v\<rparr>) = p (t\<lparr>cfgVars := v\<rparr>)"
begin

lemma blind_call:
  assumes "\<And>h h'. answer h = answer h'"
  shows "blind p (call ev answer)"
proof (rule blindI)
  fix s t assume "p s = p t"
  moreover have "answer (trace s) = answer (trace t)" by (rule assms)
  ultimately show "fst (call ev answer s) = fst (call ev answer t) \<and> p (snd (call ev answer s)) = p (snd (call ev answer t))"
    by (simp add: run_call view_trace)
qed

lemma blind_updI:
  assumes "\<And>i. K (f i) = K i"
  shows "blind p (updI f)"
  unfolding blind_def by (simp add: run_updI view_keep assms)

lemma blind_cond:
  assumes "\<And>f i. K (upd f i) = K i"
  shows "blind p (condP upd c)" "blind p (setFalse upd t r sev msg args)" "blind p (markTrue upd t msg)"
    "blind p (markFalse upd t r sev msg args)"
  unfolding setFalse_def markTrue_def markFalse_def condP_def by (rule blind_updI, rule assms)+

lemma blind_setVars: "blind p (setVars v)" "blind p (setVar k w)"
proof -
  show "blind p (setVars v)" unfolding blind_def by (auto simp: run_setVars intro: view_set)
  show "blind p (setVar k w)"
  proof (rule blindI)
    fix s t assume st: "p s = p t"
    then have "cfgVars s = cfgVars t" by (rule view_vars)
    with view_set [OF st] show "fst (setVar k w s) = fst (setVar k w t) \<and> p (snd (setVar k w s)) = p (snd (setVar k w t))"
      by (simp add: run_setVar)
  qed
qed

lemma blind_inst:
  assumes "\<And>i j. K i = K j \<Longrightarrow> f (g i) = f (g j)" "\<And>a. blind p (f a)"
  shows "blind p (bindP (getI g) f)"
  unfolding getI_def by (rule blind_read) (rule assms(1), erule view_inst, rule assms(2))

lemmas blind_rules = blind_func blind_when blind_if blind_for blind_fold blind_case blind_steps blind_cond
  blind_setVars

lemma blind_verify:
  assumes "\<And>f i. K (upd f i) = K i"
  shows "(\<And>h h' ns n f d. o_VerifySecretFields L h ns n f d = o_VerifySecretFields L h' ns n f d) \<Longrightarrow>
      blind p (verifyServiceSecret L upd ns n f d)"
    "(\<And>h h' n ns. o_GetSecret L h n ns = o_GetSecret L h' n ns) \<Longrightarrow> blind p (verifyConfigSecrets L upd names ns)"
  unfolding verifyServiceSecret_def verifyConfigSecrets_def verifyConfigSecrets_step_def
  by (intro blind_bind blind_rules blind_call assms; assumption)+

lemma blind_secrets:
  assumes "\<And>h h' n ns. o_GetSecret L h n ns = o_GetSecret L h' n ns"
  shows "blind p (get_secret L ns n)" "blind p (custom_secrets L ns names)"
  unfolding custom_secrets_def get_secret_def
  by (intro blind_bind blind_rules blind_call assms)+

end

definition front_view :: "('i \<Rightarrow> 'v) \<Rightarrow> 'i st \<Rightarrow> 'v \<times> (string \<rightharpoonup> string)" where
  "front_view K s = (K (inst s), cfgVars s)"

definition config_view :: "('i \<Rightarrow> 'v) \<Rightarrow> 'i st \<Rightarrow> 'v \<times> (string \<rightharpoonup> string) \<times> (string \<rightharpoonup> string)" where
  "config_view K s = (K (inst s), cfgVars s, svcLabels s)"

interpretation frontV: state_view "front_view K" K for K
  by unfold_locales (simp_all add: front_view_def)

interpretation configV: state_view "config_view K" K for K
  by unfold_locales (simp_all add: config_view_def)

section \<open>Two runs\<close>

text \<open>The answers about the inputs of a service do not depend on what was called before.\<close>

definition steady :: "lib \<Rightarrow> bool" where
  "steady L \<longleftrightarrow> (\<forall>h h'.
     o_VerifySecretFields L h = o_VerifySecretFields L h' \<and> o_GetSecret L h = o_GetSecret L h' \<and>
     o_ValidateCACertSecret L h = o_ValidateCACertSecret L h' \<and> o_ValidateCertSecrets L h = o_ValidateCertSecrets L h' \<and>
     o_GetDatabase L h = o_GetDatabase L h' \<and> o_EnsureSecrets L h = o_EnsureSecrets L h')"

lemma steadyD:
  assumes "steady L"
  shows "o_VerifySecretFields L h ns n f d = o_VerifySecretFields L h' ns n f d" "o_GetSecret L h n ns = o_GetSecret L h' n ns"
    "o_ValidateCACertSecret L h n ns = o_ValidateCACertSecret L h' n ns" "o_ValidateCertSecrets L h t ns = o_ValidateCertSecrets L h' t ns"
    "o_GetDatabase L h a ns = o_GetDatabase L h' a ns" "o_EnsureSecrets L h ts vars = o_EnsureSecrets L h' ts vars"
  using assms unfolding steady_def by metis+

text \<open>
  The inputs of a service are the config variables after its front phases. They depend on the key
  \<open>K\<close> of the resource (its spec, metadata and kind); so a second run finds the hash of the first.
\<close>

locale child_settling = child_phases inputs tls config deploy finish hash deployable rolled
  for inputs tls :: "lib \<Rightarrow> ('i st, reconcile_result, unit) prog"
    and config :: "lib \<Rightarrow> ('i st, reconcile_result, string) prog"
    and deploy :: "lib \<Rightarrow> string \<Rightarrow> ('i st, reconcile_result, StatefulSetData) prog"
    and finish :: "lib \<Rightarrow> string \<Rightarrow> StatefulSetData \<Rightarrow> ('i st, reconcile_result, reconcile_result) prog"
    and hash :: "'i \<Rightarrow> (string \<rightharpoonup> string) option"
    and deployable rolled :: "lib \<Rightarrow> 'i \<Rightarrow> bool" +
  fixes generate :: "lib \<Rightarrow> ('i st, reconcile_result, gerr option) prog"
    and labels :: "lib \<Rightarrow> 'i \<Rightarrow> (string \<rightharpoonup> string)"
    and K :: "'i \<Rightarrow> 'k"
  assumes inputs_blind: "steady L \<Longrightarrow> blind (front_view K) (inputs L)"
    and tls_blind: "steady L \<Longrightarrow> blind (front_view K) (tls L)"
    and generate_blind: "steady L \<Longrightarrow> blind (config_view K) (generate L)"
    and inputs_start: "inputs L (s\<lparr>cfgVars := v\<rparr>) = inputs L s"
    and labels_key: "K i = K j \<Longrightarrow> labels L i = labels L j"
    and deployable_key: "K i = K j \<Longrightarrow> deployable L i = deployable L j"
    and generate_go: "healthy L \<Longrightarrow> \<exists>t. generate L s = (Next None, t)"
    and config_hash: "healthy L \<Longrightarrow> lawful_SetHash L \<Longrightarrow>
      generate L (s\<lparr>svcLabels := labels L (inst s)\<rparr>) = (Next None, t) \<Longrightarrow> l_ObjectHashEnvs L (cfgVars t) = (h, None) \<Longrightarrow>
      stored_hash L (hash (inst (snd (config L s)))) h \<and>
      (stored_hash L (hash (inst s)) h \<longrightarrow> (\<exists>u. config L s = (Next h, u)))"
    and deploy_hash: "keepsI hash (deploy L h)"
    and finish_hash: "keepsI hash (finish L h ss)"
begin

lemma front_same:
  assumes L: "steady L" and k: "K (inst s) = K (inst s')"
    and s: "inputs L s = (Next (), s1)" "tls L s1 = (Next (), s2)" "generate L (s2\<lparr>svcLabels := labels L (inst s2)\<rparr>) = (Next None, s3)"
    and t: "inputs L s' = (Next (), t1)" "tls L t1 = (Next (), t2)" "generate L (t2\<lparr>svcLabels := labels L (inst t2)\<rparr>) = (Next None, t3)"
  shows "cfgVars s3 = cfgVars t3"
proof -
  let ?s = "s\<lparr>cfgVars := Map.empty\<rparr>" and ?t = "s'\<lparr>cfgVars := Map.empty\<rparr>"
  have "front_view K ?s = front_view K ?t" using k by (simp add: front_view_def)
  moreover have "inputs L ?s = (Next (), s1)" "inputs L ?t = (Next (), t1)" using s(1) t(1) by (simp_all add: inputs_start)
  ultimately have "front_view K s1 = front_view K t1" using blindD [OF inputs_blind [OF L]] by blast
  then have v2: "front_view K s2 = front_view K t2" using blindD [OF tls_blind [OF L] _ s(2) t(2)] by blast
  then have "labels L (inst s2) = labels L (inst t2)" by (intro labels_key) (simp add: front_view_def)
  with v2 have "config_view K (s2\<lparr>svcLabels := labels L (inst s2)\<rparr>) = config_view K (t2\<lparr>svcLabels := labels L (inst t2)\<rparr>)"
    by (simp add: front_view_def config_view_def)
  then have "config_view K s3 = config_view K t3" using blindD [OF generate_blind [OF L] _ s(3) t(3)] by blast
  then show ?thesis by (simp add: config_view_def)
qed

text \<open>The front phases of a run and the inputs they gather.\<close>

lemma front_run:
  assumes "healthy L"
  obtains s1 s2 s3 where "inputs L s = (Next (), s1)" "tls L s1 = (Next (), s2)"
    "generate L (s2\<lparr>svcLabels := labels L (inst s2)\<rparr>) = (Next None, s3)"
    "hash (inst s2) = hash (inst s)" "deployable L (inst s2) = deployable L (inst s)"
proof -
  obtain s1 where i: "inputs L s = (Next (), s1)" using inputs_go [OF assms] by (rule goesE) simp
  obtain s2 where t: "tls L s1 = (Next (), s2)" using tls_go [OF assms] by (rule goesE) simp
  obtain s3 where g: "generate L (s2\<lparr>svcLabels := labels L (inst s2)\<rparr>) = (Next None, s3)"
    using generate_go [OF assms] by blast
  show ?thesis
    using keepsI_run [OF inputs_keep(1) i] keepsI_run [OF tls_keep(1) t] keepsI_run [OF inputs_keep(2) i]
      keepsI_run [OF tls_keep(2) t]
    by (intro that [OF i t g]) simp_all
qed

lemma run_hash:
  assumes "inputs L s = (Next (), s1)" "tls L s1 = (Next (), s2)"
  shows "hash (inst (snd (run L s))) = hash (inst (snd (config L s2)))"
proof -
  obtain x u where c: "config L s2 = (x, u)" by fastforce
  have keep: "keepsI hash (bindP (deploy L h) (finish L h))" for h
    by (intro keeps.frame_bind deploy_hash finish_hash)
  show ?thesis
  proof (cases x)
    case (Next h)
    with assms c have "snd (run L s) = snd (bindP (deploy L h) (finish L h) u)"
      by (simp add: snd_func bind_goes_on)
    with keepsI_D [OF keep] c show ?thesis by simp
  qed (use assms c in \<open>simp_all add: snd_func bind_goes_on run_bindP\<close>)
qed

lemma run_stores:
  assumes L: "healthy L" "lawful_SetHash L"
  shows "\<exists>f. hash (inst (snd (run L s))) = Some f"
proof -
  obtain s1 s2 s3 where s: "inputs L s = (Next (), s1)" "tls L s1 = (Next (), s2)"
    "generate L (s2\<lparr>svcLabels := labels L (inst s2)\<rparr>) = (Next None, s3)"
    using L(1) by (rule front_run)
  obtain d where "l_ObjectHashEnvs L (cfgVars s3) = (d, None)" by (simp add: healthy_answers [OF L(1)])
  from config_hash [OF L s(3) this] run_hash [OF s(1,2)] show ?thesis
    by (auto simp: stored_hash_def)
qed

text \<open>A run from a state that has the hash of its inputs on record.\<close>

lemma run_recorded:
  assumes L: "healthy L" "lawful_SetHash L" and d: "deployable L (inst s)"
    and h: "\<And>vars. l_ObjectHashEnvs L vars = (h, None)" "stored_hash L (hash (inst s)) h"
  shows "\<exists>u. run L s = (Next (Result0, None), u) \<and> rolled L (inst u)"
proof -
  obtain t1 t2 t3 where t: "inputs L s = (Next (), t1)" "tls L t1 = (Next (), t2)"
    "generate L (t2\<lparr>svcLabels := labels L (inst t2)\<rparr>) = (Next None, t3)"
    and keep: "hash (inst t2) = hash (inst s)" "deployable L (inst t2) = deployable L (inst s)"
    using L(1) by (rule front_run)
  from config_hash [OF L t(3) h(1)] keep h(2) obtain u where c: "config L t2 = (Next h, u)" by auto
  have "deployable L (inst u)" using keepsI_run [OF config_keep c] keep(2) d by simp
  then obtain ss v where dp: "deploy L h u = (Next ss, v)" "sd_Generation ss = sd_ObservedGeneration ss" "deployable L (inst v)"
    using deploy_go [OF L(1), of u h] keepsI_run [OF deploy_keep, of L h u] by metis
  from finish_go [OF L(1) dp(3,2), of h] t(1,2) c dp(1) show ?thesis
    by (auto simp: prog_simps)
qed

lemma run_settles:
  assumes L: "healthy L" "lawful_SetHash L" "steady L" and d: "deployable L (inst s)"
    and k: "K (inst s') = K (inst s)" and h: "hash (inst s') = hash (inst (snd (run L s)))"
  shows "\<exists>u. run L s' = (Next (Result0, None), u) \<and> rolled L (inst u)"
proof -
  obtain s1 s2 s3 where s: "inputs L s = (Next (), s1)" "tls L s1 = (Next (), s2)"
    "generate L (s2\<lparr>svcLabels := labels L (inst s2)\<rparr>) = (Next None, s3)"
    using L(1) by (rule front_run)
  obtain t1 t2 t3 where t: "inputs L s' = (Next (), t1)" "tls L t1 = (Next (), t2)"
    "generate L (t2\<lparr>svcLabels := labels L (inst t2)\<rparr>) = (Next None, t3)"
    and keep: "hash (inst t2) = hash (inst s')" "deployable L (inst t2) = deployable L (inst s')"
    using L(1) by (rule front_run)
  obtain d where dg: "l_ObjectHashEnvs L (cfgVars s3) = (d, None)" by (simp add: healthy_answers [OF L(1)])
  have dg': "l_ObjectHashEnvs L (cfgVars t3) = (d, None)"
    using front_same [OF L(3) k t s] dg by simp
  have "stored_hash L (hash (inst t2)) d"
    using config_hash [OF L(1,2) s(3) dg] run_hash [OF s(1,2)] keep(1) h by simp
  with config_hash [OF L(1,2) t(3) dg'] obtain u where c: "config L t2 = (Next d, u)" by blast
  have "deployable L (inst u)"
    using keepsI_run [OF config_keep c] keep(2) deployable_key [OF k, of L] assms(4) by simp
  then obtain ss v where dp: "deploy L d u = (Next ss, v)" "sd_Generation ss = sd_ObservedGeneration ss" "deployable L (inst v)"
    using deploy_go [OF L(1), of u d] keepsI_run [OF deploy_keep, of L d u] by metis
  from finish_go [OF L(1) dp(3,2), of d] t(1,2) c dp(1) show ?thesis
    by (auto simp: prog_simps)
qed

end

section \<open>The loop\<close>

text \<open>
  The cluster as the store of the resource: a fetch answers what the last patch carried. The
  controller runs again and again on what it patched itself.
\<close>

fun fetched :: "(event \<Rightarrow> 'i option) \<Rightarrow> 'i \<Rightarrow> hist \<Rightarrow> 'i" where
  "fetched patch_of i [] = i"
| "fetched patch_of i (e # es) = fetched patch_of (case patch_of e of Some j \<Rightarrow> j | None \<Rightarrow> i) es"

lemma fetched_last: "patch_of e = Some j \<Longrightarrow> fetched patch_of i (es @ [e]) = j"
  by (induction es arbitrary: i) simp_all

locale child_loop =
  fixes reconcile :: "lib \<Rightarrow> NamespacedName \<Rightarrow> ('i st, reconcile_result, reconcile_result) prog"
    and fetch :: "lib \<Rightarrow> hist \<Rightarrow> NamespacedName \<Rightarrow> gerr + 'i"
    and patch :: "'i \<Rightarrow> event" and patch_of :: "event \<Rightarrow> 'i option"
    and serving deployable current :: "lib \<Rightarrow> 'i \<Rightarrow> bool" and K :: "'i \<Rightarrow> 'k"
    and hash :: "'i \<Rightarrow> (string \<rightharpoonup> string) option"
  assumes patch_of_patch: "patch_of (patch i) = Some i"
    and step: "healthy L \<Longrightarrow> lawful_SetHash L \<Longrightarrow> fetch L (trace s) req = Inr i \<Longrightarrow> serving L i \<Longrightarrow> deployable L i \<Longrightarrow>
      \<exists>v tr. reconcile L req s = (Next (Result0, None), v) \<and> trace v = tr @ [patch (inst v)] \<and> K (inst v) = K i \<and> serving L (inst v)"
    and twice: "healthy L \<Longrightarrow> lawful_SetHash L \<Longrightarrow> steady L \<Longrightarrow>
      fetch L (trace s) req = Inr i \<Longrightarrow> serving L i \<Longrightarrow> deployable L i \<Longrightarrow>
      fetch L (trace t) req = Inr j \<Longrightarrow> serving L j \<Longrightarrow> K j = K i \<Longrightarrow> hash j = hash (inst (snd (reconcile L req s))) \<Longrightarrow>
      current L (inst (snd (reconcile L req t)))"
    and loop_deployable: "K i = K j \<Longrightarrow> deployable L i = deployable L j"
begin

lemma loop_states:
  assumes L: "healthy L" "lawful_SetHash L" and store: "\<And>h. fetch L h req = Inr (fetched patch_of i0 h)"
    and i: "serving L (fetched patch_of i0 (trace s))" "deployable L (fetched patch_of i0 (trace s))"
  defines "run \<equiv> \<lambda>s. snd (reconcile L req s)"
  shows "fst (reconcile L req ((run ^^ n) s)) = Next (Result0, None) \<and>
    serving L (fetched patch_of i0 (trace ((run ^^ n) s))) \<and> deployable L (fetched patch_of i0 (trace ((run ^^ n) s))) \<and>
    fetched patch_of i0 (trace ((run ^^ Suc n) s)) = inst ((run ^^ Suc n) s) \<and>
    K (inst ((run ^^ Suc n) s)) = K (fetched patch_of i0 (trace ((run ^^ n) s)))"
proof -
  have one: "fst (reconcile L req t) = Next (Result0, None) \<and> fetched patch_of i0 (trace (run t)) = inst (run t) \<and>
      K (inst (run t)) = K (fetched patch_of i0 (trace t)) \<and> serving L (inst (run t)) \<and> deployable L (inst (run t))"
    if t: "serving L (fetched patch_of i0 (trace t))" "deployable L (fetched patch_of i0 (trace t))" for t
  proof -
    from step [OF L store t] obtain v tr where v: "reconcile L req t = (Next (Result0, None), v)"
      "trace v = tr @ [patch (inst v)]" "K (inst v) = K (fetched patch_of i0 (trace t))" "serving L (inst v)" by blast
    moreover have "deployable L (inst v)" using t(2) loop_deployable [OF v(3)] by simp
    ultimately show ?thesis by (simp add: run_def fetched_last patch_of_patch)
  qed
  have "serving L (fetched patch_of i0 (trace ((run ^^ n) s))) \<and> deployable L (fetched patch_of i0 (trace ((run ^^ n) s)))"
    by (induction n) (use i one in auto)
  with one [of "(run ^^ n) s"] show ?thesis by simp
qed

lemma loop_settles:
  assumes L: "healthy L" "lawful_SetHash L" "steady L" and store: "\<And>h. fetch L h req = Inr (fetched patch_of i0 h)"
    and i: "serving L (fetched patch_of i0 (trace s))" "deployable L (fetched patch_of i0 (trace s))"
  defines "run \<equiv> \<lambda>s. snd (reconcile L req s)"
  shows "fst (reconcile L req ((run ^^ n) s)) = Next (Result0, None)"
    "current L (inst ((run ^^ (n + 2)) s))" "K (inst ((run ^^ Suc n) s)) = K (fetched patch_of i0 (trace s))"
proof -
  note st = loop_states [OF L(1,2) store i, folded run_def]
  show "fst (reconcile L req ((run ^^ n) s)) = Next (Result0, None)" using st [of n] by blast
  show "K (inst ((run ^^ Suc n) s)) = K (fetched patch_of i0 (trace s))"
  proof (induction n)
    case 0
    show ?case using st [of 0] by simp
  next
    case (Suc n)
    with st [of "Suc n"] st [of n] show ?case by simp
  qed
  have "current L (inst (snd (reconcile L req ((run ^^ Suc n) s))))"
    using st [of n] st [of "Suc n"]
    by (intro twice [OF L store _ _ store, of "(run ^^ n) s" "(run ^^ Suc n) s"]) (simp_all add: run_def)
  then show "current L (inst ((run ^^ (n + 2)) s))" by (simp add: run_def)
qed

end

text \<open>
  What makes the loop of a child: its \<open>Reconcile\<close> opens into \<open>reconcileNormal\<close> for a resource that is
  not new, not being deleted and has its finalizer, and closes with the exit, which patches.
\<close>

locale child_reconciling = child_settling inputs tls config deploy finish hash deployable rolled generate labels K
  for inputs tls :: "lib \<Rightarrow> ('i st, reconcile_result, unit) prog"
    and config :: "lib \<Rightarrow> ('i st, reconcile_result, string) prog"
    and deploy :: "lib \<Rightarrow> string \<Rightarrow> ('i st, reconcile_result, StatefulSetData) prog"
    and finish :: "lib \<Rightarrow> string \<Rightarrow> StatefulSetData \<Rightarrow> ('i st, reconcile_result, reconcile_result) prog"
    and hash :: "'i \<Rightarrow> (string \<rightharpoonup> string) option"
    and deployable rolled :: "lib \<Rightarrow> 'i \<Rightarrow> bool"
    and generate :: "lib \<Rightarrow> ('i st, reconcile_result, gerr option) prog"
    and labels :: "lib \<Rightarrow> 'i \<Rightarrow> (string \<rightharpoonup> string)"
    and K :: "'i \<Rightarrow> 'k" +
  fixes reconcile :: "lib \<Rightarrow> NamespacedName \<Rightarrow> ('i st, reconcile_result, reconcile_result) prog"
    and fetch :: "lib \<Rightarrow> hist \<Rightarrow> NamespacedName \<Rightarrow> gerr + 'i"
    and patch :: "'i \<Rightarrow> event" and patch_of :: "event \<Rightarrow> 'i option"
    and serving current :: "lib \<Rightarrow> 'i \<Rightarrow> bool" and exit :: "lib \<Rightarrow> 'i \<Rightarrow> 'i"
  assumes patched: "patch_of (patch i) = Some i"
    and opens: "healthy L \<Longrightarrow> serving L i \<Longrightarrow> fetch L (trace s) req = Inr i \<Longrightarrow>
      \<exists>u. K (inst u) = K i \<and> hash (inst u) = Some (case hash i of Some f \<Rightarrow> f | None \<Rightarrow> Map.empty) \<and>
        (\<forall>res t. run L u = (Next res, t) \<longrightarrow> (\<exists>v. reconcile L req s = (Next res, v) \<and>
           trace v = trace t @ [patch (inst v)] \<and> inst v = exit L (inst t)))"
    and exit_hash: "hash (exit L i) = hash i"
    and exit_current: "current L (exit L i) = current L i"
    and exit_key: "K (exit L i) = K i"
    and exit_serving: "serving L i \<Longrightarrow> K j = K i \<Longrightarrow> serving L (exit L j)"
    and run_key: "keepsI K (run L)"
    and rolled_current: "rolled L i \<Longrightarrow> current L i"
begin

lemma reconcile_step:
  assumes L: "healthy L" "lawful_SetHash L"
    and i: "fetch L (trace s) req = Inr i" "serving L i" "deployable L i"
  shows "\<exists>v tr. reconcile L req s = (Next (Result0, None), v) \<and> trace v = tr @ [patch (inst v)] \<and>
    K (inst v) = K i \<and> serving L (inst v)"
proof -
  from opens [OF L(1) i(2,1)] obtain u where u: "K (inst u) = K i"
    and ru: "\<And>res t. run L u = (Next res, t) \<Longrightarrow>
      \<exists>v. reconcile L req s = (Next res, v) \<and> trace v = trace t @ [patch (inst v)] \<and> inst v = exit L (inst t)" by blast
  have "deployable L (inst u)" using i(3) deployable_key [OF u] by simp
  then obtain t where n: "run L u = (Next (Result0, None), t)" using run_progress [OF L] by blast
  from ru [OF n] obtain v where v: "reconcile L req s = (Next (Result0, None), v)"
    "trace v = trace t @ [patch (inst v)]" "inst v = exit L (inst t)" by blast
  have k: "K (inst t) = K i" using keepsI_run [OF run_key n] u by simp
  with v exit_serving [OF i(2) k] show ?thesis by (auto simp: exit_key)
qed

lemma reconcile_twice:
  assumes L: "healthy L" "lawful_SetHash L" "steady L"
    and i: "fetch L (trace s) req = Inr i" "serving L i" "deployable L i"
    and j: "fetch L (trace t) req = Inr j" "serving L j" "K j = K i" "hash j = hash (inst (snd (reconcile L req s)))"
  shows "current L (inst (snd (reconcile L req t)))"
proof -
  from opens [OF L(1) i(2,1)] obtain u where u: "K (inst u) = K i"
    and ru: "\<And>res t. run L u = (Next res, t) \<Longrightarrow>
      \<exists>v. reconcile L req s = (Next res, v) \<and> trace v = trace t @ [patch (inst v)] \<and> inst v = exit L (inst t)" by blast
  from opens [OF L(1) j(2,1)] obtain w where w: "K (inst w) = K j"
      "hash (inst w) = Some (case hash j of Some f \<Rightarrow> f | None \<Rightarrow> Map.empty)"
    and rw: "\<And>res t'. run L w = (Next res, t') \<Longrightarrow>
      \<exists>v. reconcile L req t = (Next res, v) \<and> trace v = trace t' @ [patch (inst v)] \<and> inst v = exit L (inst t')" by blast
  have d: "deployable L (inst u)" using i(3) deployable_key [OF u] by simp
  obtain s1 where n1: "run L u = (Next (Result0, None), s1)" using run_progress [OF L(1,2) d] by blast
  obtain f where "hash (inst (snd (run L u))) = Some f" using run_stores [OF L(1,2)] by blast
  with w(2) j(4) ru [OF n1] n1 have h: "hash (inst w) = hash (inst (snd (run L u)))"
    by (auto simp: exit_hash)
  obtain s2 where n2: "run L w = (Next (Result0, None), s2)" "rolled L (inst s2)"
    using run_settles [OF L d _ h] u w(1) j(3) by auto
  with rw [OF n2(1)] show ?thesis by (auto simp: exit_current rolled_current)
qed

end

sublocale child_reconciling \<subseteq> child_loop reconcile fetch patch patch_of serving deployable current K hash
  by unfold_locales (rule patched, rule reconcile_step, assumption+, rule reconcile_twice, assumption+, erule deployable_key)

section \<open>The concrete cluster\<close>

lemma demo_healthy: "healthy demo_lib"
  by (simp add: healthy_def demo_defs demo_ss_def)

lemma demo_steady: "steady demo_lib"
  by (simp add: steady_def demo_defs)

end
