(* ===== verification/ApiProgress.thy ===== *)
theory ApiProgress
  imports Progress ApiProps
begin

text \<open>
  The controller of the API as a provider of the phases of \<open>Progress\<close>: each phase goes on where its
  calls succeed, the run ends with the stateful set rolled out once the inputs are recorded, and
  the loop of \<open>Reconcile\<close> settles.
\<close>

section \<open>The phases\<close>

definition api_deployable :: "lib \<Rightarrow> ManilaAPI \<Rightarrow> bool" where
  "api_deployable L i \<longleftrightarrow>
     atc_Replicas (at_Core (as_Template (api_Spec i))) \<noteq> None \<and>
     as_MemcachedInstance (api_Spec i) \<noteq> None \<and>
     api_GetVolumes L (GetOwningManilaName (api_Meta i)) (om_Name (api_Meta i)) (as_ExtraMounts (api_Spec i)) \<noteq> None"

lemma api_certs_goes: "healthy L \<Longrightarrow> goes (api_certs L i)"
  by (simp add: goes_def api_certs_def prog_simps Let_def healthy_answers)

lemma api_front_goes:
  assumes "healthy L"
  shows "goes (api_inputs L)" "goes (api_tls L)"
  by (simp_all add: goes_def api_inputs_def api_tls_def prog_simps Let_def split_def
      healthy_answers [OF assms] healthy_helpers [OF assms] goes_run [OF api_certs_goes [OF assms]])

lemma api_generate_goes:
  assumes "healthy L"
  shows "\<exists>t. api_generateServiceConfig L s = (Next None, t)"
  by (simp add: api_generateServiceConfig_def get_secret_def prog_simps Let_def split_def
      healthy_answers [OF assms] healthy_loops_run [OF assms])

lemma api_config_progress:
  assumes "healthy L" "lawful_SetHash L"
  shows "(\<exists>t. api_config L s = (Return (Result0, None), t) \<and> api_Hash (inst t) \<noteq> api_Hash (inst s)) \<or>
    (\<exists>h t. api_config L s = (Next h, t))"
proof -
  obtain t where t: "api_generateServiceConfig L (s\<lparr>svcLabels := [l_const L ''common.AppSelector'' \<mapsto> manila_ServiceName,
              l_const L ''common.ComponentSelector'' \<mapsto> api_ComponentName]\<rparr>) = (Next None, t)"
    using api_generate_goes [OF assms(1)] by blast
  have ht: "api_Hash (inst t) = api_Hash (inst s)"
    using keepsI_run [OF api_generate_keeps t, of api_Hash] by simp
  have upd: "api_Hash (ManilaAPI_updC f i) = api_Hash i" for f i
    by (simp add: api_Hash_def ManilaAPI_updC_def)
  obtain m c where "l_SetHash L (api_Hash (inst s)) (l_const L ''common.InputHashName'')
      (fst (hidden (l_ObjectHashEnvs L) (cfgVars t))) = (m, c)" by fastforce
  with SetHash_differs [OF assms(2)] show ?thesis
    by (cases c) (auto simp: api_config_def api_createHashOfInputHashes_def prog_simps t ht upd
        apiH.run_createHash apiH.get_set healthy_answers [OF assms(1)])
qed

lemma api_tls_volumes_built: "healthy L \<Longrightarrow> \<exists>r. api_tls_volumes L t eps vs vms = Inr r"
  by (induction eps arbitrary: vs vms) (simp_all add: healthy_answers Let_def)

lemma api_StatefulSet_built:
  assumes "healthy L" "api_deployable L i"
  obtains ss where "api_StatefulSet L i h ls ann topo mc timeout = Some (Inr ss)"
proof -
  obtain vs where vs: "api_GetVolumes L (GetOwningManilaName (api_Meta i)) (om_Name (api_Meta i)) (as_ExtraMounts (api_Spec i)) = Some vs"
    using assms(2) by (auto simp: api_deployable_def)
  have "\<exists>ss. api_StatefulSet L i h ls ann topo mc timeout = Some (Inr ss)"
    using api_tls_volumes_built [OF assms(1)]
    by (auto simp: api_StatefulSet_def vs healthy_answers [OF assms(1)] Let_def simp del: api_tls_volumes.simps
        split: sum.split) (metis sum.distinct(1))+
  then show ?thesis using that by blast
qed

lemma api_deploy_steps_go:
  assumes "healthy L" "api_deployable L (inst s)"
  shows "goes (api_topology_step L)" "\<exists>mc t. api_memcached L s = (Next mc, t)"
    "\<exists>ss t. api_apply_statefulset L h ann topo mc s = (Next ss, t) \<and> sd_Generation ss = sd_ObservedGeneration ss"
proof -
  show "goes (api_topology_step L)"
    by (simp add: goes_def api_topology_step_def prog_simps healthy_helpers [OF assms(1)])
  show "\<exists>mc t. api_memcached L s = (Next mc, t)"
    using assms(2) by (auto simp: api_memcached_def api_deployable_def prog_simps healthy_answers [OF assms(1)])
  obtain ss where "api_StatefulSet L (inst s) h (svcLabels s) ann topo mc (as_APITimeout (api_Spec (inst s))) = Some (Inr ss)"
    using assms by (rule api_StatefulSet_built)
  then show "\<exists>ss t. api_apply_statefulset L h ann topo mc s = (Next ss, t) \<and> sd_Generation ss = sd_ObservedGeneration ss"
    by (simp add: api_apply_statefulset_def prog_simps healthy_answers [OF assms(1)] healthy_observed [OF assms(1)])
qed

definition api_deployed :: "lib \<Rightarrow> ManilaAPI \<Rightarrow> bool" where
  "api_deployed L i \<longleftrightarrow>
     rolled_out_for L (ast_Conditions (api_Status i)) (ast_AppliedInputSecretHash (api_Status i))
       [as_TransportURLSecret (api_Spec i), as_NotificationsURLSecret (api_Spec i)]"

lemma api_status_progress:
  assumes "healthy L" "api_deployable L (inst s)"
  shows "\<exists>t. api_network_status L s = (Next (), t)"
    "\<exists>t. api_rollout_status L h s = (Next (), t) \<and> api_deployed L (inst t)"
  using assms(2)
  by (auto simp: api_network_status_def api_rollout_status_def prog_simps Let_def api_deployable_def
      healthy_answers [OF assms(1)] healthy_three [OF assms(1)] api_deployed_def rolled_out_for_def
      ManilaAPI_updC_def reported_cond_do)

lemma api_status_keeps:
  assumes "\<And>f i. g (ManilaAPI_updC f i) = g i"
    "\<And>i n. g (i\<lparr>api_Status := (api_Status i)\<lparr>ast_NetworkAttachments := n\<rparr>\<rparr>) = g i"
    "\<And>i n. g (i\<lparr>api_Status := (api_Status i)\<lparr>ast_AppliedInputSecretHash := n\<rparr>\<rparr>) = g i"
  shows "keepsI g (api_network_status L)" "keepsI g (api_rollout_status L h)"
  unfolding api_network_status_def api_rollout_status_def by (intro keepsI_rules assms)+

lemma api_deployable_keeps:
  "keepsI (api_deployable L) (api_network_status L)" "keepsI (api_deployable L) (api_rollout_status L h)"
  "keepsI (api_deployable L) (api_inputs L)" "keepsI (api_deployable L) (api_tls L)"
  "keepsI (api_deployable L) (api_config L)" "keepsI (api_deployable L) (api_topology_step L)"
  "keepsI (api_deployable L) (api_memcached L)"
  "keepsI (api_deployable L) (ensureNAD L ManilaAPI_updC ns nads)"
  unfolding api_topology_step_def api_memcached_def
  by ((intro api_status_keeps api_phase_keeps keepsI_rules keepsI_helpers keepsI_ensureTopology;
      simp add: ManilaAPI_updC_def api_deployable_def api_setHash_def api_topology_def
        ManilaAPI_SetLastAppliedTopology_def))+

lemma api_finish_progress:
  assumes "healthy L" "api_deployable L (inst s)" "sd_Generation ss = sd_ObservedGeneration ss"
  shows "\<exists>t. api_finish L h ss s = (Return (Result0, None), t) \<and> api_deployed L (inst t)"
proof -
  let ?s = "s\<lparr>inst := (inst s)\<lparr>api_Status := (api_Status (inst s))\<lparr>ast_ReadyCount := sd_ReadyReplicas ss\<rparr>\<rparr>\<rparr>"
  have d: "api_deployable L (inst ?s)" using assms(2) by (simp add: api_deployable_def)
  obtain t1 where n: "api_network_status L ?s = (Next (), t1)" using api_status_progress(1) [OF assms(1) d] by blast
  then have d1: "api_deployable L (inst t1)"
    using d keepsI_run [OF api_deployable_keeps(1) n] by simp
  obtain t2 where r: "api_rollout_status L h t1 = (Next (), t2)" "api_deployed L (inst t2)"
    using api_status_progress(2) [OF assms(1) d1] by blast
  have "api_deployable L (inst t2)"
    using d1 keepsI_run [OF api_deployable_keeps(2) r(1)] by simp
  with r n assms(3) show ?thesis
    by (auto simp: api_finish_def prog_simps api_deployable_def ManilaAPI_IsReady_def
        api_deployed_def rolled_out_for_def ManilaAPI_updC_def reported_cond_do)
qed

lemma api_expose_goes:
  assumes "healthy L"
  shows "goes (api_expose_endpoint L v1 ep acc)" "goes (api_keystone_service L v1 eps ks)"
  by (simp_all add: goes_def api_expose_endpoint_def api_keystone_service_def prog_simps Let_def split_def
      healthy_answers [OF assms])

lemma api_init_goes:
  assumes "healthy L"
  shows "\<exists>t. api_reconcileInit L s = (Next (Result0, None), t)"
proof -
  have go: "goes (foldP (api_expose_endpoint L v1) eps acc)" "goes (forP kss (api_keystone_service L v1 epts))" for v1 eps acc kss epts
    by (intro goes_fold goes_for api_expose_goes [OF assms])+
  have "snd (IsShareV1Enabled (l_GetBoolFromAnnotation L) (inst s)) = None"
    by (simp add: IsShareV1Enabled_def healthy_three [OF assms])
  then obtain v1 where v1: "IsShareV1Enabled (l_GetBoolFromAnnotation L) (inst s) = (v1, None)"
    by (metis prod.collapse)
  have "\<exists>t. api_expose_services L v1 s = (Return (Result0, None), t)"
    using go by (simp add: api_expose_services_def prog_simps split_def Let_def goes_run del: foldP.simps forP.simps)
  with v1 show ?thesis by (auto simp: api_reconcileInit_def prog_simps)
qed

lemma api_init_deployable: "keepsI (api_deployable L) (api_reconcileInit L)"
  by (intro api_front_keeps; simp add: api_deployable_def ManilaAPI_updC_def)

lemma api_deploy_progress:
  assumes "healthy L" "api_deployable L (inst s)"
  shows "\<exists>ss t. api_deploy L h s = (Next ss, t) \<and> sd_Generation ss = sd_ObservedGeneration ss"
proof -
  obtain ann t1 where n: "ensureNAD L ManilaAPI_updC (om_Namespace (api_Meta (inst s)))
      (st_NetworkAttachments (api_spec_service (inst s))) s = (Next (ann, Result0, None) :: (reconcile_result, _) outcome, t1)"
    using helpers_go(3) [OF assms(1)] by blast
  with assms(2) have d1: "api_deployable L (inst t1)"
    using keepsI_run [OF api_deployable_keeps(8) n] by simp
  obtain t1' where x: "api_reconcileInit L t1 = (Next (Result0, None) :: (reconcile_result, _) outcome, t1')"
    using api_init_goes [OF assms(1)] by blast
  with d1 have d1': "api_deployable L (inst t1')"
    using keepsI_run [OF api_init_deployable x] by simp
  obtain topo t2 where t: "api_topology_step L t1' = (Next topo, t2)"
    using api_deploy_steps_go(1) [OF assms(1) d1'] by (rule goesE)
  with d1' have d2: "api_deployable L (inst t2)"
    using keepsI_run [OF api_deployable_keeps(6) t] by simp
  obtain mc t3 where m: "api_memcached L t2 = (Next mc, t3)"
    using api_deploy_steps_go(2) [OF assms(1) d2] by blast
  with d2 have "api_deployable L (inst t3)"
    using keepsI_run [OF api_deployable_keeps(7) m] by simp
  from api_deploy_steps_go(3) [OF assms(1) this] n x t m show ?thesis
    by (simp add: api_deploy_def prog_simps)
qed

lemma api_deploy_deployable: "keepsI (api_deployable L) (api_deploy L h)"
  by (intro api_deploy_keeps; simp add: api_deployable_def ManilaAPI_updC_def ManilaAPI_SetLastAppliedTopology_def)

lemma api_hash_front: "keepsI api_Hash (api_inputs L)" "keepsI api_Hash (api_tls L)"
  by (intro api_front_keeps; simp add: api_Hash_def ManilaAPI_updC_def)+

definition api_identity :: "ManilaAPI \<Rightarrow> ManilaAPISpec \<times> ObjectMeta \<times> string" where
  "api_identity i = (api_Spec i, api_Meta i, api_Kind i)"

definition api_labels :: "lib \<Rightarrow> ManilaAPI \<Rightarrow> (string \<rightharpoonup> string)" where
  "api_labels L i = [l_const L ''common.AppSelector'' \<mapsto> manila_ServiceName,
     l_const L ''common.ComponentSelector'' \<mapsto> api_ComponentName]"

lemma api_identity_updC: "api_identity (ManilaAPI_updC f i) = api_identity i"
  by (simp add: api_identity_def ManilaAPI_updC_def)

lemma api_front_blind:
  assumes "steady L"
  shows "blind (front_view api_identity) (api_inputs L)" "blind (front_view api_identity) (api_tls L)"
  unfolding api_inputs_def api_tls_def api_certs_def Let_def
  by (intro frontV.blind_inst blind_bind frontV.blind_rules frontV.blind_verify frontV.blind_call api_identity_updC steadyD [OF assms];
      simp add: api_identity_def api_spec_service_def api_CaBundle_def cong: if_cong)+

lemma api_generate_blind:
  assumes "steady L"
  shows "blind (config_view api_identity) (api_generateServiceConfig L)"
  unfolding api_generateServiceConfig_def Let_def
  by (intro blind_read configV.blind_rules blind_bind configV.blind_secrets configV.blind_call steadyD [OF assms];
      simp add: config_view_def api_identity_def api_spec_service_def api_CaBundle_def)

lemma api_config_hash:
  assumes "healthy L" "lawful_SetHash L"
    and g: "api_generateServiceConfig L (s\<lparr>svcLabels := api_labels L (inst s)\<rparr>) = (Next None, t)"
    and h: "l_ObjectHashEnvs L (cfgVars t) = (h, None)"
  shows "stored_hash L (api_Hash (inst (snd (api_config L s)))) h \<and>
    (stored_hash L (api_Hash (inst s)) h \<longrightarrow> (\<exists>u. api_config L s = (Next h, u)))"
proof -
  have ht: "api_Hash (inst t) = api_Hash (inst s)"
    using keepsI_run [OF api_generate_keeps g, of api_Hash] by simp
  have upd: "api_Hash (ManilaAPI_updC f i) = api_Hash i" for f i
    by (simp add: api_Hash_def ManilaAPI_updC_def)
  obtain m c where "l_SetHash L (api_Hash (inst s)) (l_const L ''common.InputHashName'') h = (m, c)" by fastforce
  with SetHash_records [OF assms(2) this] show ?thesis
    using g by (cases c) (auto simp: api_config_def api_createHashOfInputHashes_def prog_simps ht upd h
        api_labels_def apiH.run_createHash apiH.get_set)
qed

interpretation apiG: child_phases api_inputs api_tls api_config api_deploy api_finish
  api_Hash api_deployable api_deployed
  by unfold_locales
    (intro api_front_goes api_config_progress api_deploy_progress api_finish_progress
      api_hash_front api_deployable_keeps api_deploy_deployable; assumption?)+

lemma api_run_hash:
  "keepsI api_Hash (api_deploy L h)" "keepsI api_Hash (api_finish L h ss)"
  by (intro api_deploy_keeps api_finish_keeps;
      simp add: api_Hash_def ManilaAPI_updC_def ManilaAPI_SetLastAppliedTopology_def)+

interpretation apiS: child_settling api_inputs api_tls api_config api_deploy api_finish
  api_Hash api_deployable api_deployed api_generateServiceConfig api_labels api_identity
proof unfold_locales
  show "api_inputs L (s\<lparr>cfgVars := v\<rparr>) = api_inputs L s" for L s v
    by (simp add: api_inputs_def bindP_def run_setVars)
qed ((rule api_front_blind api_generate_blind api_generate_goes api_config_hash api_run_hash; assumption)
    | (simp add: api_identity_def api_labels_def api_deployable_def; fail))+

section \<open>The loop\<close>

text \<open>
  A whole \<open>Reconcile\<close> of an API that is not new, not being deleted and has its finalizer runs
  \<open>reconcileNormal\<close> under the deferred exit.
\<close>

definition api_serving :: "lib \<Rightarrow> ManilaAPI \<Rightarrow> bool" where
  "api_serving L i \<longleftrightarrow> \<not> conds_nil (ast_Conditions (api_Status i)) \<and> om_DeletionTimestamp (api_Meta i) = None \<and>
     l_AddFinalizer L (api_Meta i) (l_GetFinalizer L ''ManilaAPI'') = (False, api_Meta i)"

lemma api_Reconcile_opens:
  assumes "healthy L" "api_serving L i" "o_GetAPI L (trace s) req = Inr i"
  obtains u where "api_identity (inst u) = api_identity i"
    "api_Hash (inst u) = Some (case api_Hash i of Some f \<Rightarrow> f | None \<Rightarrow> Map.empty)"
    "ast_AppliedInputSecretHash (api_Status (inst u)) = ast_AppliedInputSecretHash (api_Status i)"
    "\<And>res t. api_reconcileNormal L u = (Next res, t) \<Longrightarrow>
       \<exists>v. api_Reconcile L req s = (Next res, v) \<and> trace v = trace t @ [EPatchAPI (inst v)] \<and>
         inst v = exit_instance L (\<lambda>i. ast_Conditions (api_Status i)) ManilaAPI_updC (inst t)"
proof (rule that)
  let ?i = "let i1 = ManilaAPI_updC (cond_do (CInit api_conditions)) i;
      i2 = i1\<lparr>api_Status := (api_Status i1)\<lparr>ast_ObservedGeneration := om_Generation (api_Meta i1)\<rparr>\<rparr>;
      i3 = if ast_Hash (api_Status i2) = None then i2\<lparr>api_Status := (api_Status i2)\<lparr>ast_Hash := Some Map.empty\<rparr>\<rparr> else i2
    in if ast_NetworkAttachments (api_Status i3) = None
       then i3\<lparr>api_Status := (api_Status i3)\<lparr>ast_NetworkAttachments := Some Map.empty\<rparr>\<rparr> else i3"
  let ?u = "s\<lparr>trace := trace s @ [EGet ''ManilaAPI'' (nn_Namespace req) (nn_Name req)], inst := ?i\<rparr>"
  show "api_identity (inst ?u) = api_identity i"
    "api_Hash (inst ?u) = Some (case api_Hash i of Some f \<Rightarrow> f | None \<Rightarrow> Map.empty)"
    "ast_AppliedInputSecretHash (api_Status (inst ?u)) = ast_AppliedInputSecretHash (api_Status i)"
    by (auto simp: Let_def ManilaAPI_updC_def api_identity_def api_Hash_def split: option.split)
  show "\<exists>v. api_Reconcile L req s = (Next res, v) \<and> trace v = trace t @ [EPatchAPI (inst v)] \<and>
      inst v = exit_instance L (\<lambda>i. ast_Conditions (api_Status i)) ManilaAPI_updC (inst t)"
    if "api_reconcileNormal L ?u = (Next res, t)" for res t
    using that assms(2,3)
    by (auto simp: api_serving_def api_Reconcile_def prog_simps healthy_answers [OF assms(1)] run_with_deferred
        run_deferred exit_result_def api_body_def Let_def ManilaAPI_updC_def split: option.splits)
qed

definition api_current :: "lib \<Rightarrow> ManilaAPI \<Rightarrow> bool" where
  "api_current L i \<longleftrightarrow>
     l_ObjectHash L [as_TransportURLSecret (api_Spec i), as_NotificationsURLSecret (api_Spec i)] =
       (ast_AppliedInputSecretHash (api_Status i), None)"

lemma api_exit_keeps:
  fixes L defines "exit \<equiv> exit_instance L (\<lambda>i. ast_Conditions (api_Status i)) ManilaAPI_updC"
  shows "api_Hash (exit i) = api_Hash i" "api_current L (exit i) = api_current L i"
    "api_identity (exit i) = api_identity i" "\<not> conds_nil (ast_Conditions (api_Status (exit i)))"
  by (simp_all add: exit_def exit_instance_def Let_def ManilaAPI_updC_def api_Hash_def api_current_def
      api_identity_def conds_nil_def cond_do_def)

lemma api_reconcileNormal_identity: "keepsI api_identity (api_reconcileNormal L)"
  unfolding api_identity_def by (intro keepsI_pair api_reconcileNormal_keeps)

fun api_patch_of :: "event \<Rightarrow> ManilaAPI option" where
  "api_patch_of (EPatchAPI i) = Some i"
| "api_patch_of _ = None"

interpretation apiR: child_reconciling api_inputs api_tls api_config api_deploy api_finish
  api_Hash api_deployable api_deployed api_generateServiceConfig api_labels api_identity
  api_Reconcile o_GetAPI EPatchAPI api_patch_of api_serving api_current "\<lambda>L. exit_instance L (\<lambda>i. ast_Conditions (api_Status i)) ManilaAPI_updC"
proof unfold_locales
  show "\<exists>u. api_identity (inst u) = api_identity i \<and>
      api_Hash (inst u) = Some (case api_Hash i of Some f \<Rightarrow> f | None \<Rightarrow> Map.empty) \<and>
      (\<forall>res t. apiG.run L u = (Next res, t) \<longrightarrow> (\<exists>v. api_Reconcile L req s = (Next res, v) \<and>
         trace v = trace t @ [EPatchAPI (inst v)] \<and>
         inst v = exit_instance L (\<lambda>i. ast_Conditions (api_Status i)) ManilaAPI_updC (inst t)))"
    if "healthy L" "api_serving L i" "o_GetAPI L (trace s) req = Inr i" for L i s req
    using that by (rule api_Reconcile_opens) (unfold api_reconcileNormal_def, blast)
  show "keepsI api_identity (apiG.run L)" for L
    using api_reconcileNormal_identity unfolding api_reconcileNormal_def .
  show "api_serving L (exit_instance L (\<lambda>i. ast_Conditions (api_Status i)) ManilaAPI_updC j)"
    if "api_serving L i" "api_identity j = api_identity i" for L i j
    using that api_exit_keeps(3,4) [of L j] by (simp add: api_serving_def api_identity_def)
qed (simp add: api_exit_keeps; fail | simp add: api_deployed_def rolled_out_for_def api_current_def)+

text \<open>C9: the reconcile loop of the API settles. On a cluster that stores what the controller patches, where every call of the controller succeeds and the answers about its inputs do not change, every run of the loop on an API that is not new, not being deleted and has its finalizer ends without an error, a requeue or a panic; from the second run on the resource reports as applied the hash of its two secret names, and it keeps its spec and metadata.\<close>

theorem api_loop_settles:
  assumes "healthy L" "lawful_SetHash L" "steady L"
    and "\<And>h. o_GetAPI L h req = Inr (fetched api_patch_of i h)"
    and "api_serving L i" "api_deployable L i" "trace s = []"
  shows "let run = (\<lambda>s. snd (api_Reconcile L req s)) in
    fst (api_Reconcile L req ((run ^^ n) s)) = Next (Result0, None) \<and>
    api_current L (inst ((run ^^ (n + 2)) s)) \<and>
    api_identity (inst ((run ^^ Suc n) s)) = api_identity i"
  using apiR.loop_settles [OF assms(1-4), of s n] assms(5-7) by (simp add: Let_def del: funpow.simps)

text \<open>The concrete cluster with a store for the API.\<close>

definition demo_api_store :: lib where
  "demo_api_store = demo_lib\<lparr>o_GetAPI := \<lambda>h req. Inr (fetched api_patch_of demo_api h)\<rparr>"

lemma demo_api_store_laws:
  "healthy demo_api_store" "lawful_SetHash demo_api_store" "steady demo_api_store"
  "o_GetAPI demo_api_store h req = Inr (fetched api_patch_of demo_api h)"
  "api_serving demo_api_store demo_api" "api_deployable demo_api_store demo_api"
proof -
  show "healthy demo_api_store" "lawful_SetHash demo_api_store" "steady demo_api_store"
    using demo_healthy demo_lawful_SetHash demo_steady
    by (simp_all add: demo_api_store_def healthy_def lawful_SetHash_def steady_def)
  show "api_serving demo_api_store demo_api"
    by (simp add: api_serving_def demo_api_store_def demo_defs demo_api_def demo_conditions_def conds_nil_def
        demo_meta_def newMeta_def demo_AddFinalizer_def)
  show "api_deployable demo_api_store demo_api"
    by (simp add: api_deployable_def demo_api_def demo_api_template_def api_GetVolumes_def manila_GetVolumes_def)
  show "o_GetAPI demo_api_store h req = Inr (fetched api_patch_of demo_api h)"
    by (simp add: demo_api_store_def)
qed

theorem api_loop_settles_witness:
  "let req = \<lparr>nn_Namespace = ''openstack'', nn_Name = ''m-api''\<rparr>;
       run = (\<lambda>s. snd (api_Reconcile demo_api_store req s)); s = demo_state demo_api in
    fst (api_Reconcile demo_api_store req ((run ^^ 5) s)) = Next (Result0, None) \<and>
    api_current demo_api_store (inst ((run ^^ (5 + 2)) s)) \<and>
    api_identity (inst ((run ^^ Suc 5) s)) = api_identity demo_api"
  unfolding Let_def by (intro api_loop_settles [OF demo_api_store_laws, unfolded Let_def]) simp

end
