(* ===== verification/SchedulerProgress.thy ===== *)
theory SchedulerProgress
  imports Progress SchedulerProps
begin

text \<open>
  The controller of the scheduler as a provider of the phases of \<open>Progress\<close>: each phase goes on where its
  calls succeed, the run ends with the stateful set rolled out once the inputs are recorded, and
  the loop of \<open>Reconcile\<close> settles.
\<close>

section \<open>The phases\<close>

text \<open>What the spec must have for the code not to panic: replicas, the memcached name, known volume sources.\<close>

definition scheduler_deployable :: "lib \<Rightarrow> ManilaScheduler \<Rightarrow> bool" where
  "scheduler_deployable L i \<longleftrightarrow>
     stc_Replicas (sct_Core (scs_SchedulerTemplate (sch_Spec i))) \<noteq> None \<and>
     scs_MemcachedInstance (sch_Spec i) \<noteq> None \<and>
     scheduler_GetVolumes L (GetOwningManilaName (sch_Meta i)) (om_Name (sch_Meta i)) (scs_ExtraMounts (sch_Spec i)) \<noteq> None"

lemma scheduler_front_goes:
  assumes "healthy L"
  shows "goes (scheduler_inputs L)" "goes (scheduler_tls L)"
  by (simp_all add: goes_def scheduler_inputs_def scheduler_tls_def prog_simps Let_def split_def
      healthy_answers [OF assms] healthy_helpers [OF assms])

lemma scheduler_generate_goes:
  assumes "healthy L"
  shows "\<exists>t. scheduler_generateServiceConfig L s = (Next None, t)"
  by (simp add: scheduler_generateServiceConfig_def get_secret_def prog_simps Let_def split_def
      healthy_answers [OF assms] healthy_loops_run [OF assms])

lemma scheduler_config_progress:
  assumes "healthy L" "lawful_SetHash L"
  shows "(\<exists>t. scheduler_config L s = (Return (Result0, None), t) \<and> scheduler_Hash (inst t) \<noteq> scheduler_Hash (inst s)) \<or>
    (\<exists>h t. scheduler_config L s = (Next h, t))"
proof -
  obtain t where t: "scheduler_generateServiceConfig L (s\<lparr>svcLabels := [l_const L ''common.AppSelector'' \<mapsto> manila_ServiceName,
              l_const L ''common.ComponentSelector'' \<mapsto> scheduler_ComponentName]\<rparr>) = (Next None, t)"
    using scheduler_generate_goes [OF assms(1)] by blast
  have ht: "scheduler_Hash (inst t) = scheduler_Hash (inst s)"
    using keepsI_run [OF scheduler_generate_keeps t, of scheduler_Hash] by simp
  have upd: "scheduler_Hash (ManilaScheduler_updC f i) = scheduler_Hash i" for f i
    by (simp add: scheduler_Hash_def ManilaScheduler_updC_def)
  obtain m c where "l_SetHash L (scheduler_Hash (inst s)) (l_const L ''common.InputHashName'')
      (fst (hidden (l_ObjectHashEnvs L) (cfgVars t))) = (m, c)" by fastforce
  with SetHash_differs [OF assms(2)] show ?thesis
    by (cases c) (auto simp: scheduler_config_def scheduler_createHashOfInputHashes_def prog_simps t ht upd
        schedH.run_createHash schedH.get_set healthy_answers [OF assms(1)])
qed

lemma scheduler_StatefulSet_built:
  assumes "healthy L" "scheduler_deployable L i"
  obtains ss where "scheduler_StatefulSet L i h ls ann topo mc = Some (Inr ss)"
  using assms(2) by (auto simp: scheduler_StatefulSet_def scheduler_deployable_def healthy_answers [OF assms(1)] Let_def)

lemma scheduler_deploy_steps_go:
  assumes "healthy L" "scheduler_deployable L (inst s)"
  shows "goes (scheduler_topology_step L)" "\<exists>mc t. scheduler_memcached L s = (Next mc, t)"
    "\<exists>ss t. scheduler_apply_statefulset L h ann topo mc s = (Next ss, t) \<and> sd_Generation ss = sd_ObservedGeneration ss"
proof -
  show "goes (scheduler_topology_step L)"
    by (simp add: goes_def scheduler_topology_step_def prog_simps healthy_helpers [OF assms(1)])
  show "\<exists>mc t. scheduler_memcached L s = (Next mc, t)"
    using assms(2) by (auto simp: scheduler_memcached_def scheduler_deployable_def prog_simps healthy_answers [OF assms(1)])
  obtain ss where "scheduler_StatefulSet L (inst s) h (svcLabels s) ann topo mc = Some (Inr ss)"
    using assms by (rule scheduler_StatefulSet_built)
  then show "\<exists>ss t. scheduler_apply_statefulset L h ann topo mc s = (Next ss, t) \<and> sd_Generation ss = sd_ObservedGeneration ss"
    by (simp add: scheduler_apply_statefulset_def prog_simps healthy_answers [OF assms(1)] healthy_observed [OF assms(1)])
qed

definition scheduler_deployed :: "lib \<Rightarrow> ManilaScheduler \<Rightarrow> bool" where
  "scheduler_deployed L i \<longleftrightarrow>
     rolled_out_for L (sst_Conditions (sch_Status i)) (sst_AppliedInputSecretHash (sch_Status i))
       [scs_TransportURLSecret (sch_Spec i), scs_NotificationsURLSecret (sch_Spec i)]"

lemma scheduler_status_progress:
  assumes "healthy L" "scheduler_deployable L (inst s)"
  shows "\<exists>t. scheduler_network_status L s = (Next (), t)"
    "\<exists>t. scheduler_rollout_status L h s = (Next (), t) \<and> scheduler_deployed L (inst t)"
  using assms(2)
  by (auto simp: scheduler_network_status_def scheduler_rollout_status_def prog_simps Let_def scheduler_deployable_def
      healthy_answers [OF assms(1)] healthy_three [OF assms(1)] scheduler_deployed_def rolled_out_for_def
      ManilaScheduler_updC_def reported_cond_do)

lemma scheduler_status_keeps:
  assumes "\<And>f i. g (ManilaScheduler_updC f i) = g i"
    "\<And>i n. g (i\<lparr>sch_Status := (sch_Status i)\<lparr>sst_NetworkAttachments := n\<rparr>\<rparr>) = g i"
    "\<And>i n. g (i\<lparr>sch_Status := (sch_Status i)\<lparr>sst_AppliedInputSecretHash := n\<rparr>\<rparr>) = g i"
  shows "keepsI g (scheduler_network_status L)" "keepsI g (scheduler_rollout_status L h)"
  unfolding scheduler_network_status_def scheduler_rollout_status_def by (intro keepsI_rules assms)+

lemma scheduler_deployable_keeps:
  "keepsI (scheduler_deployable L) (scheduler_network_status L)" "keepsI (scheduler_deployable L) (scheduler_rollout_status L h)"
  "keepsI (scheduler_deployable L) (scheduler_inputs L)" "keepsI (scheduler_deployable L) (scheduler_tls L)"
  "keepsI (scheduler_deployable L) (scheduler_config L)" "keepsI (scheduler_deployable L) (scheduler_topology_step L)"
  "keepsI (scheduler_deployable L) (scheduler_memcached L)"
  "keepsI (scheduler_deployable L) (ensureNAD L ManilaScheduler_updC ns nads)"
  unfolding scheduler_topology_step_def scheduler_memcached_def
  by ((intro scheduler_status_keeps scheduler_phase_keeps keepsI_rules keepsI_helpers keepsI_ensureTopology;
      simp add: ManilaScheduler_updC_def scheduler_deployable_def scheduler_setHash_def scheduler_topology_def
        ManilaScheduler_SetLastAppliedTopology_def))+

lemma scheduler_finish_progress:
  assumes "healthy L" "scheduler_deployable L (inst s)" "sd_Generation ss = sd_ObservedGeneration ss"
  shows "\<exists>t. scheduler_finish L h ss s = (Return (Result0, None), t) \<and> scheduler_deployed L (inst t)"
proof -
  let ?s = "s\<lparr>inst := (inst s)\<lparr>sch_Status := (sch_Status (inst s))\<lparr>sst_ReadyCount := sd_ReadyReplicas ss\<rparr>\<rparr>\<rparr>"
  have d: "scheduler_deployable L (inst ?s)" using assms(2) by (simp add: scheduler_deployable_def)
  obtain t1 where n: "scheduler_network_status L ?s = (Next (), t1)" using scheduler_status_progress(1) [OF assms(1) d] by blast
  then have d1: "scheduler_deployable L (inst t1)"
    using d keepsI_run [OF scheduler_deployable_keeps(1) n] by simp
  obtain t2 where r: "scheduler_rollout_status L h t1 = (Next (), t2)" "scheduler_deployed L (inst t2)"
    using scheduler_status_progress(2) [OF assms(1) d1] by blast
  have "scheduler_deployable L (inst t2)"
    using d1 keepsI_run [OF scheduler_deployable_keeps(2) r(1)] by simp
  with r n assms(3) show ?thesis
    by (auto simp: scheduler_finish_def prog_simps scheduler_deployable_def ManilaScheduler_IsReady_def
        scheduler_deployed_def rolled_out_for_def ManilaScheduler_updC_def reported_cond_do)
qed

lemma scheduler_deploy_progress:
  assumes "healthy L" "scheduler_deployable L (inst s)"
  shows "\<exists>ss t. scheduler_deploy L h s = (Next ss, t) \<and> sd_Generation ss = sd_ObservedGeneration ss"
proof -
  obtain ann t1 where n: "ensureNAD L ManilaScheduler_updC (om_Namespace (sch_Meta (inst s)))
      (st_NetworkAttachments (scheduler_spec_service (inst s))) s = (Next (ann, Result0, None) :: (reconcile_result, _) outcome, t1)"
    using helpers_go(3) [OF assms(1)] by blast
  with assms(2) have d1: "scheduler_deployable L (inst t1)"
    using keepsI_run [OF scheduler_deployable_keeps(8) n] by simp
  obtain topo t2 where t: "scheduler_topology_step L t1 = (Next topo, t2)"
    using scheduler_deploy_steps_go(1) [OF assms(1) d1] by (rule goesE)
  with d1 have d2: "scheduler_deployable L (inst t2)"
    using keepsI_run [OF scheduler_deployable_keeps(6) t] by simp
  obtain mc t3 where m: "scheduler_memcached L t2 = (Next mc, t3)"
    using scheduler_deploy_steps_go(2) [OF assms(1) d2] by blast
  with d2 have "scheduler_deployable L (inst t3)"
    using keepsI_run [OF scheduler_deployable_keeps(7) m] by simp
  from scheduler_deploy_steps_go(3) [OF assms(1) this] n t m show ?thesis
    by (simp add: scheduler_deploy_def prog_simps)
qed

lemma scheduler_deploy_deployable: "keepsI (scheduler_deployable L) (scheduler_deploy L h)"
  by (intro scheduler_deploy_keeps; simp add: scheduler_deployable_def ManilaScheduler_updC_def ManilaScheduler_SetLastAppliedTopology_def)

lemma scheduler_hash_front: "keepsI scheduler_Hash (scheduler_inputs L)" "keepsI scheduler_Hash (scheduler_tls L)"
  by (intro scheduler_front_keeps; simp add: scheduler_Hash_def ManilaScheduler_updC_def)+

definition scheduler_identity :: "ManilaScheduler \<Rightarrow> ManilaSchedulerSpec \<times> ObjectMeta \<times> string" where
  "scheduler_identity i = (sch_Spec i, sch_Meta i, sch_Kind i)"

definition scheduler_labels :: "lib \<Rightarrow> ManilaScheduler \<Rightarrow> (string \<rightharpoonup> string)" where
  "scheduler_labels L i = [l_const L ''common.AppSelector'' \<mapsto> manila_ServiceName,
     l_const L ''common.ComponentSelector'' \<mapsto> scheduler_ComponentName]"

lemma scheduler_identity_updC: "scheduler_identity (ManilaScheduler_updC f i) = scheduler_identity i"
  by (simp add: scheduler_identity_def ManilaScheduler_updC_def)

lemma scheduler_front_blind:
  assumes "steady L"
  shows "blind (front_view scheduler_identity) (scheduler_inputs L)" "blind (front_view scheduler_identity) (scheduler_tls L)"
  unfolding scheduler_inputs_def scheduler_tls_def Let_def
  by (intro frontV.blind_inst blind_bind frontV.blind_rules frontV.blind_verify frontV.blind_call scheduler_identity_updC steadyD [OF assms];
      simp add: scheduler_identity_def scheduler_spec_service_def scheduler_CaBundle_def cong: if_cong)+

lemma scheduler_generate_blind:
  assumes "steady L"
  shows "blind (config_view scheduler_identity) (scheduler_generateServiceConfig L)"
  unfolding scheduler_generateServiceConfig_def Let_def
  by (intro blind_read configV.blind_rules blind_bind configV.blind_secrets configV.blind_call steadyD [OF assms];
      simp add: config_view_def scheduler_identity_def scheduler_spec_service_def scheduler_CaBundle_def)

lemma scheduler_config_hash:
  assumes "healthy L" "lawful_SetHash L"
    and g: "scheduler_generateServiceConfig L (s\<lparr>svcLabels := scheduler_labels L (inst s)\<rparr>) = (Next None, t)"
    and h: "l_ObjectHashEnvs L (cfgVars t) = (h, None)"
  shows "stored_hash L (scheduler_Hash (inst (snd (scheduler_config L s)))) h \<and>
    (stored_hash L (scheduler_Hash (inst s)) h \<longrightarrow> (\<exists>u. scheduler_config L s = (Next h, u)))"
proof -
  have ht: "scheduler_Hash (inst t) = scheduler_Hash (inst s)"
    using keepsI_run [OF scheduler_generate_keeps g, of scheduler_Hash] by simp
  have upd: "scheduler_Hash (ManilaScheduler_updC f i) = scheduler_Hash i" for f i
    by (simp add: scheduler_Hash_def ManilaScheduler_updC_def)
  obtain m c where "l_SetHash L (scheduler_Hash (inst s)) (l_const L ''common.InputHashName'') h = (m, c)" by fastforce
  with SetHash_records [OF assms(2) this] show ?thesis
    using g by (cases c) (auto simp: scheduler_config_def scheduler_createHashOfInputHashes_def prog_simps ht upd h
        scheduler_labels_def schedH.run_createHash schedH.get_set)
qed

interpretation schedG: child_phases scheduler_inputs scheduler_tls scheduler_config scheduler_deploy scheduler_finish
  scheduler_Hash scheduler_deployable scheduler_deployed
  by unfold_locales
    (intro scheduler_front_goes scheduler_config_progress scheduler_deploy_progress scheduler_finish_progress
      scheduler_hash_front scheduler_deployable_keeps scheduler_deploy_deployable; assumption?)+

lemma scheduler_run_hash:
  "keepsI scheduler_Hash (scheduler_deploy L h)" "keepsI scheduler_Hash (scheduler_finish L h ss)"
  by (intro scheduler_deploy_keeps scheduler_finish_keeps;
      simp add: scheduler_Hash_def ManilaScheduler_updC_def ManilaScheduler_SetLastAppliedTopology_def)+

interpretation schedS: child_settling scheduler_inputs scheduler_tls scheduler_config scheduler_deploy scheduler_finish
  scheduler_Hash scheduler_deployable scheduler_deployed scheduler_generateServiceConfig scheduler_labels scheduler_identity
proof unfold_locales
  show "scheduler_inputs L (s\<lparr>cfgVars := v\<rparr>) = scheduler_inputs L s" for L s v
    by (simp add: scheduler_inputs_def bindP_def run_setVars)
qed ((rule scheduler_front_blind scheduler_generate_blind scheduler_generate_goes scheduler_config_hash scheduler_run_hash; assumption)
    | (simp add: scheduler_identity_def scheduler_labels_def scheduler_deployable_def; fail))+

section \<open>The loop\<close>

text \<open>
  A whole \<open>Reconcile\<close> of a scheduler that is not new, not being deleted and has its finalizer runs
  \<open>reconcileNormal\<close> under the deferred exit.
\<close>

definition scheduler_serving :: "lib \<Rightarrow> ManilaScheduler \<Rightarrow> bool" where
  "scheduler_serving L i \<longleftrightarrow> \<not> conds_nil (sst_Conditions (sch_Status i)) \<and> om_DeletionTimestamp (sch_Meta i) = None \<and>
     l_AddFinalizer L (sch_Meta i) (l_GetFinalizer L ''ManilaScheduler'') = (False, sch_Meta i)"

lemma scheduler_Reconcile_opens:
  assumes "healthy L" "scheduler_serving L i" "o_GetScheduler L (trace s) req = Inr i"
  obtains u where "scheduler_identity (inst u) = scheduler_identity i"
    "scheduler_Hash (inst u) = Some (case scheduler_Hash i of Some f \<Rightarrow> f | None \<Rightarrow> Map.empty)"
    "sst_AppliedInputSecretHash (sch_Status (inst u)) = sst_AppliedInputSecretHash (sch_Status i)"
    "\<And>res t. scheduler_reconcileNormal L u = (Next res, t) \<Longrightarrow>
       \<exists>v. scheduler_Reconcile L req s = (Next res, v) \<and> trace v = trace t @ [EPatchScheduler (inst v)] \<and>
         inst v = exit_instance L (\<lambda>i. sst_Conditions (sch_Status i)) ManilaScheduler_updC (inst t)"
proof (rule that)
  let ?i = "let i1 = ManilaScheduler_updC (cond_do (CInit scheduler_conditions)) i;
      i2 = i1\<lparr>sch_Status := (sch_Status i1)\<lparr>sst_ObservedGeneration := om_Generation (sch_Meta i1)\<rparr>\<rparr>
    in if sst_Hash (sch_Status i2) = None then i2\<lparr>sch_Status := (sch_Status i2)\<lparr>sst_Hash := Some Map.empty\<rparr>\<rparr> else i2"
  let ?u = "s\<lparr>trace := trace s @ [EGet ''ManilaScheduler'' (nn_Namespace req) (nn_Name req)], inst := ?i\<rparr>"
  show "scheduler_identity (inst ?u) = scheduler_identity i"
    "scheduler_Hash (inst ?u) = Some (case scheduler_Hash i of Some f \<Rightarrow> f | None \<Rightarrow> Map.empty)"
    "sst_AppliedInputSecretHash (sch_Status (inst ?u)) = sst_AppliedInputSecretHash (sch_Status i)"
    by (auto simp: Let_def ManilaScheduler_updC_def scheduler_identity_def scheduler_Hash_def split: option.split)
  show "\<exists>v. scheduler_Reconcile L req s = (Next res, v) \<and> trace v = trace t @ [EPatchScheduler (inst v)] \<and>
      inst v = exit_instance L (\<lambda>i. sst_Conditions (sch_Status i)) ManilaScheduler_updC (inst t)"
    if "scheduler_reconcileNormal L ?u = (Next res, t)" for res t
    using that assms(2,3)
    by (auto simp: scheduler_serving_def scheduler_Reconcile_def prog_simps healthy_answers [OF assms(1)] run_with_deferred
        run_deferred exit_result_def scheduler_body_def Let_def ManilaScheduler_updC_def split: option.splits)
qed

definition scheduler_current :: "lib \<Rightarrow> ManilaScheduler \<Rightarrow> bool" where
  "scheduler_current L i \<longleftrightarrow>
     l_ObjectHash L [scs_TransportURLSecret (sch_Spec i), scs_NotificationsURLSecret (sch_Spec i)] =
       (sst_AppliedInputSecretHash (sch_Status i), None)"

lemma scheduler_exit_keeps:
  fixes L defines "exit \<equiv> exit_instance L (\<lambda>i. sst_Conditions (sch_Status i)) ManilaScheduler_updC"
  shows "scheduler_Hash (exit i) = scheduler_Hash i" "scheduler_current L (exit i) = scheduler_current L i"
    "scheduler_identity (exit i) = scheduler_identity i" "\<not> conds_nil (sst_Conditions (sch_Status (exit i)))"
  by (simp_all add: exit_def exit_instance_def Let_def ManilaScheduler_updC_def scheduler_Hash_def scheduler_current_def
      scheduler_identity_def conds_nil_def cond_do_def)

lemma scheduler_reconcileNormal_identity: "keepsI scheduler_identity (scheduler_reconcileNormal L)"
  unfolding scheduler_identity_def by (intro keepsI_pair scheduler_reconcileNormal_keeps)

fun scheduler_patch_of :: "event \<Rightarrow> ManilaScheduler option" where
  "scheduler_patch_of (EPatchScheduler i) = Some i"
| "scheduler_patch_of _ = None"

interpretation schedR: child_reconciling scheduler_inputs scheduler_tls scheduler_config scheduler_deploy scheduler_finish
  scheduler_Hash scheduler_deployable scheduler_deployed scheduler_generateServiceConfig scheduler_labels scheduler_identity
  scheduler_Reconcile o_GetScheduler EPatchScheduler scheduler_patch_of scheduler_serving scheduler_current "\<lambda>L. exit_instance L (\<lambda>i. sst_Conditions (sch_Status i)) ManilaScheduler_updC"
proof unfold_locales
  show "\<exists>u. scheduler_identity (inst u) = scheduler_identity i \<and>
      scheduler_Hash (inst u) = Some (case scheduler_Hash i of Some f \<Rightarrow> f | None \<Rightarrow> Map.empty) \<and>
      (\<forall>res t. schedG.run L u = (Next res, t) \<longrightarrow> (\<exists>v. scheduler_Reconcile L req s = (Next res, v) \<and>
         trace v = trace t @ [EPatchScheduler (inst v)] \<and>
         inst v = exit_instance L (\<lambda>i. sst_Conditions (sch_Status i)) ManilaScheduler_updC (inst t)))"
    if "healthy L" "scheduler_serving L i" "o_GetScheduler L (trace s) req = Inr i" for L i s req
    using that by (rule scheduler_Reconcile_opens) (unfold scheduler_reconcileNormal_def, blast)
  show "keepsI scheduler_identity (schedG.run L)" for L
    using scheduler_reconcileNormal_identity unfolding scheduler_reconcileNormal_def .
  show "scheduler_serving L (exit_instance L (\<lambda>i. sst_Conditions (sch_Status i)) ManilaScheduler_updC j)"
    if "scheduler_serving L i" "scheduler_identity j = scheduler_identity i" for L i j
    using that scheduler_exit_keeps(3,4) [of L j] by (simp add: scheduler_serving_def scheduler_identity_def)
qed (simp add: scheduler_exit_keeps; fail | simp add: scheduler_deployed_def rolled_out_for_def scheduler_current_def)+

text \<open>The reconcile loop of the scheduler settles. On a cluster that stores what the controller patches, where every call of the controller succeeds and the answers about its inputs do not change, every run of the loop on a scheduler that is not new, not being deleted and has its finalizer ends without an error, a requeue or a panic; from the second run on the resource reports as applied the hash of its two secret names, and it keeps its spec and metadata.\<close>

lemma scheduler_loop_settles:
  assumes "healthy L" "lawful_SetHash L" "steady L"
    and "\<And>h. o_GetScheduler L h req = Inr (fetched scheduler_patch_of i h)"
    and "scheduler_serving L i" "scheduler_deployable L i" "trace s = []"
  shows "let run = (\<lambda>s. snd (scheduler_Reconcile L req s)) in
    fst (scheduler_Reconcile L req ((run ^^ n) s)) = Next (Result0, None) \<and>
    scheduler_current L (inst ((run ^^ (n + 2)) s)) \<and>
    scheduler_identity (inst ((run ^^ Suc n) s)) = scheduler_identity i"
  using schedR.loop_settles [OF assms(1-4), of s n] assms(5-7) by (simp add: Let_def del: funpow.simps)

text \<open>The concrete cluster with a store for the scheduler.\<close>

definition demo_scheduler_store :: lib where
  "demo_scheduler_store = demo_lib\<lparr>o_GetScheduler := \<lambda>h req. Inr (fetched scheduler_patch_of demo_scheduler h)\<rparr>"

lemma demo_scheduler_store_laws:
  "healthy demo_scheduler_store" "lawful_SetHash demo_scheduler_store" "steady demo_scheduler_store"
  "o_GetScheduler demo_scheduler_store h req = Inr (fetched scheduler_patch_of demo_scheduler h)"
  "scheduler_serving demo_scheduler_store demo_scheduler" "scheduler_deployable demo_scheduler_store demo_scheduler"
proof -
  show "healthy demo_scheduler_store" "lawful_SetHash demo_scheduler_store" "steady demo_scheduler_store"
    using demo_healthy demo_lawful_SetHash demo_steady
    by (simp_all add: demo_scheduler_store_def healthy_def lawful_SetHash_def steady_def)
  show "scheduler_serving demo_scheduler_store demo_scheduler"
    by (simp add: scheduler_serving_def demo_scheduler_store_def demo_defs demo_scheduler_def demo_conditions_def conds_nil_def
        demo_meta_def newMeta_def demo_AddFinalizer_def)
  show "scheduler_deployable demo_scheduler_store demo_scheduler"
    by (simp add: scheduler_deployable_def demo_scheduler_def demo_scheduler_template_def scheduler_GetVolumes_def manila_GetVolumes_def)
  show "o_GetScheduler demo_scheduler_store h req = Inr (fetched scheduler_patch_of demo_scheduler h)"
    by (simp add: demo_scheduler_store_def)
qed

end
