(* ===== verification/ShareProgress.thy ===== *)
theory ShareProgress
  imports Progress ShareProps
begin

text \<open>
  The controller of a share as a provider of the phases of \<open>Progress\<close>: each phase goes on where its
  calls succeed, the run ends with the stateful set rolled out once the inputs are recorded, and
  the loop of \<open>Reconcile\<close> settles.
\<close>

section \<open>The phases\<close>

definition share_deployable :: "lib \<Rightarrow> ManilaShare \<Rightarrow> bool" where
  "share_deployable L i \<longleftrightarrow>
     htc_Replicas (ht_Core (hs_ShareTemplate (shr_Spec i))) \<noteq> None \<and>
     hs_MemcachedInstance (shr_Spec i) \<noteq> None \<and>
     share_GetVolumes L (GetOwningManilaName (shr_Meta i)) (om_Name (shr_Meta i)) (hs_ExtraMounts (shr_Spec i)) (ShareName i) \<noteq> None"

lemma share_front_goes:
  assumes "healthy L"
  shows "goes (share_inputs L)" "goes (share_tls L)"
  by (simp_all add: goes_def share_inputs_def share_tls_def prog_simps Let_def split_def
      healthy_answers [OF assms] healthy_helpers [OF assms])

lemma share_generate_goes:
  assumes "healthy L"
  shows "\<exists>t. share_generateServiceConfig L s = (Next None, t)"
  by (simp add: share_generateServiceConfig_def get_secret_def prog_simps Let_def split_def
      healthy_answers [OF assms] healthy_loops_run [OF assms])

lemma share_config_progress:
  assumes "healthy L" "lawful_SetHash L"
  shows "(\<exists>t. share_config L s = (Return (Result0, None), t) \<and> share_Hash (inst t) \<noteq> share_Hash (inst s)) \<or>
    (\<exists>h t. share_config L s = (Next h, t))"
proof -
  obtain t where t: "share_generateServiceConfig L (s\<lparr>svcLabels := [l_const L ''common.AppSelector'' \<mapsto> manila_ServiceName,
              l_const L ''common.ComponentSelector'' \<mapsto> share_ComponentName, ShareNameLabel \<mapsto> ShareName (inst s)]\<rparr>) = (Next None, t)"
    using share_generate_goes [OF assms(1)] by blast
  have ht: "share_Hash (inst t) = share_Hash (inst s)"
    using keepsI_run [OF share_generate_keeps t, of share_Hash] by simp
  have upd: "share_Hash (ManilaShare_updC f i) = share_Hash i" for f i
    by (simp add: share_Hash_def ManilaShare_updC_def)
  obtain m c where "l_SetHash L (share_Hash (inst s)) (l_const L ''common.InputHashName'')
      (fst (hidden (l_ObjectHashEnvs L) (cfgVars t))) = (m, c)" by fastforce
  with SetHash_differs [OF assms(2)] show ?thesis
    by (cases c) (auto simp: share_config_def share_createHashOfInputHashes_def prog_simps t ht upd
        shareH.run_createHash shareH.get_set healthy_answers [OF assms(1)])
qed

lemma share_StatefulSet_built:
  assumes "healthy L" "share_deployable L i"
  obtains ss where "share_StatefulSet L i h ls ann topo mc = Some (Inr ss)"
  using assms(2) by (auto simp: share_StatefulSet_def share_deployable_def healthy_answers [OF assms(1)] Let_def)

lemma share_deploy_steps_go:
  assumes "healthy L" "share_deployable L (inst s)"
  shows "goes (share_topology_step L)" "\<exists>mc t. share_memcached L s = (Next mc, t)"
    "\<exists>ss t. share_apply_statefulset L h ann topo mc s = (Next ss, t) \<and> sd_Generation ss = sd_ObservedGeneration ss"
proof -
  show "goes (share_topology_step L)"
    by (simp add: goes_def share_topology_step_def prog_simps healthy_helpers [OF assms(1)])
  show "\<exists>mc t. share_memcached L s = (Next mc, t)"
    using assms(2) by (auto simp: share_memcached_def share_deployable_def prog_simps healthy_answers [OF assms(1)])
  obtain ss where "share_StatefulSet L (inst s) h (svcLabels s) ann topo mc = Some (Inr ss)"
    using assms by (rule share_StatefulSet_built)
  then show "\<exists>ss t. share_apply_statefulset L h ann topo mc s = (Next ss, t) \<and> sd_Generation ss = sd_ObservedGeneration ss"
    by (simp add: share_apply_statefulset_def prog_simps healthy_answers [OF assms(1)] healthy_observed [OF assms(1)])
qed

definition share_deployed :: "lib \<Rightarrow> ManilaShare \<Rightarrow> bool" where
  "share_deployed L i \<longleftrightarrow>
     rolled_out_for L (hst_Conditions (shr_Status i)) (hst_AppliedInputSecretHash (shr_Status i))
       [hs_TransportURLSecret (shr_Spec i), hs_NotificationsURLSecret (shr_Spec i)]"

lemma share_status_progress:
  assumes "healthy L" "share_deployable L (inst s)"
  shows "\<exists>t. share_network_status L s = (Next (), t)"
    "\<exists>t. share_rollout_status L h s = (Next (), t) \<and> share_deployed L (inst t)"
  using assms(2)
  by (auto simp: share_network_status_def share_rollout_status_def prog_simps Let_def share_deployable_def
      healthy_answers [OF assms(1)] healthy_three [OF assms(1)] share_deployed_def rolled_out_for_def
      ManilaShare_updC_def reported_cond_do)

lemma share_status_keeps:
  assumes "\<And>f i. g (ManilaShare_updC f i) = g i"
    "\<And>i n. g (i\<lparr>shr_Status := (shr_Status i)\<lparr>hst_NetworkAttachments := n\<rparr>\<rparr>) = g i"
    "\<And>i n. g (i\<lparr>shr_Status := (shr_Status i)\<lparr>hst_AppliedInputSecretHash := n\<rparr>\<rparr>) = g i"
  shows "keepsI g (share_network_status L)" "keepsI g (share_rollout_status L h)"
  unfolding share_network_status_def share_rollout_status_def by (intro keepsI_rules assms)+

lemma share_deployable_keeps:
  "keepsI (share_deployable L) (share_network_status L)" "keepsI (share_deployable L) (share_rollout_status L h)"
  "keepsI (share_deployable L) (share_inputs L)" "keepsI (share_deployable L) (share_tls L)"
  "keepsI (share_deployable L) (share_config L)" "keepsI (share_deployable L) (share_topology_step L)"
  "keepsI (share_deployable L) (share_memcached L)"
  "keepsI (share_deployable L) (ensureNAD L ManilaShare_updC ns nads)"
  unfolding share_topology_step_def share_memcached_def
  by ((intro share_status_keeps share_phase_keeps keepsI_rules keepsI_helpers keepsI_ensureTopology;
      simp add: ManilaShare_updC_def share_deployable_def ShareName_def share_setHash_def share_topology_def
        ManilaShare_SetLastAppliedTopology_def))+

lemma share_finish_progress:
  assumes "healthy L" "share_deployable L (inst s)" "sd_Generation ss = sd_ObservedGeneration ss"
  shows "\<exists>t. share_finish L h ss s = (Return (Result0, None), t) \<and> share_deployed L (inst t)"
proof -
  let ?s = "s\<lparr>inst := (inst s)\<lparr>shr_Status := (shr_Status (inst s))\<lparr>hst_ReadyCount := sd_ReadyReplicas ss\<rparr>\<rparr>\<rparr>"
  have d: "share_deployable L (inst ?s)" using assms(2) by (simp add: share_deployable_def ShareName_def)
  obtain t1 where n: "share_network_status L ?s = (Next (), t1)" using share_status_progress(1) [OF assms(1) d] by blast
  then have d1: "share_deployable L (inst t1)"
    using d keepsI_run [OF share_deployable_keeps(1) n] by simp
  obtain t2 where r: "share_rollout_status L h t1 = (Next (), t2)" "share_deployed L (inst t2)"
    using share_status_progress(2) [OF assms(1) d1] by blast
  have "share_deployable L (inst t2)"
    using d1 keepsI_run [OF share_deployable_keeps(2) r(1)] by simp
  with r n assms(3) show ?thesis
    by (auto simp: share_finish_def prog_simps share_deployable_def ManilaShare_IsReady_def
        share_deployed_def rolled_out_for_def ManilaShare_updC_def reported_cond_do)
qed

lemma share_deploy_progress:
  assumes "healthy L" "share_deployable L (inst s)"
  shows "\<exists>ss t. share_deploy L h s = (Next ss, t) \<and> sd_Generation ss = sd_ObservedGeneration ss"
proof -
  obtain ann t1 where n: "ensureNAD L ManilaShare_updC (om_Namespace (shr_Meta (inst s)))
      (st_NetworkAttachments (share_spec_service (inst s))) s = (Next (ann, Result0, None) :: (reconcile_result, _) outcome, t1)"
    using helpers_go(3) [OF assms(1)] by blast
  with assms(2) have d1: "share_deployable L (inst t1)"
    using keepsI_run [OF share_deployable_keeps(8) n] by simp
  obtain topo t2 where t: "share_topology_step L t1 = (Next topo, t2)"
    using share_deploy_steps_go(1) [OF assms(1) d1] by (rule goesE)
  with d1 have d2: "share_deployable L (inst t2)"
    using keepsI_run [OF share_deployable_keeps(6) t] by simp
  obtain mc t3 where m: "share_memcached L t2 = (Next mc, t3)"
    using share_deploy_steps_go(2) [OF assms(1) d2] by blast
  with d2 have "share_deployable L (inst t3)"
    using keepsI_run [OF share_deployable_keeps(7) m] by simp
  from share_deploy_steps_go(3) [OF assms(1) this] n t m show ?thesis
    by (simp add: share_deploy_def prog_simps)
qed

lemma share_deploy_deployable: "keepsI (share_deployable L) (share_deploy L h)"
  by (intro share_deploy_keeps; simp add: share_deployable_def ShareName_def ManilaShare_updC_def ManilaShare_SetLastAppliedTopology_def)

lemma share_hash_front: "keepsI share_Hash (share_inputs L)" "keepsI share_Hash (share_tls L)"
  by (intro share_front_keeps; simp add: share_Hash_def ManilaShare_updC_def)+

definition share_identity :: "ManilaShare \<Rightarrow> ManilaShareSpec \<times> ObjectMeta \<times> string" where
  "share_identity i = (shr_Spec i, shr_Meta i, shr_Kind i)"

definition share_labels :: "lib \<Rightarrow> ManilaShare \<Rightarrow> (string \<rightharpoonup> string)" where
  "share_labels L i = [l_const L ''common.AppSelector'' \<mapsto> manila_ServiceName,
     l_const L ''common.ComponentSelector'' \<mapsto> share_ComponentName,
     ShareNameLabel \<mapsto> ShareName i]"

lemma share_identity_updC: "share_identity (ManilaShare_updC f i) = share_identity i"
  by (simp add: share_identity_def ManilaShare_updC_def)

lemma share_front_blind:
  assumes "steady L"
  shows "blind (front_view share_identity) (share_inputs L)" "blind (front_view share_identity) (share_tls L)"
  unfolding share_inputs_def share_tls_def Let_def
  by (intro frontV.blind_inst blind_bind frontV.blind_rules frontV.blind_verify frontV.blind_call share_identity_updC steadyD [OF assms];
      simp add: share_identity_def share_spec_service_def share_CaBundle_def cong: if_cong)+

lemma share_generate_blind:
  assumes "steady L"
  shows "blind (config_view share_identity) (share_generateServiceConfig L)"
  unfolding share_generateServiceConfig_def Let_def
  by (intro blind_read configV.blind_rules blind_bind configV.blind_secrets configV.blind_call steadyD [OF assms];
      simp add: config_view_def share_identity_def share_spec_service_def share_CaBundle_def)

lemma share_config_hash:
  assumes "healthy L" "lawful_SetHash L"
    and g: "share_generateServiceConfig L (s\<lparr>svcLabels := share_labels L (inst s)\<rparr>) = (Next None, t)"
    and h: "l_ObjectHashEnvs L (cfgVars t) = (h, None)"
  shows "stored_hash L (share_Hash (inst (snd (share_config L s)))) h \<and>
    (stored_hash L (share_Hash (inst s)) h \<longrightarrow> (\<exists>u. share_config L s = (Next h, u)))"
proof -
  have ht: "share_Hash (inst t) = share_Hash (inst s)"
    using keepsI_run [OF share_generate_keeps g, of share_Hash] by simp
  have upd: "share_Hash (ManilaShare_updC f i) = share_Hash i" for f i
    by (simp add: share_Hash_def ManilaShare_updC_def)
  obtain m c where "l_SetHash L (share_Hash (inst s)) (l_const L ''common.InputHashName'') h = (m, c)" by fastforce
  with SetHash_records [OF assms(2) this] show ?thesis
    using g by (cases c) (auto simp: share_config_def share_createHashOfInputHashes_def prog_simps ht upd h
        share_labels_def shareH.run_createHash shareH.get_set)
qed

interpretation shareG: child_phases share_inputs share_tls share_config share_deploy share_finish
  share_Hash share_deployable share_deployed
  by unfold_locales
    (intro share_front_goes share_config_progress share_deploy_progress share_finish_progress
      share_hash_front share_deployable_keeps share_deploy_deployable; assumption?)+

lemma share_run_hash:
  "keepsI share_Hash (share_deploy L h)" "keepsI share_Hash (share_finish L h ss)"
  by (intro share_deploy_keeps share_finish_keeps;
      simp add: share_Hash_def ManilaShare_updC_def ManilaShare_SetLastAppliedTopology_def)+

interpretation shareS: child_settling share_inputs share_tls share_config share_deploy share_finish
  share_Hash share_deployable share_deployed share_generateServiceConfig share_labels share_identity
proof unfold_locales
  show "share_inputs L (s\<lparr>cfgVars := v\<rparr>) = share_inputs L s" for L s v
    by (simp add: share_inputs_def bindP_def run_setVars)
qed ((rule share_front_blind share_generate_blind share_generate_goes share_config_hash share_run_hash; assumption)
    | (simp add: share_identity_def share_labels_def share_deployable_def ShareName_def; fail))+

section \<open>The loop\<close>

text \<open>
  A whole \<open>Reconcile\<close> of a share that is not new, not being deleted and has its finalizer runs
  \<open>reconcileNormal\<close> under the deferred exit.
\<close>

definition share_serving :: "lib \<Rightarrow> ManilaShare \<Rightarrow> bool" where
  "share_serving L i \<longleftrightarrow> \<not> conds_nil (hst_Conditions (shr_Status i)) \<and> om_DeletionTimestamp (shr_Meta i) = None \<and>
     l_AddFinalizer L (shr_Meta i) (l_GetFinalizer L ''ManilaShare'') = (False, shr_Meta i)"

lemma share_Reconcile_opens:
  assumes "healthy L" "share_serving L i" "o_GetShare L (trace s) req = Inr i"
  obtains u where "share_identity (inst u) = share_identity i"
    "share_Hash (inst u) = Some (case share_Hash i of Some f \<Rightarrow> f | None \<Rightarrow> Map.empty)"
    "hst_AppliedInputSecretHash (shr_Status (inst u)) = hst_AppliedInputSecretHash (shr_Status i)"
    "\<And>res t. share_reconcileNormal L u = (Next res, t) \<Longrightarrow>
       \<exists>v. share_Reconcile L req s = (Next res, v) \<and> trace v = trace t @ [EPatchShare (inst v)] \<and>
         inst v = exit_instance L (\<lambda>i. hst_Conditions (shr_Status i)) ManilaShare_updC (inst t)"
proof (rule that)
  let ?i = "let i1 = ManilaShare_updC (cond_do (CInit share_conditions)) i;
      i2 = i1\<lparr>shr_Status := (shr_Status i1)\<lparr>hst_ObservedGeneration := om_Generation (shr_Meta i1)\<rparr>\<rparr>
    in if hst_Hash (shr_Status i2) = None then i2\<lparr>shr_Status := (shr_Status i2)\<lparr>hst_Hash := Some Map.empty\<rparr>\<rparr> else i2"
  let ?u = "s\<lparr>trace := trace s @ [EGet ''ManilaShare'' (nn_Namespace req) (nn_Name req)], inst := ?i\<rparr>"
  show "share_identity (inst ?u) = share_identity i"
    "share_Hash (inst ?u) = Some (case share_Hash i of Some f \<Rightarrow> f | None \<Rightarrow> Map.empty)"
    "hst_AppliedInputSecretHash (shr_Status (inst ?u)) = hst_AppliedInputSecretHash (shr_Status i)"
    by (auto simp: Let_def ManilaShare_updC_def share_identity_def share_Hash_def split: option.split)
  show "\<exists>v. share_Reconcile L req s = (Next res, v) \<and> trace v = trace t @ [EPatchShare (inst v)] \<and>
      inst v = exit_instance L (\<lambda>i. hst_Conditions (shr_Status i)) ManilaShare_updC (inst t)"
    if "share_reconcileNormal L ?u = (Next res, t)" for res t
    using that assms(2,3)
    by (auto simp: share_serving_def share_Reconcile_def prog_simps healthy_answers [OF assms(1)] run_with_deferred
        run_deferred exit_result_def share_body_def Let_def ManilaShare_updC_def split: option.splits)
qed

definition share_current :: "lib \<Rightarrow> ManilaShare \<Rightarrow> bool" where
  "share_current L i \<longleftrightarrow>
     l_ObjectHash L [hs_TransportURLSecret (shr_Spec i), hs_NotificationsURLSecret (shr_Spec i)] =
       (hst_AppliedInputSecretHash (shr_Status i), None)"

lemma share_exit_keeps:
  fixes L defines "exit \<equiv> exit_instance L (\<lambda>i. hst_Conditions (shr_Status i)) ManilaShare_updC"
  shows "share_Hash (exit i) = share_Hash i" "share_current L (exit i) = share_current L i"
    "share_identity (exit i) = share_identity i" "\<not> conds_nil (hst_Conditions (shr_Status (exit i)))"
  by (simp_all add: exit_def exit_instance_def Let_def ManilaShare_updC_def share_Hash_def share_current_def
      share_identity_def conds_nil_def cond_do_def)

lemma share_reconcileNormal_identity: "keepsI share_identity (share_reconcileNormal L)"
  unfolding share_identity_def by (intro keepsI_pair share_reconcileNormal_keeps)

fun share_patch_of :: "event \<Rightarrow> ManilaShare option" where
  "share_patch_of (EPatchShare i) = Some i"
| "share_patch_of _ = None"

interpretation shareR: child_reconciling share_inputs share_tls share_config share_deploy share_finish
  share_Hash share_deployable share_deployed share_generateServiceConfig share_labels share_identity
  share_Reconcile o_GetShare EPatchShare share_patch_of share_serving share_current "\<lambda>L. exit_instance L (\<lambda>i. hst_Conditions (shr_Status i)) ManilaShare_updC"
proof unfold_locales
  show "\<exists>u. share_identity (inst u) = share_identity i \<and>
      share_Hash (inst u) = Some (case share_Hash i of Some f \<Rightarrow> f | None \<Rightarrow> Map.empty) \<and>
      (\<forall>res t. shareG.run L u = (Next res, t) \<longrightarrow> (\<exists>v. share_Reconcile L req s = (Next res, v) \<and>
         trace v = trace t @ [EPatchShare (inst v)] \<and>
         inst v = exit_instance L (\<lambda>i. hst_Conditions (shr_Status i)) ManilaShare_updC (inst t)))"
    if "healthy L" "share_serving L i" "o_GetShare L (trace s) req = Inr i" for L i s req
    using that by (rule share_Reconcile_opens) (unfold share_reconcileNormal_def, blast)
  show "keepsI share_identity (shareG.run L)" for L
    using share_reconcileNormal_identity unfolding share_reconcileNormal_def .
  show "share_serving L (exit_instance L (\<lambda>i. hst_Conditions (shr_Status i)) ManilaShare_updC j)"
    if "share_serving L i" "share_identity j = share_identity i" for L i j
    using that share_exit_keeps(3,4) [of L j] by (simp add: share_serving_def share_identity_def)
qed (simp add: share_exit_keeps; fail | simp add: share_deployed_def rolled_out_for_def share_current_def)+

text \<open>The reconcile loop of a share settles. On a cluster that stores what the controller patches, where every call of the controller succeeds and the answers about its inputs do not change, every run of the loop on a share that is not new, not being deleted and has its finalizer ends without an error, a requeue or a panic; from the second run on the resource reports as applied the hash of its two secret names, and it keeps its spec and metadata.\<close>

lemma share_loop_settles:
  assumes "healthy L" "lawful_SetHash L" "steady L"
    and "\<And>h. o_GetShare L h req = Inr (fetched share_patch_of i h)"
    and "share_serving L i" "share_deployable L i" "trace s = []"
  shows "let run = (\<lambda>s. snd (share_Reconcile L req s)) in
    fst (share_Reconcile L req ((run ^^ n) s)) = Next (Result0, None) \<and>
    share_current L (inst ((run ^^ (n + 2)) s)) \<and>
    share_identity (inst ((run ^^ Suc n) s)) = share_identity i"
  using shareR.loop_settles [OF assms(1-4), of s n] assms(5-7) by (simp add: Let_def del: funpow.simps)

text \<open>The concrete cluster with a store for the share.\<close>

definition demo_share_store :: lib where
  "demo_share_store = demo_lib\<lparr>o_GetShare := \<lambda>h req. Inr (fetched share_patch_of (demo_share ''a'') h)\<rparr>"

lemma demo_share_store_laws:
  "healthy demo_share_store" "lawful_SetHash demo_share_store" "steady demo_share_store"
  "o_GetShare demo_share_store h req = Inr (fetched share_patch_of (demo_share ''a'') h)"
  "share_serving demo_share_store (demo_share ''a'')" "share_deployable demo_share_store (demo_share ''a'')"
proof -
  show "healthy demo_share_store" "lawful_SetHash demo_share_store" "steady demo_share_store"
    using demo_healthy demo_lawful_SetHash demo_steady
    by (simp_all add: demo_share_store_def healthy_def lawful_SetHash_def steady_def)
  show "share_serving demo_share_store (demo_share ''a'')"
    by (simp add: share_serving_def demo_share_store_def demo_defs demo_share_def demo_conditions_def conds_nil_def
        demo_meta_def newMeta_def demo_AddFinalizer_def)
  show "share_deployable demo_share_store (demo_share ''a'')"
    by (simp add: share_deployable_def demo_share_def demo_share_template_def share_GetVolumes_def manila_GetVolumes_def)
  show "o_GetShare demo_share_store h req = Inr (fetched share_patch_of (demo_share ''a'') h)"
    by (simp add: demo_share_store_def)
qed

end
