(* ===== verification/ChildLife.thy ===== *)
theory ChildLife
  imports ApiProgress SchedulerProgress ShareProgress ManilaProps
begin

text \<open>
  The life of a child in the cluster: it is created by the instance controller with no applied
  hash, anybody may edit it (its spec, its metadata) at any time, also while its own controller
  runs, and each run of that controller fetches it and patches its status. The applied hash of a
  child then always stems from a run to which the cluster confirmed the rollout; and the instance
  controller, which reads that hash, releases a credential only after such a run of every child.
\<close>

section \<open>Lives\<close>

text \<open>
  The log has a record for each run of the controller: the secret names the spec had, and the
  trace the run left. An edit never touches the status, which has a writer of its own.
\<close>

type_synonym run_log = "(string list \<times> hist) list"

inductive life :: "('i \<Rightarrow> hist \<Rightarrow> 'i \<Rightarrow> hist \<Rightarrow> bool) \<Rightarrow> ('i \<Rightarrow> 'i \<Rightarrow> bool) \<Rightarrow> ('i \<Rightarrow> 'i \<Rightarrow> 'i) \<Rightarrow>
    ('i \<Rightarrow> string) \<Rightarrow> ('i \<Rightarrow> string \<times> string \<times> string list) \<Rightarrow> 'i \<Rightarrow> run_log \<Rightarrow> bool"
  for run edit patched applied key where
  created: "applied i = '''' \<Longrightarrow> life run edit patched applied key i []"
| edited: "life run edit patched applied key i runs \<Longrightarrow> edit i j \<Longrightarrow> life run edit patched applied key j runs"
| reconciled: "life run edit patched applied key i runs \<Longrightarrow> run i tr i' tr' \<Longrightarrow> edit\<^sup>*\<^sup>* i j \<Longrightarrow>
    life run edit patched applied key (patched i' j) (runs @ [(snd (snd (key i)), tr')])"

inductive_cases life_emptyE: "life run edit patched applied key i []"

text \<open>A run of the log to which the cluster confirmed the rollout of secrets with the hash.\<close>

definition rolled_in_log :: "lib \<Rightarrow> string \<Rightarrow> string \<Rightarrow> string \<Rightarrow> run_log \<Rightarrow> bool" where
  "rolled_in_log L hash name ns runs \<longleftrightarrow>
     list_ex (\<lambda>(secrets, tr). l_ObjectHash L secrets = (hash, None) \<and> rollout_confirmed L tr name ns) runs"

lemma rolled_in_log_append: "rolled_in_log L h n ns runs \<Longrightarrow> rolled_in_log L h n ns (runs @ runs2)"
  by (simp add: rolled_in_log_def)

text \<open>
  What a controller owes: its run moves the applied hash only under a confirmed rollout, and the
  patch writes the hash and keeps the name. Edits keep the status and the name.
\<close>

locale child_service =
  fixes run :: "lib \<Rightarrow> 'i \<Rightarrow> hist \<Rightarrow> 'i \<Rightarrow> hist \<Rightarrow> bool"
    and edit :: "'i \<Rightarrow> 'i \<Rightarrow> bool"
    and patched :: "'i \<Rightarrow> 'i \<Rightarrow> 'i"
    and applied :: "'i \<Rightarrow> string"
    and key :: "'i \<Rightarrow> string \<times> string \<times> string list"
  assumes run_applied: "lawful_finalizers L \<Longrightarrow> run L i tr i' tr' \<Longrightarrow> key i = (name, ns, secrets) \<Longrightarrow>
      applied i' = applied i \<or>
      (rollout_confirmed L tr' name ns \<and> l_ObjectHash L secrets = (applied i', None))"
    and edit_applied: "edit i j \<Longrightarrow> applied j = applied i"
    and edit_name: "edit i j \<Longrightarrow> fst (key j) = fst (key i) \<and> fst (snd (key j)) = fst (snd (key i))"
    and patched_applied: "applied (patched i' j) = applied i'"
    and patched_name: "fst (key (patched i' j)) = fst (key j) \<and> fst (snd (key (patched i' j))) = fst (snd (key j))"
begin

lemma edits_keep:
  "edit\<^sup>*\<^sup>* i j \<Longrightarrow> applied j = applied i \<and> fst (key j) = fst (key i) \<and> fst (snd (key j)) = fst (snd (key i))"
  by (induction rule: rtranclp_induct) (auto dest: edit_applied edit_name)

lemma life_rolled:
  assumes "lawful_finalizers L" and "life (run L) edit patched applied key i runs"
  shows "applied i = '''' \<or> rolled_in_log L (applied i) (fst (key i)) (fst (snd (key i))) runs"
  using assms(2)
proof (induction rule: life.induct)
  case (edited i runs j)
  then show ?case by (simp add: edit_applied edit_name)
next
  case (reconciled i runs tr i' tr' j)
  obtain name ns secrets where k: "key i = (name, ns, secrets)" by (metis prod_cases3)
  from reconciled(3) k have j: "fst (key j) = name" "fst (snd (key j)) = ns"
    by (simp_all add: edits_keep)
  from run_applied [OF assms(1) reconciled(2) k] show ?case
  proof
    assume "applied i' = applied i"
    with reconciled(4) k j show ?thesis
      by (auto simp: patched_applied patched_name intro: rolled_in_log_append)
  next
    assume "rollout_confirmed L tr' name ns \<and> l_ObjectHash L secrets = (applied i', None)"
    with k j show ?thesis
      by (simp add: patched_applied patched_name rolled_in_log_def)
  qed
qed simp

end

section \<open>The three services\<close>

lemma applied_fetch:
  assumes "frames (applied_rel L key app) m"
  shows "applied_rel L key app (s\<lparr>inst := i\<rparr>) (snd (func m (s\<lparr>trace := trace s @ es, inst := i\<rparr>)))"
proof (rule applied.R_trans)
  show "applied_rel L key app (s\<lparr>inst := i\<rparr>) (s\<lparr>trace := trace s @ es, inst := i\<rparr>)"
    by (simp add: applied_rel_def)
  show "applied_rel L key app (s\<lparr>trace := trace s @ es, inst := i\<rparr>) (snd (func m (s\<lparr>trace := trace s @ es, inst := i\<rparr>)))"
    by (rule frames_def [THEN iffD1, THEN spec, OF applied.frame_func [OF assms]])
qed

lemma applied_ask: "frames (applied_rel L key app) (ask answer)"
  by (rule framesI) (simp add: run_ask applied.R_refl)

lemma applied_getI: "frames (applied_rel L key app) (getI g)"
  unfolding getI_def by (rule applied.frame_get)

lemma applied_condP:
  "(\<And>f i. key (upd f i) = key i) \<Longrightarrow> (\<And>f i. app (upd f i) = app i) \<Longrightarrow> frames (applied_rel L key app) (condP upd c)"
  by (rule applied_keep) (intro emits_rules keepsI_rules TrueI; simp)+

text \<open>A step that reads the resource, and its continuation from that state on.\<close>

lemma applied_read:
  "(\<And>s. applied_rel L key app s (snd (f (g (inst s)) s))) \<Longrightarrow> frames (applied_rel L key app) (bindP (getI g) f)"
  by (simp add: frames_def run_bindP run_getI)

lemma applied_bind:
  assumes m: "applied_rel L key app s (snd (m s))" and f: "\<And>a. frames (applied_rel L key app) (f a)"
  shows "applied_rel L key app s (snd (bindP m f s))"
proof -
  obtain x t where ms: "m s = (x, t)" by fastforce
  with m have t: "applied_rel L key app s t" by simp
  show ?thesis
  proof (cases x)
    case (Next a)
    have "applied_rel L key app t (snd (f a t))" using f [of a] by (simp add: frames_def)
    with t have "applied_rel L key app s (snd (f a t))" by (rule applied.R_trans)
    with ms Next show ?thesis by (simp add: run_bindP)
  qed (use ms t in \<open>simp_all add: run_bindP\<close>)
qed

lemma applied_opening:
  assumes "frames (applied_rel L key app) a" "frames (applied_rel L key app) b"
    "\<And>s. applied_rel L key app s (snd (fin (g (inst s)) s))" "\<And>meta. frames (applied_rel L key app) (rest meta)"
  shows "frames (applied_rel L key app) (thenP a (thenP b (bindP (getI g) (\<lambda>meta. thenP (fin meta) (rest meta)))))"
  by (intro applied.frame_bind [OF assms(1)] applied.frame_bind [OF assms(2)] applied_read applied_bind assms(3,4))

subsection \<open>ManilaAPI\<close>

lemma api_delete_applied:
  assumes "lawful_finalizers L"
  shows "frames (applied_rel L api_key api_applied) (api_reconcileDelete L)"
proof (rule applied_keep)
  show "emits (\<lambda>e. True) (api_reconcileDelete L)"
    unfolding api_reconcileDelete_def api_release_keystone_def by (intro emits_rules TrueI)
  show "keepsI api_key (api_reconcileDelete L)" "keepsI api_applied (api_reconcileDelete L)"
    unfolding api_reconcileDelete_def api_release_keystone_def
    using assms by (intro keepsI_rules; simp add: api_key_def api_applied_def lawful_finalizers_def)+
qed

lemma api_finalizer_applied:
  "lawful_finalizers L \<Longrightarrow> applied_rel L api_key api_applied s (snd (whenP b
     (updI (\<lambda>i. i\<lparr>api_Meta := snd (l_AddFinalizer L (api_Meta (inst s)) f)\<rparr>)) s))"
  by (simp add: prog_simps applied_rel_def api_key_def api_applied_def lawful_finalizers_def)

lemma api_body_applied:
  assumes "lawful_finalizers L"
  shows "frames (applied_rel L api_key api_applied) (api_body L b)"
  unfolding api_body_def Let_def
  by (rule applied_opening)
    (intro applied_condP applied.frame_bind api_update_applied applied.frame_if applied.frame_ret api_delete_applied
      api_reconcileNormal_applied api_finalizer_applied assms;
     simp add: ManilaAPI_updC_def api_key_def api_applied_def)+

lemma api_Reconcile_applied:
  assumes "lawful_finalizers L" and "o_GetAPI L (trace s) req = Inr i"
  shows "applied_rel L api_key api_applied (s\<lparr>inst := i\<rparr>) (snd (api_Reconcile L req s))"
proof -
  let ?rest = "bindP (ask (\<lambda>h. o_NewHelper L h ''ManilaAPI'')) (\<lambda>herr.
      case herr of
        Some err \<Rightarrow> ret (Result0, Some err)
      | None \<Rightarrow>
          (let isNewInstance = conds_nil (ast_Conditions (api_Status i)) in
           thenP (whenP isNewInstance (updI (ManilaAPI_updC (\<lambda>_. conds_empty))))
             (with_deferred L (\<lambda>i. ast_Conditions (api_Status i)) ManilaAPI_updC EPatchAPI
                (api_body L isNewInstance))))
      :: (ManilaAPI st, reconcile_result, reconcile_result) prog"
  have "api_Reconcile L req s =
      func ?rest (s\<lparr>trace := trace s @ [EGet ''ManilaAPI'' (nn_Namespace req) (nn_Name req)], inst := i\<rparr>)"
    using assms(2) by (simp add: api_Reconcile_def run_func run_bindP run_call run_updI)
  moreover have "frames (applied_rel L api_key api_applied) ?rest"
    unfolding Let_def
    by (intro applied.frame_bind applied_ask frames_case applied.frame_ret applied.frame_when
        api_update_applied apiP.with_deferred_applied api_body_applied assms(1))
      (simp_all add: ManilaAPI_updC_def api_key_def api_applied_def)
  ultimately show ?thesis by (simp add: applied_fetch)
qed

subsection \<open>ManilaScheduler\<close>

lemma scheduler_delete_applied:
  assumes "lawful_finalizers L"
  shows "frames (applied_rel L scheduler_key scheduler_applied) (scheduler_reconcileDelete L)"
proof (rule applied_keep)
  show "emits (\<lambda>e. True) (scheduler_reconcileDelete L)"
    unfolding scheduler_reconcileDelete_def by (intro emits_rules TrueI)
  show "keepsI scheduler_key (scheduler_reconcileDelete L)" "keepsI scheduler_applied (scheduler_reconcileDelete L)"
    unfolding scheduler_reconcileDelete_def
    using assms by (intro keepsI_rules; simp add: scheduler_key_def scheduler_applied_def lawful_finalizers_def)+
qed

lemma scheduler_finalizer_applied:
  "lawful_finalizers L \<Longrightarrow> applied_rel L scheduler_key scheduler_applied s (snd (whenP b
     (updI (\<lambda>i. i\<lparr>sch_Meta := snd (l_AddFinalizer L (sch_Meta (inst s)) f)\<rparr>)) s))"
  by (simp add: prog_simps applied_rel_def scheduler_key_def scheduler_applied_def lawful_finalizers_def)

lemma scheduler_body_applied:
  assumes "lawful_finalizers L"
  shows "frames (applied_rel L scheduler_key scheduler_applied) (scheduler_body L b)"
  unfolding scheduler_body_def Let_def
  by (rule applied_opening)
    (intro applied_condP applied.frame_bind scheduler_update_applied applied.frame_if applied.frame_ret
      scheduler_delete_applied scheduler_reconcileNormal_applied scheduler_finalizer_applied assms;
     simp add: ManilaScheduler_updC_def scheduler_key_def scheduler_applied_def)+

lemma scheduler_Reconcile_applied:
  assumes "lawful_finalizers L" and "o_GetScheduler L (trace s) req = Inr i"
  shows "applied_rel L scheduler_key scheduler_applied (s\<lparr>inst := i\<rparr>) (snd (scheduler_Reconcile L req s))"
proof -
  let ?rest = "bindP (ask (\<lambda>h. o_NewHelper L h ''ManilaScheduler'')) (\<lambda>herr.
      case herr of
        Some err \<Rightarrow> ret (Result0, Some err)
      | None \<Rightarrow>
          (let isNewInstance = conds_nil (sst_Conditions (sch_Status i)) in
           thenP (whenP isNewInstance (updI (ManilaScheduler_updC (\<lambda>_. conds_empty))))
             (with_deferred L (\<lambda>i. sst_Conditions (sch_Status i)) ManilaScheduler_updC EPatchScheduler
                (scheduler_body L isNewInstance))))
      :: (ManilaScheduler st, reconcile_result, reconcile_result) prog"
  have "scheduler_Reconcile L req s =
      func ?rest (s\<lparr>trace := trace s @ [EGet ''ManilaScheduler'' (nn_Namespace req) (nn_Name req)], inst := i\<rparr>)"
    using assms(2) by (simp add: scheduler_Reconcile_def run_func run_bindP run_call run_updI)
  moreover have "frames (applied_rel L scheduler_key scheduler_applied) ?rest"
    unfolding Let_def
    by (intro applied.frame_bind applied_ask frames_case applied.frame_ret applied.frame_when
        scheduler_update_applied schedP.with_deferred_applied scheduler_body_applied assms(1))
      (simp_all add: ManilaScheduler_updC_def scheduler_key_def scheduler_applied_def)
  ultimately show ?thesis by (simp add: applied_fetch)
qed

subsection \<open>ManilaShare\<close>

lemma share_delete_applied:
  assumes "lawful_finalizers L"
  shows "frames (applied_rel L share_key share_applied) (share_reconcileDelete L)"
proof (rule applied_keep)
  show "emits (\<lambda>e. True) (share_reconcileDelete L)"
    unfolding share_reconcileDelete_def by (intro emits_rules TrueI)
  show "keepsI share_key (share_reconcileDelete L)" "keepsI share_applied (share_reconcileDelete L)"
    unfolding share_reconcileDelete_def
    using assms by (intro keepsI_rules; simp add: share_key_def share_applied_def lawful_finalizers_def)+
qed

lemma share_finalizer_applied:
  "lawful_finalizers L \<Longrightarrow> applied_rel L share_key share_applied s (snd (whenP b
     (updI (\<lambda>i. i\<lparr>shr_Meta := snd (l_AddFinalizer L (shr_Meta (inst s)) f)\<rparr>)) s))"
  by (simp add: prog_simps applied_rel_def share_key_def share_applied_def lawful_finalizers_def)

lemma share_body_applied:
  assumes "lawful_finalizers L"
  shows "frames (applied_rel L share_key share_applied) (share_body L b)"
  unfolding share_body_def Let_def
  by (rule applied_opening)
    (intro applied_condP applied.frame_bind share_update_applied applied.frame_if applied.frame_ret
      share_delete_applied share_reconcileNormal_applied share_finalizer_applied assms;
     simp add: ManilaShare_updC_def share_key_def share_applied_def)+

lemma share_Reconcile_applied:
  assumes "lawful_finalizers L" and "o_GetShare L (trace s) req = Inr i"
  shows "applied_rel L share_key share_applied (s\<lparr>inst := i\<rparr>) (snd (share_Reconcile L req s))"
proof -
  let ?rest = "bindP (ask (\<lambda>h. o_NewHelper L h ''ManilaShare'')) (\<lambda>herr.
      case herr of
        Some err \<Rightarrow> ret (Result0, Some err)
      | None \<Rightarrow>
          (let isNewInstance = conds_nil (hst_Conditions (shr_Status i)) in
           thenP (whenP isNewInstance (updI (ManilaShare_updC (\<lambda>_. conds_empty))))
             (with_deferred L (\<lambda>i. hst_Conditions (shr_Status i)) ManilaShare_updC EPatchShare
                (share_body L isNewInstance))))
      :: (ManilaShare st, reconcile_result, reconcile_result) prog"
  have "share_Reconcile L req s =
      func ?rest (s\<lparr>trace := trace s @ [EGet ''ManilaShare'' (nn_Namespace req) (nn_Name req)], inst := i\<rparr>)"
    using assms(2) by (simp add: share_Reconcile_def run_func run_bindP run_call run_updI)
  moreover have "frames (applied_rel L share_key share_applied) ?rest"
    unfolding Let_def
    by (intro applied.frame_bind applied_ask frames_case applied.frame_ret applied.frame_when
        share_update_applied shareP.with_deferred_applied share_body_applied assms(1))
      (simp_all add: ManilaShare_updC_def share_key_def share_applied_def)
  ultimately show ?thesis by (simp add: applied_fetch)
qed

section \<open>The lives of the three services\<close>

text \<open>
  A run of the controller in a life: it starts with the resource as it fetches it; whatever edits
  came meanwhile, the patch brings the status of the run. The instance controller is one of those
  who edit: what it writes keeps the status.
\<close>

definition api_run :: "lib \<Rightarrow> ManilaAPI \<Rightarrow> hist \<Rightarrow> ManilaAPI \<Rightarrow> hist \<Rightarrow> bool" where
  "api_run L i tr i' tr' \<longleftrightarrow> (\<exists>s req. trace s = tr \<and> o_GetAPI L tr req = Inr i \<and>
     i' = inst (snd (api_Reconcile L req s)) \<and> tr' = trace (snd (api_Reconcile L req s)))"

definition api_edit :: "ManilaAPI \<Rightarrow> ManilaAPI \<Rightarrow> bool" where
  "api_edit i j \<longleftrightarrow> api_Status j = api_Status i \<and> om_Name (api_Meta j) = om_Name (api_Meta i) \<and>
     om_Namespace (api_Meta j) = om_Namespace (api_Meta i)"

definition api_patched :: "ManilaAPI \<Rightarrow> ManilaAPI \<Rightarrow> ManilaAPI" where
  "api_patched i' j = j\<lparr>api_Status := api_Status i'\<rparr>"

abbreviation api_life :: "lib \<Rightarrow> ManilaAPI \<Rightarrow> run_log \<Rightarrow> bool" where
  "api_life L \<equiv> life (api_run L) api_edit api_patched api_applied api_key"

interpretation apiL: child_service api_run api_edit api_patched api_applied api_key
proof unfold_locales
  fix L i tr i' tr' name ns secrets
  assume L: "lawful_finalizers L" and run: "api_run L i tr i' tr'" and k: "api_key i = (name, ns, secrets)"
  from run obtain s req where s: "trace s = tr" "o_GetAPI L tr req = Inr i"
    "i' = inst (snd (api_Reconcile L req s))" "tr' = trace (snd (api_Reconcile L req s))"
    by (auto simp: api_run_def)
  then have "applied_rel L api_key api_applied (s\<lparr>inst := i\<rparr>) (snd (api_Reconcile L req s))"
    by (intro api_Reconcile_applied L) simp
  with k s show "api_applied i' = api_applied i \<or>
      (rollout_confirmed L tr' name ns \<and> l_ObjectHash L secrets = (api_applied i', None))"
    by (auto simp: applied_rel_def)
qed (simp_all add: api_edit_def api_patched_def api_applied_def api_key_def)

definition scheduler_run :: "lib \<Rightarrow> ManilaScheduler \<Rightarrow> hist \<Rightarrow> ManilaScheduler \<Rightarrow> hist \<Rightarrow> bool" where
  "scheduler_run L i tr i' tr' \<longleftrightarrow> (\<exists>s req. trace s = tr \<and> o_GetScheduler L tr req = Inr i \<and>
     i' = inst (snd (scheduler_Reconcile L req s)) \<and> tr' = trace (snd (scheduler_Reconcile L req s)))"

definition scheduler_edit :: "ManilaScheduler \<Rightarrow> ManilaScheduler \<Rightarrow> bool" where
  "scheduler_edit i j \<longleftrightarrow> sch_Status j = sch_Status i \<and> om_Name (sch_Meta j) = om_Name (sch_Meta i) \<and>
     om_Namespace (sch_Meta j) = om_Namespace (sch_Meta i)"

definition scheduler_patched :: "ManilaScheduler \<Rightarrow> ManilaScheduler \<Rightarrow> ManilaScheduler" where
  "scheduler_patched i' j = j\<lparr>sch_Status := sch_Status i'\<rparr>"

abbreviation scheduler_life :: "lib \<Rightarrow> ManilaScheduler \<Rightarrow> run_log \<Rightarrow> bool" where
  "scheduler_life L \<equiv> life (scheduler_run L) scheduler_edit scheduler_patched scheduler_applied scheduler_key"

interpretation schedL: child_service scheduler_run scheduler_edit scheduler_patched scheduler_applied scheduler_key
proof unfold_locales
  fix L i tr i' tr' name ns secrets
  assume L: "lawful_finalizers L" and run: "scheduler_run L i tr i' tr'" and k: "scheduler_key i = (name, ns, secrets)"
  from run obtain s req where s: "trace s = tr" "o_GetScheduler L tr req = Inr i"
    "i' = inst (snd (scheduler_Reconcile L req s))" "tr' = trace (snd (scheduler_Reconcile L req s))"
    by (auto simp: scheduler_run_def)
  then have "applied_rel L scheduler_key scheduler_applied (s\<lparr>inst := i\<rparr>) (snd (scheduler_Reconcile L req s))"
    by (intro scheduler_Reconcile_applied L) simp
  with k s show "scheduler_applied i' = scheduler_applied i \<or>
      (rollout_confirmed L tr' name ns \<and> l_ObjectHash L secrets = (scheduler_applied i', None))"
    by (auto simp: applied_rel_def)
qed (simp_all add: scheduler_edit_def scheduler_patched_def scheduler_applied_def scheduler_key_def)

definition share_run :: "lib \<Rightarrow> ManilaShare \<Rightarrow> hist \<Rightarrow> ManilaShare \<Rightarrow> hist \<Rightarrow> bool" where
  "share_run L i tr i' tr' \<longleftrightarrow> (\<exists>s req. trace s = tr \<and> o_GetShare L tr req = Inr i \<and>
     i' = inst (snd (share_Reconcile L req s)) \<and> tr' = trace (snd (share_Reconcile L req s)))"

definition share_edit :: "ManilaShare \<Rightarrow> ManilaShare \<Rightarrow> bool" where
  "share_edit i j \<longleftrightarrow> shr_Status j = shr_Status i \<and> om_Name (shr_Meta j) = om_Name (shr_Meta i) \<and>
     om_Namespace (shr_Meta j) = om_Namespace (shr_Meta i)"

definition share_patched :: "ManilaShare \<Rightarrow> ManilaShare \<Rightarrow> ManilaShare" where
  "share_patched i' j = j\<lparr>shr_Status := shr_Status i'\<rparr>"

abbreviation share_life :: "lib \<Rightarrow> ManilaShare \<Rightarrow> run_log \<Rightarrow> bool" where
  "share_life L \<equiv> life (share_run L) share_edit share_patched share_applied share_key"

interpretation shareL: child_service share_run share_edit share_patched share_applied share_key
proof unfold_locales
  fix L i tr i' tr' name ns secrets
  assume L: "lawful_finalizers L" and run: "share_run L i tr i' tr'" and k: "share_key i = (name, ns, secrets)"
  from run obtain s req where s: "trace s = tr" "o_GetShare L tr req = Inr i"
    "i' = inst (snd (share_Reconcile L req s))" "tr' = trace (snd (share_Reconcile L req s))"
    by (auto simp: share_run_def)
  then have "applied_rel L share_key share_applied (s\<lparr>inst := i\<rparr>) (snd (share_Reconcile L req s))"
    by (intro share_Reconcile_applied L) simp
  with k s show "share_applied i' = share_applied i \<or>
      (rollout_confirmed L tr' name ns \<and> l_ObjectHash L secrets = (share_applied i', None))"
    by (auto simp: applied_rel_def)
qed (simp_all add: share_edit_def share_patched_def share_applied_def share_key_def)

text \<open>
  What the instance controller writes is such an edit, where the owner reference is set as its
  helper documents.
\<close>

definition lawful_owner_reference :: "lib \<Rightarrow> bool" where
  "lawful_owner_reference L \<longleftrightarrow> (\<forall>owner m.
     om_Name (snd (l_SetControllerReference L owner m)) = om_Name m \<and>
     om_Namespace (snd (l_SetControllerReference L owner m)) = om_Namespace m)"

lemma mutate_edits:
  assumes "lawful_owner_reference L"
  shows "api_edit a (snd (api_mutate L m t n a))" "scheduler_edit c (snd (scheduler_mutate L m t n c))"
    "share_edit h (snd (share_mutate L m sh t n h))"
  using assms
  by (simp_all add: api_edit_def api_mutate_def scheduler_edit_def scheduler_mutate_def share_edit_def
      share_mutate_def lawful_owner_reference_def Let_def split_beta)

section \<open>The loop is a life\<close>

text \<open>
  The loop of a controller over a store, from a resource that reports no applied hash, is such a
  life: each run adds its record to the log.
\<close>

locale child_story =
  child_service run edit patched applied key +
  child_loop reconcile fetch patch patch_of serving deployable current K hash
  for run :: "lib \<Rightarrow> 'i \<Rightarrow> hist \<Rightarrow> 'i \<Rightarrow> hist \<Rightarrow> bool"
    and edit :: "'i \<Rightarrow> 'i \<Rightarrow> bool" and patched :: "'i \<Rightarrow> 'i \<Rightarrow> 'i"
    and applied :: "'i \<Rightarrow> string" and key :: "'i \<Rightarrow> string \<times> string \<times> string list"
    and reconcile :: "lib \<Rightarrow> NamespacedName \<Rightarrow> ('i st, reconcile_result, reconcile_result) prog"
    and fetch :: "lib \<Rightarrow> hist \<Rightarrow> NamespacedName \<Rightarrow> gerr + 'i"
    and patch :: "'i \<Rightarrow> event" and patch_of :: "event \<Rightarrow> 'i option"
    and serving deployable current :: "lib \<Rightarrow> 'i \<Rightarrow> bool" and K :: "'i \<Rightarrow> 'k"
    and hash :: "'i \<Rightarrow> (string \<rightharpoonup> string) option" +
  assumes run_reconcile: "fetch L (trace s) req = Inr i \<Longrightarrow>
      run L i (trace s) (inst (snd (reconcile L req s))) (trace (snd (reconcile L req s)))"
    and patched_whole: "K i' = K i \<Longrightarrow> patched i' i = i'"
begin

lemma loop_life:
  assumes L: "healthy L" "lawful_SetHash L" and store: "\<And>h. fetch L h req = Inr (fetched patch_of i h)"
    and i: "serving L i" "deployable L i" "trace s = []" "applied i = ''''"
  shows "\<exists>runs. life (run L) edit patched applied key (fetched patch_of i (trace (((\<lambda>s. snd (reconcile L req s)) ^^ n) s))) runs
    \<and> length runs = n"
proof (induction n)
  case 0
  show ?case using i(3,4) life.created [where i = i] by auto
next
  case (Suc n)
  let ?t = "((\<lambda>s. snd (reconcile L req s)) ^^ n) s"
  from Suc obtain runs where r: "life (run L) edit patched applied key (fetched patch_of i (trace ?t)) runs" "length runs = n"
    by blast
  note st = loop_states [OF L store, of s n] i
  have "run L (fetched patch_of i (trace ?t)) (trace ?t) (inst (snd (reconcile L req ?t))) (trace (snd (reconcile L req ?t)))"
    by (rule run_reconcile [OF store])
  from life.reconciled [OF r(1) this rtranclp.rtrancl_refl] st r(2) show ?case
    by (auto simp: patched_whole)
qed

end

interpretation apiY: child_story api_run api_edit api_patched api_applied api_key
  api_Reconcile o_GetAPI EPatchAPI api_patch_of api_serving api_deployable api_current api_identity api_Hash
  by unfold_locales (auto simp: api_run_def api_patched_def api_identity_def)

interpretation schedY: child_story scheduler_run scheduler_edit scheduler_patched scheduler_applied scheduler_key
  scheduler_Reconcile o_GetScheduler EPatchScheduler scheduler_patch_of scheduler_serving scheduler_deployable scheduler_current scheduler_identity scheduler_Hash
  by unfold_locales (auto simp: scheduler_run_def scheduler_patched_def scheduler_identity_def)

interpretation shareY: child_story share_run share_edit share_patched share_applied share_key
  share_Reconcile o_GetShare EPatchShare share_patch_of share_serving share_deployable share_current share_identity share_Hash
  by unfold_locales (auto simp: share_run_def share_patched_def share_identity_def)

text \<open>C12: whatever edits hit it and whatever the cluster answers, at every moment of its life a child of any of the three kinds reports no applied hash or one that stems from a run of its controller to which the cluster confirmed that the stateful set is ready, on secrets with this hash.\<close>

theorem applied_hash_has_rollout:
  assumes "lawful_finalizers L"
    and "api_life L a aruns" and "scheduler_life L c cruns" and "share_life L h hruns"
  shows
    "(ast_AppliedInputSecretHash (api_Status a) = '''' \<or>
      rolled_in_log L (ast_AppliedInputSecretHash (api_Status a))
        (om_Name (api_Meta a)) (om_Namespace (api_Meta a)) aruns) \<and>
     (sst_AppliedInputSecretHash (sch_Status c) = '''' \<or>
      rolled_in_log L (sst_AppliedInputSecretHash (sch_Status c))
        (om_Name (sch_Meta c)) (om_Namespace (sch_Meta c)) cruns) \<and>
     (hst_AppliedInputSecretHash (shr_Status h) = '''' \<or>
      rolled_in_log L (hst_AppliedInputSecretHash (shr_Status h))
        (om_Name (shr_Meta h)) (om_Namespace (shr_Meta h)) hruns)"
  using apiL.life_rolled [OF assms(1,2)] schedL.life_rolled [OF assms(1,3)] shareL.life_rolled [OF assms(1,4)]
  by (simp add: api_applied_def api_key_def scheduler_applied_def scheduler_key_def share_applied_def share_key_def)

text \<open>
  A concrete cluster that stores the three resources. After two runs of their loops the lives are
  at an applied hash that is not empty.
\<close>

definition demo_cluster :: lib where
  "demo_cluster = demo_lib\<lparr>o_GetAPI := \<lambda>h req. Inr (fetched api_patch_of demo_api h),
     o_GetScheduler := \<lambda>h req. Inr (fetched scheduler_patch_of demo_scheduler h),
     o_GetShare := \<lambda>h req. Inr (fetched share_patch_of (demo_share ''a'') h)\<rparr>"

lemma demo_cluster_laws: "healthy demo_cluster" "lawful_SetHash demo_cluster" "steady demo_cluster"
  "lawful_finalizers demo_cluster"
  using demo_healthy demo_lawful_SetHash demo_steady
  by (simp_all add: demo_cluster_def healthy_def lawful_SetHash_def steady_def lawful_finalizers_def demo_defs
      demo_AddFinalizer_def demo_RemoveFinalizer_def)

lemma demo_cluster_current: "l_ObjectHash demo_cluster xs = (h, None) \<Longrightarrow> h \<noteq> []"
  by (auto simp: demo_cluster_def demo_defs)

definition demo_req :: NamespacedName where
  "demo_req = \<lparr>nn_Namespace = ''openstack'', nn_Name = ''m''\<rparr>"

lemma demo_api_rolls:
  obtains i runs where "api_life demo_cluster i runs" "api_applied i \<noteq> []"
proof -
  let ?run = "\<lambda>s. snd (api_Reconcile demo_cluster demo_req s)"
  have i: "api_serving demo_cluster demo_api" "api_deployable demo_cluster demo_api" "api_applied demo_api = []"
    by (simp_all add: api_serving_def api_deployable_def api_applied_def demo_cluster_def demo_defs demo_api_def demo_api_template_def
        demo_conditions_def conds_nil_def demo_meta_def newMeta_def demo_AddFinalizer_def api_GetVolumes_def manila_GetVolumes_def)
  have store: "o_GetAPI demo_cluster h demo_req = Inr (fetched api_patch_of demo_api h)" for h
    by (simp add: demo_cluster_def)
  let ?s = "demo_state demo_api"
  obtain runs where "api_life demo_cluster (fetched api_patch_of demo_api (trace ((?run ^^ 2) ?s))) runs"
    using apiY.loop_life [OF demo_cluster_laws(1,2) store i(1,2) _ i(3), of ?s 2] by auto
  moreover have "fetched api_patch_of demo_api (trace ((?run ^^ Suc 1) ?s)) = inst ((?run ^^ Suc 1) ?s)"
    using apiR.loop_states [OF demo_cluster_laws(1,2) store, of ?s 1] i by simp
  moreover have "api_current demo_cluster (inst ((?run ^^ (0 + 2)) ?s))"
    using apiR.loop_settles(2) [OF demo_cluster_laws(1-3) store, of ?s 0] i by simp
  then have "api_applied (inst ((?run ^^ (0 + 2)) ?s)) \<noteq> []"
    unfolding api_current_def api_applied_def by (rule demo_cluster_current)
  ultimately show ?thesis using that by (simp add: numeral_2_eq_2)
qed

lemma demo_scheduler_rolls:
  obtains i runs where "scheduler_life demo_cluster i runs" "scheduler_applied i \<noteq> []"
proof -
  let ?run = "\<lambda>s. snd (scheduler_Reconcile demo_cluster demo_req s)"
  have i: "scheduler_serving demo_cluster demo_scheduler" "scheduler_deployable demo_cluster demo_scheduler" "scheduler_applied demo_scheduler = []"
    by (simp_all add: scheduler_serving_def scheduler_deployable_def scheduler_applied_def demo_cluster_def demo_defs demo_scheduler_def demo_scheduler_template_def
        demo_conditions_def conds_nil_def demo_meta_def newMeta_def demo_AddFinalizer_def scheduler_GetVolumes_def manila_GetVolumes_def)
  have store: "o_GetScheduler demo_cluster h demo_req = Inr (fetched scheduler_patch_of demo_scheduler h)" for h
    by (simp add: demo_cluster_def)
  let ?s = "demo_state demo_scheduler"
  obtain runs where "scheduler_life demo_cluster (fetched scheduler_patch_of demo_scheduler (trace ((?run ^^ 2) ?s))) runs"
    using schedY.loop_life [OF demo_cluster_laws(1,2) store i(1,2) _ i(3), of ?s 2] by auto
  moreover have "fetched scheduler_patch_of demo_scheduler (trace ((?run ^^ Suc 1) ?s)) = inst ((?run ^^ Suc 1) ?s)"
    using schedR.loop_states [OF demo_cluster_laws(1,2) store, of ?s 1] i by simp
  moreover have "scheduler_current demo_cluster (inst ((?run ^^ (0 + 2)) ?s))"
    using schedR.loop_settles(2) [OF demo_cluster_laws(1-3) store, of ?s 0] i by simp
  then have "scheduler_applied (inst ((?run ^^ (0 + 2)) ?s)) \<noteq> []"
    unfolding scheduler_current_def scheduler_applied_def by (rule demo_cluster_current)
  ultimately show ?thesis using that by (simp add: numeral_2_eq_2)
qed

lemma demo_share_rolls:
  obtains i runs where "share_life demo_cluster i runs" "share_applied i \<noteq> []"
proof -
  let ?run = "\<lambda>s. snd (share_Reconcile demo_cluster demo_req s)"
  have i: "share_serving demo_cluster (demo_share ''a'')" "share_deployable demo_cluster (demo_share ''a'')" "share_applied (demo_share ''a'') = []"
    by (simp_all add: share_serving_def share_deployable_def share_applied_def demo_cluster_def demo_defs demo_share_def demo_share_template_def
        demo_conditions_def conds_nil_def demo_meta_def newMeta_def demo_AddFinalizer_def share_GetVolumes_def manila_GetVolumes_def)
  have store: "o_GetShare demo_cluster h demo_req = Inr (fetched share_patch_of (demo_share ''a'') h)" for h
    by (simp add: demo_cluster_def)
  let ?s = "demo_state (demo_share ''a'')"
  obtain runs where "share_life demo_cluster (fetched share_patch_of (demo_share ''a'') (trace ((?run ^^ 2) ?s))) runs"
    using shareY.loop_life [OF demo_cluster_laws(1,2) store i(1,2) _ i(3), of ?s 2] by auto
  moreover have "fetched share_patch_of (demo_share ''a'') (trace ((?run ^^ Suc 1) ?s)) = inst ((?run ^^ Suc 1) ?s)"
    using shareR.loop_states [OF demo_cluster_laws(1,2) store, of ?s 1] i by simp
  moreover have "share_current demo_cluster (inst ((?run ^^ (0 + 2)) ?s))"
    using shareR.loop_settles(2) [OF demo_cluster_laws(1-3) store, of ?s 0] i by simp
  then have "share_applied (inst ((?run ^^ (0 + 2)) ?s)) \<noteq> []"
    unfolding share_current_def share_applied_def by (rule demo_cluster_current)
  ultimately show ?thesis using that by (simp add: numeral_2_eq_2)
qed

theorem applied_hash_has_rollout_witness:
  "\<exists>a aruns c cruns h hruns.
     api_life demo_cluster a aruns \<and> scheduler_life demo_cluster c cruns \<and> share_life demo_cluster h hruns \<and>
     rolled_in_log demo_cluster (ast_AppliedInputSecretHash (api_Status a)) (om_Name (api_Meta a)) (om_Namespace (api_Meta a)) aruns \<and>
     rolled_in_log demo_cluster (sst_AppliedInputSecretHash (sch_Status c)) (om_Name (sch_Meta c)) (om_Namespace (sch_Meta c)) cruns \<and>
     rolled_in_log demo_cluster (hst_AppliedInputSecretHash (shr_Status h)) (om_Name (shr_Meta h)) (om_Namespace (shr_Meta h)) hruns"
proof -
  obtain a aruns where a: "api_life demo_cluster a aruns" "api_applied a \<noteq> []" by (rule demo_api_rolls)
  obtain c cruns where c: "scheduler_life demo_cluster c cruns" "scheduler_applied c \<noteq> []" by (rule demo_scheduler_rolls)
  obtain h hruns where h: "share_life demo_cluster h hruns" "share_applied h \<noteq> []" by (rule demo_share_rolls)
  from applied_hash_has_rollout [OF demo_cluster_laws(4) a(1) c(1) h(1)] a(2) c(2) h(2)
  have "rolled_in_log demo_cluster (ast_AppliedInputSecretHash (api_Status a)) (om_Name (api_Meta a)) (om_Namespace (api_Meta a)) aruns"
    "rolled_in_log demo_cluster (sst_AppliedInputSecretHash (sch_Status c)) (om_Name (sch_Meta c)) (om_Namespace (sch_Meta c)) cruns"
    "rolled_in_log demo_cluster (hst_AppliedInputSecretHash (shr_Status h)) (om_Name (shr_Meta h)) (om_Namespace (shr_Meta h)) hruns"
    by (simp_all add: api_applied_def scheduler_applied_def share_applied_def)
  with a(1) c(1) h(1) show ?thesis by blast
qed

section \<open>What the instance controller may conclude\<close>














end
