(* ===== verification/Calm.thy ===== *)
theory Calm
  imports Reasoning
begin

text \<open>
  A calculus of runs that end without a panic: a program is calm for an invariant of the resource
  where, started under it, it does not panic and leaves the invariant in force on every way out.
\<close>

section \<open>Calm programs\<close>

definition calm :: "('i \<Rightarrow> bool) \<Rightarrow> ('i st, 'r, 'a) prog \<Rightarrow> bool" where
  "calm J m \<longleftrightarrow> (\<forall>s. J (inst s) \<longrightarrow> fst (m s) \<noteq> Panic \<and> J (inst (snd (m s))))"

lemma calmI: "(\<And>s. J (inst s) \<Longrightarrow> fst (m s) \<noteq> Panic \<and> J (inst (snd (m s)))) \<Longrightarrow> calm J m"
  unfolding calm_def by blast

lemma calmD: "calm J m \<Longrightarrow> J (inst s) \<Longrightarrow> fst (m s) \<noteq> Panic \<and> J (inst (snd (m s)))"
  unfolding calm_def by blast

text \<open>A continuation may rely on what is known of the values it gets.\<close>

lemma calm_bind_known:
  fixes m :: "('i st, 'r, 'a) prog"
  assumes m: "calm J m" and A: "\<And>s a t. J (inst s) \<Longrightarrow> m s = (Next a, t) \<Longrightarrow> A a"
    and f: "\<And>a. A a \<Longrightarrow> calm J (f a)"
  shows "calm J (bindP m f)"
proof (rule calmI)
  fix s :: "'i st" assume s: "J (inst s)"
  obtain x t where ms: "m s = (x, t)" by fastforce
  with calmD [OF m s] have t: "x \<noteq> Panic" "J (inst t)" by simp_all
  show "fst (bindP m f s) \<noteq> Panic \<and> J (inst (snd (bindP m f s)))"
  proof (cases x)
    case (Next a)
    with A [OF s] ms have "calm J (f a)" by (intro f) blast
    from calmD [OF this t(2)] ms Next show ?thesis by (simp add: run_bindP)
  qed (use ms t in \<open>simp_all add: run_bindP\<close>)
qed

lemma calm_bind: "calm J m \<Longrightarrow> (\<And>a. calm J (f a)) \<Longrightarrow> calm J (bindP m f)"
  by (rule calm_bind_known [where A = "\<lambda>_. True"]) simp_all

lemma calm_getI: "(\<And>i. J i \<Longrightarrow> calm J (f (g i))) \<Longrightarrow> calm J (bindP (getI g) f)"
  by (rule calmI) (simp add: run_bindP run_getI calm_def)

lemma calm_getP: "(\<And>s. J (inst s) \<Longrightarrow> calm J (f (g s))) \<Longrightarrow> calm J (bindP (getP g) f)"
  by (rule calmI) (simp add: run_bindP run_getP calm_def)

lemma calm_steps:
  "calm J (pureP a)" "calm J (ret r)" "calm J (call ev answer)" "calm J (ask answer)" "calm J (getI g)" "calm J (getP h)"
  "calm J (setVar k v)" "calm J (setVars vs)" "calm J (setLabels ls)"
  by (simp_all add: calm_def prog_simps)

lemma calm_updI: "(\<And>i. J i \<Longrightarrow> J (f i)) \<Longrightarrow> calm J (updI f)"
  by (simp add: calm_def run_updI)

lemma calm_cond:
  assumes "\<And>f i. J i \<Longrightarrow> J (upd f i)"
  shows "calm J (condP upd c)" "calm J (setFalse upd t r sev msg args)" "calm J (markTrue upd t msg)"
    "calm J (markFalse upd t r sev msg args)"
  using assms by (simp_all add: calm_def prog_simps)

lemma calm_func: "calm J m \<Longrightarrow> calm J (func m)"
  by (rule calmI) (auto simp: run_func dest!: calmD split: prod.splits outcome.splits)

lemma calm_when: "(b \<Longrightarrow> calm J m) \<Longrightarrow> calm J (whenP b m)"
  by (simp add: whenP_def calm_steps)

lemma calm_if: "(b \<Longrightarrow> calm J m) \<Longrightarrow> (\<not> b \<Longrightarrow> calm J n) \<Longrightarrow> calm J (if b then m else n)"
  by simp

lemma calm_for: "(\<And>x. calm J (f x)) \<Longrightarrow> calm J (forP xs f)"
  by (induction xs) (simp_all add: calm_steps calm_bind)

lemma calm_fold: "(\<And>x acc. calm J (f x acc)) \<Longrightarrow> calm J (foldP f xs acc)"
  by (induction xs arbitrary: acc) (simp_all add: calm_steps calm_bind)

lemma calm_case:
  "(\<And>e. calm J (f1 e)) \<Longrightarrow> (\<And>v. calm J (f2 v)) \<Longrightarrow> calm J (case x of Inl e \<Rightarrow> f1 e | Inr v \<Rightarrow> f2 v)"
  "calm J g1 \<Longrightarrow> (\<And>v. calm J (g2 v)) \<Longrightarrow> calm J (case y of None \<Rightarrow> g1 | Some v \<Rightarrow> g2 v)"
  "(\<And>a b. calm J (h1 a b)) \<Longrightarrow> calm J (case z of (a, b) \<Rightarrow> h1 a b)"
  by (auto split: sum.split option.split prod.split)

lemma calm_some: "y \<noteq> None \<Longrightarrow> (\<And>v. calm J (g v)) \<Longrightarrow> calm J (case y of None \<Rightarrow> panic | Some v \<Rightarrow> g v)"
  by (cases y) simp_all

lemmas calm_rules = calm_getI calm_bind calm_steps calm_func calm_when calm_if calm_for calm_fold calm_case

lemma calm_helpers:
  assumes "\<And>f i. J i \<Longrightarrow> J (upd f i)"
  shows "calm J (verifyServiceSecret L upd ns n fs d)" "calm J (verifyConfigSecrets L upd names ns)"
    "calm J (ensureNAD L upd ns names)" "calm J (get_secret L ns n)" "calm J (custom_secrets L ns names)"
  unfolding verifyServiceSecret_def verifyConfigSecrets_def verifyConfigSecrets_step_def ensureNAD_def ensureNAD_step_def
    get_secret_def custom_secrets_def Let_def
  by (intro calm_rules calm_cond assms; assumption)+

lemma calm_ensureTopology:
  "(\<And>f i. J i \<Longrightarrow> J (upd f i)) \<Longrightarrow> (\<And>t i. J i \<Longrightarrow> J (SetLastAppliedTopology th t i)) \<Longrightarrow> calm J (ensureTopology L th upd fin ls)"
  unfolding ensureTopology_def by (intro calm_rules calm_cond calm_updI; blast)

lemma calm_createHash:
  "(\<And>m i. J i \<Longrightarrow> J (st m i)) \<Longrightarrow> calm J (createHash L g st)"
  unfolding createHash_def by (intro calm_rules calm_updI; blast)

lemma calm_patch: "calm J (patch_instance L patch)"
  by (simp add: calm_def run_patch_instance)

lemma calm_read_update:
  "(\<And>i. J i \<Longrightarrow> J (u (g i) i)) \<Longrightarrow> (\<And>x. calm J (rest x)) \<Longrightarrow>
   calm J (bindP (getI g) (\<lambda>x. thenP (whenP (c x) (updI (u x))) (rest x)))"
  by (rule calmI) (simp add: run_bindP run_getI run_whenP run_updI calm_def)

lemma calm_createHash_some:
  assumes "lawful_SetHash L" and "\<And>h i. J i \<Longrightarrow> J (st (Some h) i)"
  shows "calm J (createHash L g st)"
proof -
  have stored: "calm J (whenP (snd (l_SetHash L old k v)) (updI (st (fst (l_SetHash L old k v)))))" for old k v
    using SetHash_stored [OF assms(1), of old k v "fst (l_SetHash L old k v)"] assms(2)
    by (cases "l_SetHash L old k v"; cases "snd (l_SetHash L old k v)") (auto simp: calm_def prog_simps)
  show ?thesis
    unfolding createHash_def split_beta by (intro calm_rules stored)
qed

lemma calm_fold_in: "(\<And>x acc. x \<in> set xs \<Longrightarrow> calm J (f x acc)) \<Longrightarrow> calm J (foldP f xs acc)"
  by (induction xs arbitrary: acc) (simp_all add: calm_steps calm_bind)

lemma fold_returns:
  assumes "\<And>x acc s r t. f x acc s = (Return r, t) \<Longrightarrow> P r"
  shows "foldP f xs acc s = (Return r, t) \<Longrightarrow> P r"
  by (induction xs arbitrary: acc s) (auto simp: prog_simps split: outcome.splits prod.splits dest: assms)

text \<open>A step that establishes a sharper invariant hands it to the rest of the run.\<close>

lemma calm_sharpen:
  fixes m :: "('a st, 'r, 'b) prog"
  assumes step: "\<And>i. J i \<Longrightarrow> \<exists>k. good k \<and> K k (f i)" and rest: "\<And>k. good k \<Longrightarrow> calm (K k) m"
    and weak: "\<And>k i. good k \<Longrightarrow> K k i \<Longrightarrow> J i"
  shows "calm J (thenP (updI f) m)"
proof (rule calmI)
  fix s :: "'a st" assume "J (inst s)"
  with step obtain k where k: "good k" "K k (f (inst s))" by blast
  with calmD [OF rest [OF k(1)], of "s\<lparr>inst := f (inst s)\<rparr>"] weak [OF k(1)]
  show "fst (thenP (updI f) m s) \<noteq> Panic \<and> J (inst (snd (thenP (updI f) m s)))"
    by (simp add: run_bindP run_updI)
qed

text \<open>The finalizer helpers, as they document, touch the finalizers only.\<close>

definition finalizers_only :: "lib \<Rightarrow> bool" where
  "finalizers_only L \<longleftrightarrow> (\<forall>m f. (\<exists>fs. snd (l_AddFinalizer L m f) = m\<lparr>om_Finalizers := fs\<rparr>) \<and>
     (\<exists>fs. l_RemoveFinalizer L m f = m\<lparr>om_Finalizers := fs\<rparr>))"

lemma finalizers_only_update:
  assumes "finalizers_only L" and "\<And>fs. P (m\<lparr>om_Finalizers := fs\<rparr>)"
  shows "P (snd (l_AddFinalizer L m f))" "P (l_RemoveFinalizer L m f)"
  using assms unfolding finalizers_only_def by metis+

text \<open>Every \<^verbatim>\<open>Reconcile\<close> opens the same way: it reads its resource and goes on with that value.\<close>

lemma reconcile_returns:
  assumes R: "R = func (bindP (call ev answer) (\<lambda>r. case r of Inl err \<Rightarrow> missed err | Inr i \<Rightarrow> thenP (updI (\<lambda>_. i)) (rest i)))"
    and read: "\<And>h i. answer h = Inr i \<Longrightarrow> J i"
    and missed: "\<And>e. calm (\<lambda>_. True) (missed e)" and rest: "\<And>i. J i \<Longrightarrow> calm J (rest i)"
  shows "\<exists>res t. R s = (Next res, t)"
proof (cases "answer (trace s)")
  case (Inl e)
  with calmD [OF missed [of e], of "s\<lparr>trace := trace s @ [ev]\<rparr>"] show ?thesis
    by (auto simp: R run_func run_bindP run_call split: prod.split outcome.split)
next
  case (Inr i)
  with calmD [OF rest [OF read], of "trace s" i "s\<lparr>trace := trace s @ [ev], inst := i\<rparr>"] read
  show ?thesis by (auto simp: R run_func run_bindP run_call run_updI split: prod.split outcome.split)
qed

end
