(* ===== verification/NoPanic.thy ===== *)
theory NoPanic
  imports Calm ChildLife
begin

text \<open>
  Every \<^verbatim>\<open>Reconcile\<close> returns, whatever the cluster answers: the nil pointers, unknown volume sources
  and short hashes the code would trip over are ruled out by what the resources hold. First the three
  service controllers, then the instance controller, then the two together: what the instance writes
  is what its services can be deployed from.
\<close>

section \<open>ManilaScheduler\<close>

lemma scheduler_deployable_updates:
  "scheduler_deployable L i \<Longrightarrow> scheduler_deployable L (ManilaScheduler_updC f i)"
  "scheduler_deployable L i \<Longrightarrow> scheduler_deployable L (scheduler_setHash h i)"
  "scheduler_deployable L i \<Longrightarrow> scheduler_deployable L (SetLastAppliedTopology scheduler_topology t i)"
  "scheduler_deployable L i \<Longrightarrow> scheduler_deployable L (i\<lparr>sch_Status := st\<rparr>)"
  by (simp_all add: scheduler_deployable_def ManilaScheduler_updC_def scheduler_setHash_def scheduler_topology_def ManilaScheduler_SetLastAppliedTopology_def)

lemma scheduler_StatefulSet_panics: "scheduler_deployable L i \<Longrightarrow> scheduler_StatefulSet L i h ls ann topo mc \<noteq> None"
  by (auto simp: scheduler_StatefulSet_def scheduler_deployable_def Let_def split: sum.split option.split)

lemma scheduler_calm_front:
  "calm (scheduler_deployable L) (scheduler_inputs L)" "calm (scheduler_deployable L) (scheduler_tls L)"
  "calm (scheduler_deployable L) (scheduler_config L)" "calm (scheduler_deployable L) (scheduler_topology_step L)"
  unfolding scheduler_inputs_def scheduler_tls_def scheduler_config_def scheduler_generateServiceConfig_def scheduler_createHashOfInputHashes_def
    scheduler_topology_step_def Let_def
  by (intro calm_rules calm_cond calm_helpers calm_ensureTopology calm_createHash scheduler_deployable_updates; assumption)+

lemma scheduler_calm_back:
  "calm (scheduler_deployable L) (scheduler_memcached L)" "calm (scheduler_deployable L) (scheduler_apply_statefulset L h ann topo mc)"
  "calm (scheduler_deployable L) (scheduler_network_status L)" "calm (scheduler_deployable L) (scheduler_rollout_status L h)"
  "calm (scheduler_deployable L) (bindP (getI ManilaScheduler_IsReady) (\<lambda>ready. case ready of None \<Rightarrow> panic
      | Some b \<Rightarrow> thenP (whenP b (markTrue ManilaScheduler_updC ReadyCondition (LibMsg ''ReadyMessage''))) (ret (Result0, None))))"
proof -
  show "calm (scheduler_deployable L) (scheduler_memcached L)"
    unfolding scheduler_memcached_def
    by (rule calm_getI, rule calm_some, simp add: scheduler_deployable_def, intro calm_rules)
  show "calm (scheduler_deployable L) (scheduler_apply_statefulset L h ann topo mc)"
    unfolding scheduler_apply_statefulset_def Let_def
    by (rule calm_getP, simp only: prod.case, rule calm_some, erule scheduler_StatefulSet_panics)
      (intro calm_rules calm_cond scheduler_deployable_updates; assumption)
  show "calm (scheduler_deployable L) (scheduler_network_status L)"
    unfolding scheduler_network_status_def Let_def
    by (rule calm_getP, simp only: prod.case, rule calm_some, simp add: scheduler_deployable_def)
      (intro calm_rules calm_cond calm_updI scheduler_deployable_updates; assumption)
  show "calm (scheduler_deployable L) (scheduler_rollout_status L h)"
    unfolding scheduler_rollout_status_def Let_def
    by (rule calm_getI, intro calm_bind calm_rules calm_some calm_cond calm_updI scheduler_deployable_updates;
        (assumption | simp add: scheduler_deployable_def))
  show "calm (scheduler_deployable L) (bindP (getI ManilaScheduler_IsReady) (\<lambda>ready. case ready of None \<Rightarrow> panic
      | Some b \<Rightarrow> thenP (whenP b (markTrue ManilaScheduler_updC ReadyCondition (LibMsg ''ReadyMessage''))) (ret (Result0, None))))"
    by (rule calm_getI, rule calm_some, simp add: scheduler_deployable_def ManilaScheduler_IsReady_def)
      (intro calm_rules calm_cond scheduler_deployable_updates; assumption)
qed

lemma scheduler_calm_reconcileNormal: "calm (scheduler_deployable L) (scheduler_reconcileNormal L)"
  unfolding scheduler_reconcileNormal_def scheduler_deploy_def scheduler_finish_def
  by (intro calm_rules scheduler_calm_front scheduler_calm_back calm_helpers calm_updI scheduler_deployable_updates; assumption)

lemma scheduler_deployable_finalizers:
  assumes "finalizers_only L" "scheduler_deployable L i"
  shows "scheduler_deployable L (i\<lparr>sch_Meta := snd (l_AddFinalizer L (sch_Meta i) f)\<rparr>)"
    "scheduler_deployable L (i\<lparr>sch_Meta := l_RemoveFinalizer L (sch_Meta i) f\<rparr>)"
  by (rule finalizers_only_update [OF assms(1), where P = "\<lambda>m. scheduler_deployable L (i\<lparr>sch_Meta := m\<rparr>)"],
    use assms(2) in \<open>simp add: scheduler_deployable_def GetOwningManilaName_def\<close>)+

lemma scheduler_calm_reconcileDelete:
  assumes "finalizers_only L"
  shows "calm (scheduler_deployable L) (scheduler_reconcileDelete L)"
  unfolding scheduler_reconcileDelete_def Let_def
  by (intro calm_rules calm_cond calm_updI scheduler_deployable_updates scheduler_deployable_finalizers [OF assms]; assumption)

lemma scheduler_calm_body:
  assumes "finalizers_only L"
  shows "calm (scheduler_deployable L) (scheduler_body L b)"
  unfolding scheduler_body_def Let_def
  by (intro calm_read_update calm_rules calm_cond calm_updI scheduler_calm_reconcileNormal scheduler_calm_reconcileDelete [OF assms];
     simp add: scheduler_deployable_updates scheduler_deployable_finalizers [OF assms])

lemma scheduler_calm_Reconcile:
  assumes "finalizers_only L" and "\<And>h i. o_GetScheduler L h req = Inr i \<Longrightarrow> scheduler_deployable L i"
  shows "\<exists>res t. scheduler_Reconcile L req s = (Next res, t)"
proof -
  have body: "calm (scheduler_deployable L) (with_deferred L (\<lambda>i. sst_Conditions (sch_Status i)) ManilaScheduler_updC EPatchScheduler (scheduler_body L b))" for b
    unfolding with_deferred_def deferred_def
    by (intro calm_rules calm_cond calm_patch scheduler_calm_body assms(1) scheduler_deployable_updates; assumption)
  show ?thesis
    by (rule reconcile_returns [OF scheduler_Reconcile_def, where J = "scheduler_deployable L"], erule assms(2))
      (unfold Let_def, (intro calm_rules calm_updI body scheduler_deployable_updates; assumption)+)
qed

section \<open>ManilaShare\<close>

lemma share_deployable_updates:
  "share_deployable L i \<Longrightarrow> share_deployable L (ManilaShare_updC f i)"
  "share_deployable L i \<Longrightarrow> share_deployable L (share_setHash h i)"
  "share_deployable L i \<Longrightarrow> share_deployable L (SetLastAppliedTopology share_topology t i)"
  "share_deployable L i \<Longrightarrow> share_deployable L (i\<lparr>shr_Status := st\<rparr>)"
  by (simp_all add: share_deployable_def ManilaShare_updC_def share_setHash_def share_topology_def ManilaShare_SetLastAppliedTopology_def ShareName_def)

lemma share_StatefulSet_panics: "share_deployable L i \<Longrightarrow> share_StatefulSet L i h ls ann topo mc \<noteq> None"
  by (auto simp: share_StatefulSet_def share_deployable_def Let_def split: sum.split option.split)

lemma share_calm_front:
  "calm (share_deployable L) (share_inputs L)" "calm (share_deployable L) (share_tls L)"
  "calm (share_deployable L) (share_config L)" "calm (share_deployable L) (share_topology_step L)"
  unfolding share_inputs_def share_tls_def share_config_def share_generateServiceConfig_def share_createHashOfInputHashes_def
    share_topology_step_def Let_def
  by (intro calm_rules calm_cond calm_helpers calm_ensureTopology calm_createHash share_deployable_updates; assumption)+

lemma share_calm_back:
  "calm (share_deployable L) (share_memcached L)" "calm (share_deployable L) (share_apply_statefulset L h ann topo mc)"
  "calm (share_deployable L) (share_network_status L)" "calm (share_deployable L) (share_rollout_status L h)"
  "calm (share_deployable L) (bindP (getI ManilaShare_IsReady) (\<lambda>ready. case ready of None \<Rightarrow> panic
      | Some b \<Rightarrow> thenP (whenP b (markTrue ManilaShare_updC ReadyCondition (LibMsg ''ReadyMessage''))) (ret (Result0, None))))"
proof -
  show "calm (share_deployable L) (share_memcached L)"
    unfolding share_memcached_def
    by (rule calm_getI, rule calm_some, simp add: share_deployable_def, intro calm_rules)
  show "calm (share_deployable L) (share_apply_statefulset L h ann topo mc)"
    unfolding share_apply_statefulset_def Let_def
    by (rule calm_getP, simp only: prod.case, rule calm_some, erule share_StatefulSet_panics)
      (intro calm_rules calm_cond share_deployable_updates; assumption)
  show "calm (share_deployable L) (share_network_status L)"
    unfolding share_network_status_def Let_def
    by (rule calm_getP, simp only: prod.case, rule calm_some, simp add: share_deployable_def)
      (intro calm_rules calm_cond calm_updI share_deployable_updates; assumption)
  show "calm (share_deployable L) (share_rollout_status L h)"
    unfolding share_rollout_status_def Let_def
    by (rule calm_getI, intro calm_bind calm_rules calm_some calm_cond calm_updI share_deployable_updates;
        (assumption | simp add: share_deployable_def))
  show "calm (share_deployable L) (bindP (getI ManilaShare_IsReady) (\<lambda>ready. case ready of None \<Rightarrow> panic
      | Some b \<Rightarrow> thenP (whenP b (markTrue ManilaShare_updC ReadyCondition (LibMsg ''ReadyMessage''))) (ret (Result0, None))))"
    by (rule calm_getI, rule calm_some, simp add: share_deployable_def ManilaShare_IsReady_def)
      (intro calm_rules calm_cond share_deployable_updates; assumption)
qed

lemma share_calm_reconcileNormal: "calm (share_deployable L) (share_reconcileNormal L)"
  unfolding share_reconcileNormal_def share_deploy_def share_finish_def
  by (intro calm_rules share_calm_front share_calm_back calm_helpers calm_updI share_deployable_updates; assumption)

lemma share_deployable_finalizers:
  assumes "finalizers_only L" "share_deployable L i"
  shows "share_deployable L (i\<lparr>shr_Meta := snd (l_AddFinalizer L (shr_Meta i) f)\<rparr>)"
    "share_deployable L (i\<lparr>shr_Meta := l_RemoveFinalizer L (shr_Meta i) f\<rparr>)"
  by (rule finalizers_only_update [OF assms(1), where P = "\<lambda>m. share_deployable L (i\<lparr>shr_Meta := m\<rparr>)"],
    use assms(2) in \<open>simp add: share_deployable_def GetOwningManilaName_def ShareName_def\<close>)+

lemma share_calm_reconcileDelete:
  assumes "finalizers_only L"
  shows "calm (share_deployable L) (share_reconcileDelete L)"
  unfolding share_reconcileDelete_def Let_def
  by (intro calm_rules calm_cond calm_updI share_deployable_updates share_deployable_finalizers [OF assms]; assumption)

lemma share_calm_body:
  assumes "finalizers_only L"
  shows "calm (share_deployable L) (share_body L b)"
  unfolding share_body_def Let_def
  by (intro calm_read_update calm_rules calm_cond calm_updI share_calm_reconcileNormal share_calm_reconcileDelete [OF assms];
     simp add: share_deployable_updates share_deployable_finalizers [OF assms])

lemma share_calm_Reconcile:
  assumes "finalizers_only L" and "\<And>h i. o_GetShare L h req = Inr i \<Longrightarrow> share_deployable L i"
  shows "\<exists>res t. share_Reconcile L req s = (Next res, t)"
proof -
  have body: "calm (share_deployable L) (with_deferred L (\<lambda>i. hst_Conditions (shr_Status i)) ManilaShare_updC EPatchShare (share_body L b))" for b
    unfolding with_deferred_def deferred_def
    by (intro calm_rules calm_cond calm_patch share_calm_body assms(1) share_deployable_updates; assumption)
  show ?thesis
    by (rule reconcile_returns [OF share_Reconcile_def, where J = "share_deployable L"], erule assms(2))
      (unfold Let_def, (intro calm_rules calm_updI body share_deployable_updates; assumption)+)
qed

section \<open>ManilaAPI\<close>

lemma api_deployable_updates:
  "api_deployable L i \<Longrightarrow> api_deployable L (ManilaAPI_updC f i)"
  "api_deployable L i \<Longrightarrow> api_deployable L (api_setHash h i)"
  "api_deployable L i \<Longrightarrow> api_deployable L (SetLastAppliedTopology api_topology t i)"
  "api_deployable L i \<Longrightarrow> api_deployable L (i\<lparr>api_Status := st\<rparr>)"
  by (simp_all add: api_deployable_def ManilaAPI_updC_def api_setHash_def api_topology_def ManilaAPI_SetLastAppliedTopology_def)

lemma api_StatefulSet_panics: "api_deployable L i \<Longrightarrow> api_StatefulSet L i h ls ann topo mc timeout \<noteq> None"
  by (auto simp: api_StatefulSet_def api_deployable_def Let_def split: sum.split option.split)

lemma api_calm_front:
  "calm (api_deployable L) (api_inputs L)" "calm (api_deployable L) (api_tls L)"
  "calm (api_deployable L) (api_config L)" "calm (api_deployable L) (api_topology_step L)"
  unfolding api_inputs_def api_tls_def api_config_def api_generateServiceConfig_def api_createHashOfInputHashes_def
    api_topology_step_def Let_def api_certs_def
  by (intro calm_rules calm_cond calm_helpers calm_ensureTopology calm_createHash api_deployable_updates; assumption)+

lemma api_calm_back:
  "calm (api_deployable L) (api_memcached L)" "calm (api_deployable L) (api_apply_statefulset L h ann topo mc)"
  "calm (api_deployable L) (api_network_status L)" "calm (api_deployable L) (api_rollout_status L h)"
  "calm (api_deployable L) (bindP (getI ManilaAPI_IsReady) (\<lambda>ready. case ready of None \<Rightarrow> panic
      | Some b \<Rightarrow> thenP (whenP b (markTrue ManilaAPI_updC ReadyCondition (LibMsg ''ReadyMessage''))) (ret (Result0, None))))"
proof -
  show "calm (api_deployable L) (api_memcached L)"
    unfolding api_memcached_def
    by (rule calm_getI, rule calm_some, simp add: api_deployable_def, intro calm_rules)
  show "calm (api_deployable L) (api_apply_statefulset L h ann topo mc)"
    unfolding api_apply_statefulset_def Let_def
    by (rule calm_getP, simp only: prod.case, rule calm_some, erule api_StatefulSet_panics)
      (intro calm_rules calm_cond api_deployable_updates; assumption)
  show "calm (api_deployable L) (api_network_status L)"
    unfolding api_network_status_def Let_def
    by (rule calm_getP, simp only: prod.case, rule calm_some, simp add: api_deployable_def)
      (intro calm_rules calm_cond calm_updI api_deployable_updates; assumption)
  show "calm (api_deployable L) (api_rollout_status L h)"
    unfolding api_rollout_status_def Let_def
    by (rule calm_getI, intro calm_bind calm_rules calm_some calm_cond calm_updI api_deployable_updates;
        (assumption | simp add: api_deployable_def))
  show "calm (api_deployable L) (bindP (getI ManilaAPI_IsReady) (\<lambda>ready. case ready of None \<Rightarrow> panic
      | Some b \<Rightarrow> thenP (whenP b (markTrue ManilaAPI_updC ReadyCondition (LibMsg ''ReadyMessage''))) (ret (Result0, None))))"
    by (rule calm_getI, rule calm_some, simp add: api_deployable_def ManilaAPI_IsReady_def)
      (intro calm_rules calm_cond api_deployable_updates; assumption)
qed

lemma api_calm_init: "calm (api_deployable L) (api_reconcileInit L)"
  unfolding api_reconcileInit_def api_expose_services_def api_expose_endpoint_def api_keystone_service_def api_endpoint_failed_def Let_def
  by (intro calm_rules calm_cond api_deployable_updates; assumption)

lemma api_calm_reconcileNormal: "calm (api_deployable L) (api_reconcileNormal L)"
  unfolding api_reconcileNormal_def api_deploy_def api_finish_def
  by (intro calm_rules api_calm_front api_calm_back api_calm_init calm_helpers calm_updI api_deployable_updates; assumption)

lemma api_deployable_finalizers:
  assumes "finalizers_only L" "api_deployable L i"
  shows "api_deployable L (i\<lparr>api_Meta := snd (l_AddFinalizer L (api_Meta i) f)\<rparr>)"
    "api_deployable L (i\<lparr>api_Meta := l_RemoveFinalizer L (api_Meta i) f\<rparr>)"
  by (rule finalizers_only_update [OF assms(1), where P = "\<lambda>m. api_deployable L (i\<lparr>api_Meta := m\<rparr>)"],
    use assms(2) in \<open>simp add: api_deployable_def GetOwningManilaName_def\<close>)+

lemma api_calm_reconcileDelete:
  assumes "finalizers_only L"
  shows "calm (api_deployable L) (api_reconcileDelete L)"
  unfolding api_reconcileDelete_def api_release_keystone_def Let_def
  by (intro calm_rules calm_cond calm_updI api_deployable_updates api_deployable_finalizers [OF assms]; assumption)

lemma api_calm_body:
  assumes "finalizers_only L"
  shows "calm (api_deployable L) (api_body L b)"
  unfolding api_body_def Let_def
  by (intro calm_read_update calm_rules calm_cond calm_updI api_calm_reconcileNormal api_calm_reconcileDelete [OF assms];
     simp add: api_deployable_updates api_deployable_finalizers [OF assms])

lemma api_calm_Reconcile:
  assumes "finalizers_only L" and "\<And>h i. o_GetAPI L h req = Inr i \<Longrightarrow> api_deployable L i"
  shows "\<exists>res t. api_Reconcile L req s = (Next res, t)"
proof -
  have body: "calm (api_deployable L) (with_deferred L (\<lambda>i. ast_Conditions (api_Status i)) ManilaAPI_updC EPatchAPI (api_body L b))" for b
    unfolding with_deferred_def deferred_def
    by (intro calm_rules calm_cond calm_patch api_calm_body assms(1) api_deployable_updates; assumption)
  show ?thesis
    by (rule reconcile_returns [OF api_Reconcile_def, where J = "api_deployable L"], erule assms(2))
      (unfold Let_def, (intro calm_rules calm_updI body api_deployable_updates; assumption)+)
qed

section \<open>Manila\<close>

text \<open>
  What the defaults of the resource definition and its validation leave in an instance: replica
  counts, and extra volumes whose source is one the pod specification knows.
\<close>

definition manila_deployable :: "lib \<Rightarrow> ManilaSpec \<Rightarrow> bool" where
  "manila_deployable L spec \<longleftrightarrow>
     atc_Replicas (at_Core (ms_ManilaAPI spec)) \<noteq> None \<and>
     stc_Replicas (sct_Core (ms_ManilaScheduler spec)) \<noteq> None \<and>
     list_all (\<lambda>(name, share). htc_Replicas (ht_Core share) \<noteq> None) (ms_ManilaShares spec) \<and>
     (\<forall>name svc. manila_GetVolumes L name (sb_ExtraMounts (ms_Base spec)) svc \<noteq> None)"

text \<open>Documented of \<open>CreateOrUpdate\<close>: the object it hands back is one the mutation was run on.\<close>

definition keeps_mutation :: "lib \<Rightarrow> bool" where
  "keeps_mutation L \<longleftrightarrow>
     (\<forall>h d f c op. o_CreateOrUpdateAPI L h d f = (c, op, None) \<longrightarrow> (\<exists>d'. api_Spec c = api_Spec (snd (f d')))) \<and>
     (\<forall>h d f c op. o_CreateOrUpdateScheduler L h d f = (c, op, None) \<longrightarrow> (\<exists>d'. sch_Spec c = sch_Spec (snd (f d')))) \<and>
     (\<forall>h d f c op. o_CreateOrUpdateShare L h d f = (c, op, None) \<longrightarrow> (\<exists>d'. shr_Spec c = shr_Spec (snd (f d'))))"

text \<open>Documented of the hash library: a hash is long enough to be cut into a job name.\<close>

definition full_hashes :: "lib \<Rightarrow> bool" where
  "full_hashes L \<longleftrightarrow> (\<forall>xs h. l_ObjectHash L xs = (h, None) \<longrightarrow> TruncateHash \<le> length h)"

lemma mutated_specs:
  "api_Spec (snd (api_mutate L m t n d)) = (let spec = manila_apiSpec m t in
     if notifications_bus m \<noteq> None then spec\<lparr>as_NotificationsURLSecret := n\<rparr> else spec)"
  "sch_Spec (snd (scheduler_mutate L m t n c)) = (let spec = manila_schedulerSpec m t in
     if notifications_bus m \<noteq> None then spec\<lparr>scs_NotificationsURLSecret := n\<rparr> else spec)"
  "shr_Spec (snd (share_mutate L m sh t n h)) = (let spec = manila_shareSpec m sh t in
     if notifications_bus m \<noteq> None then spec\<lparr>hs_NotificationsURLSecret := n\<rparr> else spec)"
  by (simp_all add: api_mutate_def scheduler_mutate_def share_mutate_def Let_def split_beta)

lemma mutated_ready:
  assumes "keeps_mutation L"
  shows "o_CreateOrUpdateAPI L h d (api_mutate L m t n) = (a, op, None) \<Longrightarrow>
      atc_Replicas (at_Core (ms_ManilaAPI (man_Spec m))) \<noteq> None \<Longrightarrow> ManilaAPI_IsReady a \<noteq> None"
    "o_CreateOrUpdateScheduler L h d' (scheduler_mutate L m t n) = (c, op, None) \<Longrightarrow>
      stc_Replicas (sct_Core (ms_ManilaScheduler (man_Spec m))) \<noteq> None \<Longrightarrow> ManilaScheduler_IsReady c \<noteq> None"
    "o_CreateOrUpdateShare L h d'' (share_mutate L m sh t n) = (s, op, None) \<Longrightarrow>
      htc_Replicas (ht_Core sh) \<noteq> None \<Longrightarrow> ManilaShare_IsReady s \<noteq> None"
proof -
  show "ManilaAPI_IsReady a \<noteq> None" if "o_CreateOrUpdateAPI L h d (api_mutate L m t n) = (a, op, None)"
    "atc_Replicas (at_Core (ms_ManilaAPI (man_Spec m))) \<noteq> None"
  proof -
    from that(1) assms obtain d' where "api_Spec a = api_Spec (snd (api_mutate L m t n d'))"
      unfolding keeps_mutation_def by blast
    with that(2) show ?thesis by (simp add: ManilaAPI_IsReady_def mutated_specs manila_apiSpec_def Let_def)
  qed
  show "ManilaScheduler_IsReady c \<noteq> None" if "o_CreateOrUpdateScheduler L h d' (scheduler_mutate L m t n) = (c, op, None)"
    "stc_Replicas (sct_Core (ms_ManilaScheduler (man_Spec m))) \<noteq> None"
  proof -
    from that(1) assms obtain d' where "sch_Spec c = sch_Spec (snd (scheduler_mutate L m t n d'))"
      unfolding keeps_mutation_def by blast
    with that(2) show ?thesis by (simp add: ManilaScheduler_IsReady_def mutated_specs manila_schedulerSpec_def Let_def)
  qed
  show "ManilaShare_IsReady s \<noteq> None" if "o_CreateOrUpdateShare L h d'' (share_mutate L m sh t n) = (s, op, None)"
    "htc_Replicas (ht_Core sh) \<noteq> None"
  proof -
    from that(1) assms obtain d' where "shr_Spec s = shr_Spec (snd (share_mutate L m sh t n d'))"
      unfolding keeps_mutation_def by blast
    with that(2) show ?thesis by (simp add: ManilaShare_IsReady_def mutated_specs manila_shareSpec_def Let_def)
  qed
qed

text \<open>The invariant of the run: the spec stays, and the hash map, once initialised, is never nil again.\<close>

definition manila_calm :: "ManilaSpec \<Rightarrow> Manila \<Rightarrow> bool" where
  "manila_calm spec m \<longleftrightarrow> man_Spec m = spec \<and> mst_Hash (man_Status m) \<noteq> None"

lemma manila_calm_updates:
  "manila_calm spec m \<Longrightarrow> manila_calm spec (Manila_updC f m)"
  "manila_calm spec m \<Longrightarrow> manila_calm spec (manila_setHash (Some h) m)"
  "manila_calm spec m \<Longrightarrow> manila_calm spec (set_NotificationsURLSecret v m)"
  "manila_calm spec m \<Longrightarrow> manila_calm spec (set_share_count name n m)"
  "manila_calm spec m \<Longrightarrow> manila_calm spec (m\<lparr>man_Meta := meta\<rparr>)"
  "manila_calm spec m \<Longrightarrow> mst_Hash st = mst_Hash (man_Status m) \<Longrightarrow> manila_calm spec (m\<lparr>man_Status := st\<rparr>)"
  by (simp_all add: manila_calm_def Manila_updC_def manila_setHash_def set_NotificationsURLSecret_def set_share_count_def)

lemma manila_calm_steps:
  "calm (manila_calm spec) (try_call ev answer)" "calm (manila_calm spec) (release_secret L fin n)"
  "calm (manila_calm spec) (manage_secret L fin n)" "calm (manila_calm spec) (prune_secrets L fin ns)"
  unfolding release_secret_def manage_secret_def prune_secrets_def try_call_def by (intro calm_rules)+

lemma manila_calm_front:
  "calm (manila_calm spec) (manila_rbac L)" "calm (manila_calm spec) (manila_transport L)"
  "calm (manila_calm spec) (manila_notifications L)" "calm (manila_calm spec) (manila_memcached L)"
  "calm (manila_calm spec) (manila_passwords L)" "calm (manila_calm spec) (manila_ac_finalizer L)"
  unfolding manila_rbac_def manila_transport_def manila_notifications_def manila_notifications_enabled_def
    transportURLCreateOrUpdate_def manila_memcached_def manila_passwords_def manila_ac_finalizer_def manila_config_failed_def Let_def
  by (intro calm_rules calm_cond calm_helpers calm_updI manila_calm_steps manila_calm_updates; (assumption | simp add: manila_calm_updates)?)+

lemma ensureDB_calm: "calm (manila_calm spec) (ensureDB L)"
  unfolding ensureDB_def ensureDB_failed_def ensureDB_running_def Let_def
  by (intro calm_rules calm_cond calm_updI manila_calm_updates; (assumption | simp add: manila_calm_updates))+

lemma manila_calm_database: "calm (manila_calm spec) (manila_database L)"
proof -
  have some: "db \<noteq> None" if "ensureDB L s = (Next (db, r, None), t)" for db r t s
    using that unfolding ensureDB_def
    by (auto simp: prog_simps Let_def ensureDB_failed_def ensureDB_running_def split: option.splits prod.splits if_splits)
  show ?thesis
    unfolding manila_database_def
    by (rule calm_bind_known [OF ensureDB_calm, where A = "\<lambda>(db, r, err). err = None \<longrightarrow> db \<noteq> None"])
      (use some in force, auto simp: calm_steps split: option.split)
qed

lemma manila_calm_config:
  assumes "lawful_SetHash L"
  shows "calm (manila_calm spec) (manila_config L mc db t n)"
proof -
  have hash: "calm (manila_calm spec) (manila_createHashOfInputHashes L)"
    unfolding manila_createHashOfInputHashes_def by (rule calm_createHash_some [OF assms], rule manila_calm_updates)
  show ?thesis
    unfolding manila_config_def manila_config_failed_def manila_generateServiceConfig_def manila_keystone_urls_def ac_parameters_def
      notifications_parameters_def Let_def
    by (intro calm_rules calm_cond calm_helpers hash manila_calm_updates; assumption)
qed

lemma manila_calm_init: "calm (manila_calm spec) (manila_init L)"
proof -
  have changed: "calm (manila_calm spec) (if c then (case mst_Hash (man_Status m) of None \<Rightarrow> panic
      | Some h \<Rightarrow> updI (manila_setHash (Some (h(DbSyncHash \<mapsto> v))))) else pureP ())" if "manila_calm spec m" for c m v
    using that by (auto simp: manila_calm_def [of _ m] calm_steps intro: calm_updI manila_calm_updates split: option.split)
  have sync: "calm (manila_calm spec) (manila_reconcileInit L a)" for a
    unfolding manila_reconcileInit_def Let_def
    by (rule calm_func, rule calm_getP, simp only: prod.case) (intro calm_rules calm_cond changed manila_calm_updates; assumption)
  show ?thesis
    unfolding manila_init_def by (intro calm_rules calm_cond calm_helpers sync manila_calm_updates; assumption)
qed

lemma manila_calm_prepare:
  "lawful_SetHash L \<Longrightarrow> calm (manila_calm spec) (manila_prepare L)"
  unfolding manila_prepare_def
  by (intro calm_rules manila_calm_front manila_calm_database manila_calm_config manila_calm_init)

lemma manila_calm_back:
  "calm (manila_calm spec) (manila_release_accounts L)" "calm (manila_calm spec) (manila_cronjob L ann)"
  "calm (manila_calm spec) (manila_rotation L t nurl g)" "calm (manila_calm spec) (manila_reconcileDelete L)"
  unfolding manila_release_accounts_def manila_cronjob_def manila_rotation_def manila_rotate_transport_def manila_rotate_notifications_def
    manila_rotate_ac_def manila_prune_def finalize_rotation_def transportURLDeleted_def manila_reconcileDelete_def
    delete_db_finalizer_def collect_transport_secrets_def Let_def
  by (intro calm_rules calm_cond calm_updI manila_calm_steps manila_calm_updates; (assumption | simp add: manila_calm_updates)?)+

lemma manila_calm_cleanup:
  assumes "full_hashes L"
  shows "calm (manila_calm spec) (manila_cleanup L ann)"
proof -
  have clean: "calm (manila_calm spec) (shareCleanup L)"
    unfolding shareCleanup_def shareCleanup_step_def Let_def
    by (intro calm_rules calm_updI; (assumption | simp add: manila_calm_updates))
  have failed: "\<exists>e. snd (snd r) = Some e" if "shareCleanup_step L x acc s = (Return r, t)" for x acc s r t
    using that by (cases acc) (auto simp: shareCleanup_step_def prog_simps Let_def split: if_splits option.splits)
  have swept: "\<exists>e. snd (snd r) = Some e" if "foldP (shareCleanup_step L) xs acc s = (Return r, t)" for xs acc s r t
    using fold_returns [where f = "shareCleanup_step L", OF failed that] .
  have long: "TruncateHash \<le> length h" if "shareCleanup L s = (Next (True, h, None), t)" for h s t
    using that assms unfolding shareCleanup_def SharesListHash_def full_hashes_def
    by (auto simp: prog_simps split: sum.splits option.splits prod.splits outcome.splits
        dest!: swept)
  show ?thesis
    unfolding manila_cleanup_def Let_def
  proof (rule calm_bind_known [OF clean, where A = "\<lambda>(b, h, err). b \<and> err = None \<longrightarrow> TruncateHash \<le> length h"], goal_cases)
    case (1 s a t)
    with long show ?case by force
  next
    case (2 a)
    then show ?case
      by (cases a) (simp add: calm_steps split: option.split, intro impI conjI calm_rules; simp)
  qed
qed

text \<open>The services: what \<^verbatim>\<open>CreateOrUpdate\<close> hands back has the replica count the readiness dereferences.\<close>

lemma all_ready_calm: "(a \<and> o' \<Longrightarrow> r \<noteq> None) \<Longrightarrow> calm J (all_ready a o' r)"
  by (auto simp: all_ready_def calm_steps split: option.split)

lemma manila_calm_children:
  assumes "keeps_mutation L" "manila_deployable L spec"
  shows "calm (manila_calm spec) (manila_deploy_api L t n h)" "calm (manila_calm spec) (manila_deploy_scheduler L t n h a)"
proof -
  have api: "ManilaAPI_IsReady c \<noteq> None"
    if "manila_calm spec (inst s)" "apiDeploymentCreateOrUpdate L t n s = (Next (c, op, None), s')" for s c op s'
    using that assms(2) unfolding apiDeploymentCreateOrUpdate_def Let_def
    by (auto simp del: not_None_eq simp: prog_simps manila_calm_def manila_deployable_def dest: mutated_ready(1) [OF assms(1)])
  have scheduler: "ManilaScheduler_IsReady c \<noteq> None"
    if "manila_calm spec (inst s)" "schedulerDeploymentCreateOrUpdate L t n s = (Next (c, op, None), s')" for s c op s'
    using that assms(2) unfolding schedulerDeploymentCreateOrUpdate_def Let_def
    by (auto simp del: not_None_eq simp: prog_simps manila_calm_def manila_deployable_def dest: mutated_ready(2) [OF assms(1)])
  have create: "calm (manila_calm spec) (apiDeploymentCreateOrUpdate L t n)" "calm (manila_calm spec) (schedulerDeploymentCreateOrUpdate L t n)"
    unfolding apiDeploymentCreateOrUpdate_def schedulerDeploymentCreateOrUpdate_def Let_def by (intro calm_rules)+
  have rest: "calm (manila_calm spec) (service_running ct)" "calm (manila_calm spec) (service_failed ct msg e)"
    "calm (manila_calm spec) (mirror_condition L cs ct)" for ct msg e cs
    unfolding service_running_def service_failed_def mirror_condition_def Let_def by (intro calm_rules calm_cond manila_calm_updates; assumption)+
  show "calm (manila_calm spec) (manila_deploy_api L t n h)"
    unfolding manila_deploy_api_def
    by (rule calm_bind_known [OF create(1), where A = "\<lambda>(c, op, err). err = None \<longrightarrow> ManilaAPI_IsReady c \<noteq> None"])
      (use api in force, auto simp del: not_None_eq intro!: rest calm_bind calm_updI all_ready_calm manila_calm_updates split: option.split)
  show "calm (manila_calm spec) (manila_deploy_scheduler L t n h a)"
    unfolding manila_deploy_scheduler_def
    by (rule calm_bind_known [OF create(2), where A = "\<lambda>(c, op, err). err = None \<longrightarrow> ManilaScheduler_IsReady c \<noteq> None"])
      (use scheduler in force, auto simp del: not_None_eq intro!: rest calm_bind calm_updI all_ready_calm manila_calm_updates split: option.split)
qed

lemma manila_calm_share:
  assumes "keeps_mutation L" "manila_deployable L spec" "name \<in> fst ` set (ms_ManilaShares spec)"
  shows "calm (manila_calm spec) (manila_deploy_share L t n h name acc)"
proof -
  from assms(3) obtain sh where sh: "map_of (ms_ManilaShares spec) name = Some sh"
    by (metis domD dom_map_of_conv_image_fst)
  with assms(2) have replicas: "htc_Replicas (ht_Core sh) \<noteq> None"
    by (auto simp: manila_deployable_def list_all_iff dest: map_of_SomeD)
  have answer: "ManilaShare_IsReady c \<noteq> None"
    if "shareDeploymentCreateOrUpdate L name sh t n s = (Next (c, op, None), s')" for s c op s'
    using that replicas unfolding shareDeploymentCreateOrUpdate_def Let_def
    by (auto simp del: not_None_eq simp: prog_simps dest: mutated_ready(3) [OF assms(1)])
  have create: "calm (manila_calm spec) (shareDeploymentCreateOrUpdate L name sh t n)"
    unfolding shareDeploymentCreateOrUpdate_def Let_def by (intro calm_rules)
  have failed: "calm (manila_calm spec) (service_failed ct msg e)" for ct msg and e
    unfolding service_failed_def by (intro calm_rules calm_cond manila_calm_updates; assumption)
  obtain ready shareCondition where acc: "acc = (ready, shareCondition)" by fastforce
  have run: "calm (manila_calm spec) (bindP (shareDeploymentCreateOrUpdate L name sh t n) (\<lambda>(c, op0, err).
     case err of
       Some e \<Rightarrow> service_failed ManilaShareReadyCondition ManilaShareReadyErrorMessage e
     | None \<Rightarrow>
         if share_observed c h then
           thenP (updI (set_share_count name (hst_ReadyCount (shr_Status c))))
           (bindP (all_ready ready True (ManilaShare_IsReady c)) (\<lambda>allServicesReady'.
            case ManilaShare_IsReady c of
              None \<Rightarrow> panic
            | Some True \<Rightarrow> pureP (allServicesReady', shareCondition)
            | Some False \<Rightarrow>
                pureP (allServicesReady', l_GetHigherPrioCondition L
                  (l_Mirror L (hst_Conditions (shr_Status c)) ManilaShareReadyCondition) shareCondition)))
         else
           pureP (False, l_GetHigherPrioCondition L
             (Some (FalseCondition ManilaShareReadyCondition RequestedReason SeverityInfo
               (LibMsg ''DeploymentReadyRunningMessage'') [])) shareCondition)))"
  proof (rule calm_bind_known [OF create, where A = "\<lambda>(c, op, err). err = None \<longrightarrow> ManilaShare_IsReady c \<noteq> None"], goal_cases)
    case (1 s a s')
    with answer show ?case by force
  next
    case (2 a)
    then show ?case
      by (cases a) (auto simp: failed calm_steps intro!: calm_bind calm_updI manila_calm_updates all_ready_calm split: option.split bool.split)
  qed
  show ?thesis
    unfolding manila_deploy_share_def acc prod.case
    by (rule calm_getI, subst (asm) manila_calm_def) (use run sh in \<open>simp add: share_spec_of_def\<close>)
qed

lemma manila_calm_services:
  assumes "keeps_mutation L" "manila_deployable L spec"
  shows "calm (manila_calm spec) (manila_services L t n)"
proof -
  have "calm (manila_calm spec) (foldP (manila_deploy_share L t n h) (sorted_keys (ms_ManilaShares (man_Spec m))) acc)"
    if "manila_calm spec m" for h m acc
    using that by (intro calm_fold_in manila_calm_share assms) (simp add: manila_calm_def)
  then have shares: "calm (manila_calm spec) (manila_deploy_shares L t n h ready)" for h ready
    unfolding manila_deploy_shares_def
    by (intro calm_getI calm_bind [OF _ calm_case(3)] calm_bind calm_if calm_steps calm_cond manila_calm_updates; assumption?)
  show ?thesis
    unfolding manila_services_def
    by (intro calm_rules shares manila_calm_children [OF assms] manila_calm_back)
qed
lemma manila_calm_reconcileNormal:
  assumes "lawful_SetHash L" "keeps_mutation L" "full_hashes L" "manila_deployable L spec"
  shows "calm (manila_calm spec) (manila_reconcileNormal L)"
  unfolding manila_reconcileNormal_def
  by (intro calm_rules calm_cond manila_calm_prepare manila_calm_services manila_calm_back manila_calm_cleanup assms manila_calm_updates; assumption)

lemma manila_calm_body:
  assumes "lawful_SetHash L" "keeps_mutation L" "full_hashes L"
  shows "calm (\<lambda>m. manila_deployable L (man_Spec m)) (manila_body L b)"
proof -
  let ?J = "\<lambda>m. manila_deployable L (man_Spec m)"
  have run: "calm ?J (thenP (updI (\<lambda>m. if mst_Hash (man_Status m) = None then manila_setHash (Some Map.empty) m else m))
      (thenP (updI (\<lambda>m. if mst_ManilaSharesReadyCounts (man_Status m) = None
                  then m\<lparr>man_Status := (man_Status m)\<lparr>mst_ManilaSharesReadyCounts := Some Map.empty\<rparr>\<rparr> else m))
         (if d then manila_reconcileDelete L else manila_reconcileNormal L)))" for d
    by (rule calm_sharpen [where good = "manila_deployable L" and K = manila_calm])
      (auto simp: manila_calm_def manila_setHash_def intro!: calm_bind calm_updI calm_if
        manila_calm_back manila_calm_reconcileNormal [OF assms] manila_calm_updates [unfolded manila_calm_def])
  show ?thesis
    unfolding manila_body_def Let_def
    by (intro calm_getI calm_bind calm_rules run) (simp_all add: calm_cond calm_updI calm_when Manila_updC_def)
qed

lemma manila_calm_Reconcile:
  assumes "lawful_SetHash L" "keeps_mutation L" "full_hashes L"
    and "\<And>h m. o_GetManila L h req = Inr m \<Longrightarrow> manila_deployable L (man_Spec m)"
  shows "\<exists>res t. manila_Reconcile L req s = (Next res, t)"
proof -
  let ?J = "\<lambda>m. manila_deployable L (man_Spec m)"
  have upd: "?J m \<Longrightarrow> ?J (Manila_updC f m)" for f m by (simp add: Manila_updC_def)
  have body: "calm ?J (with_deferred L (\<lambda>m. mst_Conditions (man_Status m)) Manila_updC EPatchManila (manila_body L b))" for b
    unfolding with_deferred_def deferred_def
    by (intro calm_rules calm_cond calm_patch manila_calm_body assms(1-3) upd; assumption)
  show ?thesis
    by (rule reconcile_returns [OF manila_Reconcile_def, where J = ?J], erule assms(4))
      (unfold Let_def, (intro calm_rules calm_updI body upd; assumption)+)
qed

section \<open>No controller panics\<close>

text \<open>
  A child whose spec the instance controller wrote from a deployable instance has all its own
  controller dereferences.
\<close>

definition api_written :: "lib \<Rightarrow> ManilaAPI \<Rightarrow> bool" where
  "api_written L a \<longleftrightarrow> (\<exists>m t n d. manila_deployable L (man_Spec m) \<and> api_Spec a = api_Spec (snd (api_mutate L m t n d)))"

definition scheduler_written :: "lib \<Rightarrow> ManilaScheduler \<Rightarrow> bool" where
  "scheduler_written L c \<longleftrightarrow> (\<exists>m t n d. manila_deployable L (man_Spec m) \<and> sch_Spec c = sch_Spec (snd (scheduler_mutate L m t n d)))"

definition share_written :: "lib \<Rightarrow> ManilaShare \<Rightarrow> bool" where
  "share_written L h \<longleftrightarrow> (\<exists>m name sh t n d. manila_deployable L (man_Spec m) \<and>
     map_of (ms_ManilaShares (man_Spec m)) name = Some sh \<and> shr_Spec h = shr_Spec (snd (share_mutate L m sh t n d)))"

lemma written_deployable:
  "api_written L a \<Longrightarrow> api_deployable L a"
  "scheduler_written L c \<Longrightarrow> scheduler_deployable L c"
  "share_written L h \<Longrightarrow> share_deployable L h"
  by (auto simp: api_written_def scheduler_written_def share_written_def manila_deployable_def
      api_deployable_def scheduler_deployable_def share_deployable_def api_GetVolumes_def scheduler_GetVolumes_def share_GetVolumes_def
      mutated_specs manila_apiSpec_def manila_schedulerSpec_def manila_shareSpec_def Let_def list_all_iff
      dest!: map_of_SomeD split: option.split)

text \<open>
  An instance whose objects are what the mutation makes of them, and whose children are the ones it
  wrote.
\<close>

definition demo_honest :: lib where
  "demo_honest = demo_lib\<lparr>o_CreateOrUpdateAPI := \<lambda>h d f. (snd (f d), OperationResultNone, None),
     o_CreateOrUpdateScheduler := \<lambda>h d f. (snd (f d), OperationResultNone, None),
     o_CreateOrUpdateShare := \<lambda>h d f. (snd (f d), OperationResultNone, None),
     o_GetAPI := \<lambda>h req. Inr (snd (api_mutate demo_lib demo_manila ''t'' ''n'' demo_api)),
     o_GetScheduler := \<lambda>h req. Inr (snd (scheduler_mutate demo_lib demo_manila ''t'' ''n'' demo_scheduler)),
     o_GetShare := \<lambda>h req. Inr (snd (share_mutate demo_lib demo_manila demo_share_template ''t'' ''n'' (demo_share ''a'')))\<rparr>"

lemma demo_honest_laws: "lawful_SetHash demo_honest" "keeps_mutation demo_honest" "full_hashes demo_honest" "finalizers_only demo_honest"
proof -
  show "lawful_SetHash demo_honest" using demo_lawful_SetHash by (simp add: lawful_SetHash_def demo_honest_def)
  show "keeps_mutation demo_honest" by (auto simp: keeps_mutation_def demo_honest_def)
  show "full_hashes demo_honest" by (auto simp: full_hashes_def demo_honest_def demo_defs TruncateHash_def)
  have self: "\<exists>fs. m = m\<lparr>om_Finalizers := fs\<rparr>" for m :: ObjectMeta
    by (rule exI [of _ "om_Finalizers m"]) simp
  show "finalizers_only demo_honest"
    by (auto simp: finalizers_only_def demo_honest_def demo_defs demo_AddFinalizer_def demo_RemoveFinalizer_def intro: self)
qed

lemma demo_honest_deployable: "manila_deployable demo_honest (man_Spec demo_manila)"
  by (simp add: manila_deployable_def demo_manila_def demo_spec_def demo_api_template_def demo_scheduler_template_def
      demo_share_template_def manila_GetVolumes_def)

lemma demo_honest_reads:
  "o_GetManila demo_honest h req = Inr m \<Longrightarrow> manila_deployable demo_honest (man_Spec m)"
  "o_GetAPI demo_honest h req = Inr a \<Longrightarrow> api_written demo_honest a"
  "o_GetScheduler demo_honest h req = Inr c \<Longrightarrow> scheduler_written demo_honest c"
  "o_GetShare demo_honest h req = Inr sh \<Longrightarrow> share_written demo_honest sh"
proof -
  show "manila_deployable demo_honest (man_Spec m)" if "o_GetManila demo_honest h req = Inr m"
    using that demo_honest_deployable by (simp add: demo_honest_def demo_lib_def purelib.defs)
  show "api_written demo_honest a" if "o_GetAPI demo_honest h req = Inr a"
    unfolding api_written_def
    by (rule exI [of _ demo_manila], rule exI [of _ "''t''"], rule exI [of _ "''n''"], rule exI [of _ demo_api])
      (use that demo_honest_deployable in \<open>auto simp: demo_honest_def mutated_specs\<close>)
  show "scheduler_written demo_honest c" if "o_GetScheduler demo_honest h req = Inr c"
    unfolding scheduler_written_def
    by (rule exI [of _ demo_manila], rule exI [of _ "''t''"], rule exI [of _ "''n''"], rule exI [of _ demo_scheduler])
      (use that demo_honest_deployable in \<open>auto simp: demo_honest_def mutated_specs\<close>)
  show "share_written demo_honest sh" if "o_GetShare demo_honest h req = Inr sh"
    unfolding share_written_def
    by (rule exI [of _ demo_manila], rule exI [of _ "''a''"], rule exI [of _ demo_share_template], rule exI [of _ "''t''"],
        rule exI [of _ "''n''"], rule exI [of _ "demo_share ''a''"])
      (use that demo_honest_deployable in \<open>auto simp: demo_honest_def mutated_specs demo_manila_def demo_spec_def\<close>)
qed

text \<open>C5: Reconcile of the instance controller always returns a result, whatever the cluster answers to its calls and in whatever order: with the replica counts and the known volume sources that the validation leaves in a spec, no nil pointer and no short hash is ever met, in no phase, on no error path and not in the deferred exit. Relied on: SetHash stores the map it reports as changed, CreateOrUpdate hands back the mutated object, and a hash is at least eight characters long.\<close>

theorem manila_Reconcile_returns:
  assumes "lawful_SetHash L" "keeps_mutation L" "full_hashes L"
    and "\<And>h m. o_GetManila L h req = Inr m \<Longrightarrow> manila_deployable L (man_Spec m)"
  shows "\<exists>res t. manila_Reconcile L req s = (Next res, t)"
  using manila_calm_Reconcile [OF assms] .

theorem manila_Reconcile_returns_witness:
  "\<exists>res t. manila_Reconcile demo_honest demo_req (demo_state demo_manila) = (Next res, t)"
  by (rule manila_Reconcile_returns [OF demo_honest_laws(1-3)]) (rule demo_honest_reads)

text \<open>C13: Reconcile of the three service controllers always returns a result on a resource whose spec the instance controller wrote from a deployable instance, whatever the cluster answers: replicas, memcached instance and volume sources, which their code dereferences unchecked, are always there. Relied on: the finalizer helpers touch the finalizers only.\<close>

theorem children_Reconcile_return:
  assumes "finalizers_only L"
    and "\<And>h a. o_GetAPI L h req = Inr a \<Longrightarrow> api_written L a"
    and "\<And>h c. o_GetScheduler L h req = Inr c \<Longrightarrow> scheduler_written L c"
    and "\<And>h sh. o_GetShare L h req = Inr sh \<Longrightarrow> share_written L sh"
  shows "(\<exists>res t. api_Reconcile L req s = (Next res, t)) \<and> (\<exists>res t. scheduler_Reconcile L req s' = (Next res, t)) \<and>
    (\<exists>res t. share_Reconcile L req s'' = (Next res, t))"
proof (intro conjI)
  show "\<exists>res t. api_Reconcile L req s = (Next res, t)"
    by (rule api_calm_Reconcile [OF assms(1)]) (erule written_deployable(1) [OF assms(2)])
  show "\<exists>res t. scheduler_Reconcile L req s' = (Next res, t)"
    by (rule scheduler_calm_Reconcile [OF assms(1)]) (erule written_deployable(2) [OF assms(3)])
  show "\<exists>res t. share_Reconcile L req s'' = (Next res, t)"
    by (rule share_calm_Reconcile [OF assms(1)]) (erule written_deployable(3) [OF assms(4)])
qed

theorem children_Reconcile_return_witness:
  "(\<exists>res t. api_Reconcile demo_honest demo_req (demo_state demo_api) = (Next res, t)) \<and>
   (\<exists>res t. scheduler_Reconcile demo_honest demo_req (demo_state demo_scheduler) = (Next res, t)) \<and>
   (\<exists>res t. share_Reconcile demo_honest demo_req (demo_state (demo_share ''a'')) = (Next res, t))"
  by (rule children_Reconcile_return [OF demo_honest_laws(4)]) (fact demo_honest_reads)+

end
