(* ===== verification/ManilaProgress.thy ===== *)
theory ManilaProgress
  imports NoPanic
begin

text \<open>
  Progress of the instance controller: on a cluster where its calls succeed, every run of its loop
  ends well; once the inputs of the configuration are on record, a run reaches the rotation of the
  credentials, and once the services report the rollout of what the instance wrote, the rotation
  completes.
\<close>

section \<open>A healthy cluster\<close>

text \<open>
  What the calls of the instance controller answer where they succeed. A child has the replica
  count that its schema defaults, whether or not it is rolled out; that is said apart.
\<close>

definition manila_healthy :: "lib \<Rightarrow> bool" where
  "manila_healthy L \<longleftrightarrow> healthy L \<and> full_hashes L \<and> l_const L ''common.InputHashName'' \<noteq> DbSyncHash \<and>
     (\<forall>h m r. snd (o_ReconcileRbac L h m r) = (Result0, None)) \<and>
     (\<forall>h tu f. snd (snd (o_CreateOrUpdateTransportURL L h tu f)) = None) \<and>
     (\<forall>h tu f. tu_SecretName (fst (o_CreateOrUpdateTransportURL L h tu f)) \<noteq> '''') \<and>
     (\<forall>h ns n f. o_ManageConsumerFinalizer L h ns n f = None) \<and>
     (\<forall>h ns n f. o_RemoveConsumerFinalizer L h ns n f = None) \<and>
     (\<forall>h ns f keep. o_PruneConsumerFinalizers L h ns f keep = None) \<and>
     (\<forall>h kind ns n. o_Delete L h kind ns n = None) \<and>
     (\<forall>h n ns. mc_IsReady (projr (o_GetMemcached L h n ns))) \<and>
     (\<forall>h a ns p. o_EnsureMariaDBAccount L h a ns p = None) \<and>
     (\<forall>h r. o_CreateOrPatchDB L h r = (Result0, None)) \<and>
     (\<forall>h r. o_WaitForDBCreated L h r = (Result0, None)) \<and>
     (\<forall>h ns. \<not> isl (o_GetKeystoneAPI L h ns)) \<and>
     (\<forall>h ns e. \<not> isl (ka_Endpoint (projr (o_GetKeystoneAPI L h ns)) e)) \<and>
     (\<forall>h j n p d v. fst (o_DoJob L h j n p d v) = Result0) \<and>
     (\<forall>h j n p d v. fst (snd (o_DoJob L h j n p d v)) = None) \<and>
     (\<forall>h d f. snd (snd (o_CreateOrUpdateAPI L h d f)) = None) \<and>
     (\<forall>h d f. snd (snd (o_CreateOrUpdateScheduler L h d f)) = None) \<and>
     (\<forall>h d f. snd (snd (o_CreateOrUpdateShare L h d f)) = None) \<and>
     (\<forall>h d f. ManilaAPI_IsReady (fst (o_CreateOrUpdateAPI L h d f)) \<noteq> None) \<and>
     (\<forall>h d f. ManilaScheduler_IsReady (fst (o_CreateOrUpdateScheduler L h d f)) \<noteq> None) \<and>
     (\<forall>h d f. ManilaShare_IsReady (fst (o_CreateOrUpdateShare L h d f)) \<noteq> None) \<and>
     (\<forall>h ns a. o_DeleteUnusedAccountFinalizers L h ns a = None) \<and>
     (\<forall>h c d. snd (o_CronJobCreateOrPatch L h c d) = None) \<and>
     (\<forall>h ns old new f g. \<not> isl (o_FinalizeSecretRotation L h ns old new f g))"

lemma triple_form: "snd (snd p) = b \<Longrightarrow> p = (fst p, fst (snd p), b)"
  by (cases p) simp

lemma manila_answers:
  assumes "manila_healthy L"
  shows "o_ReconcileRbac L h m r = (fst (hidden (o_ReconcileRbac L) h m r), Result0, None)"
    "o_CreateOrUpdateTransportURL L h tu f = (fst (hidden (o_CreateOrUpdateTransportURL L) h tu f),
       fst (snd (hidden (o_CreateOrUpdateTransportURL L) h tu f)), None)"
    "o_ManageConsumerFinalizer L h ns n fin = None" "o_RemoveConsumerFinalizer L h ns n fin = None"
    "o_PruneConsumerFinalizers L h ns fin keep = None" "o_Delete L h kind ns n = None"
    "o_EnsureMariaDBAccount L h a ns p = None" "o_CreateOrPatchDB L h req = (Result0, None)"
    "o_WaitForDBCreated L h req = (Result0, None)"
    "o_GetKeystoneAPI L h ns = Inr (projr (hidden (o_GetKeystoneAPI L) h ns))"
    "ka_Endpoint (projr (hidden (o_GetKeystoneAPI L) h ns)) e = Inr (projr (hidden (ka_Endpoint (projr (hidden (o_GetKeystoneAPI L) h ns))) e))"
    "o_DoJob L h j n pr d v = (Result0, None, snd (snd (hidden (o_DoJob L) h j n pr d v)))"
    "o_CreateOrUpdateAPI L h da fa = (fst (hidden (o_CreateOrUpdateAPI L) h da fa), fst (snd (hidden (o_CreateOrUpdateAPI L) h da fa)), None)"
    "o_CreateOrUpdateScheduler L h dc fc = (fst (hidden (o_CreateOrUpdateScheduler L) h dc fc), fst (snd (hidden (o_CreateOrUpdateScheduler L) h dc fc)), None)"
    "o_CreateOrUpdateShare L h ds fs = (fst (hidden (o_CreateOrUpdateShare L) h ds fs), fst (snd (hidden (o_CreateOrUpdateShare L) h ds fs)), None)"
    "o_DeleteUnusedAccountFinalizers L h ns a = None"
    "o_CronJobCreateOrPatch L h cj d = (fst (hidden (o_CronJobCreateOrPatch L) h cj d), None)"
    "o_FinalizeSecretRotation L h ns old new fin g = Inr (projr (hidden (o_FinalizeSecretRotation L) h ns old new fin g))"
  using assms by (simp_all add: manila_healthy_def hidden_def prod_form triple_form sum_form prod_eq_iff)

lemma manila_healthy_base: "manila_healthy L \<Longrightarrow> healthy L" "manila_healthy L \<Longrightarrow> full_hashes L"
  by (simp_all add: manila_healthy_def)

lemma manila_values:
  assumes "manila_healthy L"
  shows "tu_SecretName (fst (hidden (o_CreateOrUpdateTransportURL L) h tu f)) \<noteq> ''''"
    "mc_IsReady (projr (hidden (o_GetMemcached L) h n ns))"
    "ManilaAPI_IsReady (fst (hidden (o_CreateOrUpdateAPI L) h da fa)) \<noteq> None"
    "ManilaScheduler_IsReady (fst (hidden (o_CreateOrUpdateScheduler L) h dc fc)) \<noteq> None"
    "ManilaShare_IsReady (fst (hidden (o_CreateOrUpdateShare L) h ds fs)) \<noteq> None"
  using assms by (simp_all add: manila_healthy_def hidden_def)

text \<open>The application credential of the spec, where there is one, has both of its keys.\<close>

definition credential_usable :: "lib \<Rightarrow> Manila \<Rightarrow> bool" where
  "credential_usable L m \<longleftrightarrow> manila_ac_secret m = '''' \<or>
     (\<forall>h. case o_GetSecret L h (manila_ac_secret m) (manila_ns m) of
        Inl e \<Rightarrow> True
      | Inr (sec, _) \<Rightarrow>
          (case map_of (sec_Data sec) (l_const L ''keystonev1.ACIDSecretKey'') of Some v \<Rightarrow> v \<noteq> '''' | None \<Rightarrow> False) \<and>
          (case map_of (sec_Data sec) (l_const L ''keystonev1.ACSecretSecretKey'') of Some v \<Rightarrow> v \<noteq> '''' | None \<Rightarrow> False))"

section \<open>The phases go on\<close>

lemma manila_front_goes:
  assumes "manila_healthy L"
  shows "goes (manila_rbac L)" "goes (manila_transport L)" "goes (manila_notifications L)"
    "goes (manila_memcached L)" "goes (manila_passwords L)" "goes (manila_database L)" "goes (manila_ac_finalizer L)"
proof -
  note a = manila_answers [OF assms] healthy_answers [OF manila_healthy_base(1) [OF assms]]
    healthy_helpers [OF manila_healthy_base(1) [OF assms]] manila_values [OF assms]
  have conds: "goes (forP conds (\<lambda>c. condP Manila_updC (CSet (Some c)))
      :: (Manila st, reconcile_result, unit) prog)" for conds
    by (rule goes_for) (simp add: goes_def prog_simps)
  show "goes (manila_rbac L)"
    by (simp add: goes_def manila_rbac_def run_bindP run_getI run_call a goes_run [OF conds] run_pureP)
  show "goes (manila_transport L)" "goes (manila_memcached L)" "goes (manila_passwords L)" "goes (manila_ac_finalizer L)"
    by (simp_all add: goes_def manila_transport_def transportURLCreateOrUpdate_def manila_memcached_def manila_passwords_def
        manila_ac_finalizer_def manage_secret_def try_call_def prog_simps Let_def a)
  show "goes (manila_notifications L)"
    by (simp add: goes_def manila_notifications_def manila_notifications_enabled_def transportURLCreateOrUpdate_def
      manage_secret_def try_call_def prog_simps Let_def a split: option.split)
  show "goes (manila_database L)"
    by (simp add: goes_def manila_database_def ensureDB_def prog_simps Let_def a)
qed

lemma manila_generate_goes:
  assumes "manila_healthy L" and "credential_usable L (inst s)"
  shows "\<exists>t. manila_generateServiceConfig L mc db t0 n s = (Next None, t)"
proof -
  note h = healthy_answers [OF manila_healthy_base(1) [OF assms(1)]]
  note a = manila_answers [OF assms(1)] h
  let ?ac = "manila_ac_secret (inst s)"
  have ac: "\<exists>p t. ac_parameters L u = (Next p, t)" if "inst u = inst s" for u
  proof (cases "?ac = ''''")
    case True
    with that show ?thesis by (simp add: ac_parameters_def prog_simps Let_def manila_ac_secret_def)
  next
    case False
    obtain sec d where sec: "o_GetSecret L (trace u) ?ac (manila_ns (inst s)) = Inr (sec, d)"
      using h(2) [of "trace u" ?ac "manila_ns (inst s)"] by (metis surj_pair)
    with assms(2) False have keys: "case map_of (sec_Data sec) (l_const L ''keystonev1.ACIDSecretKey'') of Some v \<Rightarrow> v \<noteq> '''' | None \<Rightarrow> False"
      "case map_of (sec_Data sec) (l_const L ''keystonev1.ACSecretSecretKey'') of Some v \<Rightarrow> v \<noteq> '''' | None \<Rightarrow> False"
      unfolding credential_usable_def by (auto dest: spec [of _ "trace u"])
    with False sec that show ?thesis
      by (auto simp: ac_parameters_def get_secret_def prog_simps Let_def manila_ac_secret_def manila_ns_def split: option.splits)
  qed
  have bus: "\<exists>p t. notifications_parameters L d n u = (Next p, t)" for d u
    by (simp add: notifications_parameters_def get_secret_def prog_simps a split_def)
  have run: "m u = (Next (next_of (hidden m u)), snd (hidden m u))" if "\<exists>p t. m u = (Next p, t)"
    for m :: "(Manila st, gerr option, (string \<rightharpoonup> tval)) prog" and u
    using that by (auto simp: hidden_def)
  show ?thesis
    by (simp add: manila_generateServiceConfig_def manila_keystone_urls_def prog_simps Let_def get_secret_def a
        run [where m = "ac_parameters L", OF ac] run [where m = "notifications_parameters L d n" for d, OF bus] split: prod.split)
qed

text \<open>
  The configuration phase: it ends with a changed hash of the inputs on record, or goes on where the
  one on record is that of the inputs. The hash map is never nil again.
\<close>

lemma manila_config_goes:
  assumes "manila_healthy L" "lawful_SetHash L" "credential_usable L (inst s)"
    and g: "manila_generateServiceConfig L mc db t0 n s = (Next None, t)" and h: "l_ObjectHashEnvs L (cfgVars t) = (h, None)"
  shows "stored_hash L (manila_Hash (inst (snd (manila_config L mc db t0 n s)))) h \<and>
    ((\<exists>u. manila_config L mc db t0 n s = (Return (Result0, None), u)) \<or> (\<exists>u. manila_config L mc db t0 n s = (Next (), u))) \<and>
    (stored_hash L (manila_Hash (inst t)) h \<longrightarrow> (\<exists>u. manila_config L mc db t0 n s = (Next (), u)))"
proof -
  have upd: "manila_Hash (Manila_updC f i) = manila_Hash i" for f i
    by (simp add: manila_Hash_def Manila_updC_def)
  obtain m c where "l_SetHash L (manila_Hash (inst t)) (l_const L ''common.InputHashName'') h = (m, c)" by fastforce
  with SetHash_records [OF assms(2) this] show ?thesis
    using g by (cases c) (auto simp: manila_config_def manila_createHashOfInputHashes_def prog_simps upd h
        manilaH.run_createHash manilaH.get_set)
qed

lemma manila_init_goes:
  assumes "manila_healthy L" and "manila_Hash (inst s) \<noteq> None"
  shows "\<exists>ann t. manila_init L s = (Next ann, t) \<and> stored_hash L (manila_Hash (inst t)) = stored_hash L (manila_Hash (inst s))"
proof -
  note a = manila_answers [OF assms(1)]
  have apart: "l_const L ''common.InputHashName'' \<noteq> DbSyncHash" using assms(1) by (simp add: manila_healthy_def)
  have sync: "\<exists>t. manila_reconcileInit L ann u = (Next (Result0, None), t) \<and>
      stored_hash L (manila_Hash (inst t)) = stored_hash L (manila_Hash (inst u))"
    if u: "manila_Hash (inst u) \<noteq> None" for ann u
  proof -
    from u obtain f where f: "mst_Hash (man_Status (inst u)) = Some f" by (auto simp: manila_Hash_def)
    have stored: "stored_hash L (Some g) h \<longleftrightarrow> g (l_const L ''common.InputHashName'') = Some h" for g h
      by (simp add: stored_hash_def)
    from f apart show ?thesis
      by (auto simp: manila_reconcileInit_def manila_Hash_def prog_simps Let_def a Manila_updC_def
          manila_setHash_def stored fun_eq_iff split: prod.splits option.splits)
  qed
  let ?s = "s\<lparr>inst := Manila_updC (cond_do (CMarkTrue ServiceConfigReadyCondition (LibMsg ''ServiceConfigReadyMessage''))) (inst s)\<rparr>"
  let ?nads = "st_NetworkAttachments (atc_ServiceTemplate (at_Core (ms_ManilaAPI (man_Spec (inst ?s)))))"
  obtain ann t where n: "(ensureNAD L Manila_updC (manila_ns (inst ?s)) ?nads :: (Manila st, reconcile_result, _) prog) ?s =
      (Next (ann, Result0, None), t)"
    using helpers_go(3) [OF manila_healthy_base(1) [OF assms(1)]] by blast
  have k: "keepsI manila_Hash (ensureNAD L Manila_updC ns names :: (Manila st, reconcile_result, _) prog)" for ns names
    by (intro keepsI_helpers) (simp add: manila_Hash_def Manila_updC_def)
  have upd: "manila_Hash (Manila_updC f i) = manila_Hash i" for f i by (simp add: manila_Hash_def Manila_updC_def)
  let ?t = "t\<lparr>inst := Manila_updC (cond_do (CMarkTrue NetworkAttachmentsReadyCondition (LibMsg ''NetworkAttachmentsReadyMessage''))) (inst t)\<rparr>"
  have h: "manila_Hash (inst ?t) = manila_Hash (inst s)"
    using keepsI_run [OF k n] by (simp add: upd)
  from sync [of ?t ann] assms(2) obtain v where "manila_reconcileInit L ann ?t = (Next (Result0, None), v)"
    "stored_hash L (manila_Hash (inst v)) = stored_hash L (manila_Hash (inst s))" unfolding h by blast
  with n show ?thesis by (auto simp: manila_init_def prog_simps)
qed

section \<open>The services\<close>

text \<open>
  From some point of the history on, the cluster answers every write of a child with the child
  rolled out: its controller has seen the generation and applied the secrets it was given. An instance
  without a notifications bus gives its children no notifications secret.
\<close>

definition bus_given :: "Manila \<Rightarrow> string \<Rightarrow> bool" where
  "bus_given m n \<longleftrightarrow> notifications_bus m \<noteq> None \<or> n = ''''"

definition services_up_from :: "lib \<Rightarrow> nat \<Rightarrow> bool" where
  "services_up_from L N \<longleftrightarrow>
     (\<forall>h d m t n. N \<le> length h \<and> bus_given m n \<longrightarrow> (case o_CreateOrUpdateAPI L h d (api_mutate L m t n) of (a, _) \<Rightarrow>
        api_observed a (fst (l_ObjectHash L [t, n])) \<and> ManilaAPI_IsReady a = Some True)) \<and>
     (\<forall>h d m t n. N \<le> length h \<and> bus_given m n \<longrightarrow> (case o_CreateOrUpdateScheduler L h d (scheduler_mutate L m t n) of (c, _) \<Rightarrow>
        scheduler_observed c (fst (l_ObjectHash L [t, n])) \<and> ManilaScheduler_IsReady c = Some True)) \<and>
     (\<forall>h d m sh t n. N \<le> length h \<and> bus_given m n \<longrightarrow> (case o_CreateOrUpdateShare L h d (share_mutate L m sh t n) of (c, _) \<Rightarrow>
        share_observed c (fst (l_ObjectHash L [t, n])) \<and> ManilaShare_IsReady c = Some True))"

lemma bus_given_key: "man_Spec m = man_Spec m' \<Longrightarrow> bus_given m n = bus_given m' n"
  by (simp add: bus_given_def notifications_bus_def)

lemma all_ready_goes:
  "r \<noteq> None \<Longrightarrow> all_ready acc obs r s = (Next (acc \<and> obs \<and> r = Some True), s)"
  by (auto simp: all_ready_def prog_simps)

lemma child_answers:
  assumes "manila_healthy L" "services_up_from L N"
  shows "\<exists>c op r. o_CreateOrUpdateAPI L tr d (api_mutate L m t n) = (c, op, None) \<and> ManilaAPI_IsReady c = Some r \<and>
      (N \<le> length tr \<and> bus_given m n \<longrightarrow> api_observed c (fst (l_ObjectHash L [t, n])) \<and> r)"
    "\<exists>c op r. o_CreateOrUpdateScheduler L tr d' (scheduler_mutate L m t n) = (c, op, None) \<and> ManilaScheduler_IsReady c = Some r \<and>
      (N \<le> length tr \<and> bus_given m n \<longrightarrow> scheduler_observed c (fst (l_ObjectHash L [t, n])) \<and> r)"
    "\<exists>c op r. o_CreateOrUpdateShare L tr d'' (share_mutate L m sh t n) = (c, op, None) \<and> ManilaShare_IsReady c = Some r \<and>
      (N \<le> length tr \<and> bus_given m n \<longrightarrow> share_observed c (fst (l_ObjectHash L [t, n])) \<and> r)"
proof -
  note form = manila_answers(13-15) [OF assms(1), unfolded hidden_def]
  note ready = manila_values(3-5) [OF assms(1), unfolded hidden_def not_None_eq]
  note up = assms(2) [unfolded services_up_from_def]
  obtain r where r: "ManilaAPI_IsReady (fst (o_CreateOrUpdateAPI L tr d (api_mutate L m t n))) = Some r"
    using ready(1) by blast
  show "\<exists>c op r. o_CreateOrUpdateAPI L tr d (api_mutate L m t n) = (c, op, None) \<and> ManilaAPI_IsReady c = Some r \<and>
      (N \<le> length tr \<and> bus_given m n \<longrightarrow> api_observed c (fst (l_ObjectHash L [t, n])) \<and> r)"
    using form(1) r up by (intro exI conjI) (assumption, assumption, auto simp: split_beta)
  obtain r where r: "ManilaScheduler_IsReady (fst (o_CreateOrUpdateScheduler L tr d' (scheduler_mutate L m t n))) = Some r"
    using ready(2) by blast
  show "\<exists>c op r. o_CreateOrUpdateScheduler L tr d' (scheduler_mutate L m t n) = (c, op, None) \<and> ManilaScheduler_IsReady c = Some r \<and>
      (N \<le> length tr \<and> bus_given m n \<longrightarrow> scheduler_observed c (fst (l_ObjectHash L [t, n])) \<and> r)"
    using form(2) r up by (intro exI conjI) (assumption, assumption, auto simp: split_beta)
  obtain r where r: "ManilaShare_IsReady (fst (o_CreateOrUpdateShare L tr d'' (share_mutate L m sh t n))) = Some r"
    using ready(3) by blast
  show "\<exists>c op r. o_CreateOrUpdateShare L tr d'' (share_mutate L m sh t n) = (c, op, None) \<and> ManilaShare_IsReady c = Some r \<and>
      (N \<le> length tr \<and> bus_given m n \<longrightarrow> share_observed c (fst (l_ObjectHash L [t, n])) \<and> r)"
    using form(3) r up by (intro exI conjI) (assumption, assumption, auto simp: split_beta)
qed

lemma deploy_goes:
  assumes "manila_healthy L" "services_up_from L N" and h: "h = fst (l_ObjectHash L [t, n])"
  shows "\<exists>b u. manila_deploy_api L t n h s = (Next b, u) \<and> length (trace s) \<le> length (trace u) \<and> (N \<le> length (trace s) \<and> bus_given (inst s) n \<longrightarrow> b)"
    "\<exists>b u. manila_deploy_scheduler L t n h ready s = (Next b, u) \<and> length (trace s) \<le> length (trace u) \<and> (N \<le> length (trace s) \<and> bus_given (inst s) n \<longrightarrow> b = ready)"
    "\<exists>b c u. manila_deploy_share L t n h name (ready, cond) s = (Next (b, c), u) \<and> length (trace s) \<le> length (trace u) \<and> (N \<le> length (trace s) \<and> bus_given (inst s) n \<longrightarrow> b = ready)"
proof -
  note answers = child_answers [OF assms(1,2)]
  let ?d = "ManilaAPI_zero ((newMeta (om_Name (man_Meta (inst s)) @ ''-api'') (om_Namespace (man_Meta (inst s))))
    \<lparr>om_Annotations := om_Annotations (man_Meta (inst s))\<rparr>)"
  show "\<exists>b u. manila_deploy_api L t n h s = (Next b, u) \<and> length (trace s) \<le> length (trace u) \<and> (N \<le> length (trace s) \<and> bus_given (inst s) n \<longrightarrow> b)"
    using answers(1) [of "trace s" ?d "inst s" t n]
    by (cases "N \<le> length (trace s) \<and> bus_given (inst s) n") (auto simp: manila_deploy_api_def apiDeploymentCreateOrUpdate_def service_running_def prog_simps Let_def h
        all_ready_goes mirror_condition_def)
  let ?d = "ManilaScheduler_zero (newMeta (om_Name (man_Meta (inst s)) @ ''-scheduler'') (om_Namespace (man_Meta (inst s))))"
  show "\<exists>b u. manila_deploy_scheduler L t n h ready s = (Next b, u) \<and> length (trace s) \<le> length (trace u) \<and> (N \<le> length (trace s) \<and> bus_given (inst s) n \<longrightarrow> b = ready)"
    using answers(2) [of "trace s" ?d "inst s" t n]
    by (cases "N \<le> length (trace s) \<and> bus_given (inst s) n") (auto simp: manila_deploy_scheduler_def schedulerDeploymentCreateOrUpdate_def service_running_def prog_simps Let_def h
        all_ready_goes mirror_condition_def)
  let ?d = "ManilaShare_zero ((newMeta (om_Name (man_Meta (inst s)) @ ''-share-'' @ name)
           (om_Namespace (man_Meta (inst s))))\<lparr>om_Labels := (svcLabels s)(ShareNameLabel \<mapsto> name)\<rparr>)"
  show "\<exists>b c u. manila_deploy_share L t n h name (ready, cond) s = (Next (b, c), u) \<and> length (trace s) \<le> length (trace u) \<and> (N \<le> length (trace s) \<and> bus_given (inst s) n \<longrightarrow> b = ready)"
    using answers(3) [of "trace s" ?d "inst s" "share_spec_of (inst s) name" t n]
    by (cases "N \<le> length (trace s) \<and> bus_given (inst s) n") (auto simp: manila_deploy_share_def shareDeploymentCreateOrUpdate_def prog_simps Let_def h
        all_ready_goes split: bool.split)
qed

lemma services_go:
  assumes "manila_healthy L" "services_up_from L N"
  shows "\<exists>b u. manila_services L t n s = (Next b, u) \<and> (N \<le> length (trace s) \<and> bus_given (inst s) n \<longrightarrow> b)"
proof -
  obtain h where h: "l_ObjectHash L [t, n] = (h, None)"
    using healthy_answers(8) [OF manila_healthy_base(1) [OF assms(1)]] by blast
  note deploy = deploy_goes [OF assms, of h t n] h [THEN arg_cong [where f = fst], unfolded fst_conv, symmetric]
  have fold: "\<exists>b c u. foldP (manila_deploy_share L t n h) names (ready, cond) s = (Next (b, c), u) \<and>
      (N \<le> length (trace s) \<and> bus_given (inst s) n \<longrightarrow> b = ready)" for names ready cond s
  proof (induction names arbitrary: ready cond s)
    case Nil
    show ?case by (simp add: run_pureP)
  next
    case (Cons name names)
    obtain b c u where one: "manila_deploy_share L t n h name (ready, cond) s = (Next (b, c), u)"
      "length (trace s) \<le> length (trace u)" "N \<le> length (trace s) \<Longrightarrow> bus_given (inst s) n \<Longrightarrow> b = ready"
      using deploy(3) [OF deploy(4)] by blast
    obtain b' c' u' where "foldP (manila_deploy_share L t n h) names (b, c) u = (Next (b', c'), u')"
      "N \<le> length (trace u) \<Longrightarrow> bus_given (inst u) n \<Longrightarrow> b' = b"
      using Cons [of b c u] by blast
    with one bus_given_key [OF keepsI_run [OF services_keeps_spec(3) one(1)]] show ?case by (simp add: run_bindP)
  qed
  obtain b1 u1 where 1: "manila_deploy_api L t n h s = (Next b1, u1)" "length (trace s) \<le> length (trace u1)"
    "N \<le> length (trace s) \<Longrightarrow> bus_given (inst s) n \<Longrightarrow> b1" using deploy(1) [OF deploy(4)] by blast
  obtain u2 where 2: "manila_release_accounts L u1 = (Next (), u2)" "length (trace u1) \<le> length (trace u2)"
    by (simp add: manila_release_accounts_def try_call_def prog_simps manila_answers [OF assms(1)])
  obtain b3 u3 where 3: "manila_deploy_scheduler L t n h b1 u2 = (Next b3, u3)" "length (trace u2) \<le> length (trace u3)"
    "N \<le> length (trace u2) \<Longrightarrow> bus_given (inst u2) n \<Longrightarrow> b3 = b1" using deploy(2) [OF deploy(4)] by blast
  obtain b4 c u4 where 4: "foldP (manila_deploy_share L t n h) (sorted_keys (ms_ManilaShares (man_Spec (inst u3)))) (b3, None) u3 = (Next (b4, c), u4)"
    "N \<le> length (trace u3) \<Longrightarrow> bus_given (inst u3) n \<Longrightarrow> b4 = b3" using fold by blast
  have "\<exists>u. manila_services L t n s = (Next b4, u)"
    by (simp add: manila_services_def manila_deploy_shares_def run_bindP run_getI h 1 2 3 4 run_condP run_markTrue run_pureP)
  moreover have "bus_given (inst u1) n = bus_given (inst s) n" "bus_given (inst u2) n = bus_given (inst s) n"
    "bus_given (inst u3) n = bus_given (inst s) n"
    using bus_given_key [OF keepsI_run [OF services_keeps_spec(1) 1(1)]] bus_given_key [OF keepsI_run [OF services_keeps_spec(5) 2(1)]]
      bus_given_key [OF keepsI_run [OF services_keeps_spec(2) 3(1)]] by simp_all
  ultimately show ?thesis using 1(2,3) 2(2) 3(2,3) 4(2) by auto
qed

section \<open>The cron job, the cleanup and the rotation\<close>

lemma cleanup_goes:
  assumes "manila_healthy L"
  shows "goes (manila_cronjob L ann)" "goes (manila_cleanup L ann)"
proof -
  note a = manila_answers [OF assms] healthy_answers [OF manila_healthy_base(1) [OF assms]]
  show "goes (manila_cronjob L ann)"
    by (simp add: goes_def manila_cronjob_def prog_simps Let_def a)
  have step: "goes (shareCleanup_step L share acc)" for share acc
    by (cases acc) (auto simp: goes_def shareCleanup_step_def prog_simps Let_def a)
  have long: "\<exists>h. SharesListHash L xs = (h, None) \<and> TruncateHash \<le> length h" for xs
    using manila_healthy_base(2) [OF assms] a(26) by (auto simp: SharesListHash_def full_hashes_def)
  have clean: "\<exists>c h t. shareCleanup L s = (Next (c, h, None), t) \<and> (c \<longrightarrow> TruncateHash \<le> length h)" for s
  proof (cases "o_ListShares L (trace s) (om_Namespace (man_Meta (inst s))) None")
    case (Inl e)
    then show ?thesis by (auto simp: shareCleanup_def prog_simps)
  next
    case (Inr items)
    let ?s = "s\<lparr>trace := trace s @ [EList ''ManilaShare'' (om_Namespace (man_Meta (inst s))) None]\<rparr>"
    have "goes (foldP (shareCleanup_step L) items (False, []))" by (rule goes_fold [OF step])
    then obtain p t where f: "foldP (shareCleanup_step L) items (False, []) ?s = (Next p, t)" by (rule goesE)
    obtain c ds where p: "p = (c, ds)" by fastforce
    from long [of ds] obtain h where "SharesListHash L ds = (h, None)" "TruncateHash \<le> length h" by blast
    with Inr f p show ?thesis by (simp add: shareCleanup_def prog_simps)
  qed
  show "goes (manila_cleanup L ann)"
    unfolding goes_def
  proof
    fix s
    from clean [of s] obtain c h t where "shareCleanup L s = (Next (c, h, None), t)" "c \<longrightarrow> TruncateHash \<le> length h" by blast
    then show "\<exists>r u. manila_cleanup L ann s = (Next r, u)"
      by (auto simp: manila_cleanup_def prog_simps Let_def a not_less)
  qed
qed

text \<open>
  Documented of the rotation helper: under the guard it lets go of the old secret and answers the
  new one as consumed. The instance is rotated where its status names exactly what it uses.
\<close>

definition completes_rotation :: "lib \<Rightarrow> bool" where
  "completes_rotation L \<longleftrightarrow> (\<forall>h ns old new fin. o_FinalizeSecretRotation L h ns old new fin True = Inr new)"

definition rotated :: "string \<Rightarrow> TransportURL option \<Rightarrow> Manila \<Rightarrow> bool" where
  "rotated t nurl m \<longleftrightarrow> mst_TransportURLSecret (man_Status m) = t \<and>
     (case nurl of Some url \<Rightarrow> mst_NotificationsURLSecret (man_Status m) = Some (tu_SecretName url)
      | None \<Rightarrow> mst_NotificationsURLSecret (man_Status m) \<in> {None, Some ''''}) \<and>
     mst_ApplicationCredentialSecret (man_Status m) = manila_ac_secret m"

lemma rotation_goes:
  assumes "manila_healthy L"
  shows "goes (manila_rotation L t nurl g)"
    "completes_rotation L \<Longrightarrow> manila_rotation L t nurl True s = (Next r, u) \<Longrightarrow> rotated t nurl (inst u)"
proof -
  note a = manila_answers [OF assms]
  show "goes (manila_rotation L t nurl g)"
    unfolding manila_rotation_def manila_rotate_transport_def manila_rotate_notifications_def manila_rotate_ac_def manila_prune_def
    by (intro goes_bind; simp add: goes_def finalize_rotation_def release_secret_def prune_secrets_def try_call_def transportURLDeleted_def
        prog_simps Let_def a split: option.split)
  assume "completes_rotation L" "manila_rotation L t nurl True s = (Next r, u)"
  then show "rotated t nurl (inst u)"
    by (auto simp: rotated_def completes_rotation_def manila_rotation_def manila_rotate_transport_def manila_rotate_notifications_def
        manila_rotate_ac_def manila_prune_def finalize_rotation_def release_secret_def prune_secrets_def try_call_def transportURLDeleted_def
        prog_simps Let_def manila_answers(4-6) [OF assms] manila_ac_secret_def set_NotificationsURLSecret_def split: option.splits if_splits)
qed

section \<open>The inputs of the configuration\<close>

text \<open>The answers the configuration depends on do not change.\<close>

definition manila_steady :: "lib \<Rightarrow> bool" where
  "manila_steady L \<longleftrightarrow> steady L \<and> (\<forall>h h'.
     o_CreateOrUpdateTransportURL L h = o_CreateOrUpdateTransportURL L h' \<and> o_GetMemcached L h = o_GetMemcached L h' \<and>
     o_GetKeystoneAPI L h = o_GetKeystoneAPI L h' \<and> o_DatabaseObj L h = o_DatabaseObj L h')"

lemma manila_steadyD:
  assumes "manila_steady L"
  shows "steady L" "o_CreateOrUpdateTransportURL L h tu f = o_CreateOrUpdateTransportURL L h' tu f"
    "o_GetMemcached L h n ns = o_GetMemcached L h' n ns" "o_GetKeystoneAPI L h ns = o_GetKeystoneAPI L h' ns"
    "o_DatabaseObj L h r = o_DatabaseObj L h' r"
  using assms unfolding manila_steady_def by metis+

definition manila_identity :: "Manila \<Rightarrow> ManilaSpec \<times> ObjectMeta \<times> string" where
  "manila_identity m = (man_Spec m, man_Meta m, man_Kind m)"

definition manila_located :: "Manila \<Rightarrow> (ManilaSpec \<times> ObjectMeta \<times> string) \<times> string" where
  "manila_located m = (manila_identity m, mst_DatabaseHostname (man_Status m))"

lemma manila_identity_status: "manila_identity (man_Status_update f m) = manila_identity m"
  by (simp add: manila_identity_def)

lemma manila_view_updates:
  "manila_identity (Manila_updC f m) = manila_identity m" "manila_located (Manila_updC f m) = manila_located m"
  "manila_identity (set_NotificationsURLSecret v m) = manila_identity m"
  by (simp_all add: manila_identity_def manila_located_def Manila_updC_def set_NotificationsURLSecret_def)

lemma manila_buses_blind:
  assumes "manila_healthy L" "manila_steady L"
  shows "blind (config_view manila_identity) (manila_transport L)" "blind (config_view manila_identity) (manila_notifications L)"
proof -
  have url: "blind (config_view manila_identity) (transportURLCreateOrUpdate L b bus)" for b bus
    unfolding transportURLCreateOrUpdate_def Let_def transportURL_mutate_def [abs_def] transportURL_name_def
    by (intro blind_read configV.blind_rules blind_bind configV.blind_call manila_steadyD [OF assms(2)])
      (simp_all add: config_view_def manila_identity_def)
  have take: "blind (config_view manila_identity) (manage_secret L fin n)" for fin n
    unfolding manage_secret_def try_call_def
    by (intro configV.blind_inst configV.blind_rules blind_bind configV.blind_call)
      (simp_all add: manila_identity_def manila_ns_def manila_answers(3) [OF assms(1)])
  show "blind (config_view manila_identity) (manila_transport L)"
    unfolding manila_transport_def
    by (intro configV.blind_inst configV.blind_rules blind_bind url take configV.blind_updI manila_view_updates)
      (simp_all add: manila_identity_def)
  show "blind (config_view manila_identity) (manila_notifications L)"
    unfolding manila_notifications_def manila_notifications_enabled_def
    by (intro configV.blind_inst configV.blind_rules blind_bind url take configV.blind_updI manila_view_updates)
      (simp_all add: manila_identity_def set_NotificationsURLSecret_def notifications_bus_def)
qed

lemma manila_needs_blind:
  assumes "manila_steady L"
  shows "blind (config_view manila_identity) (manila_memcached L)" "blind (config_view manila_identity) (manila_passwords L)"
  unfolding manila_memcached_def manila_passwords_def Let_def
  by (intro configV.blind_inst configV.blind_rules blind_bind configV.blind_verify configV.blind_call manila_view_updates
      manila_steadyD [OF assms] steadyD [OF manila_steadyD(1) [OF assms]];
      simp add: manila_identity_def manila_ns_def)+

lemma manila_generate_blind:
  assumes "manila_steady L"
  shows "blind (config_view manila_located) (manila_generateServiceConfig L mc db t n)"
  unfolding manila_generateServiceConfig_def manila_keystone_urls_def ac_parameters_def notifications_parameters_def
    manila_templates_def base_parameters_def vhost_config_def notification_cluster_def notifications_bus_def manila_tls_Ca_def Let_def
  by (intro blind_read configV.blind_inst configV.blind_rules blind_bind configV.blind_secrets configV.blind_call
      manila_steadyD [OF assms] steadyD [OF manila_steadyD(1) [OF assms]])
    (simp_all add: config_view_def manila_located_def manila_identity_def cong: if_cong sum.case_cong option.case_cong)

text \<open>The first phases of a run, up to the database.\<close>

definition manila_front :: "lib \<Rightarrow> (TransportURL \<times> TransportURL option \<times> Memcached \<times> Database) manila_phase" where
  "manila_front L =
     thenP (manila_rbac L)
     (thenP (setVars Map.empty)
     (thenP (setLabels [l_const L ''common.AppSelector'' \<mapsto> manila_ServiceName])
     (bindP (manila_transport L) (\<lambda>tu.
      bindP (manila_notifications L) (\<lambda>nurl.
      bindP (manila_memcached L) (\<lambda>mc.
      thenP (manila_passwords L)
      (bindP (manila_database L) (\<lambda>db. pureP (tu, nurl, mc, db)))))))))"

lemma manila_prepare_split:
  "manila_prepare L = bindP (manila_front L) (\<lambda>(tu, nurl, mc, db).
     thenP (manila_config L mc db (tu_SecretName tu) (url_secret nurl))
     (thenP (manila_ac_finalizer L)
     (bindP (manila_init L) (\<lambda>ann. pureP (tu, nurl, ann)))))"
  by (simp add: manila_prepare_def manila_front_def bindP_assoc)

lemma manila_front_run:
  assumes "manila_healthy L"
  obtains tu nurl mc db t where "manila_front L s = (Next (tu, nurl, mc, db), t)"
proof -
  have "goes (manila_front L)"
    unfolding manila_front_def
    by (intro goes_bind manila_front_goes [OF assms] goes_pure) (simp_all add: goes_def prog_simps)
  then show thesis using that by (metis goesE prod_cases4)
qed

lemma manila_front_keeps:
  assumes "\<And>f m. g (man_Status_update f m) = g m"
  shows "keepsI g (manila_front L)"
  unfolding manila_front_def by (intro keepsI_rules front_keeps config_keeps assms)

lemma manila_front_hash: "keepsI manila_Hash (manila_front L)"
  unfolding manila_front_def manila_rbac_def manila_transport_def manila_notifications_def
    manila_notifications_enabled_def transportURLCreateOrUpdate_def manila_memcached_def
    manila_passwords_def manila_database_def ensureDB_def ensureDB_failed_def ensureDB_running_def call_defs
  by (intro keepsI_rules keepsI_helpers; simp add: manila_Hash_def Manila_updC_def set_NotificationsURLSecret_def)

lemma manila_database_run:
  assumes "manila_healthy L" "manila_steady L"
  defines "db \<equiv> \<lambda>s. o_DatabaseObj L [] (manila_db_request (inst s))"
  shows "\<exists>t. manila_database L s = (Next (db s), t) \<and> cfgVars t = cfgVars s \<and> svcLabels t = svcLabels s \<and>
    manila_located (inst t) = (manila_identity (inst s), db_Hostname (db s))"
proof -
  have db: "o_DatabaseObj L (trace s @ es) r = o_DatabaseObj L [] r" for es r by (rule manila_steadyD(5) [OF assms(2)])
  show ?thesis
    by (simp add: manila_database_def ensureDB_def prog_simps Let_def manila_answers [OF assms(1)]
        Manila_updC_def manila_located_def manila_identity_def db_def db)
qed

lemma manila_database_located:
  assumes "manila_healthy L" "manila_steady L" "config_view manila_identity s = config_view manila_identity s'"
    and "manila_database L s = (Next db, t)" "manila_database L s' = (Next db', t')"
  shows "db = db' \<and> config_view manila_located t = config_view manila_located t'"
proof -
  have "manila_db_request (inst s) = manila_db_request (inst s')" and "manila_identity (inst s) = manila_identity (inst s')"
    and "cfgVars s = cfgVars s'" "svcLabels s = svcLabels s'"
    using assms(3) by (simp_all add: config_view_def manila_identity_def manila_db_request_def)
  then show ?thesis
    using manila_database_run [OF assms(1,2), of s] manila_database_run [OF assms(1,2), of s'] assms(4,5)
    by (auto simp: config_view_def)
qed

lemma manila_front_same:
  assumes L: "manila_healthy L" "manila_steady L" and k: "manila_identity (inst s) = manila_identity (inst s')"
    and s: "manila_front L s = (Next v, t)" "manila_front L s' = (Next v', t')"
  shows "v = v' \<and> config_view manila_located t = config_view manila_located t'"
proof -
  let ?start = "\<lambda>u. u\<lparr>cfgVars := Map.empty, svcLabels := [l_const L ''common.AppSelector'' \<mapsto> manila_ServiceName]\<rparr>"
  from s(1) obtain u1 a1 u2 a2 u3 a3 u4 u5 a4 where u: "manila_rbac L s = (Next (), u1)" "manila_transport L (?start u1) = (Next a1, u2)"
    "manila_notifications L u2 = (Next a2, u3)" "manila_memcached L u3 = (Next a3, u4)" "manila_passwords L u4 = (Next (), u5)"
    "manila_database L u5 = (Next a4, t)" "v = (a1, a2, a3, a4)"
    unfolding manila_front_def by (auto elim!: bindP_NextE simp: run_setVars run_setLabels run_pureP)
  from s(2) obtain w1 b1 w2 b2 w3 b3 w4 w5 b4 where w: "manila_rbac L s' = (Next (), w1)" "manila_transport L (?start w1) = (Next b1, w2)"
    "manila_notifications L w2 = (Next b2, w3)" "manila_memcached L w3 = (Next b3, w4)" "manila_passwords L w4 = (Next (), w5)"
    "manila_database L w5 = (Next b4, t')" "v' = (b1, b2, b3, b4)"
    unfolding manila_front_def by (auto elim!: bindP_NextE simp: run_setVars run_setLabels run_pureP)
  have "config_view manila_identity (?start u1) = config_view manila_identity (?start w1)"
    using keepsI_run [OF front_keeps(1) [where g = manila_identity, OF manila_identity_status] u(1)] keepsI_run [OF front_keeps(1) [where g = manila_identity, OF manila_identity_status] w(1)] k
    by (simp add: config_view_def)
  from blindD [OF manila_buses_blind(1) [OF L] this u(2) w(2)] have 1: "a1 = b1" "config_view manila_identity u2 = config_view manila_identity w2" by simp_all
  from blindD [OF manila_buses_blind(2) [OF L] 1(2) u(3) w(3)] have 2: "a2 = b2" "config_view manila_identity u3 = config_view manila_identity w3" by simp_all
  from blindD [OF manila_needs_blind(1) [OF L(2)] 2(2) u(4) w(4)] have 3: "a3 = b3" "config_view manila_identity u4 = config_view manila_identity w4" by simp_all
  from blindD [OF manila_needs_blind(2) [OF L(2)] 3(2) u(5) w(5)] have 4: "config_view manila_identity u5 = config_view manila_identity w5" by simp
  from manila_database_located [OF L 4 u(6) w(6)] 1(1) 2(1) 3(1) u(7) w(7) show ?thesis by simp
qed

section \<open>One run of reconcileNormal\<close>

text \<open>What the run needs of its instance: a hash map, and a usable application credential.\<close>

lemma credential_usable_key: "manila_identity i = manila_identity j \<Longrightarrow> credential_usable L i = credential_usable L j"
  by (simp add: credential_usable_def manila_ac_secret_def manila_ns_def manila_identity_def)

lemma manila_phase_hash:
  "keepsI manila_Hash (manila_ac_finalizer L)" "keepsI manila_Hash (manila_services L t n)"
  "keepsI manila_Hash (manila_cronjob L ann)" "keepsI manila_Hash (manila_cleanup L ann)"
  "keepsI manila_Hash (manila_rotation L t nurl g)"
  unfolding manila_ac_finalizer_def manila_config_failed_def manila_deploy_api_def manila_deploy_scheduler_def manila_deploy_share_def
    manila_deploy_shares_def manila_services_def manila_release_accounts_def
    apiDeploymentCreateOrUpdate_def schedulerDeploymentCreateOrUpdate_def
    shareDeploymentCreateOrUpdate_def mirror_condition_def service_failed_def service_running_def
    all_ready_def call_defs manila_rotation_def manila_rotate_transport_def manila_rotate_notifications_def
    manila_rotate_ac_def manila_prune_def finalize_rotation_def transportURLDeleted_def
    manila_cronjob_def manila_cleanup_def shareCleanup_def shareCleanup_step_def
  by (intro keepsI_rules; simp add: manila_Hash_def Manila_updC_def set_share_count_def set_NotificationsURLSecret_def)+

lemma manila_front_emits: "emits (\<lambda>e. True) (manila_front L)"
  unfolding manila_front_def by (intro emits_rules front_emits database_emits) simp_all

lemma emits_longer:
  assumes "emits (\<lambda>e. True) m" "m s = (r, t)" shows "length (trace s) \<le> length (trace t)"
  by (rule emits_grows [OF assms]) simp

text \<open>The second half, after the configuration.\<close>

definition manila_second :: "lib \<Rightarrow> TransportURL \<times> TransportURL option \<times> (string \<rightharpoonup> string) \<Rightarrow>
    (Manila st, reconcile_result, reconcile_result) prog" where
  "manila_second L = (\<lambda>(transportURL, nurl, serviceAnnotations).
     bindP (manila_services L (tu_SecretName transportURL) (url_secret nurl)) (\<lambda>guardReady.
     thenP (manila_cronjob L serviceAnnotations)
     (thenP (manila_cleanup L serviceAnnotations)
     (thenP (manila_rotation L (tu_SecretName transportURL) nurl guardReady)
     (bindP (getI (Manila_IsReady (l_IsTrue L))) (\<lambda>ready.
      thenP (whenP ready (markTrue Manila_updC ReadyCondition (LibMsg ''ReadyMessage'')))
        (ret (Result0, None))))))))"

definition manila_first :: "lib \<Rightarrow> TransportURL \<Rightarrow> TransportURL option \<Rightarrow> (TransportURL \<times> TransportURL option \<times> (string \<rightharpoonup> string)) manila_phase" where
  "manila_first L tu nurl = thenP (manila_ac_finalizer L) (bindP (manila_init L) (\<lambda>ann. pureP (tu, nurl, ann)))"

lemma manila_second_run:
  assumes L: "manila_healthy L" "services_up_from L N"
  shows "\<exists>u. manila_second L (tu, nurl, ann) s = (Return (Result0, None), u) \<and> manila_Hash (inst u) = manila_Hash (inst s) \<and>
    (completes_rotation L \<and> N \<le> length (trace s) \<and> bus_given (inst s) (url_secret nurl) \<longrightarrow> rotated (tu_SecretName tu) nurl (inst u))"
proof -
  obtain g s3 where 3: "manila_services L (tu_SecretName tu) (url_secret nurl) s = (Next g, s3)" "N \<le> length (trace s) \<Longrightarrow> bus_given (inst s) (url_secret nurl) \<Longrightarrow> g"
    using services_go [OF L] by blast
  obtain s4 where 4: "manila_cronjob L ann s3 = (Next (), s4)" using cleanup_goes(1) [OF L(1)] by (rule goesE) simp
  obtain s5 where 5: "manila_cleanup L ann s4 = (Next (), s5)" using cleanup_goes(2) [OF L(1)] by (rule goesE) simp
  obtain s6 where 6: "manila_rotation L (tu_SecretName tu) nurl g s5 = (Next (), s6)" using rotation_goes(1) [OF L(1)] by (rule goesE) simp
  have h: "manila_Hash (inst s6) = manila_Hash (inst s)"
    using keepsI_run [OF manila_phase_hash(2) 3(1)] keepsI_run [OF manila_phase_hash(3) 4] keepsI_run [OF manila_phase_hash(4) 5]
      keepsI_run [OF manila_phase_hash(5) 6] by simp
  have r: "rotated (tu_SecretName tu) nurl (inst s6)" if "completes_rotation L" "N \<le> length (trace s)" "bus_given (inst s) (url_secret nurl)"
    using rotation_goes(2) [OF L(1) that(1), of "tu_SecretName tu" nurl s5] 6 3(2) [OF that(2,3)] by simp
  let ?tail = "bindP (getI (Manila_IsReady (l_IsTrue L))) (\<lambda>ready.
      thenP (whenP ready (markTrue Manila_updC ReadyCondition (LibMsg ''ReadyMessage'')))
        (ret (Result0, None))) :: (Manila st, reconcile_result, reconcile_result) prog"
  have run: "manila_second L (tu, nurl, ann) s = ?tail s6"
    by (simp only: manila_second_def prod.case run_bindP 3(1) 4 5 6 outcome.case)
  have "\<exists>u. ?tail s6 = (Return (Result0, None), u) \<and> (inst u = inst s6 \<or> (\<exists>f. inst u = Manila_updC f (inst s6)))"
    by (auto simp: run_bindP run_getI run_whenP run_markTrue run_ret)
  then obtain u where u: "?tail s6 = (Return (Result0, None), u)" "inst u = inst s6 \<or> (\<exists>f. inst u = Manila_updC f (inst s6))" by blast
  have upd: "manila_Hash (Manila_updC f i) = manila_Hash i" "rotated t x (Manila_updC f i) = rotated t x i" for f i t x
    by (simp_all add: manila_Hash_def Manila_updC_def rotated_def manila_ac_secret_def split: option.split)
  show ?thesis unfolding run u(1) using u(2) h r by (auto simp: upd)
qed

lemma manila_first_run:
  assumes L: "manila_healthy L" and h: "manila_Hash (inst s) \<noteq> None"
  shows "\<exists>ann u. manila_first L tu nurl s = (Next (tu, nurl, ann), u) \<and> length (trace s) \<le> length (trace u) \<and>
    stored_hash L (manila_Hash (inst u)) = stored_hash L (manila_Hash (inst s))"
proof -
  obtain s1 where 1: "manila_ac_finalizer L s = (Next (), s1)" using manila_front_goes(7) [OF L] by (rule goesE) simp
  have h1: "manila_Hash (inst s1) = manila_Hash (inst s)" using keepsI_run [OF manila_phase_hash(1) 1] .
  obtain ann s2 where 2: "manila_init L s1 = (Next ann, s2)" "stored_hash L (manila_Hash (inst s2)) = stored_hash L (manila_Hash (inst s1))"
    using manila_init_goes [OF L, of s1] h h1 by auto
  have "length (trace s) \<le> length (trace s2)"
    using emits_longer [OF front_emits(6) [where E = "\<lambda>e. True"] 1] emits_longer [OF init_emits [where E = "\<lambda>e. True"] 2(1)] by simp
  with 1 2 h1 show ?thesis by (simp add: manila_first_def run_bindP run_pureP)
qed

lemma manila_first_keeps: "keepsI man_Spec (manila_first L tu nurl)"
  unfolding manila_first_def
  by (intro keepsI_rules front_keeps config_keeps) simp_all

lemma manila_normal_run:
  assumes L: "manila_healthy L" "lawful_SetHash L" "services_up_from L N"
    and i: "credential_usable L (inst s)" "manila_Hash (inst s) \<noteq> None"
    and f: "manila_front L s = (Next (tu, nurl, mc, db), t)"
    and g: "manila_generateServiceConfig L mc db (tu_SecretName tu) (url_secret nurl) t = (Next None, t')"
    and d: "l_ObjectHashEnvs L (cfgVars t') = (h, None)"
  shows "\<exists>u. manila_reconcileNormal L s = (Next (Result0, None), u) \<and> stored_hash L (manila_Hash (inst u)) h \<and>
    (stored_hash L (manila_Hash (inst s)) h \<and> completes_rotation L \<and> N \<le> length (trace s) \<and> bus_given (inst s) (url_secret nurl) \<longrightarrow>
       rotated (tu_SecretName tu) nurl (inst u))"
proof -
  let ?config = "manila_config L mc db (tu_SecretName tu) (url_secret nurl)"
  have run: "manila_reconcileNormal L s = func (bindP ?config (\<lambda>_. bindP (manila_first L tu nurl) (manila_second L))) t"
    unfolding manila_reconcileNormal_def manila_prepare_split manila_second_def [symmetric]
    using f by (simp add: run_func bindP_assoc bind_goes_on manila_first_def)
  have ident: "manila_identity (inst t) = manila_identity (inst s)" "manila_Hash (inst t) = manila_Hash (inst s)"
    using keepsI_run [OF manila_front_keeps [where g = manila_identity, OF manila_identity_status] f] keepsI_run [OF manila_front_hash f] .
  have usable: "credential_usable L (inst t)" using i(1) credential_usable_key [OF ident(1)] by simp
  note c = manila_config_goes [OF L(1,2) usable g d]
  have gen: "keepsI manila_Hash (manila_generateServiceConfig L mc db (tu_SecretName tu) (url_secret nurl))"
    unfolding manila_generateServiceConfig_def manila_keystone_urls_def ac_parameters_def notifications_parameters_def
    get_secret_def
    by (intro keepsI_rules)
  have ht: "manila_Hash (inst t') = manila_Hash (inst s)" using keepsI_run [OF gen g] ident(2) by simp
  show ?thesis
  proof (cases "\<exists>u. ?config t = (Next (), u)")
    case True
    then obtain u1 where u1: "?config t = (Next (), u1)" by blast
    with c have st: "stored_hash L (manila_Hash (inst u1)) h" by simp
    then have "manila_Hash (inst u1) \<noteq> None" by (auto simp: stored_hash_def)
    with manila_first_run [OF L(1), of u1 tu nurl] obtain ann u2 where u2: "manila_first L tu nurl u1 = (Next (tu, nurl, ann), u2)"
      "length (trace u1) \<le> length (trace u2)" "stored_hash L (manila_Hash (inst u2)) h" using st by auto
    obtain u where u: "manila_second L (tu, nurl, ann) u2 = (Return (Result0, None), u)"
      "manila_Hash (inst u) = manila_Hash (inst u2)"
      "completes_rotation L \<and> N \<le> length (trace u2) \<and> bus_given (inst u2) (url_secret nurl) \<Longrightarrow> rotated (tu_SecretName tu) nurl (inst u)"
      using manila_second_run [OF L(1,3)] by blast
    have "length (trace s) \<le> length (trace u1)"
      using emits_longer [OF manila_front_emits f] emits_longer [OF config_emits [where E = "\<lambda>e. True"] u1] by simp
    moreover have "man_Spec (inst u2) = man_Spec (inst s)"
      using keepsI_run [OF manila_first_keeps u2(1)] keepsI_run [OF config_keeps(2) u1, OF spec_status] ident(1)
      by (simp add: manila_identity_def)
    note bus_given_key [OF this, of "url_secret nurl"]
    ultimately show ?thesis using u u1 u2 by (simp add: run run_func bind_goes_on)
  next
    case False
    with c obtain u where u: "?config t = (Return (Result0, None), u)" "stored_hash L (manila_Hash (inst u)) h"
      "\<not> stored_hash L (manila_Hash (inst s)) h" by (auto simp: ht)
    then show ?thesis by (simp add: run run_func run_bindP)
  qed
qed

text \<open>
  The message buses of an instance, and the digest of its configuration. Both depend on what the
  run keeps of the instance only.
\<close>

definition manila_url :: "lib \<Rightarrow> Manila \<Rightarrow> bool \<Rightarrow> RabbitMqConfig \<Rightarrow> TransportURL" where
  "manila_url L m notifications bus =
     fst (o_CreateOrUpdateTransportURL L []
       \<lparr>tu_Meta = (newMeta (transportURL_name m notifications) (om_Namespace (man_Meta m)))
          \<lparr>om_Labels := [l_const L ''common.AppSelector'' \<mapsto> manila_ServiceName]\<rparr>,
        tu_RabbitmqClusterName = '''', tu_Username = '''', tu_Vhost = '''', tu_SecretName = ''''\<rparr>
       (transportURL_mutate L m bus))"

definition manila_buses :: "lib \<Rightarrow> Manila \<Rightarrow> TransportURL \<times> TransportURL option" where
  "manila_buses L m =
     (manila_url L m False (sb_MessagingBus (ms_Base (man_Spec m))), map_option (manila_url L m True) (notifications_bus m))"

lemma manila_buses_key: "manila_identity m = manila_identity m' \<Longrightarrow> manila_buses L m = manila_buses L m'"
  unfolding manila_buses_def manila_url_def transportURL_mutate_def [abs_def] transportURL_name_def notifications_bus_def
  by (simp add: manila_identity_def cong: option.case_cong)

lemma manila_url_run:
  assumes "manila_steady L" "svcLabels s = [l_const L ''common.AppSelector'' \<mapsto> manila_ServiceName]"
  shows "\<exists>op err. transportURLCreateOrUpdate L b bus s = (Next (manila_url L (inst s) b bus, op, err),
    s\<lparr>trace := trace (snd (transportURLCreateOrUpdate L b bus s))\<rparr>)"
  using assms(2) manila_steadyD(2) [OF assms(1), of "trace s" _ _ "[]"]
  by (simp add: transportURLCreateOrUpdate_def manila_url_def prog_simps Let_def) (metis prod.collapse)

lemma manila_transport_url:
  assumes "manila_steady L" "svcLabels s = [l_const L ''common.AppSelector'' \<mapsto> manila_ServiceName]"
    and "manila_transport L s = (Next tu, t)"
  shows "tu = manila_url L (inst s) False (sb_MessagingBus (ms_Base (man_Spec (inst s)))) \<and> svcLabels t = svcLabels s"
proof -
  let ?bus = "sb_MessagingBus (ms_Base (man_Spec (inst s)))"
  obtain op err u where "transportURLCreateOrUpdate L False ?bus s = (Next (manila_url L (inst s) False ?bus, op, err), u)"
    "svcLabels u = svcLabels s" using manila_url_run [OF assms(1,2), of False ?bus] by auto
  with assms(3) show ?thesis
    by (auto simp: manila_transport_def manage_secret_def try_call_def prog_simps Let_def split: option.splits if_splits)
qed

lemma manila_notifications_url:
  assumes "manila_steady L" "svcLabels s = [l_const L ''common.AppSelector'' \<mapsto> manila_ServiceName]"
    and "manila_notifications L s = (Next nurl, t)"
  shows "nurl = map_option (manila_url L (inst s) True) (notifications_bus (inst s))"
proof (cases "notifications_bus (inst s)")
  case None
  with assms(3) show ?thesis by (simp add: manila_notifications_def prog_simps)
next
  case (Some bus)
  have key: "manila_url L (set_NotificationsURLSecret v m) True bus = manila_url L m True bus" for v m
    unfolding manila_url_def transportURL_mutate_def [abs_def] transportURL_name_def by (simp add: set_NotificationsURLSecret_def)
  define s' where "s' = (if mst_NotificationsURLSecret (man_Status (inst s)) = None
    then s\<lparr>inst := set_NotificationsURLSecret (Some '''') (inst s)\<rparr> else s)"
  have s': "svcLabels s' = svcLabels s" "manila_url L (inst s') True bus = manila_url L (inst s) True bus"
    by (simp_all add: s'_def key)
  from manila_url_run [OF assms(1), of s' True bus] assms(2) s'
  obtain op err u where "transportURLCreateOrUpdate L True bus s' = (Next (manila_url L (inst s) True bus, op, err), u)"
    by fastforce
  with assms(3) Some show ?thesis
    by (auto simp: manila_notifications_def manila_notifications_enabled_def manage_secret_def try_call_def prog_simps Let_def
        s'_def split: option.splits if_splits)
qed

lemma manila_front_buses:
  assumes L: "manila_healthy L" "manila_steady L" and f: "manila_front L s = (Next (tu, nurl, mc, db), t)"
  shows "(tu, nurl) = manila_buses L (inst s)"
proof -
  let ?start = "\<lambda>u. u\<lparr>cfgVars := Map.empty, svcLabels := [l_const L ''common.AppSelector'' \<mapsto> manila_ServiceName]\<rparr>"
  from f obtain u1 u2 u3 where u: "manila_rbac L s = (Next (), u1)" "manila_transport L (?start u1) = (Next tu, u2)"
    "manila_notifications L u2 = (Next nurl, u3)"
    unfolding manila_front_def by (auto elim!: bindP_NextE simp: run_setVars run_setLabels run_pureP)
  note keeps = front_keeps [where g = manila_identity, OF manila_identity_status]
  have k: "manila_identity (inst (?start u1)) = manila_identity (inst s)" "manila_identity (inst u2) = manila_identity (inst s)"
    using keepsI_run [OF keeps(1) u(1)] keepsI_run [OF keeps(2) u(2)] by simp_all
  have "tu = fst (manila_buses L (inst (?start u1)))" "svcLabels u2 = svcLabels (?start u1)"
    using manila_transport_url [OF L(2) _ u(2)] by (simp_all add: manila_buses_def)
  moreover have "nurl = snd (manila_buses L (inst u2))"
    using manila_notifications_url [OF L(2) _ u(3)] calculation(2) by (simp add: manila_buses_def)
  ultimately show ?thesis unfolding manila_buses_key [OF k(1)] manila_buses_key [OF k(2)] by simp
qed

definition manila_digest :: "lib \<Rightarrow> Manila st \<Rightarrow> string" where
  "manila_digest L s = fst (l_ObjectHashEnvs L (cfgVars (snd (bindP (manila_front L)
     (\<lambda>(tu, nurl, mc, db). manila_generateServiceConfig L mc db (tu_SecretName tu) (url_secret nurl)) s))))"

lemma manila_digest_key:
  assumes L: "manila_healthy L" "manila_steady L" and k: "manila_identity (inst s) = manila_identity (inst s')"
  shows "manila_digest L s = manila_digest L s'"
proof -
  obtain tu nurl mc db t where f: "manila_front L s = (Next (tu, nurl, mc, db), t)" by (rule manila_front_run [OF L(1)])
  obtain tu' nurl' mc' db' t' where f': "manila_front L s' = (Next (tu', nurl', mc', db'), t')" by (rule manila_front_run [OF L(1)])
  from manila_front_same [OF L k f f'] have e: "tu' = tu" "nurl' = nurl" "mc' = mc" "db' = db"
    "config_view manila_located t = config_view manila_located t'" by simp_all
  let ?g = "manila_generateServiceConfig L mc db (tu_SecretName tu) (url_secret nurl)"
  have "config_view manila_located (snd (?g t)) = config_view manila_located (snd (?g t'))"
    using manila_generate_blind [OF L(2), of mc db "tu_SecretName tu" "url_secret nurl"] e(5) unfolding blind_def by blast
  with f f' e(1-4) show ?thesis by (simp add: manila_digest_def bind_goes_on config_view_def)
qed

lemma manila_normal_identity: "keepsI manila_identity (manila_reconcileNormal L)"
  unfolding manila_reconcileNormal_def
  by (intro keepsI_rules prepare_keeps [where g = manila_identity, OF manila_identity_status]
      services_keeps [where g = manila_identity, OF manila_identity_status]
      late_keeps [where g = manila_identity, OF manila_identity_status]) (simp_all add: manila_view_updates)

lemma manila_normal_emits: "emits (\<lambda>e. True) (manila_reconcileNormal L)"
  unfolding manila_reconcileNormal_def
  by (intro emits_rules prepare_emits services_emits cronjob_emits cleanup_emits rotation_emits) simp_all

text \<open>
  A run from an instance with a hash map: it ends well and leaves the digest on record; where the
  digest was on record, and the services are up, it completes the rotation.
\<close>

lemma manila_normal_step:
  assumes L: "manila_healthy L" "lawful_SetHash L" "manila_steady L" "services_up_from L N"
    and i: "credential_usable L (inst s)" "manila_Hash (inst s) \<noteq> None"
  shows "\<exists>u. manila_reconcileNormal L s = (Next (Result0, None), u) \<and>
    manila_identity (inst u) = manila_identity (inst s) \<and> length (trace s) \<le> length (trace u) \<and>
    stored_hash L (manila_Hash (inst u)) (manila_digest L s) \<and>
    (stored_hash L (manila_Hash (inst s)) (manila_digest L s) \<and> completes_rotation L \<and> N \<le> length (trace s) \<longrightarrow>
       (case manila_buses L (inst s) of (tu, nurl) \<Rightarrow> rotated (tu_SecretName tu) nurl (inst u)))"
proof -
  obtain tu nurl mc db t where f: "manila_front L s = (Next (tu, nurl, mc, db), t)" by (rule manila_front_run [OF L(1)])
  have "manila_identity (inst t) = manila_identity (inst s)"
    using keepsI_run [OF manila_front_keeps [where g = manila_identity, OF manila_identity_status] f] .
  then have usable: "credential_usable L (inst t)" using i(1) credential_usable_key by metis
  obtain t' where g: "manila_generateServiceConfig L mc db (tu_SecretName tu) (url_secret nurl) t = (Next None, t')"
    using manila_generate_goes [OF L(1) usable] by blast
  have d: "l_ObjectHashEnvs L (cfgVars t') = (manila_digest L s, None)"
    using healthy_answers(7) [OF manila_healthy_base(1) [OF L(1)], of "cfgVars t'"] f g
    by (simp add: manila_digest_def bind_goes_on hidden_def)
  from manila_normal_run [OF L(1,2,4) i f g d] obtain u where u: "manila_reconcileNormal L s = (Next (Result0, None), u)"
    "stored_hash L (manila_Hash (inst u)) (manila_digest L s)"
    "stored_hash L (manila_Hash (inst s)) (manila_digest L s) \<and> completes_rotation L \<and> N \<le> length (trace s) \<and>
       bus_given (inst s) (url_secret nurl) \<longrightarrow> rotated (tu_SecretName tu) nurl (inst u)" by blast
  have "nurl = None" if "notifications_bus (inst s) = None"
    using manila_front_buses [OF L(1,3) f] that by (simp add: manila_buses_def)
  then have "bus_given (inst s) (url_secret nurl)" by (cases "notifications_bus (inst s)") (simp_all add: bus_given_def url_secret_def)
  with u(3) have "stored_hash L (manila_Hash (inst s)) (manila_digest L s) \<and> completes_rotation L \<and> N \<le> length (trace s) \<longrightarrow>
       rotated (tu_SecretName tu) nurl (inst u)" by blast
  with u show ?thesis
    using keepsI_run [OF manila_normal_identity u(1)] emits_longer [OF manila_normal_emits u(1)]
    by (auto simp flip: manila_front_buses [OF L(1,3) f])
qed

section \<open>The loop\<close>

text \<open>
  The cluster stores what the controller patches: a run reads the instance as the last run left it.
  An instance is being served where it is not new, not being deleted, and has its finalizer.
\<close>

fun manila_patch_of :: "event \<Rightarrow> Manila option" where
  "manila_patch_of (EPatchManila m) = Some m"
| "manila_patch_of _ = None"

definition manila_serving :: "lib \<Rightarrow> Manila \<Rightarrow> bool" where
  "manila_serving L m \<longleftrightarrow> \<not> conds_nil (mst_Conditions (man_Status m)) \<and> om_DeletionTimestamp (man_Meta m) = None \<and>
     l_AddFinalizer L (man_Meta m) (l_GetFinalizer L ''Manila'') = (False, man_Meta m)"

lemma manila_Reconcile_opens:
  assumes "healthy L" "manila_serving L m" "o_GetManila L (trace s) req = Inr m"
  obtains u where "manila_identity (inst u) = manila_identity m"
    "manila_Hash (inst u) = Some (case manila_Hash m of Some f \<Rightarrow> f | None \<Rightarrow> Map.empty)"
    "trace u = trace s @ [EGet ''Manila'' (nn_Namespace req) (nn_Name req)]"
    "\<And>res t. manila_reconcileNormal L u = (Next res, t) \<Longrightarrow>
       \<exists>v. manila_Reconcile L req s = (Next res, v) \<and> trace v = trace t @ [EPatchManila (inst v)] \<and>
         inst v = exit_instance L (\<lambda>m. mst_Conditions (man_Status m)) Manila_updC (inst t)"
proof (rule that)
  let ?m = "let m1 = Manila_updC (cond_do (CInit (manila_init_conditions m))) m;
      m2 = m1\<lparr>man_Status := (man_Status m1)\<lparr>mst_ObservedGeneration := om_Generation (man_Meta m1)\<rparr>\<rparr>;
      m3 = if mst_Hash (man_Status m2) = None then manila_setHash (Some Map.empty) m2 else m2
    in if mst_ManilaSharesReadyCounts (man_Status m3) = None
       then m3\<lparr>man_Status := (man_Status m3)\<lparr>mst_ManilaSharesReadyCounts := Some Map.empty\<rparr>\<rparr> else m3"
  let ?u = "s\<lparr>trace := trace s @ [EGet ''Manila'' (nn_Namespace req) (nn_Name req)], inst := ?m\<rparr>"
  show "manila_identity (inst ?u) = manila_identity m"
    "manila_Hash (inst ?u) = Some (case manila_Hash m of Some f \<Rightarrow> f | None \<Rightarrow> Map.empty)"
    "trace ?u = trace s @ [EGet ''Manila'' (nn_Namespace req) (nn_Name req)]"
    by (auto simp: Let_def Manila_updC_def manila_identity_def manila_Hash_def manila_setHash_def split: option.split)
  show "\<exists>v. manila_Reconcile L req s = (Next res, v) \<and> trace v = trace t @ [EPatchManila (inst v)] \<and>
      inst v = exit_instance L (\<lambda>m. mst_Conditions (man_Status m)) Manila_updC (inst t)"
    if "manila_reconcileNormal L ?u = (Next res, t)" for res t
  proof -
    let ?s = "s\<lparr>trace := trace s @ [EGet ''Manila'' (nn_Namespace req) (nn_Name req)], inst := m\<rparr>"
    let ?wd = "with_deferred L (\<lambda>m. mst_Conditions (man_Status m)) Manila_updC EPatchManila (manila_body L False)"
    have body: "manila_body L False ?s = manila_reconcileNormal L ?u"
      using assms(2) by (cases "mst_Hash (man_Status m)"; cases "mst_ManilaSharesReadyCounts (man_Status m)"; simp add: manila_body_def manila_serving_def prog_simps Let_def Manila_updC_def manila_setHash_def)
    have rec: "manila_Reconcile L req s = func ?wd ?s"
      using assms(2,3) by (simp add: manila_Reconcile_def manila_serving_def run_func run_bindP run_call run_updI run_ask run_whenP healthy_answers(22) [OF assms(1)])
    have wd: "?wd ?s = deferred L (\<lambda>m. mst_Conditions (man_Status m)) Manila_updC EPatchManila res t"
      by (simp only: run_with_deferred body that prod.case outcome.case)
    show ?thesis
      by (simp add: rec run_func wd run_deferred exit_result_def healthy_answers(23) [OF assms(1)] Let_def)
  qed
qed

lemma manila_exit_keeps:
  fixes L defines "exit \<equiv> exit_instance L (\<lambda>m. mst_Conditions (man_Status m)) Manila_updC"
  shows "manila_Hash (exit m) = manila_Hash m" "rotated t nurl (exit m) = rotated t nurl m"
    "manila_identity (exit m) = manila_identity m" "\<not> conds_nil (mst_Conditions (man_Status (exit m)))"
  by (simp_all add: exit_def exit_instance_def Let_def Manila_updC_def manila_Hash_def rotated_def manila_ac_secret_def
      manila_identity_def conds_nil_def cond_do_def split: option.split)

text \<open>One run of the loop, between two reads of the store.\<close>

lemma manila_loop_step:
  assumes L: "manila_healthy L" "lawful_SetHash L" "manila_steady L" "services_up_from L N" "completes_rotation L"
    and store: "\<And>h. o_GetManila L h req = Inr (fetched manila_patch_of i h)"
    and m: "manila_serving L m" "credential_usable L m" "manila_identity m = manila_identity (inst s0)"
    and s: "fetched manila_patch_of i (trace s) = m"
  shows "\<exists>v. manila_Reconcile L req s = (Next (Result0, None), v) \<and> fetched manila_patch_of i (trace v) = inst v \<and>
    manila_identity (inst v) = manila_identity m \<and> manila_serving L (inst v) \<and> length (trace s) < length (trace v) \<and>
    stored_hash L (manila_Hash (inst v)) (manila_digest L s0) \<and>
    (stored_hash L (manila_Hash m) (manila_digest L s0) \<and> N \<le> length (trace s) \<longrightarrow>
       (case manila_buses L m of (tu, nurl) \<Rightarrow> rotated (tu_SecretName tu) nurl (inst v)))"
proof -
  have read: "o_GetManila L (trace s) req = Inr m" using store s by simp
  obtain u where u: "manila_identity (inst u) = manila_identity m"
    "manila_Hash (inst u) = Some (case manila_Hash m of Some f \<Rightarrow> f | None \<Rightarrow> Map.empty)"
    "trace u = trace s @ [EGet ''Manila'' (nn_Namespace req) (nn_Name req)]"
    and ru: "\<And>res t. manila_reconcileNormal L u = (Next res, t) \<Longrightarrow>
       \<exists>v. manila_Reconcile L req s = (Next res, v) \<and> trace v = trace t @ [EPatchManila (inst v)] \<and>
         inst v = exit_instance L (\<lambda>m. mst_Conditions (man_Status m)) Manila_updC (inst t)"
    using manila_Reconcile_opens [OF manila_healthy_base(1) [OF L(1)] m(1) read] by metis
  have usable: "credential_usable L (inst u)" using m(2) credential_usable_key [OF u(1)] by simp
  have key: "manila_digest L u = manila_digest L s0" "manila_buses L (inst u) = manila_buses L m"
    using u(1) m(3) by (simp_all only: manila_buses_key [OF u(1)] manila_digest_key [OF L(1,3), of u s0])
  have some: "manila_Hash (inst u) \<noteq> None" using u(2) by simp
  from manila_normal_step [OF L(1-4) usable some, unfolded key eqTrueI [OF L(5)] simp_thms]
  obtain t where t: "manila_reconcileNormal L u = (Next (Result0, None), t)"
    "manila_identity (inst t) = manila_identity (inst u)" "length (trace u) \<le> length (trace t)"
    "stored_hash L (manila_Hash (inst t)) (manila_digest L s0)"
    "stored_hash L (manila_Hash (inst u)) (manila_digest L s0) \<and> N \<le> length (trace u) \<longrightarrow>
       (case manila_buses L m of (tu, nurl) \<Rightarrow> rotated (tu_SecretName tu) nurl (inst t))"
    by (elim exE conjE) (rule that, assumption+)
  from ru [OF t(1)] obtain v where v: "manila_Reconcile L req s = (Next (Result0, None), v)"
    "trace v = trace t @ [EPatchManila (inst v)]"
    "inst v = exit_instance L (\<lambda>m. mst_Conditions (man_Status m)) Manila_updC (inst t)" by blast
  have id: "manila_identity (inst v) = manila_identity m" using v(3) t(2) u(1) by (simp add: manila_exit_keeps)
  then have "manila_serving L (inst v)"
    using m(1) manila_exit_keeps(4) [of L "inst t"] v(3) by (simp add: manila_serving_def manila_identity_def)
  moreover have "stored_hash L (manila_Hash m) h \<Longrightarrow> stored_hash L (manila_Hash (inst u)) h" for h
    using u(2) by (auto simp: stored_hash_def)
  moreover have "fetched manila_patch_of i (trace v) = inst v"
    unfolding v(2) by (rule fetched_last) simp
  ultimately show ?thesis
    using v(1,2) id t(3-5) u(3) v(3) by (auto simp: manila_exit_keeps)
qed

lemma manila_loop_states:
  assumes L: "manila_healthy L" "lawful_SetHash L" "manila_steady L" "services_up_from L N" "completes_rotation L"
    and store: "\<And>h. o_GetManila L h req = Inr (fetched manila_patch_of i h)"
    and i: "manila_serving L i" "credential_usable L i" "trace s = []" "manila_identity i = manila_identity (inst s0)"
  defines "run \<equiv> \<lambda>s. snd (manila_Reconcile L req s)"
  shows "fst (manila_Reconcile L req ((run ^^ n) s)) = Next (Result0, None) \<and>
    (let m = fetched manila_patch_of i (trace ((run ^^ n) s)) in
      manila_serving L m \<and> manila_identity m = manila_identity i \<and> n \<le> length (trace ((run ^^ n) s)) \<and>
      (0 < n \<longrightarrow> m = inst ((run ^^ n) s) \<and> stored_hash L (manila_Hash m) (manila_digest L s0)) \<and>
      (N + 1 < n \<longrightarrow> (case manila_buses L i of (tu, nurl) \<Rightarrow> rotated (tu_SecretName tu) nurl (inst ((run ^^ n) s)))))"
proof -
  let ?m = "\<lambda>n. fetched manila_patch_of i (trace ((run ^^ n) s))"
  let ?inv = "\<lambda>n. manila_serving L (?m n) \<and> manila_identity (?m n) = manila_identity i \<and> n \<le> length (trace ((run ^^ n) s)) \<and>
      (0 < n \<longrightarrow> ?m n = inst ((run ^^ n) s) \<and> stored_hash L (manila_Hash (?m n)) (manila_digest L s0)) \<and>
      (N + 1 < n \<longrightarrow> (case manila_buses L i of (tu, nurl) \<Rightarrow> rotated (tu_SecretName tu) nurl (inst ((run ^^ n) s))))"
  have step: "fst (manila_Reconcile L req ((run ^^ n) s)) = Next (Result0, None) \<and> ?inv (Suc n)" if inv: "?inv n" for n
  proof -
    have key: "manila_identity (?m n) = manila_identity (inst s0)" "manila_identity (?m n) = manila_identity i" using inv i(4) by simp_all
    have usable: "credential_usable L (?m n)" using i(2) credential_usable_key [OF key(2)] by simp
    from manila_loop_step [OF L store conjunct1 [OF inv] usable key(1) refl]
    obtain v where v: "manila_Reconcile L req ((run ^^ n) s) = (Next (Result0, None), v)" "fetched manila_patch_of i (trace v) = inst v"
      "manila_identity (inst v) = manila_identity (?m n)" "manila_serving L (inst v)" "length (trace ((run ^^ n) s)) < length (trace v)"
      "stored_hash L (manila_Hash (inst v)) (manila_digest L s0)"
      "stored_hash L (manila_Hash (?m n)) (manila_digest L s0) \<and> N \<le> length (trace ((run ^^ n) s)) \<longrightarrow>
         (case manila_buses L (?m n) of (tu, nurl) \<Rightarrow> rotated (tu_SecretName tu) nurl (inst v))"
      by (elim exE conjE) (rule that, assumption+)
    have next_state: "(run ^^ Suc n) s = v" using v(1) by (simp add: run_def)
    have "case manila_buses L i of (tu, nurl) \<Rightarrow> rotated (tu_SecretName tu) nurl (inst v)" if "N + 1 < Suc n"
    proof -
      have c: "stored_hash L (manila_Hash (?m n)) (manila_digest L s0)" "N \<le> length (trace ((run ^^ n) s))" using inv that by auto
      show ?thesis by (rule mp [OF v(7) [unfolded manila_buses_key [OF key(2)]] conjI [OF c]])
    qed
    then show ?thesis
      unfolding next_state v(2) using v(1,3-6) inv by simp
  qed
  have "?inv n"
  proof (induction n)
    case 0
    show ?case using i by simp
  next
    case (Suc n)
    show ?case using step [OF Suc] by (rule conjunct2)
  qed
  with step [of n] show ?thesis unfolding Let_def by blast
qed

text \<open>C3: the rotation of the credentials completes. On a cluster that stores what the controller patches, where its calls succeed and the answers about its inputs do not change, every run of the loop on an instance that is not new, not being deleted and has its finalizer ends without an error, a requeue or a panic, and keeps the spec and the metadata. Where the services answer as rolled out from some point of the history on, the instance then names in its status exactly the message bus secret, the notifications secret and the application credential that its spec asks for, after the second run past that point and after every later one: the old ones are let go of.\<close>

theorem manila_rotation_completes:
  assumes "manila_healthy L" "lawful_SetHash L" "manila_steady L" "services_up_from L N" "completes_rotation L"
    and "\<And>h. o_GetManila L h req = Inr (fetched manila_patch_of i h)"
    and "manila_serving L i" "credential_usable L i" "trace s = []"
  shows "let run = (\<lambda>s. snd (manila_Reconcile L req s)); (url, notifications) = manila_buses L i in
    fst (manila_Reconcile L req ((run ^^ n) s)) = Next (Result0, None) \<and>
    rotated (tu_SecretName url) notifications (inst ((run ^^ (N + n + 2)) s)) \<and>
    manila_identity (inst ((run ^^ Suc n) s)) = manila_identity i"
proof -
  have "manila_identity i = manila_identity (inst (s\<lparr>inst := i\<rparr>))" by simp
  note st = manila_loop_states [OF assms this]
  let ?run = "\<lambda>s. snd (manila_Reconcile L req s)"
  have "case manila_buses L i of (tu, nurl) \<Rightarrow> rotated (tu_SecretName tu) nurl (inst ((?run ^^ (N + n + 2)) s))"
    using st [of "N + n + 2"] unfolding Let_def by (elim conjE) (erule mp, simp)
  moreover have "manila_identity (inst ((?run ^^ Suc n) s)) = manila_identity i"
    using st [of "Suc n"] unfolding Let_def by (metis zero_less_Suc)
  ultimately show ?thesis using conjunct1 [OF st [of n]] by (simp add: Let_def split_beta del: funpow.simps)
qed

text \<open>
  The concrete cluster with a store for the instance, whose controllers of the children roll out at
  once what is written. The instance still names an old message bus secret.
\<close>

definition demo_rotating :: Manila where
  "demo_rotating = demo_manila\<lparr>man_Status := (man_Status demo_manila)\<lparr>mst_TransportURLSecret := ''old''\<rparr>\<rparr>"

definition demo_up_api :: "ManilaAPI \<Rightarrow> ManilaAPI" where
  "demo_up_api a = a\<lparr>api_Spec := (api_Spec a)\<lparr>as_Template := demo_api_template\<rparr>,
     api_Status := (api_Status a)\<lparr>ast_ReadyCount := the (atc_Replicas (at_Core demo_api_template)),
       ast_ObservedGeneration := om_Generation (api_Meta a),
       ast_AppliedInputSecretHash := fst (l_ObjectHash demo_lib [as_TransportURLSecret (api_Spec a), as_NotificationsURLSecret (api_Spec a)])\<rparr>\<rparr>"

definition demo_up_scheduler :: "ManilaScheduler \<Rightarrow> ManilaScheduler" where
  "demo_up_scheduler a = a\<lparr>sch_Spec := (sch_Spec a)\<lparr>scs_SchedulerTemplate := demo_scheduler_template\<rparr>,
     sch_Status := (sch_Status a)\<lparr>sst_ReadyCount := the (stc_Replicas (sct_Core demo_scheduler_template)),
       sst_ObservedGeneration := om_Generation (sch_Meta a),
       sst_AppliedInputSecretHash := fst (l_ObjectHash demo_lib [scs_TransportURLSecret (sch_Spec a), scs_NotificationsURLSecret (sch_Spec a)])\<rparr>\<rparr>"

definition demo_up_share :: "ManilaShare \<Rightarrow> ManilaShare" where
  "demo_up_share a = a\<lparr>shr_Spec := (shr_Spec a)\<lparr>hs_ShareTemplate := demo_share_template\<rparr>,
     shr_Status := (shr_Status a)\<lparr>hst_ReadyCount := the (htc_Replicas (ht_Core demo_share_template)),
       hst_ObservedGeneration := om_Generation (shr_Meta a),
       hst_AppliedInputSecretHash := fst (l_ObjectHash demo_lib [hs_TransportURLSecret (shr_Spec a), hs_NotificationsURLSecret (shr_Spec a)])\<rparr>\<rparr>"

definition demo_manila_store :: lib where
  "demo_manila_store = demo_lib\<lparr>o_GetManila := \<lambda>h req. Inr (fetched manila_patch_of demo_rotating h),
     o_CreateOrUpdateAPI := \<lambda>h d f. (demo_up_api (snd (f d)), OperationResultNone, None),
     o_CreateOrUpdateScheduler := \<lambda>h d f. (demo_up_scheduler (snd (f d)), OperationResultNone, None),
     o_CreateOrUpdateShare := \<lambda>h d f. (demo_up_share (snd (f d)), OperationResultNone, None)\<rparr>"

lemma demo_ups_ready:
  "ManilaAPI_IsReady (demo_up_api a) = Some True" "ManilaScheduler_IsReady (demo_up_scheduler c) = Some True"
  "ManilaShare_IsReady (demo_up_share d) = Some True"
  by (simp_all add: ManilaAPI_IsReady_def ManilaScheduler_IsReady_def ManilaShare_IsReady_def demo_up_api_def
      demo_up_scheduler_def demo_up_share_def demo_api_template_def demo_scheduler_template_def demo_share_template_def)

lemma demo_ups_observed:
  assumes "bus_given m n"
  shows "api_observed (demo_up_api (snd (api_mutate L m t n a))) (fst (l_ObjectHash demo_lib [t, n]))"
    "scheduler_observed (demo_up_scheduler (snd (scheduler_mutate L m t n c))) (fst (l_ObjectHash demo_lib [t, n]))"
    "share_observed (demo_up_share (snd (share_mutate L m sh t n d))) (fst (l_ObjectHash demo_lib [t, n]))"
  using assms
  by (auto simp: api_observed_def scheduler_observed_def share_observed_def
      demo_up_api_def demo_up_scheduler_def demo_up_share_def bus_given_def api_mutate_def scheduler_mutate_def share_mutate_def
      manila_apiSpec_def manila_schedulerSpec_def manila_shareSpec_def Let_def split: prod.split)

lemma demo_manila_store_laws:
  "manila_healthy demo_manila_store" "lawful_SetHash demo_manila_store" "manila_steady demo_manila_store"
  "services_up_from demo_manila_store 0" "completes_rotation demo_manila_store"
  "o_GetManila demo_manila_store h req = Inr (fetched manila_patch_of demo_rotating h)"
  "manila_serving demo_manila_store demo_rotating" "credential_usable demo_manila_store demo_rotating"
proof -
  have h: "healthy demo_manila_store" and s: "steady demo_manila_store" and f: "full_hashes demo_manila_store"
    using demo_healthy demo_steady
    by (simp_all add: demo_manila_store_def healthy_def steady_def, simp add: full_hashes_def demo_defs TruncateHash_def)
  show "lawful_SetHash demo_manila_store"
    using demo_lawful_SetHash by (simp add: demo_manila_store_def lawful_SetHash_def)
  show "manila_healthy demo_manila_store"
    unfolding manila_healthy_def
    by (intro conjI h f; simp add: demo_ups_ready demo_manila_store_def demo_defs demo_memcached_def demo_keystone_def DbSyncHash_def)
  show "manila_steady demo_manila_store"
    unfolding manila_steady_def by (intro conjI s allI; simp add: demo_manila_store_def demo_defs)
  show "completes_rotation demo_manila_store"
    by (simp add: completes_rotation_def demo_manila_store_def demo_defs)
  show "o_GetManila demo_manila_store h req = Inr (fetched manila_patch_of demo_rotating h)"
    by (simp add: demo_manila_store_def)
  show "manila_serving demo_manila_store demo_rotating"
    by (simp add: manila_serving_def demo_manila_store_def demo_defs demo_rotating_def demo_manila_def demo_conditions_def conds_nil_def
        demo_meta_def newMeta_def demo_AddFinalizer_def)
  show "credential_usable demo_manila_store demo_rotating"
    by (simp add: credential_usable_def manila_ac_secret_def demo_rotating_def demo_manila_def demo_spec_def)
  show "services_up_from demo_manila_store 0"
    unfolding services_up_from_def
    by (simp add: demo_ups_ready demo_ups_observed demo_manila_store_def)
qed

theorem manila_rotation_completes_witness:
  "let req = \<lparr>nn_Namespace = ''openstack'', nn_Name = ''m''\<rparr>; s = demo_state demo_rotating;
      run = (\<lambda>s. snd (manila_Reconcile demo_manila_store req s)); (url, notifications) = manila_buses demo_manila_store demo_rotating in
    fst (manila_Reconcile demo_manila_store req ((run ^^ 3) s)) = Next (Result0, None) \<and>
    rotated (tu_SecretName url) notifications (inst ((run ^^ (0 + 3 + 2)) s)) \<and>
    manila_identity (inst ((run ^^ Suc 3) s)) = manila_identity demo_rotating"
  using manila_rotation_completes [OF demo_manila_store_laws, of "demo_state demo_rotating" "\<lparr>nn_Namespace = ''openstack'', nn_Name = ''m''\<rparr>" 3]
  by (simp add: Let_def del: funpow.simps)

end
