(* ===== verification/DeletionProgress.thy ===== *)
theory DeletionProgress
  imports ApiProgress SchedulerProgress ShareProgress ManilaProgress
begin

text \<open>
  Deletion comes to an end: where the calls that release what a resource holds succeed, or find that
  it is gone, one run on a resource being deleted ends well, and what it patches no longer has the
  finalizer of the controller.
\<close>

section \<open>Releases that succeed\<close>

definition found_or_gone :: "lib \<Rightarrow> gerr + 'a \<Rightarrow> bool" where
  "found_or_gone L r \<longleftrightarrow> (case r of Inl e \<Rightarrow> l_IsNotFound L e | Inr x \<Rightarrow> True)"

definition done_or_gone :: "lib \<Rightarrow> gerr option \<Rightarrow> bool" where
  "done_or_gone L r \<longleftrightarrow> (case r of Some e \<Rightarrow> l_IsNotFound L e | None \<Rightarrow> True)"

text \<open>\<open>RemoveFinalizer\<close> takes the finalizer off, as documented.\<close>

definition releases :: "lib \<Rightarrow> bool" where
  "releases L \<longleftrightarrow>
     (\<forall>m f. f \<notin> set (om_Finalizers (l_RemoveFinalizer L m f))) \<and>
     (\<forall>h k. o_NewHelper L h k = None) \<and> (\<forall>h e. o_Patch L h e = None) \<and>
     (\<forall>h a ns. found_or_gone L (o_GetDatabase L h a ns)) \<and> (\<forall>h db. o_DeleteDBFinalizer L h db = None) \<and>
     (\<forall>h n ns. found_or_gone L (o_GetTransportURL L h n ns)) \<and>
     (\<forall>h ns n f. o_RemoveConsumerFinalizer L h ns n f = None) \<and>
     (\<forall>h ns f keep. o_PruneConsumerFinalizers L h ns f keep = None) \<and>
     (\<forall>h kind n ns. found_or_gone L (o_GetKeystoneObj L h kind n ns)) \<and>
     (\<forall>h kind m. done_or_gone L (o_Update L h kind m)) \<and>
     (\<forall>h topo n. snd (o_EnsureDeletedTopologyRef L h topo n) = None)"

lemma releases_answers:
  assumes "releases L"
  shows "f \<notin> set (om_Finalizers (l_RemoveFinalizer L m f))" "o_NewHelper L h kind = None" "o_Patch L h e = None"
    "o_DeleteDBFinalizer L h db = None" "o_RemoveConsumerFinalizer L h ns n f = None"
    "o_PruneConsumerFinalizers L h ns f keep = None"
    "o_EnsureDeletedTopologyRef L h topo n = (fst (hidden (o_EnsureDeletedTopologyRef L) h topo n), None)"
  using assms by (simp_all add: releases_def hidden_def prod_form)

lemma goes_found:
  assumes "\<And>h. found_or_gone L (query h)" "goes (gone :: ('i st, 'r, 'a) prog)" "\<And>x. goes (found x)"
  shows "goes (bindP (call e query) (\<lambda>r. case r of Inl err \<Rightarrow> if l_IsNotFound L err then gone else bad err | Inr x \<Rightarrow> found x))"
  unfolding goes_def
proof
  fix s :: "'i st"
  let ?s = "s\<lparr>trace := trace s @ [e]\<rparr>"
  show "\<exists>a t. bindP (call e query) (\<lambda>r. case r of Inl err \<Rightarrow> if l_IsNotFound L err then gone else bad err | Inr x \<Rightarrow> found x) s = (Next a, t)"
  proof (cases "query (trace s)")
    case (Inl err)
    with assms(1) [of "trace s"] assms(2) show ?thesis by (simp add: found_or_gone_def goes_def run_bindP run_call)
  next
    case (Inr x)
    with assms(3) [of x] show ?thesis by (simp add: goes_def run_bindP run_call)
  qed
qed

section \<open>The releases go on\<close>

lemma manila_release_goes:
  assumes "releases L"
  shows "goes (delete_db_finalizer L)" "goes (collect_transport_secrets L)" "goes (release_secret L f n)" "goes (prune_secrets L f keep)"
proof -
  note a = releases_answers [OF assms]
  have rel: "\<And>h a ns. found_or_gone L (o_GetDatabase L h a ns)" "\<And>h n ns. found_or_gone L (o_GetTransportURL L h n ns)"
    using assms by (simp_all add: releases_def)
  have get: "goes (getI g)" for g :: "Manila \<Rightarrow> 'b" by (simp add: goes_def run_getI)
  have db: "goes (try_call EDeleteDBFinalizer (\<lambda>h. o_DeleteDBFinalizer L h db) :: unit manila_phase)" for db
    by (simp add: goes_def try_call_def prog_simps a)
  show "goes (delete_db_finalizer L)"
    unfolding delete_db_finalizer_def split_def by (intro goes_bind get goes_found goes_pure rel db)
  show "goes (collect_transport_secrets L)"
    unfolding collect_transport_secrets_def by (intro goes_bind get goes_fold goes_found goes_pure rel)
  show "goes (release_secret L f n)" "goes (prune_secrets L f keep)"
    by (simp_all add: goes_def release_secret_def prune_secrets_def try_call_def prog_simps Let_def a)
qed

lemma manila_delete_goes:
  assumes "releases L"
  shows "\<exists>t. manila_reconcileDelete L s = (Next (Result0, None), t) \<and> l_GetFinalizer L ''Manila'' \<notin> set (om_Finalizers (man_Meta (inst t)))"
proof -
  note g = manila_release_goes [OF assms]
  let ?own = "updI (\<lambda>m. m\<lparr>man_Meta := l_RemoveFinalizer L (man_Meta m) (l_GetFinalizer L ''Manila'')\<rparr>) :: unit manila_phase"
  have loop: "\<exists>t. forP xs (release_secret L f) u = (Next (), t)" for xs f u
    using goes_for [of "release_secret L f" xs, OF g(3)] by (auto simp: goes_def)
  obtain s1 where 1: "delete_db_finalizer L s = (Next (), s1)" using g(1) by (rule goesE) simp
  obtain secrets s2 where 2: "collect_transport_secrets L s1 = (Next secrets, s2)" using goesE [OF g(2), of s1] by blast
  define ss where "ss = (case mst_NotificationsURLSecret (man_Status (inst s2)) of Some x \<Rightarrow> secrets @ [x] | None \<Rightarrow> secrets)"
  obtain s3 where 3: "forP ss (release_secret L TransportConsumerFinalizer) s2 = (Next (), s3)"
    using loop by blast
  obtain s4 where 4: "forP [mst_ApplicationCredentialSecret (man_Status (inst s2)), manila_ac_secret (inst s2)]
      (release_secret L ACConsumerFinalizer) s3 = (Next (), s4)" using loop by blast
  obtain s5 where 5: "prune_secrets L TransportConsumerFinalizer [] s4 = (Next (), s5)" using g(4) by (rule goesE) simp
  obtain s6 where 6: "prune_secrets L ACConsumerFinalizer [] s5 = (Next (), s6)" using g(4) by (rule goesE) simp
  show ?thesis
    by (simp add: manila_reconcileDelete_def run_func run_bindP run_getI run_updI run_ret Let_def 1 2 ss_def [symmetric] 3 4 5 6
        releases_answers(1) [OF assms]
        del: forP.simps)
qed

lemma api_release_goes:
  assumes "releases L" shows "goes (api_release_keystone L kind name)"
proof -
  have get: "goes (getI g)" for g :: "ManilaAPI \<Rightarrow> 'b" by (simp add: goes_def run_getI)
  have obj: "\<And>h kind n ns. found_or_gone L (o_GetKeystoneObj L h kind n ns)"
    and upd: "\<And>h kind m. done_or_gone L (o_Update L h kind m)" using assms by (simp_all add: releases_def)
  have "goes (bindP (call (EUpdate kind x) (\<lambda>h. o_Update L h kind x)) (\<lambda>uerr. case uerr of
      Some e \<Rightarrow> if l_IsNotFound L e then pureP () else ret (Result0, Some e) | None \<Rightarrow> pureP ())
      :: (ManilaAPI st, reconcile_result, unit) prog)" for x
    unfolding goes_def
  proof
    fix s :: "ManilaAPI st"
    show "\<exists>a t. bindP (call (EUpdate kind x) (\<lambda>h. o_Update L h kind x)) (\<lambda>uerr. case uerr of
        Some e \<Rightarrow> if l_IsNotFound L e then pureP () else ret (Result0, Some e) | None \<Rightarrow> pureP ()) s = (Next a, t)"
      using upd [of "trace s" kind x] by (auto simp: prog_simps done_or_gone_def split: option.splits)
  qed
  then show ?thesis
    unfolding api_release_keystone_def Let_def by (rule goes_bind [OF get goes_found [OF obj goes_pure]])
qed

lemma child_delete_goes:
  assumes "releases L"
  shows "\<exists>t. api_reconcileDelete L s = (Next (Result0, None), t) \<and> l_GetFinalizer L ''ManilaAPI'' \<notin> set (om_Finalizers (api_Meta (inst t)))"
    "\<exists>t. scheduler_reconcileDelete L s' = (Next (Result0, None), t) \<and> l_GetFinalizer L ''ManilaScheduler'' \<notin> set (om_Finalizers (sch_Meta (inst t)))"
    "\<exists>t. share_reconcileDelete L s'' = (Next (Result0, None), t) \<and> l_GetFinalizer L ''ManilaShare'' \<notin> set (om_Finalizers (shr_Meta (inst t)))"
proof -
  note a = releases_answers(1,7) [OF assms]
  let ?all = "forP keystoneServices (\<lambda>ksSvc. thenP (api_release_keystone L ''KeystoneEndpoint'' (ks_name ksSvc))
        (api_release_keystone L ''KeystoneService'' (ks_name ksSvc)))"
  have "goes ?all" by (intro goes_for goes_bind api_release_goes [OF assms])
  then obtain u where u: "?all s = (Next (), u)" by (rule goesE) simp
  show "\<exists>t. api_reconcileDelete L s = (Next (Result0, None), t) \<and> l_GetFinalizer L ''ManilaAPI'' \<notin> set (om_Finalizers (api_Meta (inst t)))"
    by (simp add: api_reconcileDelete_def run_func run_bindP u prog_simps a del: forP.simps)
  show "\<exists>t. scheduler_reconcileDelete L s' = (Next (Result0, None), t) \<and> l_GetFinalizer L ''ManilaScheduler'' \<notin> set (om_Finalizers (sch_Meta (inst t)))"
    "\<exists>t. share_reconcileDelete L s'' = (Next (Result0, None), t) \<and> l_GetFinalizer L ''ManilaShare'' \<notin> set (om_Finalizers (shr_Meta (inst t)))"
    by (simp_all add: scheduler_reconcileDelete_def share_reconcileDelete_def prog_simps a)
qed

section \<open>A run of Reconcile\<close>

lemma deletion_exits:
  assumes "releases L" "body s = (Next (Result0, None), t)"
  shows "func (with_deferred L getC upd patch body) s =
    (Next (Result0, None), t\<lparr>inst := exit_instance L getC upd (inst t), trace := trace t @ [patch (exit_instance L getC upd (inst t))]\<rparr>)"
proof -
  have wd: "with_deferred L getC upd patch body s = deferred L getC upd patch (Result0, None) t"
    by (simp only: run_with_deferred assms(2) prod.case outcome.case)
  show ?thesis by (simp add: run_func wd run_deferred exit_result_def releases_answers(3) [OF assms(1)] Let_def)
qed

lemma exit_keeps_meta:
  "man_Meta (exit_instance L (\<lambda>m. mst_Conditions (man_Status m)) Manila_updC m) = man_Meta m"
  "api_Meta (exit_instance L (\<lambda>i. ast_Conditions (api_Status i)) ManilaAPI_updC a) = api_Meta a"
  "sch_Meta (exit_instance L (\<lambda>i. sst_Conditions (sch_Status i)) ManilaScheduler_updC c) = sch_Meta c"
  "shr_Meta (exit_instance L (\<lambda>i. hst_Conditions (shr_Status i)) ManilaShare_updC h) = shr_Meta h"
  by (simp_all add: exit_instance_def Let_def Manila_updC_def ManilaAPI_updC_def ManilaScheduler_updC_def ManilaShare_updC_def)

text \<open>
  A run on a resource that is being deleted and has its conditions: it opens into the deletion and
  ends with the patch of what that leaves.
\<close>

lemma manila_deletion:
  assumes L: "releases L" and get: "o_GetManila L (trace s) req = Inr m"
    and del: "om_DeletionTimestamp (man_Meta m) \<noteq> None" "\<not> conds_nil (mst_Conditions (man_Status m))"
  shows "\<exists>v h. manila_Reconcile L req s = (Next (Result0, None), v) \<and> trace v = h @ [EPatchManila (inst v)] \<and>
    l_GetFinalizer L ''Manila'' \<notin> set (om_Finalizers (man_Meta (inst v)))"
proof -
  let ?s = "s\<lparr>trace := trace s @ [EGet ''Manila'' (nn_Namespace req) (nn_Name req)], inst := m\<rparr>"
  have "\<exists>u. manila_body L False ?s = manila_reconcileDelete L u"
    using del(1) by (cases "mst_Hash (man_Status m)"; cases "mst_ManilaSharesReadyCounts (man_Status m)";
        auto simp: manila_body_def prog_simps Let_def Manila_updC_def manila_setHash_def)
  then obtain t where t: "manila_body L False ?s = (Next (Result0, None), t)"
    "l_GetFinalizer L ''Manila'' \<notin> set (om_Finalizers (man_Meta (inst t)))" using manila_delete_goes [OF L] by metis
  have "manila_Reconcile L req s =
      func (with_deferred L (\<lambda>m. mst_Conditions (man_Status m)) Manila_updC EPatchManila (manila_body L False)) ?s"
    using get del(2) by (simp add: manila_Reconcile_def run_func run_bindP run_call run_updI run_ask run_whenP releases_answers(2) [OF L])
  with t show ?thesis by (simp add: deletion_exits [OF L] exit_keeps_meta)
qed

lemma api_deletion:
  assumes L: "releases L" and get: "o_GetAPI L (trace s) req = Inr m"
    and del: "om_DeletionTimestamp (api_Meta m) \<noteq> None" "\<not> conds_nil (ast_Conditions (api_Status m))"
  shows "\<exists>v h. api_Reconcile L req s = (Next (Result0, None), v) \<and> trace v = h @ [EPatchAPI (inst v)] \<and>
    l_GetFinalizer L ''ManilaAPI'' \<notin> set (om_Finalizers (api_Meta (inst v)))"
proof -
  let ?s = "s\<lparr>trace := trace s @ [EGet ''ManilaAPI'' (nn_Namespace req) (nn_Name req)], inst := m\<rparr>"
  have "\<exists>u. api_body L False ?s = api_reconcileDelete L u"
    using del(1) by (cases "ast_Hash (api_Status m)"; cases "ast_NetworkAttachments (api_Status m)";
        auto simp: api_body_def prog_simps Let_def ManilaAPI_updC_def)
  then obtain t where t: "api_body L False ?s = (Next (Result0, None), t)"
    "l_GetFinalizer L ''ManilaAPI'' \<notin> set (om_Finalizers (api_Meta (inst t)))" using child_delete_goes [OF L] by metis
  have "api_Reconcile L req s =
      func (with_deferred L (\<lambda>i. ast_Conditions (api_Status i)) ManilaAPI_updC EPatchAPI (api_body L False)) ?s"
    using get del(2) by (simp add: api_Reconcile_def run_func run_bindP run_call run_updI run_ask run_whenP releases_answers(2) [OF L])
  with t show ?thesis by (simp add: deletion_exits [OF L] exit_keeps_meta)
qed

lemma scheduler_deletion:
  assumes L: "releases L" and get: "o_GetScheduler L (trace s) req = Inr m"
    and del: "om_DeletionTimestamp (sch_Meta m) \<noteq> None" "\<not> conds_nil (sst_Conditions (sch_Status m))"
  shows "\<exists>v h. scheduler_Reconcile L req s = (Next (Result0, None), v) \<and> trace v = h @ [EPatchScheduler (inst v)] \<and>
    l_GetFinalizer L ''ManilaScheduler'' \<notin> set (om_Finalizers (sch_Meta (inst v)))"
proof -
  let ?s = "s\<lparr>trace := trace s @ [EGet ''ManilaScheduler'' (nn_Namespace req) (nn_Name req)], inst := m\<rparr>"
  have "\<exists>u. scheduler_body L False ?s = scheduler_reconcileDelete L u"
    using del(1) by (cases "sst_Hash (sch_Status m)";
        auto simp: scheduler_body_def prog_simps Let_def ManilaScheduler_updC_def)
  then obtain t where t: "scheduler_body L False ?s = (Next (Result0, None), t)"
    "l_GetFinalizer L ''ManilaScheduler'' \<notin> set (om_Finalizers (sch_Meta (inst t)))" using child_delete_goes [OF L] by metis
  have "scheduler_Reconcile L req s =
      func (with_deferred L (\<lambda>i. sst_Conditions (sch_Status i)) ManilaScheduler_updC EPatchScheduler (scheduler_body L False)) ?s"
    using get del(2) by (simp add: scheduler_Reconcile_def run_func run_bindP run_call run_updI run_ask run_whenP releases_answers(2) [OF L])
  with t show ?thesis by (simp add: deletion_exits [OF L] exit_keeps_meta)
qed

lemma share_deletion:
  assumes L: "releases L" and get: "o_GetShare L (trace s) req = Inr m"
    and del: "om_DeletionTimestamp (shr_Meta m) \<noteq> None" "\<not> conds_nil (hst_Conditions (shr_Status m))"
  shows "\<exists>v h. share_Reconcile L req s = (Next (Result0, None), v) \<and> trace v = h @ [EPatchShare (inst v)] \<and>
    l_GetFinalizer L ''ManilaShare'' \<notin> set (om_Finalizers (shr_Meta (inst v)))"
proof -
  let ?s = "s\<lparr>trace := trace s @ [EGet ''ManilaShare'' (nn_Namespace req) (nn_Name req)], inst := m\<rparr>"
  have "\<exists>u. share_body L False ?s = share_reconcileDelete L u"
    using del(1) by (cases "hst_Hash (shr_Status m)";
        auto simp: share_body_def prog_simps Let_def ManilaShare_updC_def)
  then obtain t where t: "share_body L False ?s = (Next (Result0, None), t)"
    "l_GetFinalizer L ''ManilaShare'' \<notin> set (om_Finalizers (shr_Meta (inst t)))" using child_delete_goes [OF L] by metis
  have "share_Reconcile L req s =
      func (with_deferred L (\<lambda>i. hst_Conditions (shr_Status i)) ManilaShare_updC EPatchShare (share_body L False)) ?s"
    using get del(2) by (simp add: share_Reconcile_def run_func run_bindP run_call run_updI run_ask run_whenP releases_answers(2) [OF L])
  with t show ?thesis by (simp add: deletion_exits [OF L] exit_keeps_meta)
qed

section \<open>The property\<close>

text \<open>C10: Deletion comes to an end. Where the objects a resource releases are there or gone, and the calls
  that release them succeed, one run of Reconcile on an instance, an API, a scheduler or a share that is
  marked for deletion and has its conditions ends without an error and without a requeue. Its last act
  is to patch the resource, and what it patches no longer carries the finalizer of its controller, so
  that the cluster can remove it. This holds from every state of the cluster and for every history of
  calls.\<close>
theorem deletions_complete:
  assumes "releases L"
  shows "(o_GetManila L (trace sm) req = Inr m \<and> om_DeletionTimestamp (man_Meta m) \<noteq> None \<and>
      \<not> conds_nil (mst_Conditions (man_Status m)) \<longrightarrow>
      (\<exists>v h. manila_Reconcile L req sm = (Next (Result0, None), v) \<and> trace v = h @ [EPatchManila (inst v)] \<and>
        l_GetFinalizer L ''Manila'' \<notin> set (om_Finalizers (man_Meta (inst v))))) \<and>
    (o_GetAPI L (trace sa) req = Inr a \<and> om_DeletionTimestamp (api_Meta a) \<noteq> None \<and>
      \<not> conds_nil (ast_Conditions (api_Status a)) \<longrightarrow>
      (\<exists>v h. api_Reconcile L req sa = (Next (Result0, None), v) \<and> trace v = h @ [EPatchAPI (inst v)] \<and>
        l_GetFinalizer L ''ManilaAPI'' \<notin> set (om_Finalizers (api_Meta (inst v))))) \<and>
    (o_GetScheduler L (trace sc) req = Inr c \<and> om_DeletionTimestamp (sch_Meta c) \<noteq> None \<and>
      \<not> conds_nil (sst_Conditions (sch_Status c)) \<longrightarrow>
      (\<exists>v h. scheduler_Reconcile L req sc = (Next (Result0, None), v) \<and> trace v = h @ [EPatchScheduler (inst v)] \<and>
        l_GetFinalizer L ''ManilaScheduler'' \<notin> set (om_Finalizers (sch_Meta (inst v))))) \<and>
    (o_GetShare L (trace sh) req = Inr w \<and> om_DeletionTimestamp (shr_Meta w) \<noteq> None \<and>
      \<not> conds_nil (hst_Conditions (shr_Status w)) \<longrightarrow>
      (\<exists>v h. share_Reconcile L req sh = (Next (Result0, None), v) \<and> trace v = h @ [EPatchShare (inst v)] \<and>
        l_GetFinalizer L ''ManilaShare'' \<notin> set (om_Finalizers (shr_Meta (inst v)))))"
  using manila_deletion [OF assms] api_deletion [OF assms] scheduler_deletion [OF assms] share_deletion [OF assms] by blast

text \<open>The cluster of the fixtures, with every resource marked for deletion.\<close>

definition demo_marked :: "ObjectMeta \<Rightarrow> ObjectMeta" where
  "demo_marked m = m\<lparr>om_DeletionTimestamp := Some 1\<rparr>"

definition demo_deleting :: lib where
  "demo_deleting = demo_lib\<lparr>
     o_GetManila := \<lambda>h n. Inr (demo_manila\<lparr>man_Meta := demo_marked (man_Meta demo_manila)\<rparr>),
     o_GetAPI := \<lambda>h n. Inr (demo_api\<lparr>api_Meta := demo_marked (api_Meta demo_api)\<rparr>),
     o_GetScheduler := \<lambda>h n. Inr (demo_scheduler\<lparr>sch_Meta := demo_marked (sch_Meta demo_scheduler)\<rparr>),
     o_GetShare := \<lambda>h n. Inr ((demo_share ''a'')\<lparr>shr_Meta := demo_marked (shr_Meta (demo_share ''a''))\<rparr>),
     o_GetDatabase := \<lambda>h a ns. Inl demo_not_found\<rparr>"

lemma demo_deleting_releases: "releases demo_deleting"
  by (simp add: releases_def demo_deleting_def demo_defs demo_RemoveFinalizer_def found_or_gone_def done_or_gone_def demo_not_found_def)

lemma demo_deleting_reads:
  "o_GetManila demo_deleting h n = Inr (demo_manila\<lparr>man_Meta := demo_marked (man_Meta demo_manila)\<rparr>)"
  "o_GetAPI demo_deleting h n = Inr (demo_api\<lparr>api_Meta := demo_marked (api_Meta demo_api)\<rparr>)"
  "o_GetScheduler demo_deleting h n = Inr (demo_scheduler\<lparr>sch_Meta := demo_marked (sch_Meta demo_scheduler)\<rparr>)"
  "o_GetShare demo_deleting h n = Inr ((demo_share ''a'')\<lparr>shr_Meta := demo_marked (shr_Meta (demo_share ''a''))\<rparr>)"
  "l_GetFinalizer demo_deleting kind = ''openstack.org/'' @ kind"
  by (simp_all add: demo_deleting_def demo_defs)

lemma demo_conditions_kept:
  "\<not> conds_nil (mst_Conditions (man_Status demo_manila))" "\<not> conds_nil (ast_Conditions (api_Status demo_api))"
  "\<not> conds_nil (sst_Conditions (sch_Status demo_scheduler))" "\<not> conds_nil (hst_Conditions (shr_Status (demo_share ''a'')))"
  by (simp_all add: conds_nil_def demo_manila_def demo_api_def demo_scheduler_def demo_share_def demo_conditions_def)

theorem deletions_complete_witness:
  "(\<exists>v h. manila_Reconcile demo_deleting demo_req (demo_state demo_manila) = (Next (Result0, None), v) \<and> trace v = h @ [EPatchManila (inst v)] \<and>
      ''openstack.org/Manila'' \<notin> set (om_Finalizers (man_Meta (inst v)))) \<and>
    (\<exists>v h. api_Reconcile demo_deleting demo_req (demo_state demo_api) = (Next (Result0, None), v) \<and> trace v = h @ [EPatchAPI (inst v)] \<and>
      ''openstack.org/ManilaAPI'' \<notin> set (om_Finalizers (api_Meta (inst v)))) \<and>
    (\<exists>v h. scheduler_Reconcile demo_deleting demo_req (demo_state demo_scheduler) = (Next (Result0, None), v) \<and> trace v = h @ [EPatchScheduler (inst v)] \<and>
      ''openstack.org/ManilaScheduler'' \<notin> set (om_Finalizers (sch_Meta (inst v)))) \<and>
    (\<exists>v h. share_Reconcile demo_deleting demo_req (demo_state (demo_share ''a'')) = (Next (Result0, None), v) \<and> trace v = h @ [EPatchShare (inst v)] \<and>
      ''openstack.org/ManilaShare'' \<notin> set (om_Finalizers (shr_Meta (inst v))))"
  using deletions_complete [OF demo_deleting_releases, of "demo_state demo_manila" demo_req
      "demo_manila\<lparr>man_Meta := demo_marked (man_Meta demo_manila)\<rparr>" "demo_state demo_api"
      "demo_api\<lparr>api_Meta := demo_marked (api_Meta demo_api)\<rparr>"
      "demo_state demo_scheduler" "demo_scheduler\<lparr>sch_Meta := demo_marked (sch_Meta demo_scheduler)\<rparr>"
      "demo_state (demo_share ''a'')" "(demo_share ''a'')\<lparr>shr_Meta := demo_marked (shr_Meta (demo_share ''a''))\<rparr>"]
  by (simp add: demo_deleting_reads demo_conditions_kept demo_marked_def)

end
