(* ===== verification/Refinement.thy ===== *)
theory Refinement
  imports ChildLife
begin

text \<open>
  The abstract machine of a rollout, and the three controllers as its implementations. What the
  machine knows of a service is the hash of its inputs on record and the hash of the secrets it
  reports as applied. A round either records the hash of inputs it sees for the first time, and goes
  no further, or it finds that hash on record, rolls the service out and reports its secrets.
\<close>

section \<open>The abstract machine\<close>

type_synonym rollout = "string option \<times> string"

definition rollout_step :: "string \<Rightarrow> string \<Rightarrow> rollout \<Rightarrow> rollout" where
  "rollout_step inputs secrets r = (if fst r = Some inputs then (fst r, secrets) else (Some inputs, snd r))"

text \<open>The machine settles after two rounds, and then stays.\<close>

lemma rollout_settles: "(rollout_step d a ^^ (n + 2)) r = (Some d, a)"
  by (induction n) (simp_all add: rollout_step_def numeral_2_eq_2)

definition rollout_of :: "lib \<Rightarrow> (string \<rightharpoonup> string) option \<Rightarrow> string \<Rightarrow> rollout" where
  "rollout_of L hash applied = (case hash of None \<Rightarrow> None | Some f \<Rightarrow> f (l_const L ''common.InputHashName''), applied)"

lemma rollout_of_step:
  "stored_hash L m' d \<Longrightarrow> app' = (if stored_hash L m d then a else app) \<Longrightarrow>
   rollout_of L m' app' = rollout_step d a (rollout_of L m app)"
  by (auto simp: stored_hash_def rollout_of_def rollout_step_def split: option.splits)

section \<open>What a controller owes\<close>

text \<open>
  Beside what makes its loop settle: only the end of the run touches the applied hash, hash maps
  that lack the hash of the inputs end the run after they got it, and opening and exit keep both.
\<close>

locale child_refining = child_reconciling inputs tls config deploy finish hash deployable rolled generate labels K
    reconcile fetch patch patch_of serving current exit
  for inputs tls :: "lib \<Rightarrow> ('i st, reconcile_result, unit) prog"
    and config :: "lib \<Rightarrow> ('i st, reconcile_result, string) prog"
    and deploy :: "lib \<Rightarrow> string \<Rightarrow> ('i st, reconcile_result, StatefulSetData) prog"
    and finish :: "lib \<Rightarrow> string \<Rightarrow> StatefulSetData \<Rightarrow> ('i st, reconcile_result, reconcile_result) prog"
    and hash :: "'i \<Rightarrow> (string \<rightharpoonup> string) option"
    and deployable rolled :: "lib \<Rightarrow> 'i \<Rightarrow> bool"
    and generate :: "lib \<Rightarrow> ('i st, reconcile_result, gerr option) prog"
    and labels :: "lib \<Rightarrow> 'i \<Rightarrow> (string \<rightharpoonup> string)"
    and K :: "'i \<Rightarrow> 'k"
    and reconcile :: "lib \<Rightarrow> NamespacedName \<Rightarrow> ('i st, reconcile_result, reconcile_result) prog"
    and fetch :: "lib \<Rightarrow> hist \<Rightarrow> NamespacedName \<Rightarrow> gerr + 'i"
    and patch :: "'i \<Rightarrow> event" and patch_of :: "event \<Rightarrow> 'i option"
    and serving current :: "lib \<Rightarrow> 'i \<Rightarrow> bool" and exit :: "lib \<Rightarrow> 'i \<Rightarrow> 'i" +
  fixes applied :: "'i \<Rightarrow> string" and secrets :: "'i \<Rightarrow> string list"
  assumes inputs_applied: "keepsI applied (inputs L)" and tls_applied: "keepsI applied (tls L)"
    and config_applied: "keepsI applied (config L)"
    and config_fresh: "healthy L \<Longrightarrow> lawful_SetHash L \<Longrightarrow>
      generate L (s\<lparr>svcLabels := labels L (inst s)\<rparr>) = (Next None, t) \<Longrightarrow> l_ObjectHashEnvs L (cfgVars t) = (h, None) \<Longrightarrow>
      \<not> stored_hash L (hash (inst s)) h \<Longrightarrow> \<exists>u. config L s = (Return (Result0, None), u)"
    and current_applied: "current L i \<longleftrightarrow> l_ObjectHash L (secrets i) = (applied i, None)"
    and secrets_key: "K i = K j \<Longrightarrow> secrets i = secrets j"
    and exit_applied: "applied (exit L i) = applied i"
    and opens_applied: "healthy L \<Longrightarrow> serving L i \<Longrightarrow> fetch L (trace s) req = Inr i \<Longrightarrow>
      \<exists>u. K (inst u) = K i \<and> hash (inst u) = Some (case hash i of Some f \<Rightarrow> f | None \<Rightarrow> Map.empty) \<and> applied (inst u) = applied i \<and>
        (\<forall>res t. run L u = (Next res, t) \<longrightarrow> (\<exists>v. reconcile L req s = (Next res, v) \<and>
           trace v = trace t @ [patch (inst v)] \<and> inst v = exit L (inst t)))"
begin

definition digest :: "lib \<Rightarrow> 'k \<Rightarrow> string \<Rightarrow> bool" where
  "digest L k d \<longleftrightarrow> (\<forall>s s1 s2 s3. K (inst s) = k \<longrightarrow> inputs L s = (Next (), s1) \<longrightarrow> tls L s1 = (Next (), s2) \<longrightarrow>
     generate L (s2\<lparr>svcLabels := labels L (inst s2)\<rparr>) = (Next None, s3) \<longrightarrow> l_ObjectHashEnvs L (cfgVars s3) = (d, None))"

lemma digest_exists:
  assumes "healthy L" "steady L"
  obtains d where "digest L (K i) d"
proof -
  let ?s = "\<lparr>inst = i, trace = [], cfgVars = Map.empty, svcLabels = Map.empty\<rparr> :: 'i st"
  obtain s1 s2 s3 where s: "inputs L ?s = (Next (), s1)" "tls L s1 = (Next (), s2)"
    "generate L (s2\<lparr>svcLabels := labels L (inst s2)\<rparr>) = (Next None, s3)"
    using assms(1) by (rule front_run)
  obtain d where "l_ObjectHashEnvs L (cfgVars s3) = (d, None)" by (simp add: healthy_answers [OF assms(1)])
  then have "l_ObjectHashEnvs L (cfgVars t3) = (d, None)" if "K (inst t) = K i" "inputs L t = (Next (), t1)" "tls L t1 = (Next (), t2)"
    "generate L (t2\<lparr>svcLabels := labels L (inst t2)\<rparr>) = (Next None, t3)" for t t1 t2 t3
    using front_same [OF assms(2) _ that(2-4) s] that(1) by simp
  then have "digest L (K i) d" unfolding digest_def by blast
  then show ?thesis by (rule that)
qed

lemma finish_rolls:
  assumes L: "healthy L" and d: "deployable L (inst u)" "stored_hash L (hash (inst u)) h"
  shows "\<exists>t. bindP (deploy L h) (finish L h) u = (Return (Result0, None), t) \<and> rolled L (inst t) \<and> stored_hash L (hash (inst t)) h"
proof -
  obtain ss v where dp: "deploy L h u = (Next ss, v)" "sd_Generation ss = sd_ObservedGeneration ss"
    using deploy_go [OF L d(1)] by blast
  have "deployable L (inst v)" "hash (inst v) = hash (inst u)"
    using keepsI_run [OF deploy_keep dp(1)] keepsI_run [OF deploy_hash dp(1)] d(1) by simp_all
  moreover from this obtain t where "finish L h ss v = (Return (Result0, None), t)" "rolled L (inst t)"
    using finish_go [OF L _ dp(2)] by blast
  moreover from this have "hash (inst t) = hash (inst v)" using keepsI_run [OF finish_hash] by blast
  ultimately show ?thesis using dp(1) d(2) by (simp add: run_bindP)
qed

text \<open>One run of \<^verbatim>\<open>reconcileNormal\<close> is one step of the machine.\<close>

lemma run_refines:
  assumes L: "healthy L" "lawful_SetHash L" and i: "deployable L (inst s)" and d: "digest L (K (inst s)) d"
    and a: "l_ObjectHash L (secrets (inst s)) = (a, None)"
  shows "\<exists>t. run L s = (Next (Result0, None), t) \<and>
    rollout_of L (hash (inst t)) (applied (inst t)) = rollout_step d a (rollout_of L (hash (inst s)) (applied (inst s)))"
proof -
  obtain s1 s2 s3 where s: "inputs L s = (Next (), s1)" "tls L s1 = (Next (), s2)"
    "generate L (s2\<lparr>svcLabels := labels L (inst s2)\<rparr>) = (Next None, s3)"
    and keep: "hash (inst s2) = hash (inst s)" "deployable L (inst s2) = deployable L (inst s)"
    using L(1) by (rule front_run)
  have dg: "l_ObjectHashEnvs L (cfgVars s3) = (d, None)" using d s unfolding digest_def by blast
  have ap: "applied (inst s2) = applied (inst s)"
    using keepsI_run [OF inputs_applied s(1)] keepsI_run [OF tls_applied s(2)] by simp
  show ?thesis
  proof (cases "stored_hash L (hash (inst s)) d")
    case True
    with config_hash [OF L s(3) dg] keep(1) obtain u where c: "config L s2 = (Next d, u)" "stored_hash L (hash (inst u)) d" by auto
    have "deployable L (inst u)" using keepsI_run [OF config_keep c(1)] keep(2) i by simp
    from finish_rolls [OF L(1) this c(2)] obtain t where t: "bindP (deploy L d) (finish L d) u = (Return (Result0, None), t)"
      "rolled L (inst t)" "stored_hash L (hash (inst t)) d" by blast
    with s c have r: "run L s = (Next (Result0, None), t)" by (simp add: run_func bind_goes_on)
    then have "secrets (inst t) = secrets (inst s)" using keepsI_run [OF run_key r] by (intro secrets_key) simp
    with rolled_current [OF t(2)] a have "applied (inst t) = a" by (simp add: current_applied)
    with r t(3) True show ?thesis by (simp add: rollout_of_step)
  next
    case False
    with config_fresh [OF L s(3) dg] keep(1) obtain u where c: "config L s2 = (Return (Result0, None), u)" by auto
    with s have r: "run L s = (Next (Result0, None), u)" by (simp add: run_func bind_goes_on run_bindP)
    have "stored_hash L (hash (inst u)) d" using config_hash [OF L s(3) dg] c by simp
    moreover have "applied (inst u) = applied (inst s)" using keepsI_run [OF config_applied c] ap by simp
    ultimately show ?thesis using r False by (simp add: rollout_of_step)
  qed
qed

text \<open>So is one \<^verbatim>\<open>Reconcile\<close>, and the loop of them is a run of the machine.\<close>

lemma reconcile_refines:
  assumes L: "healthy L" "lawful_SetHash L" and d: "digest L (K i) d" and a: "l_ObjectHash L (secrets i) = (a, None)"
    and i: "fetch L (trace s) req = Inr i" "serving L i" "deployable L i"
  shows "let j = inst (snd (reconcile L req s)) in
    rollout_of L (hash j) (applied j) = rollout_step d a (rollout_of L (hash i) (applied i))"
proof -
  from opens_applied [OF L(1) i(2,1)] obtain u where u: "K (inst u) = K i"
      "hash (inst u) = Some (case hash i of Some f \<Rightarrow> f | None \<Rightarrow> Map.empty)" "applied (inst u) = applied i"
    and ru: "\<And>res t. run L u = (Next res, t) \<Longrightarrow>
      \<exists>v. reconcile L req s = (Next res, v) \<and> trace v = trace t @ [patch (inst v)] \<and> inst v = exit L (inst t)" by blast
  have "deployable L (inst u)" using i(3) deployable_key [OF u(1)] by simp
  from run_refines [OF L this, of d a] obtain t where t: "run L u = (Next (Result0, None), t)"
    "rollout_of L (hash (inst t)) (applied (inst t)) = rollout_step d a (rollout_of L (hash (inst u)) (applied (inst u)))"
    using d a u(1) secrets_key [OF u(1)] by auto
  from ru [OF t(1)] obtain v where "reconcile L req s = (Next (Result0, None), v)" "inst v = exit L (inst t)" by blast
  moreover have "rollout_of L (hash (inst u)) (applied (inst u)) = rollout_of L (hash i) (applied i)"
    using u(2,3) by (simp add: rollout_of_def split: option.split)
  ultimately show ?thesis using t(2) by (simp add: exit_hash exit_applied)
qed

lemma loop_refines:
  assumes L: "healthy L" "lawful_SetHash L" "steady L" and store: "\<And>h. fetch L h req = Inr (fetched patch_of i h)"
    and i: "serving L i" "deployable L i" "trace s = []" and a: "l_ObjectHash L (secrets i) = (a, None)"
  shows "\<exists>d. \<forall>n. let j = fetched patch_of i (trace (((\<lambda>s. snd (reconcile L req s)) ^^ n) s)) in
    rollout_of L (hash j) (applied j) = (rollout_step d a ^^ n) (rollout_of L (hash i) (applied i))"
proof -
  let ?run = "\<lambda>s. snd (reconcile L req s)"
  let ?at = "\<lambda>n. fetched patch_of i (trace ((?run ^^ n) s))"
  obtain d where d: "digest L (K i) d" using L(1,3) by (rule digest_exists)
  note st = loop_states [OF L(1,2) store, of s, simplified i(3) fetched.simps, OF i(1,2)]
  have K: "K (?at n) = K i" for n
  proof (induction n)
    case 0
    show ?case using i(3) by simp
  next
    case (Suc n)
    with st [of n] show ?case by simp
  qed
  have "rollout_of L (hash (?at n)) (applied (?at n)) = (rollout_step d a ^^ n) (rollout_of L (hash i) (applied i))" for n
  proof (induction n)
    case 0
    show ?case using i(3) by simp
  next
    case (Suc n)
    have "l_ObjectHash L (secrets (?at n)) = (a, None)" using a secrets_key [OF K] by simp
    with reconcile_refines [OF L(1,2) _ _ store, of "(?run ^^ n) s" d a] d K [of n] st [of n] Suc
    show ?case by (simp add: Let_def)
  qed
  then show ?thesis by (auto simp: Let_def)
qed

end

section \<open>The three services\<close>

subsection \<open>ManilaAPI\<close>

lemma api_config_fresh:
  assumes "healthy L" "lawful_SetHash L"
    and g: "api_generateServiceConfig L (s\<lparr>svcLabels := api_labels L (inst s)\<rparr>) = (Next None, t)"
    and h: "l_ObjectHashEnvs L (cfgVars t) = (h, None)" "\<not> stored_hash L (api_Hash (inst s)) h"
  shows "\<exists>u. api_config L s = (Return (Result0, None), u)"
proof -
  have ht: "api_Hash (inst t) = api_Hash (inst s)"
    using keepsI_run [OF api_generate_keeps g, of api_Hash] by simp
  obtain m c where "l_SetHash L (api_Hash (inst s)) (l_const L ''common.InputHashName'') h = (m, c)" by fastforce
  with SetHash_records [OF assms(2) this] h(2) show ?thesis
    using g by (cases c) (auto simp: api_config_def api_createHashOfInputHashes_def prog_simps ht h(1)
        api_labels_def apiH.run_createHash)
qed

definition api_secrets :: "ManilaAPI \<Rightarrow> string list" where
  "api_secrets i = [as_TransportURLSecret (api_Spec i), as_NotificationsURLSecret (api_Spec i)]"

interpretation apiF: child_refining api_inputs api_tls api_config api_deploy api_finish api_Hash api_deployable api_deployed
  api_generateServiceConfig api_labels api_identity api_Reconcile o_GetAPI EPatchAPI api_patch_of api_serving api_current
  "\<lambda>L. exit_instance L (\<lambda>i. ast_Conditions (api_Status i)) ManilaAPI_updC" api_applied api_secrets
proof unfold_locales
  show "keepsI api_applied (api_inputs L)" "keepsI api_applied (api_tls L)" "keepsI api_applied (api_config L)" for L
    by (intro api_phase_keeps; simp add: api_applied_def ManilaAPI_updC_def api_setHash_def)+
  show "\<exists>u. api_identity (inst u) = api_identity i \<and>
      api_Hash (inst u) = Some (case api_Hash i of Some f \<Rightarrow> f | None \<Rightarrow> Map.empty) \<and> api_applied (inst u) = api_applied i \<and>
      (\<forall>res t. apiG.run L u = (Next res, t) \<longrightarrow> (\<exists>v. api_Reconcile L req s = (Next res, v) \<and>
         trace v = trace t @ [EPatchAPI (inst v)] \<and>
         inst v = exit_instance L (\<lambda>i. ast_Conditions (api_Status i)) ManilaAPI_updC (inst t)))"
    if "healthy L" "api_serving L i" "o_GetAPI L (trace s) req = Inr i" for L i s req
    using that by (rule api_Reconcile_opens) (unfold api_reconcileNormal_def api_applied_def, blast)
qed ((rule api_config_fresh; assumption)
    | (simp add: api_current_def api_secrets_def api_applied_def api_identity_def exit_instance_def Let_def ManilaAPI_updC_def; fail))+

subsection \<open>ManilaScheduler\<close>

lemma scheduler_config_fresh:
  assumes "healthy L" "lawful_SetHash L"
    and g: "scheduler_generateServiceConfig L (s\<lparr>svcLabels := scheduler_labels L (inst s)\<rparr>) = (Next None, t)"
    and h: "l_ObjectHashEnvs L (cfgVars t) = (h, None)" "\<not> stored_hash L (scheduler_Hash (inst s)) h"
  shows "\<exists>u. scheduler_config L s = (Return (Result0, None), u)"
proof -
  have ht: "scheduler_Hash (inst t) = scheduler_Hash (inst s)"
    using keepsI_run [OF scheduler_generate_keeps g, of scheduler_Hash] by simp
  obtain m c where "l_SetHash L (scheduler_Hash (inst s)) (l_const L ''common.InputHashName'') h = (m, c)" by fastforce
  with SetHash_records [OF assms(2) this] h(2) show ?thesis
    using g by (cases c) (auto simp: scheduler_config_def scheduler_createHashOfInputHashes_def prog_simps ht h(1)
        scheduler_labels_def schedH.run_createHash)
qed

definition scheduler_secrets :: "ManilaScheduler \<Rightarrow> string list" where
  "scheduler_secrets i = [scs_TransportURLSecret (sch_Spec i), scs_NotificationsURLSecret (sch_Spec i)]"

interpretation schedF: child_refining scheduler_inputs scheduler_tls scheduler_config scheduler_deploy scheduler_finish scheduler_Hash scheduler_deployable scheduler_deployed
  scheduler_generateServiceConfig scheduler_labels scheduler_identity scheduler_Reconcile o_GetScheduler EPatchScheduler scheduler_patch_of scheduler_serving scheduler_current
  "\<lambda>L. exit_instance L (\<lambda>i. sst_Conditions (sch_Status i)) ManilaScheduler_updC" scheduler_applied scheduler_secrets
proof unfold_locales
  show "keepsI scheduler_applied (scheduler_inputs L)" "keepsI scheduler_applied (scheduler_tls L)" "keepsI scheduler_applied (scheduler_config L)" for L
    by (intro scheduler_phase_keeps; simp add: scheduler_applied_def ManilaScheduler_updC_def scheduler_setHash_def)+
  show "\<exists>u. scheduler_identity (inst u) = scheduler_identity i \<and>
      scheduler_Hash (inst u) = Some (case scheduler_Hash i of Some f \<Rightarrow> f | None \<Rightarrow> Map.empty) \<and> scheduler_applied (inst u) = scheduler_applied i \<and>
      (\<forall>res t. schedG.run L u = (Next res, t) \<longrightarrow> (\<exists>v. scheduler_Reconcile L req s = (Next res, v) \<and>
         trace v = trace t @ [EPatchScheduler (inst v)] \<and>
         inst v = exit_instance L (\<lambda>i. sst_Conditions (sch_Status i)) ManilaScheduler_updC (inst t)))"
    if "healthy L" "scheduler_serving L i" "o_GetScheduler L (trace s) req = Inr i" for L i s req
    using that by (rule scheduler_Reconcile_opens) (unfold scheduler_reconcileNormal_def scheduler_applied_def, blast)
qed ((rule scheduler_config_fresh; assumption)
    | (simp add: scheduler_current_def scheduler_secrets_def scheduler_applied_def scheduler_identity_def exit_instance_def Let_def ManilaScheduler_updC_def; fail))+

subsection \<open>ManilaShare\<close>

lemma share_config_fresh:
  assumes "healthy L" "lawful_SetHash L"
    and g: "share_generateServiceConfig L (s\<lparr>svcLabels := share_labels L (inst s)\<rparr>) = (Next None, t)"
    and h: "l_ObjectHashEnvs L (cfgVars t) = (h, None)" "\<not> stored_hash L (share_Hash (inst s)) h"
  shows "\<exists>u. share_config L s = (Return (Result0, None), u)"
proof -
  have ht: "share_Hash (inst t) = share_Hash (inst s)"
    using keepsI_run [OF share_generate_keeps g, of share_Hash] by simp
  obtain m c where "l_SetHash L (share_Hash (inst s)) (l_const L ''common.InputHashName'') h = (m, c)" by fastforce
  with SetHash_records [OF assms(2) this] h(2) show ?thesis
    using g by (cases c) (auto simp: share_config_def share_createHashOfInputHashes_def prog_simps ht h(1)
        share_labels_def shareH.run_createHash)
qed

definition share_secrets :: "ManilaShare \<Rightarrow> string list" where
  "share_secrets i = [hs_TransportURLSecret (shr_Spec i), hs_NotificationsURLSecret (shr_Spec i)]"

interpretation shareF: child_refining share_inputs share_tls share_config share_deploy share_finish share_Hash share_deployable share_deployed
  share_generateServiceConfig share_labels share_identity share_Reconcile o_GetShare EPatchShare share_patch_of share_serving share_current
  "\<lambda>L. exit_instance L (\<lambda>i. hst_Conditions (shr_Status i)) ManilaShare_updC" share_applied share_secrets
proof unfold_locales
  show "keepsI share_applied (share_inputs L)" "keepsI share_applied (share_tls L)" "keepsI share_applied (share_config L)" for L
    by (intro share_phase_keeps; simp add: share_applied_def ManilaShare_updC_def share_setHash_def)+
  show "\<exists>u. share_identity (inst u) = share_identity i \<and>
      share_Hash (inst u) = Some (case share_Hash i of Some f \<Rightarrow> f | None \<Rightarrow> Map.empty) \<and> share_applied (inst u) = share_applied i \<and>
      (\<forall>res t. shareG.run L u = (Next res, t) \<longrightarrow> (\<exists>v. share_Reconcile L req s = (Next res, v) \<and>
         trace v = trace t @ [EPatchShare (inst v)] \<and>
         inst v = exit_instance L (\<lambda>i. hst_Conditions (shr_Status i)) ManilaShare_updC (inst t)))"
    if "healthy L" "share_serving L i" "o_GetShare L (trace s) req = Inr i" for L i s req
    using that by (rule share_Reconcile_opens) (unfold share_reconcileNormal_def share_applied_def, blast)
qed ((rule share_config_fresh; assumption)
    | (simp add: share_current_def share_secrets_def share_applied_def share_identity_def exit_instance_def Let_def ManilaShare_updC_def; fail))+

section \<open>The refinements\<close>

text \<open>C6: the reconcile loop of the API refines the rollout machine. There is one hash of its inputs such that after any number of runs, over a cluster that stores what is patched, answers every call and gives steady answers about the inputs, the recorded hash and the applied hash that the stored resource reports are those of the machine after as many rounds: the first round records, the next ones roll out and apply the hash of the two secrets, and no round ever skips or repeats a phase.\<close>

theorem api_loop_refines:
  assumes "healthy L" "lawful_SetHash L" "steady L"
    and "\<And>h. o_GetAPI L h req = Inr (fetched api_patch_of i h)"
    and "api_serving L i" "api_deployable L i" "trace s = []"
  shows "\<exists>d. \<forall>n. let j = fetched api_patch_of i (trace (((\<lambda>s. snd (api_Reconcile L req s)) ^^ n) s)) in
    rollout_of L (api_Hash j) (api_applied j) =
      (rollout_step d (fst (l_ObjectHash L (api_secrets i))) ^^ n) (rollout_of L (api_Hash i) (api_applied i))"
  by (rule apiF.loop_refines [OF assms]) (simp add: healthy_answers [OF assms(1)])

theorem api_loop_refines_witness:
  "let run = (\<lambda>s. snd (api_Reconcile demo_api_store demo_req s)) in
   \<exists>d. \<forall>n. let j = fetched api_patch_of demo_api (trace ((run ^^ n) (demo_state demo_api))) in
    rollout_of demo_api_store (api_Hash j) (api_applied j) =
      (rollout_step d (fst (l_ObjectHash demo_api_store (api_secrets demo_api))) ^^ n)
        (rollout_of demo_api_store (api_Hash demo_api) (api_applied demo_api))"
  unfolding Let_def by (rule api_loop_refines [OF demo_api_store_laws, unfolded Let_def]) simp

text \<open>The reconcile loop of the scheduler refines the rollout machine. There is one hash of its inputs such that after any number of runs, over a cluster that stores what is patched, answers every call and gives steady answers about the inputs, the recorded hash and the applied hash that the stored resource reports are those of the machine after as many rounds: the first round records, the next ones roll out and apply the hash of the two secrets, and no round ever skips or repeats a phase.\<close>

lemma scheduler_loop_refines:
  assumes "healthy L" "lawful_SetHash L" "steady L"
    and "\<And>h. o_GetScheduler L h req = Inr (fetched scheduler_patch_of i h)"
    and "scheduler_serving L i" "scheduler_deployable L i" "trace s = []"
  shows "\<exists>d. \<forall>n. let j = fetched scheduler_patch_of i (trace (((\<lambda>s. snd (scheduler_Reconcile L req s)) ^^ n) s)) in
    rollout_of L (scheduler_Hash j) (scheduler_applied j) =
      (rollout_step d (fst (l_ObjectHash L (scheduler_secrets i))) ^^ n) (rollout_of L (scheduler_Hash i) (scheduler_applied i))"
  by (rule schedF.loop_refines [OF assms]) (simp add: healthy_answers [OF assms(1)])

text \<open>C15: the reconcile loop of the share refines the rollout machine. There is one hash of its inputs such that after any number of runs, over a cluster that stores what is patched, answers every call and gives steady answers about the inputs, the recorded hash and the applied hash that the stored resource reports are those of the machine after as many rounds: the first round records, the next ones roll out and apply the hash of the two secrets, and no round ever skips or repeats a phase.\<close>

theorem share_loop_refines:
  assumes "healthy L" "lawful_SetHash L" "steady L"
    and "\<And>h. o_GetShare L h req = Inr (fetched share_patch_of i h)"
    and "share_serving L i" "share_deployable L i" "trace s = []"
  shows "\<exists>d. \<forall>n. let j = fetched share_patch_of i (trace (((\<lambda>s. snd (share_Reconcile L req s)) ^^ n) s)) in
    rollout_of L (share_Hash j) (share_applied j) =
      (rollout_step d (fst (l_ObjectHash L (share_secrets i))) ^^ n) (rollout_of L (share_Hash i) (share_applied i))"
  by (rule shareF.loop_refines [OF assms]) (simp add: healthy_answers [OF assms(1)])

theorem share_loop_refines_witness:
  "let run = (\<lambda>s. snd (share_Reconcile demo_share_store demo_req s)) in
   \<exists>d. \<forall>n. let j = fetched share_patch_of (demo_share ''a'') (trace ((run ^^ n) (demo_state (demo_share ''a'')))) in
    rollout_of demo_share_store (share_Hash j) (share_applied j) =
      (rollout_step d (fst (l_ObjectHash demo_share_store (share_secrets (demo_share ''a'')))) ^^ n)
        (rollout_of demo_share_store (share_Hash (demo_share ''a'')) (share_applied (demo_share ''a'')))"
  unfolding Let_def by (rule share_loop_refines [OF demo_share_store_laws, unfolded Let_def]) simp

end
