(* ===== verification/Composition.thy ===== *)
theory Composition
  imports Refinement NoPanic CommonProps
begin

text \<open>
  The two sides of the handshake against each other: what the instance controller writes into a
  child is what the controller of that child reads back, and what the child then reports is what
  the instance controller waits for.
\<close>

section \<open>The secrets\<close>






section \<open>The secrets a service reads\<close>

text \<open>
  Documented of \<open>SetControllerReference\<close>: on an object of the owner's namespace that nobody owns, it
  writes the reference to its owner and leaves the rest alone.
\<close>

definition names_owner :: "lib \<Rightarrow> bool" where
  "names_owner L \<longleftrightarrow> (\<forall>owner meta. om_OwnerReferences meta = [] \<and> om_Namespace meta = om_Namespace owner \<longrightarrow>
     l_SetControllerReference L owner meta =
       (None, meta\<lparr>om_OwnerReferences := [\<lparr>or_Kind = ''Manila'', or_Name = om_Name owner\<rparr>]\<rparr>))"

text \<open>A child that has just been created: its owner, its labels and its spec.\<close>

lemma created_children:
  assumes "names_owner L" and "om_OwnerReferences meta = []" and "om_Namespace meta = om_Namespace (man_Meta m)"
  shows "api_Meta (snd (api_mutate L m t n (ManilaAPI_zero meta))) = meta\<lparr>om_OwnerReferences := [\<lparr>or_Kind = ''Manila'', or_Name = om_Name (man_Meta m)\<rparr>]\<rparr>"
    "sch_Meta (snd (scheduler_mutate L m t n (ManilaScheduler_zero meta))) = meta\<lparr>om_OwnerReferences := [\<lparr>or_Kind = ''Manila'', or_Name = om_Name (man_Meta m)\<rparr>]\<rparr>"
    "shr_Meta (snd (share_mutate L m sh t n (ManilaShare_zero meta))) = meta\<lparr>om_OwnerReferences := [\<lparr>or_Kind = ''Manila'', or_Name = om_Name (man_Meta m)\<rparr>]\<rparr>"
  using assms
  by (simp_all add: api_mutate_def scheduler_mutate_def share_mutate_def names_owner_def zero_defs Let_def)

text \<open>The calls of a service that gets its inputs: the password secret, then the others in order.\<close>

definition input_calls :: "string \<Rightarrow> ManilaTemplate \<Rightarrow> string list \<Rightarrow> event list" where
  "input_calls ns tmpl names =
     EVerifySecretFields ns (mt_Secret tmpl) [psel_Service (mt_PasswordSelectors tmpl)] #
     map (EGet ''Secret'' ns) (filter (\<lambda>n. n \<noteq> '''') names)"

lemma verified_secret:
  assumes "verifyServiceSecret L upd ns name flds d s = (Next (res, err), s')" and "\<not> (err \<noteq> None \<or> res \<noteq> Result0)"
  shows "inst s' = inst s \<and> trace s' = trace s @ [EVerifySecretFields ns name flds]"
  using assms by (auto simp: verifyServiceSecret_def prog_simps split: prod.splits option.splits if_splits)

lemma verified_configs:
  assumes "verifyConfigSecrets L upd names ns s = (Next (res, err), s')" and "\<not> (err \<noteq> None \<or> res \<noteq> Result0)"
  shows "inst s' = inst s \<and> trace s' = trace s @ map (EGet ''Secret'' ns) (filter (\<lambda>n. n \<noteq> '''') names)"
  using assms verify_loop [where names = names and L = L and upd = upd and ns = ns and s = s]
  by (auto simp: verifyConfigSecrets_def prog_simps split: prod.splits outcome.splits)

lemma inputs_calls:
  assumes "(bindP (verifyServiceSecret L upd ns secret flds d) (\<lambda>(res, err).
       if err \<noteq> None \<or> res \<noteq> Result0 then ret (res, err)
       else bindP (verifyConfigSecrets L upd names ns) (\<lambda>(res, err).
         if err \<noteq> None \<or> res \<noteq> Result0 then ret (res, err) else markTrue upd c msg))) s = (Next (), s')"
  shows "trace s' = trace s @ EVerifySecretFields ns secret flds # map (EGet ''Secret'' ns) (filter (\<lambda>n. n \<noteq> '''') names)"
  using assms
  by (auto simp: run_bindP run_markTrue run_ret split: prod.splits outcome.splits if_splits
      dest!: verified_secret verified_configs)

lemma fresh_inputs: "thenP (setVars v) (bindP (getI id) f) s = f (inst s) (s\<lparr>cfgVars := v\<rparr>)"
  by (simp add: run_bindP run_setVars run_getI)

lemma children_input_calls:
  "api_inputs L s = (Next (), s') \<Longrightarrow> trace s' = trace s @
     input_calls (om_Namespace (api_Meta (inst s))) (as_ManilaTemplate (api_Spec (inst s)))
       ([as_NotificationsURLSecret (api_Spec (inst s)), as_TransportURLSecret (api_Spec (inst s)),
         GetOwningManilaName (api_Meta (inst s)) @ ''-scripts'', GetOwningManilaName (api_Meta (inst s)) @ ''-config-data''] @
        st_CustomServiceConfigSecrets (api_spec_service (inst s)))"
  "scheduler_inputs L s2 = (Next (), s2') \<Longrightarrow> trace s2' = trace s2 @
     input_calls (om_Namespace (sch_Meta (inst s2))) (scs_ManilaTemplate (sch_Spec (inst s2)))
       ([scs_NotificationsURLSecret (sch_Spec (inst s2)), scs_TransportURLSecret (sch_Spec (inst s2)),
         GetOwningManilaName (sch_Meta (inst s2)) @ ''-scripts'', GetOwningManilaName (sch_Meta (inst s2)) @ ''-config-data''] @
        st_CustomServiceConfigSecrets (scheduler_spec_service (inst s2)))"
  "share_inputs L s3 = (Next (), s3') \<Longrightarrow> trace s3' = trace s3 @
     input_calls (om_Namespace (shr_Meta (inst s3))) (hs_ManilaTemplate (shr_Spec (inst s3)))
       ([hs_NotificationsURLSecret (shr_Spec (inst s3)), hs_TransportURLSecret (shr_Spec (inst s3)),
         GetOwningManilaName (shr_Meta (inst s3)) @ ''-scripts'', GetOwningManilaName (shr_Meta (inst s3)) @ ''-config-data''] @
        st_CustomServiceConfigSecrets (share_spec_service (inst s3)))"
  unfolding api_inputs_def scheduler_inputs_def share_inputs_def input_calls_def Let_def fresh_inputs
  by (drule inputs_calls, simp)+

text \<open>
  What a service reads for an instance: the names that the instance generates are those its
  templates have.
\<close>

definition service_reads :: "Manila \<Rightarrow> string \<Rightarrow> string \<Rightarrow> Template list \<Rightarrow> string list \<Rightarrow> event list" where
  "service_reads m t n templates custom =
     input_calls (om_Namespace (man_Meta m)) (sb_ManilaTemplate (ms_Base (man_Spec m)))
       ([if notifications_bus m = None then '''' else n, t] @ map tm_Name templates @ custom)"

lemma func_reads_first: "func (bindP (getP g) f) s = func (f (g s)) s"
  by (simp add: run_func run_bindP run_getP)

lemma generated_names:
  assumes "EEnsureSecrets ts \<in> set (events_of (manila_generateServiceConfig L mc db t n) s)"
  shows "map tm_Name ts = [om_Name (man_Meta (inst s)) @ ''-scripts'', om_Name (man_Meta (inst s)) @ ''-config-data'']"
proof -
  let ?E = "\<lambda>m e. case e of EEnsureSecrets ts \<Rightarrow>
    map tm_Name ts = [om_Name (man_Meta m) @ ''-scripts'', om_Name (man_Meta m) @ ''-config-data''] | _ \<Rightarrow> True"
  have "list_all (?E (inst s)) (events_of (manila_generateServiceConfig L mc db t n) s)"
    unfolding manila_generateServiceConfig_def events_of_def func_reads_first prod.case Let_def
    apply (fold events_of_def)
    apply (rule emits_events)
    unfolding manila_keystone_urls_def ac_parameters_def notifications_parameters_def
    by (intro emits_rules emits_helpers; simp add: manila_templates_def)
  with assms show ?thesis by (auto simp: list_all_iff)
qed

lemma created_events:
  assumes "names_owner L"
  shows "ECreateOrUpdateAPI a \<in> set (events_of (apiDeploymentCreateOrUpdate L t n) s) \<Longrightarrow>
      api_Spec a = api_Spec (snd (api_mutate L (inst s) t n a)) \<and> om_Namespace (api_Meta a) = om_Namespace (man_Meta (inst s)) \<and>
      GetOwningManilaName (api_Meta a) = om_Name (man_Meta (inst s))"
    "ECreateOrUpdateScheduler c \<in> set (events_of (schedulerDeploymentCreateOrUpdate L t n) s) \<Longrightarrow>
      sch_Spec c = sch_Spec (snd (scheduler_mutate L (inst s) t n c)) \<and> om_Namespace (sch_Meta c) = om_Namespace (man_Meta (inst s)) \<and>
      GetOwningManilaName (sch_Meta c) = om_Name (man_Meta (inst s))"
    "ECreateOrUpdateShare h \<in> set (events_of (shareDeploymentCreateOrUpdate L name sh t n) s) \<Longrightarrow>
      shr_Spec h = shr_Spec (snd (share_mutate L (inst s) sh t n h)) \<and> om_Namespace (shr_Meta h) = om_Namespace (man_Meta (inst s)) \<and>
      GetOwningManilaName (shr_Meta h) = om_Name (man_Meta (inst s)) \<and>
      ShareName h = name \<and> om_DeletionTimestamp (shr_Meta h) = None \<and> om_Name (shr_Meta h) = om_Name (man_Meta (inst s)) @ ''-share-'' @ name"
  using assms
  by (auto simp: events_of_def apiDeploymentCreateOrUpdate_def schedulerDeploymentCreateOrUpdate_def
      shareDeploymentCreateOrUpdate_def prog_simps Let_def created_children newMeta_def mutated_specs
      GetOwningManilaName_def ShareName_def)

lemma written_reads:
  assumes "map tm_Name ts = [om_Name (man_Meta m) @ ''-scripts'', om_Name (man_Meta m) @ ''-config-data'']"
  shows "api_Spec a = api_Spec (snd (api_mutate L m t n a)) \<Longrightarrow> input_calls (om_Namespace (man_Meta m)) (as_ManilaTemplate (api_Spec a))
       ([as_NotificationsURLSecret (api_Spec a), as_TransportURLSecret (api_Spec a),
         om_Name (man_Meta m) @ ''-scripts'', om_Name (man_Meta m) @ ''-config-data''] @ st_CustomServiceConfigSecrets (api_spec_service a)) =
     service_reads m t n ts (st_CustomServiceConfigSecrets (atc_ServiceTemplate (at_Core (ms_ManilaAPI (man_Spec m)))))"
    "sch_Spec c = sch_Spec (snd (scheduler_mutate L m t n c)) \<Longrightarrow> input_calls (om_Namespace (man_Meta m)) (scs_ManilaTemplate (sch_Spec c))
       ([scs_NotificationsURLSecret (sch_Spec c), scs_TransportURLSecret (sch_Spec c),
         om_Name (man_Meta m) @ ''-scripts'', om_Name (man_Meta m) @ ''-config-data''] @ st_CustomServiceConfigSecrets (scheduler_spec_service c)) =
     service_reads m t n ts (st_CustomServiceConfigSecrets (stc_ServiceTemplate (sct_Core (ms_ManilaScheduler (man_Spec m)))))"
    "shr_Spec h = shr_Spec (snd (share_mutate L m sh t n h)) \<Longrightarrow> input_calls (om_Namespace (man_Meta m)) (hs_ManilaTemplate (shr_Spec h))
       ([hs_NotificationsURLSecret (shr_Spec h), hs_TransportURLSecret (shr_Spec h),
         om_Name (man_Meta m) @ ''-scripts'', om_Name (man_Meta m) @ ''-config-data''] @ st_CustomServiceConfigSecrets (share_spec_service h)) =
     service_reads m t n ts (st_CustomServiceConfigSecrets (htc_ServiceTemplate (ht_Core sh)))"
  using assms
  by (simp_all add: service_reads_def mutated_specs api_spec_service_def scheduler_spec_service_def share_spec_service_def
    manila_apiSpec_def manila_schedulerSpec_def manila_shareSpec_def inherit_template_def Let_def)

text \<open>What the cluster may add to a created object leaves its owner and its namespace.\<close>

definition same_home :: "ObjectMeta \<Rightarrow> ObjectMeta \<Rightarrow> bool" where
  "same_home meta meta' \<longleftrightarrow> om_Namespace meta = om_Namespace meta' \<and> om_OwnerReferences meta = om_OwnerReferences meta'"

lemma home_owner: "same_home meta meta' \<Longrightarrow> GetOwningManilaName meta = GetOwningManilaName meta'"
  by (simp add: same_home_def GetOwningManilaName_def)

lemma service_reads_key: "cleanup_key m = cleanup_key m' \<Longrightarrow> service_reads m = service_reads m'"
  by (intro ext) (simp add: service_reads_def cleanup_key_def notifications_bus_def)

text \<open>C14: the secrets round-trip between the controllers. A service of any kind that was created for an instance and got its inputs has read, after its password secret, exactly the message bus secrets that the instance passed on, the secrets that the instance generated the configuration into, and the custom ones of its template, in this order and in the namespace of the instance: what one controller names after its own instance, the other finds through the owner reference.\<close>

theorem services_read_generated:
  assumes "names_owner L" and "EEnsureSecrets ts \<in> set (events_of (manila_generateServiceConfig L mc db t n) s)"
    and "ECreateOrUpdateAPI a \<in> set (events_of (apiDeploymentCreateOrUpdate L t n) s1)"
    and "ECreateOrUpdateScheduler c \<in> set (events_of (schedulerDeploymentCreateOrUpdate L t n) s2)"
    and "ECreateOrUpdateShare h \<in> set (events_of (shareDeploymentCreateOrUpdate L name sh t n) s3)"
    and "cleanup_key (inst s) = cleanup_key m" "cleanup_key (inst s1) = cleanup_key m"
    and "cleanup_key (inst s2) = cleanup_key m" "cleanup_key (inst s3) = cleanup_key m"
    and "api_Spec (inst u1) = api_Spec a" "same_home (api_Meta (inst u1)) (api_Meta a)" "api_inputs L u1 = (Next (), v1)"
    and "sch_Spec (inst u2) = sch_Spec c" "same_home (sch_Meta (inst u2)) (sch_Meta c)" "scheduler_inputs L u2 = (Next (), v2)"
    and "shr_Spec (inst u3) = shr_Spec h" "same_home (shr_Meta (inst u3)) (shr_Meta h)" "share_inputs L u3 = (Next (), v3)"
  shows "events_of (api_inputs L) u1 =
      service_reads m t n ts (st_CustomServiceConfigSecrets (atc_ServiceTemplate (at_Core (ms_ManilaAPI (man_Spec m))))) \<and>
    events_of (scheduler_inputs L) u2 =
      service_reads m t n ts (st_CustomServiceConfigSecrets (stc_ServiceTemplate (sct_Core (ms_ManilaScheduler (man_Spec m))))) \<and>
    events_of (share_inputs L) u3 =
      service_reads m t n ts (st_CustomServiceConfigSecrets (htc_ServiceTemplate (ht_Core sh)))"
proof -
  note k = assms(6-9) [unfolded cleanup_key_def prod.inject]
  have ts: "map tm_Name ts = [om_Name (man_Meta m) @ ''-scripts'', om_Name (man_Meta m) @ ''-config-data'']"
    using generated_names [OF assms(2)] k by simp
  note made = created_events [OF assms(1)]
  show ?thesis
  proof (intro conjI)
    have "api_Spec a = api_Spec (snd (api_mutate L (inst s1) t n a))" and
      "om_Namespace (api_Meta (inst u1)) = om_Namespace (man_Meta (inst s1))" and
      "GetOwningManilaName (api_Meta (inst u1)) = om_Name (man_Meta (inst s1))"
      using made(1) [OF assms(3)] assms(11) home_owner [OF assms(11)] by (simp_all add: same_home_def)
    with children_input_calls(1) [OF assms(12)] written_reads(1) [of ts "inst s1"] ts k(2) assms(10) 
    show "events_of (api_inputs L) u1 =
      service_reads m t n ts (st_CustomServiceConfigSecrets (atc_ServiceTemplate (at_Core (ms_ManilaAPI (man_Spec m)))))"
      by (simp add: events_of_def assms(12) service_reads_key [OF assms(7)] api_spec_service_def)
    have "sch_Spec c = sch_Spec (snd (scheduler_mutate L (inst s2) t n c))" and
      "om_Namespace (sch_Meta (inst u2)) = om_Namespace (man_Meta (inst s2))" and
      "GetOwningManilaName (sch_Meta (inst u2)) = om_Name (man_Meta (inst s2))"
      using made(2) [OF assms(4)] assms(14) home_owner [OF assms(14)] by (simp_all add: same_home_def)
    with children_input_calls(2) [OF assms(15)] written_reads(2) [of ts "inst s2"] ts k(3) assms(13)
    show "events_of (scheduler_inputs L) u2 =
      service_reads m t n ts (st_CustomServiceConfigSecrets (stc_ServiceTemplate (sct_Core (ms_ManilaScheduler (man_Spec m)))))"
      by (simp add: events_of_def assms(15) service_reads_key [OF assms(8)] scheduler_spec_service_def)
    have "shr_Spec h = shr_Spec (snd (share_mutate L (inst s3) sh t n h))" and
      "om_Namespace (shr_Meta (inst u3)) = om_Namespace (man_Meta (inst s3))" and
      "GetOwningManilaName (shr_Meta (inst u3)) = om_Name (man_Meta (inst s3))"
      using made(3) [OF assms(5)] assms(17) home_owner [OF assms(17)] by (simp_all add: same_home_def)
    with children_input_calls(3) [OF assms(18)] written_reads(3) [of ts "inst s3"] ts k(4) assms(16)
    show "events_of (share_inputs L) u3 =
      service_reads m t n ts (st_CustomServiceConfigSecrets (htc_ServiceTemplate (ht_Core sh)))"
      by (simp add: events_of_def assms(18) service_reads_key [OF assms(9)] share_spec_service_def)
  qed
qed

lemma demo_names_owner: "names_owner demo_lib"
  by (simp add: names_owner_def demo_defs)

definition demo_created_api :: ManilaAPI where
  "demo_created_api = snd (api_mutate demo_lib demo_manila ''t'' '''' (ManilaAPI_zero ((newMeta ''m-api'' ''openstack'')\<lparr>om_Annotations := Map.empty\<rparr>)))"

definition demo_created_scheduler :: ManilaScheduler where
  "demo_created_scheduler = snd (scheduler_mutate demo_lib demo_manila ''t'' '''' (ManilaScheduler_zero (newMeta ''m-scheduler'' ''openstack'')))"

definition demo_created_share :: ManilaShare where
  "demo_created_share = snd (share_mutate demo_lib demo_manila demo_share_template ''t'' ''''
     (ManilaShare_zero ((newMeta ''m-share-a'' ''openstack'')\<lparr>om_Labels := [ShareNameLabel \<mapsto> ''a'']\<rparr>)))"

lemma demo_creations:
  "ECreateOrUpdateAPI demo_created_api \<in> set (events_of (apiDeploymentCreateOrUpdate demo_lib ''t'' '''') (demo_state demo_manila))"
  "ECreateOrUpdateScheduler demo_created_scheduler \<in> set (events_of (schedulerDeploymentCreateOrUpdate demo_lib ''t'' '''') (demo_state demo_manila))"
  "ECreateOrUpdateShare demo_created_share \<in> set (events_of (shareDeploymentCreateOrUpdate demo_lib ''a'' demo_share_template ''t'' '''') (demo_state demo_manila))"
  by (simp_all add: events_of_def apiDeploymentCreateOrUpdate_def schedulerDeploymentCreateOrUpdate_def
      shareDeploymentCreateOrUpdate_def prog_simps Let_def demo_created_api_def demo_created_scheduler_def
      demo_created_share_def demo_manila_def demo_meta_def newMeta_def)

lemma demo_inputs:
  "\<exists>t. api_inputs demo_lib s1 = (Next (), t)" "\<exists>t. scheduler_inputs demo_lib s2 = (Next (), t)"
  "\<exists>t. share_inputs demo_lib s3 = (Next (), t)"
  using apiG.inputs_go [OF demo_healthy] schedG.inputs_go [OF demo_healthy] shareG.inputs_go [OF demo_healthy]
  by (simp_all add: goes_def)

lemma demo_generates:
  "\<exists>ts. EEnsureSecrets ts \<in> set (events_of (manila_generateServiceConfig demo_lib demo_memcached demo_database ''t'' '''') (demo_state demo_manila))"
  by (simp add: events_of_def manila_generateServiceConfig_def manila_keystone_urls_def get_secret_def ac_parameters_def
   notifications_parameters_def prog_simps Let_def demo_defs demo_manila_def demo_spec_def demo_keystone_def)

theorem services_read_generated_witness:
  "\<exists>ts. EEnsureSecrets ts \<in> set (events_of (manila_generateServiceConfig demo_lib demo_memcached demo_database ''t'' '''') (demo_state demo_manila)) \<and>
    events_of (api_inputs demo_lib) (demo_state demo_created_api) = service_reads demo_manila ''t'' '''' ts
      (st_CustomServiceConfigSecrets (atc_ServiceTemplate (at_Core (ms_ManilaAPI (man_Spec demo_manila))))) \<and>
    events_of (scheduler_inputs demo_lib) (demo_state demo_created_scheduler) = service_reads demo_manila ''t'' '''' ts
      (st_CustomServiceConfigSecrets (stc_ServiceTemplate (sct_Core (ms_ManilaScheduler (man_Spec demo_manila))))) \<and>
    events_of (share_inputs demo_lib) (demo_state demo_created_share) = service_reads demo_manila ''t'' '''' ts
      (st_CustomServiceConfigSecrets (htc_ServiceTemplate (ht_Core demo_share_template)))"
proof -
  obtain ts where ts: "EEnsureSecrets ts \<in> set (events_of (manila_generateServiceConfig demo_lib demo_memcached demo_database ''t'' '''') (demo_state demo_manila))"
    using demo_generates by blast
  obtain v1 v2 v3 where v: "api_inputs demo_lib (demo_state demo_created_api) = (Next (), v1)"
    "scheduler_inputs demo_lib (demo_state demo_created_scheduler) = (Next (), v2)"
    "share_inputs demo_lib (demo_state demo_created_share) = (Next (), v3)" using demo_inputs by metis
  have same: "same_home meta meta" for meta by (simp add: same_home_def)
  show ?thesis
    by (intro exI [of _ ts] conjI ts services_read_generated [OF demo_names_owner ts demo_creations _ _ _ _ _ _ v(1) _ _ v(2) _ _ v(3), THEN conjunct1]
      services_read_generated [OF demo_names_owner ts demo_creations _ _ _ _ _ _ v(1) _ _ v(2) _ _ v(3), THEN conjunct2, THEN conjunct1]
      services_read_generated [OF demo_names_owner ts demo_creations _ _ _ _ _ _ v(1) _ _ v(2) _ _ v(3), THEN conjunct2, THEN conjunct2])
      (simp_all add: same)
qed

section \<open>The shares\<close>

text \<open>C7: a share round-trips through its labels and owner reference. Once created for an entry of the spec, a share has the name of that entry and the owner that wrote it, whatever else the cluster adds to it; the cleanup of a later run, with whatever spec, deletes it exactly where it is the same instance and the spec no longer has that entry.\<close>

theorem share_written_read_back:
  assumes "names_owner L" and "ECreateOrUpdateShare h \<in> set (events_of (shareDeploymentCreateOrUpdate L name sh t n) s)"
    and "same_home (shr_Meta i) (shr_Meta h)" and "om_Labels (shr_Meta i) = om_Labels (shr_Meta h)"
    and "om_Name (shr_Meta i) = om_Name (shr_Meta h)" and "om_DeletionTimestamp (shr_Meta i) = None"
  shows "ShareName i = name \<and> GetOwningManilaName (shr_Meta i) = om_Name (man_Meta (inst s)) \<and>
    events_of (shareCleanup_step L i acc) s' =
      (if om_Name (man_Meta (inst s')) = om_Name (man_Meta (inst s)) \<and> map_of (ms_ManilaShares (man_Spec (inst s'))) name = None
       then [EDelete ''ManilaShare'' (om_Namespace (man_Meta (inst s))) (om_Name (man_Meta (inst s)) @ ''-share-'' @ name)] else [])"
proof -
  from created_events(3) [OF assms(1,2)] assms(3-6) home_owner [OF assms(3)]
  have i: "ShareName i = name" "GetOwningManilaName (shr_Meta i) = om_Name (man_Meta (inst s))"
    "om_Namespace (shr_Meta i) = om_Namespace (man_Meta (inst s))" "om_Name (shr_Meta i) = om_Name (man_Meta (inst s)) @ ''-share-'' @ name"
    by (simp_all add: ShareName_def same_home_def)
  obtain c ds x u where acc: "acc = (c, ds)" and run: "shareCleanup_step L i (c, ds) s' = (x, u)" by (metis surj_pair)
  from cleanup_step_run [OF run refl] i assms(6) show ?thesis
    by (auto simp: acc events_of_def run stale_share_def)
qed

theorem share_written_read_back_witness:
  "ShareName demo_created_share = ''a'' \<and> GetOwningManilaName (shr_Meta demo_created_share) = ''m'' \<and>
   events_of (shareCleanup_step demo_lib demo_created_share (False, [])) (demo_state (demo_manila\<lparr>man_Spec := demo_spec\<lparr>ms_ManilaShares := []\<rparr>\<rparr>)) =
     [EDelete ''ManilaShare'' ''openstack'' ''m-share-a'']"
proof -
  have h: "same_home (shr_Meta demo_created_share) (shr_Meta demo_created_share)" by (simp add: same_home_def)
  have d: "om_DeletionTimestamp (shr_Meta demo_created_share) = None"
    using created_events(3) [OF demo_names_owner demo_creations(3)] by simp
  show ?thesis
    using share_written_read_back [OF demo_names_owner demo_creations(3) h refl refl d,
        of "(False, [])" "demo_state (demo_manila\<lparr>man_Spec := demo_spec\<lparr>ms_ManilaShares := []\<rparr>\<rparr>)"]
    by (simp add: demo_manila_def demo_meta_def newMeta_def)
qed

end
