(* ===== verification/EntryPoint.thy ===== *)
theory EntryPoint
  imports Watches Webhook
begin

text \<open>
  The process (\<open>cmd/main.go\<close>): what its flags become, the TLS options of its two servers, which it
  collects in Go slices that start from a common one, and the registration of the scheme, the
  controllers (\<open>SetupWithManager\<close>), the defaults, the webhook and the health checks, up to the start of
  the manager. The manager and its libraries answer the calls, each of which may fail.
\<close>

section \<open>Slices\<close>

text \<open>
  A slice is a window on an array of the heap. \<open>append\<close> writes into the spare room of the array
  where there is any, which every slice of that array shares, and else moves to a new array, whose
  capacity the runtime chooses: for elements of one word the current one doubles small arrays.
\<close>

record slice =
  sl_Array :: nat
  sl_Len :: nat
  sl_Cap :: nat

type_synonym 'a arrays = "'a option list list"

definition nil_slice :: slice where
  "nil_slice = \<lparr>sl_Array = 0, sl_Len = 0, sl_Cap = 0\<rparr>"

definition go_grow :: "nat \<Rightarrow> nat \<Rightarrow> nat" where
  "go_grow newLen oldCap = (if newLen > 2 * oldCap then newLen else 2 * oldCap)"

definition slice_elems :: "'a arrays \<Rightarrow> slice \<Rightarrow> 'a option list" where
  "slice_elems heap s = (if sl_Len s = 0 then [] else take (sl_Len s) (heap ! sl_Array s))"

definition slice_append :: "(nat \<Rightarrow> nat \<Rightarrow> nat) \<Rightarrow> 'a arrays \<Rightarrow> slice \<Rightarrow> 'a \<Rightarrow> 'a arrays \<times> slice" where
  "slice_append grow heap s x =
     (if sl_Len s < sl_Cap s then
        (heap[sl_Array s := (heap ! sl_Array s)[sl_Len s := Some x]], s\<lparr>sl_Len := sl_Len s + 1\<rparr>)
      else
        (let cap = grow (sl_Len s + 1) (sl_Cap s) in
         (heap @ [slice_elems heap s @ [Some x] @ replicate (cap - (sl_Len s + 1)) None],
          \<lparr>sl_Array = length heap, sl_Len = sl_Len s + 1, sl_Cap = cap\<rparr>)))"

section \<open>File names\<close>

text \<open>
  \<open>filepath.Join\<close> and \<open>filepath.Clean\<close> of the standard library, with the separator of Unix: empty and dot
  elements vanish, a double dot takes the element before it away, and none is left at the root.
\<close>

fun path_elems :: "string \<Rightarrow> string list" where
  "path_elems [] = [[]]"
| "path_elems (c # cs) =
     (if c = CHR ''/'' then [] # path_elems cs
      else case path_elems cs of e # es \<Rightarrow> (c # e) # es | [] \<Rightarrow> [[c]])"

fun clean_elems :: "bool \<Rightarrow> string list \<Rightarrow> string list \<Rightarrow> string list" where
  "clean_elems rooted out [] = rev out"
| "clean_elems rooted out (e # es) =
     (if e = '''' \<or> e = ''.'' then clean_elems rooted out es
      else if e = ''..'' then
        (case out of
           [] \<Rightarrow> clean_elems rooted (if rooted then [] else [e]) es
         | up # below \<Rightarrow> clean_elems rooted (if up = ''..'' then e # out else below) es)
      else clean_elems rooted (e # out) es)"

fun join_elems :: "string list \<Rightarrow> string" where
  "join_elems [] = ''''"
| "join_elems [e] = e"
| "join_elems (e # es) = e @ ''/'' @ join_elems es"

definition filepath_Clean :: "string \<Rightarrow> string" where
  "filepath_Clean path =
     (let rooted = (path \<noteq> '''' \<and> hd path = CHR ''/'');
          elems = join_elems (clean_elems rooted [] (path_elems path)) in
      if rooted then ''/'' @ elems else if elems = '''' then ''.'' else elems)"

definition filepath_Join :: "string \<Rightarrow> string \<Rightarrow> string" where
  "filepath_Join a b =
     (if a \<noteq> '''' then filepath_Clean (a @ ''/'' @ b) else if b \<noteq> '''' then filepath_Clean b else '''')"

section \<open>Flags and TLS options\<close>

record cli_flags =
  fl_metricsAddr :: string
  fl_probeAddr :: string
  fl_enableLeaderElection :: bool
  fl_secureMetrics :: bool
  fl_webhookCertPath :: string
  fl_webhookCertName :: string
  fl_webhookCertKey :: string
  fl_metricsCertPath :: string
  fl_metricsCertName :: string
  fl_metricsCertKey :: string
  fl_pprofBindAddress :: string
  fl_webhookPort :: int
  fl_enableHTTP2 :: bool

text \<open>The values before the command line is parsed.\<close>

definition flag_defaults :: cli_flags where
  "flag_defaults = \<lparr>fl_metricsAddr = ''0'', fl_probeAddr = '':8081'', fl_enableLeaderElection = False,
     fl_secureMetrics = True, fl_webhookCertPath = '''', fl_webhookCertName = ''tls.crt'',
     fl_webhookCertKey = ''tls.key'', fl_metricsCertPath = '''', fl_metricsCertName = ''tls.crt'',
     fl_metricsCertKey = ''tls.key'', fl_pprofBindAddress = '''', fl_webhookPort = 9443,
     fl_enableHTTP2 = False\<rparr>"

record cert_watcher =
  cw_CertFile :: string
  cw_KeyFile :: string

text \<open>The closures over a TLS configuration, and what each does to one.\<close>

datatype tls_opt = MinVersionTLS13 | DisableHTTP2 | ServeCertificateOf cert_watcher

record tls_Config =
  tc_MinVersion :: string
  tc_NextProtos :: "string list"
  tc_GetCertificate :: "cert_watcher option"

fun apply_tls_opt :: "tls_opt \<Rightarrow> tls_Config \<Rightarrow> tls_Config" where
  "apply_tls_opt MinVersionTLS13 c = c\<lparr>tc_MinVersion := ''VersionTLS13''\<rparr>"
| "apply_tls_opt DisableHTTP2 c = c\<lparr>tc_NextProtos := [''http/1.1'']\<rparr>"
| "apply_tls_opt (ServeCertificateOf w) c = c\<lparr>tc_GetCertificate := Some w\<rparr>"

text \<open>A server applies the options its slice holds when it starts; calling a nil one panics.\<close>

fun server_config :: "tls_opt option list \<Rightarrow> tls_Config \<Rightarrow> tls_Config option" where
  "server_config [] c = Some c"
| "server_config (None # opts) c = None"
| "server_config (Some opt # opts) c = server_config opts (apply_tls_opt opt c)"

section \<open>What the manager is given\<close>

record webhook_options =
  wo_Port :: int
  wo_TLSOpts :: slice

record metrics_options =
  mo_BindAddress :: string
  mo_SecureServing :: bool
  mo_TLSOpts :: slice
  mo_Authenticated :: bool

record manager_options =
  go_Metrics :: metrics_options
  go_WebhookServer :: webhook_options
  go_HealthProbeBindAddress :: string
  go_PprofBindAddress :: string
  go_LeaderElection :: bool
  go_LeaderElectionID :: string
  go_LeaseSettings :: string

datatype watch_handler = SecretFn | FindObjectsForSrc | FindObjectForSrc | TransportURLSecretFn | MemcachedFn
datatype watch_predicate = AnyChange | ResourceVersionChanged | GenerationChanged | KeystoneAPIStatusChanged

record controller_spec =
  ct_For :: string
  ct_Owns :: "string list"
  ct_Watches :: "(string \<times> watch_handler \<times> watch_predicate) list"

datatype checker = Ping | WebhookStarted

section \<open>The calls of the process\<close>

datatype setup_call =
    AddToScheme string
  | NewCertWatcher cert_watcher
  | SetManagerOptions manager_options
  | GetConfigOrDie
  | NewManager manager_options
  | GetConfig
  | NewForConfig
  | IndexField string string
  | CompleteController controller_spec
  | CompleteWebhook string
  | AddWatcher cert_watcher
  | AddHealthzCheck string checker
  | AddReadyzCheck string checker
  | StartManager

record setup_lib =
  su_grow :: "nat \<Rightarrow> nat \<Rightarrow> nat"
  su_Getenv :: "string \<Rightarrow> string"
  su_GetEnvVar :: "string \<Rightarrow> string \<Rightarrow> string"
  su_ManagerOptions :: "manager_options \<Rightarrow> manager_options"
  su_Answer :: "setup_call list \<Rightarrow> setup_call \<Rightarrow> gerr option"

record process =
  pr_Heap :: "tls_opt arrays"
  pr_Calls :: "setup_call list"
  pr_Defaults :: "ManilaDefaults option"

definition fresh_process :: process where
  "fresh_process = \<lparr>pr_Heap = [], pr_Calls = [], pr_Defaults = None\<rparr>"

definition setup_try :: "setup_lib \<Rightarrow> setup_call \<Rightarrow> (process, 'r, gerr option) prog" where
  "setup_try S c =
     bindP (getP pr_Calls) (\<lambda>calls.
     thenP (modP (\<lambda>p. p\<lparr>pr_Calls := calls @ [c]\<rparr>)) (pureP (su_Answer S calls c)))"

text \<open>An error ends the process with exit code 1.\<close>

definition or_exit :: "setup_lib \<Rightarrow> setup_call \<Rightarrow> (process, nat, unit) prog" where
  "or_exit S c = bindP (setup_try S c) (\<lambda>err. case err of Some e \<Rightarrow> ret 1 | None \<Rightarrow> pureP ())"

definition append_opt :: "setup_lib \<Rightarrow> slice \<Rightarrow> tls_opt \<Rightarrow> (process, 'r, slice) prog" where
  "append_opt S s x =
     bindP (getP pr_Heap) (\<lambda>heap.
     case slice_append (su_grow S) heap s x of (heap', s') \<Rightarrow>
       thenP (modP (\<lambda>p. p\<lparr>pr_Heap := heap'\<rparr>)) (pureP s'))"

section \<open>The controllers register themselves\<close>

text \<open>The index of every field first, then the builder chain; the first error is handed back.\<close>

definition setup_controller :: "setup_lib \<Rightarrow> string list \<Rightarrow> controller_spec \<Rightarrow> (process, 'r, gerr option) prog" where
  "setup_controller S indexed spec =
     func (
       thenP (forP indexed (\<lambda>field.
           bindP (setup_try S (IndexField (ct_For spec) field)) (\<lambda>err.
           case err of Some e \<Rightarrow> ret (Some e) | None \<Rightarrow> pureP ())))
       (bindP (setup_try S (CompleteController spec)) ret))"

definition child_watches :: "(string \<times> watch_handler \<times> watch_predicate) list" where
  "child_watches =
     [(''Secret'', SecretFn, AnyChange),
      (''Secret'', FindObjectsForSrc, ResourceVersionChanged),
      (''Topology'', FindObjectsForSrc, GenerationChanged)]"

definition manila_controller :: controller_spec where
  "manila_controller =
     \<lparr>ct_For = ''Manila'',
      ct_Owns = [''MariaDBDatabase'', ''MariaDBAccount'', ''ManilaAPI'', ''ManilaScheduler'', ''ManilaShare'',
        ''TransportURL'', ''Job'', ''CronJob'', ''Secret'', ''ServiceAccount'', ''Role'', ''RoleBinding''],
      ct_Watches =
        [(''Secret'', TransportURLSecretFn, AnyChange),
         (''Secret'', FindObjectsForSrc, ResourceVersionChanged),
         (''Memcached'', MemcachedFn, AnyChange),
         (''KeystoneAPI'', FindObjectForSrc, KeystoneAPIStatusChanged)]\<rparr>"

definition manila_SetupWithManager :: "setup_lib \<Rightarrow> (process, 'r, gerr option) prog" where
  "manila_SetupWithManager S = setup_controller S [authAppCredSecretField] manila_controller"

definition api_controller :: controller_spec where
  "api_controller =
     \<lparr>ct_For = ''ManilaAPI'',
      ct_Owns = [''KeystoneService'', ''KeystoneEndpoint'', ''StatefulSet'', ''Secret'', ''Service''],
      ct_Watches = child_watches\<rparr>"

definition api_SetupWithManager :: "setup_lib \<Rightarrow> (process, 'r, gerr option) prog" where
  "api_SetupWithManager S = setup_controller S
     [passwordSecretField, caBundleSecretNameField, tlsAPIInternalField, tlsAPIPublicField, topologyField] api_controller"

definition scheduler_controller :: controller_spec where
  "scheduler_controller =
     \<lparr>ct_For = ''ManilaScheduler'', ct_Owns = [''StatefulSet'', ''Secret''], ct_Watches = child_watches\<rparr>"

definition scheduler_SetupWithManager :: "setup_lib \<Rightarrow> (process, 'r, gerr option) prog" where
  "scheduler_SetupWithManager S = setup_controller S
     [passwordSecretField, caBundleSecretNameField, topologyField] scheduler_controller"

definition share_controller :: controller_spec where
  "share_controller =
     \<lparr>ct_For = ''ManilaShare'', ct_Owns = [''StatefulSet'', ''Secret''], ct_Watches = child_watches\<rparr>"

definition share_SetupWithManager :: "setup_lib \<Rightarrow> (process, 'r, gerr option) prog" where
  "share_SetupWithManager S = setup_controller S
     [passwordSecretField, caBundleSecretNameField, topologyField] share_controller"

definition SetupManilaWebhookWithManager :: "setup_lib \<Rightarrow> (process, 'r, gerr option) prog" where
  "SetupManilaWebhookWithManager S = setup_try S (CompleteWebhook ''Manila'')"

section \<open>The API group\<close>

text \<open>
  The group and version, and the builder of its scheme: the \<open>init\<close> function of each file of the types
  registers a kind and the kind of its lists, in the order of the file names.
\<close>

record schema_GroupVersion =
  sg_Group :: string
  sg_Version :: string

record scheme_Builder =
  bld_GroupVersion :: schema_GroupVersion
  bld_Kinds :: "string list"

definition GroupVersion :: schema_GroupVersion where
  "GroupVersion = \<lparr>sg_Group = ''manila.openstack.org'', sg_Version = ''v1beta1''\<rparr>"

definition SchemeBuilder0 :: scheme_Builder where
  "SchemeBuilder0 = \<lparr>bld_GroupVersion = GroupVersion, bld_Kinds = []\<rparr>"

definition builder_Register :: "string list \<Rightarrow> scheme_Builder \<Rightarrow> scheme_Builder" where
  "builder_Register kinds b = b\<lparr>bld_Kinds := bld_Kinds b @ kinds\<rparr>"

definition manila_types_init :: "scheme_Builder \<Rightarrow> scheme_Builder" where
  "manila_types_init = builder_Register [''Manila'', ''ManilaList'']"

definition manilaapi_types_init :: "scheme_Builder \<Rightarrow> scheme_Builder" where
  "manilaapi_types_init = builder_Register [''ManilaAPI'', ''ManilaAPIList'']"

definition manilascheduler_types_init :: "scheme_Builder \<Rightarrow> scheme_Builder" where
  "manilascheduler_types_init = builder_Register [''ManilaScheduler'', ''ManilaSchedulerList'']"

definition manilashare_types_init :: "scheme_Builder \<Rightarrow> scheme_Builder" where
  "manilashare_types_init = builder_Register [''ManilaShare'', ''ManilaShareList'']"

definition SchemeBuilder :: scheme_Builder where
  "SchemeBuilder = manilashare_types_init (manilascheduler_types_init (manilaapi_types_init (manila_types_init SchemeBuilder0)))"

section \<open>init\<close>

text \<open>\<open>Must\<close> panics where a group does not register.\<close>

definition scheme_groups :: "string list" where
  "scheme_groups = [''clientgo'', ''manila'', ''memcached'', ''mariadb'', ''keystone'', ''rabbitmq'',
     ''network'', ''topology'']"

definition main_init :: "setup_lib \<Rightarrow> (process, 'r, unit) prog" where
  "main_init S = forP scheme_groups (\<lambda>g.
     bindP (setup_try S (AddToScheme g)) (\<lambda>err. case err of Some e \<Rightarrow> panic | None \<Rightarrow> pureP ()))"

section \<open>main\<close>

text \<open>The options both servers start from: TLS 1.3 at least, and no HTTP/2 unless a flag enables it.\<close>

definition main_tls_opts :: "setup_lib \<Rightarrow> cli_flags \<Rightarrow> (process, nat, slice) prog" where
  "main_tls_opts S fl =
     bindP (append_opt S nil_slice MinVersionTLS13) (\<lambda>tlsOpts.
     if \<not> fl_enableHTTP2 fl then append_opt S tlsOpts DisableHTTP2 else pureP tlsOpts)"

text \<open>The certificate of a server is watched where a path is given.\<close>

definition main_server_tls :: "setup_lib \<Rightarrow> string \<Rightarrow> string \<Rightarrow> string \<Rightarrow> slice \<Rightarrow>
  (process, nat, cert_watcher option \<times> slice) prog" where
  "main_server_tls S path name key tlsOpts =
     (if path \<noteq> '''' then
        (let w = \<lparr>cw_CertFile = filepath_Join path name, cw_KeyFile = filepath_Join path key\<rparr> in
         thenP (or_exit S (NewCertWatcher w))
         (bindP (append_opt S tlsOpts (ServeCertificateOf w)) (\<lambda>opts. pureP (Some w, opts))))
      else pureP (None, tlsOpts))"

definition main_options :: "cli_flags \<Rightarrow> slice \<Rightarrow> slice \<Rightarrow> manager_options" where
  "main_options fl webhookTLSOpts metricsTLSOpts =
     \<lparr>go_Metrics = \<lparr>mo_BindAddress = fl_metricsAddr fl, mo_SecureServing = fl_secureMetrics fl,
        mo_TLSOpts = metricsTLSOpts, mo_Authenticated = fl_secureMetrics fl\<rparr>,
      go_WebhookServer = \<lparr>wo_Port = fl_webhookPort fl, wo_TLSOpts = webhookTLSOpts\<rparr>,
      go_HealthProbeBindAddress = fl_probeAddr fl,
      go_PprofBindAddress = fl_pprofBindAddress fl,
      go_LeaderElection = fl_enableLeaderElection fl,
      go_LeaderElectionID = ''858862a7.openstack.org'',
      go_LeaseSettings = ''''\<rparr>"

definition main_manager :: "setup_lib \<Rightarrow> manager_options \<Rightarrow> (process, nat, unit) prog" where
  "main_manager S options =
     thenP (or_exit S (SetManagerOptions options))
     (thenP (or_exit S GetConfigOrDie)
     (thenP (or_exit S (NewManager (su_ManagerOptions S options)))
     (thenP (or_exit S GetConfig)
        (or_exit S NewForConfig))))"

definition exit_on :: "(process, nat, gerr option) prog \<Rightarrow> (process, nat, unit) prog" where
  "exit_on m = bindP m (\<lambda>err. case err of Some e \<Rightarrow> ret 1 | None \<Rightarrow> pureP ())"

definition main_controllers :: "setup_lib \<Rightarrow> (process, nat, unit) prog" where
  "main_controllers S =
     thenP (exit_on (api_SetupWithManager S))
     (thenP (exit_on (manila_SetupWithManager S))
     (thenP (exit_on (scheduler_SetupWithManager S))
        (exit_on (share_SetupWithManager S))))"

text \<open>The defaults are read from the environment before anything can ask the webhook for them.\<close>

definition main_webhook :: "setup_lib \<Rightarrow> (process, nat, checker) prog" where
  "main_webhook S =
     thenP (modP (\<lambda>p. p\<lparr>pr_Defaults := Some (SetupDefaults (su_GetEnvVar S))\<rparr>))
     (if su_Getenv S ''ENABLE_WEBHOOKS'' \<noteq> ''false'' then
        thenP (exit_on (SetupManilaWebhookWithManager S)) (pureP WebhookStarted)
      else pureP Ping)"

definition add_watcher :: "setup_lib \<Rightarrow> cert_watcher option \<Rightarrow> (process, nat, unit) prog" where
  "add_watcher S cw = (case cw of Some w \<Rightarrow> or_exit S (AddWatcher w) | None \<Rightarrow> pureP ())"

text \<open>The exit code: 0 where the manager was started and stopped without an error.\<close>

definition main_main :: "setup_lib \<Rightarrow> cli_flags \<Rightarrow> (process, nat, nat) prog" where
  "main_main S fl =
     func (
       bindP (main_tls_opts S fl) (\<lambda>tlsOpts.
       bindP (main_server_tls S (fl_webhookCertPath fl) (fl_webhookCertName fl) (fl_webhookCertKey fl) tlsOpts)
         (\<lambda>(webhookCertWatcher, webhookTLSOpts).
       bindP (main_server_tls S (fl_metricsCertPath fl) (fl_metricsCertName fl) (fl_metricsCertKey fl) tlsOpts)
         (\<lambda>(metricsCertWatcher, metricsTLSOpts).
       thenP (main_manager S (main_options fl webhookTLSOpts metricsTLSOpts))
       (thenP (main_controllers S)
       (bindP (main_webhook S) (\<lambda>checker.
        thenP (add_watcher S metricsCertWatcher)
        (thenP (add_watcher S webhookCertWatcher)
        (thenP (or_exit S (AddHealthzCheck ''healthz'' checker))
        (thenP (or_exit S (AddReadyzCheck ''readyz'' checker))
        (thenP (or_exit S StartManager) (ret 0))))))))))))"

end
