(* ===== verification/EntryProps.thy ===== *)
theory EntryProps
  imports EntryPoint
begin

text \<open>
  The start of the process against its reference: the list of calls a configuration asks for, tried
  one after the other up to the first that fails. Then what the two servers hold when the manager
  starts.
\<close>

section \<open>Slices hold what was appended\<close>

text \<open>A slice fits its array; two slices of one array share what both see.\<close>

definition slice_fits :: "'a arrays \<Rightarrow> slice \<Rightarrow> bool" where
  "slice_fits heap s \<longleftrightarrow> sl_Len s \<le> sl_Cap s \<and>
     (0 < sl_Cap s \<longrightarrow> sl_Array s < length heap \<and> length (heap ! sl_Array s) = sl_Cap s)"

lemma slice_append_elems:
  assumes "slice_fits heap s" and "slice_append grow heap s x = (heap', s')" and "\<And>n c. n \<le> grow n c"
  shows "slice_elems heap' s' = slice_elems heap s @ [Some x]" "slice_fits heap' s'"
  using assms(1,2) assms(3) [of "sl_Len s + 1" "sl_Cap s"]
  by (auto simp: slice_append_def slice_fits_def slice_elems_def Let_def take_Suc_conv_app_nth nth_append
      split: if_splits)

text \<open>A full slice is appended to in a new array: no other slice sees it.\<close>

lemma slice_append_full:
  assumes "sl_Len s = sl_Cap s" and "slice_append grow heap s x = (heap', s')" and "slice_fits heap t"
  shows "slice_elems heap' t = slice_elems heap t" "slice_fits heap' t"
  using assms by (auto simp: slice_append_def slice_fits_def slice_elems_def Let_def nth_append)

lemma go_grow_enough: "n \<le> go_grow n c"
  by (simp add: go_grow_def)

section \<open>The reference\<close>

fun attempt :: "(setup_call list \<Rightarrow> setup_call \<Rightarrow> gerr option) \<Rightarrow> setup_call list \<Rightarrow> setup_call list \<Rightarrow> bool \<times> setup_call list" where
  "attempt answer done [] = (True, done)"
| "attempt answer done (c # cs) =
     (case answer done c of None \<Rightarrow> attempt answer (done @ [c]) cs | Some e \<Rightarrow> (False, done @ [c]))"

lemma attempt_append:
  "attempt answer done (xs @ ys) =
     (case attempt answer done xs of (True, tr) \<Rightarrow> attempt answer tr ys | (False, tr) \<Rightarrow> (False, tr))"
  by (induction xs arbitrary: "done") (auto split: option.split)

lemma attempt_all: "attempt answer done cs = (True, tr) \<Longrightarrow> tr = done @ cs"
  by (induction cs arbitrary: "done") (fastforce split: option.splits)+

lemma attempt_part: "attempt answer done cs = (b, tr) \<Longrightarrow> \<exists>n. tr = done @ take n cs"
proof (induction cs arbitrary: "done")
  case (Cons c cs)
  show ?case
  proof (cases "answer done c")
    case None
    with Cons obtain n where "tr = (done @ [c]) @ take n cs" by fastforce
    then show ?thesis by (intro exI [of _ "Suc n"]) simp
  next
    case (Some e)
    with Cons.prems show ?thesis by (intro exI [of _ 1]) simp
  qed
qed simp

definition cert_of :: "setup_lib \<Rightarrow> string \<Rightarrow> string \<Rightarrow> string \<Rightarrow> cert_watcher option" where
  "cert_of S path name key =
     (if path \<noteq> '''' then Some \<lparr>cw_CertFile = filepath_Join path name, cw_KeyFile = filepath_Join path key\<rparr> else None)"

definition webhook_cert :: "setup_lib \<Rightarrow> cli_flags \<Rightarrow> cert_watcher option" where
  "webhook_cert S fl = cert_of S (fl_webhookCertPath fl) (fl_webhookCertName fl) (fl_webhookCertKey fl)"

definition metrics_cert :: "setup_lib \<Rightarrow> cli_flags \<Rightarrow> cert_watcher option" where
  "metrics_cert S fl = cert_of S (fl_metricsCertPath fl) (fl_metricsCertName fl) (fl_metricsCertKey fl)"

definition append_cert :: "(nat \<Rightarrow> nat \<Rightarrow> nat) \<Rightarrow> tls_opt arrays \<Rightarrow> slice \<Rightarrow> cert_watcher option \<Rightarrow> tls_opt arrays \<times> slice" where
  "append_cert grow heap s cw = (case cw of Some w \<Rightarrow> slice_append grow heap s (ServeCertificateOf w) | None \<Rightarrow> (heap, s))"

definition common_opts :: "setup_lib \<Rightarrow> cli_flags \<Rightarrow> tls_opt arrays \<times> slice" where
  "common_opts S fl =
     (let (heap, s) = slice_append (su_grow S) [] nil_slice MinVersionTLS13
      in if fl_enableHTTP2 fl then (heap, s) else slice_append (su_grow S) heap s DisableHTTP2)"

text \<open>The heap, and the slices of the webhook and the metrics server, when all is appended.\<close>

definition server_opts :: "setup_lib \<Rightarrow> cli_flags \<Rightarrow> tls_opt arrays \<times> slice \<times> slice" where
  "server_opts S fl =
     (let (heap, s) = common_opts S fl;
          (heap1, w) = append_cert (su_grow S) heap s (webhook_cert S fl);
          (heap2, m) = append_cert (su_grow S) heap1 s (metrics_cert S fl)
      in (heap2, w, m))"

definition watcher_list :: "cert_watcher option \<Rightarrow> cert_watcher list" where
  "watcher_list cw = (case cw of Some w \<Rightarrow> [w] | None \<Rightarrow> [])"

definition register :: "string list \<Rightarrow> controller_spec \<Rightarrow> setup_call list" where
  "register indexed spec = map (IndexField (ct_For spec)) indexed @ [CompleteController spec]"

definition webhooks_on :: "setup_lib \<Rightarrow> bool" where
  "webhooks_on S \<longleftrightarrow> su_Getenv S ''ENABLE_WEBHOOKS'' \<noteq> ''false''"

definition start_sequence :: "setup_lib \<Rightarrow> cli_flags \<Rightarrow> setup_call list" where
  "start_sequence S fl =
     (let (heap, w, m) = server_opts S fl;
          options = main_options fl w m;
          checker = (if webhooks_on S then WebhookStarted else Ping)
      in map NewCertWatcher (watcher_list (webhook_cert S fl) @ watcher_list (metrics_cert S fl)) @
         [SetManagerOptions options, GetConfigOrDie, NewManager (su_ManagerOptions S options), GetConfig, NewForConfig] @
         register manilaAPIWatchFields api_controller @ register manilaWatchFields manila_controller @
         register commonWatchFields scheduler_controller @ register commonWatchFields share_controller @
         (if webhooks_on S then [CompleteWebhook ''Manila''] else []) @
         map AddWatcher (watcher_list (metrics_cert S fl) @ watcher_list (webhook_cert S fl)) @
         [AddHealthzCheck ''healthz'' checker, AddReadyzCheck ''readyz'' checker, StartManager])"

section \<open>Programs that follow a list of calls\<close>

definition follows :: "setup_lib \<Rightarrow> (process, nat, 'a) prog \<Rightarrow> setup_call list \<Rightarrow> tls_opt arrays \<Rightarrow> tls_opt arrays \<Rightarrow>
  (nat, 'a) outcome \<Rightarrow> bool" where
  "follows S m cs heap heap' out \<longleftrightarrow> (\<forall>p. pr_Heap p = heap \<longrightarrow>
     (case attempt (su_Answer S) (pr_Calls p) cs of
        (True, tr) \<Rightarrow> fst (m p) = out \<and> pr_Calls (snd (m p)) = tr \<and> pr_Heap (snd (m p)) = heap'
      | (False, tr) \<Rightarrow> fst (m p) = Return 1 \<and> pr_Calls (snd (m p)) = tr))"

lemma follows_bind:
  assumes m: "follows S m xs h1 h2 (Next a)" and f: "follows S (f a) ys h2 h3 out"
  shows "follows S (bindP m f) (xs @ ys) h1 h3 out"
  unfolding follows_def
proof (intro allI impI)
  fix p :: process assume p: "pr_Heap p = h1"
  obtain ok tr where t: "attempt (su_Answer S) (pr_Calls p) xs = (ok, tr)" by fastforce
  show "case attempt (su_Answer S) (pr_Calls p) (xs @ ys) of
        (True, tr) \<Rightarrow> fst (bindP m f p) = out \<and> pr_Calls (snd (bindP m f p)) = tr \<and> pr_Heap (snd (bindP m f p)) = h3
      | (False, tr) \<Rightarrow> fst (bindP m f p) = Return 1 \<and> pr_Calls (snd (bindP m f p)) = tr"
  proof (cases ok)
    case True
    with m p t obtain q where "m p = (Next a, q)" "pr_Calls q = tr" "pr_Heap q = h2"
      unfolding follows_def by (cases "m p") fastforce
    moreover from this have b: "bindP m f p = f a q" by (simp add: run_bindP)
    ultimately show ?thesis unfolding b using f [unfolded follows_def, rule_format, of q] t True by (simp add: attempt_append)
  next
    case False
    with m p t obtain q where "m p = (Return 1, q)" "pr_Calls q = tr"
      unfolding follows_def by (cases "m p") fastforce
    with t False show ?thesis by (simp add: run_bindP attempt_append)
  qed
qed

lemma follows_steps:
  "follows S (pureP a) [] h h (Next a)" "follows S (ret r) [] h h (Return r)"
  "follows S (or_exit S c) [c] h h (Next ())"
  "slice_append (su_grow S) h s x = (h', s') \<Longrightarrow> follows S (append_opt S s x) [] h h' (Next s')"
  by (auto simp: follows_def prog_simps or_exit_def setup_try_def append_opt_def split: option.split)

lemma run_setup_try: "setup_try S c p = (Next (su_Answer S (pr_Calls p) c), p\<lparr>pr_Calls := pr_Calls p @ [c]\<rparr>)"
  by (simp add: setup_try_def prog_simps)

lemma calls_follow:
  assumes "\<And>x p. f x p = (case su_Answer S (pr_Calls p) (c x) of None \<Rightarrow> (Next (), p\<lparr>pr_Calls := pr_Calls p @ [c x]\<rparr>)
     | Some e \<Rightarrow> (Return (r e), p\<lparr>pr_Calls := pr_Calls p @ [c x]\<rparr>))"
  shows "attempt (su_Answer S) (pr_Calls p) (map c xs) = (ok, tr) \<Longrightarrow>
    (if ok then forP xs f p = (Next (), p\<lparr>pr_Calls := tr\<rparr>) else \<exists>e. forP xs f p = (Return (r e), p\<lparr>pr_Calls := tr\<rparr>))"
proof (induction xs arbitrary: p)
  case (Cons x xs)
  then show ?case using Cons.IH [of "p\<lparr>pr_Calls := pr_Calls p @ [c x]\<rparr>"]
    by (cases ok) (auto simp: run_bindP assms split: option.splits)
qed (simp add: run_pureP)

lemma follows_register: "follows S (exit_on (setup_controller S fs spec)) (register fs spec) h h (Next ())"
  unfolding follows_def
proof (intro allI impI)
  fix p :: process assume p: "pr_Heap p = h"
  let ?body = "\<lambda>field. bindP (setup_try S (IndexField (ct_For spec) field)) (\<lambda>err.
      case err of Some e \<Rightarrow> ret (Some e) | None \<Rightarrow> pureP ()) :: (process, gerr option, unit) prog"
  obtain ok tr where t: "attempt (su_Answer S) (pr_Calls p) (map (IndexField (ct_For spec)) fs) = (ok, tr)" by fastforce
  have "?body x q = (case su_Answer S (pr_Calls q) (IndexField (ct_For spec) x) of
        None \<Rightarrow> (Next (), q\<lparr>pr_Calls := pr_Calls q @ [IndexField (ct_For spec) x]\<rparr>)
      | Some e \<Rightarrow> (Return (Some e), q\<lparr>pr_Calls := pr_Calls q @ [IndexField (ct_For spec) x]\<rparr>))" for x q
    by (simp add: run_setup_try run_bindP run_ret run_pureP split: option.split)
  from calls_follow [OF this t]
  show "case attempt (su_Answer S) (pr_Calls p) (register fs spec) of
        (True, tr) \<Rightarrow> fst (exit_on (setup_controller S fs spec) p) = Next () \<and>
          pr_Calls (snd (exit_on (setup_controller S fs spec) p)) = tr \<and> pr_Heap (snd (exit_on (setup_controller S fs spec) p)) = h
      | (False, tr) \<Rightarrow> fst (exit_on (setup_controller S fs spec) p) = Return 1 \<and>
          pr_Calls (snd (exit_on (setup_controller S fs spec) p)) = tr"
    using t p
    by (cases ok) (auto simp: exit_on_def setup_controller_def register_def attempt_append run_bindP run_func run_ret run_pureP
        run_setup_try split: option.split)
qed

lemma main_parts_follow:
  "follows S (main_manager S o') [SetManagerOptions o', GetConfigOrDie, NewManager (su_ManagerOptions S o'), GetConfig, NewForConfig] h h (Next ())"
  "follows S (main_controllers S) (register manilaAPIWatchFields api_controller @ register manilaWatchFields manila_controller @
     register commonWatchFields scheduler_controller @ register commonWatchFields share_controller) h h (Next ())"
  "follows S (main_webhook S) (if webhooks_on S then [CompleteWebhook ''Manila''] else []) h h
     (Next (if webhooks_on S then WebhookStarted else Ping))"
  "follows S (add_watcher S cw) (map AddWatcher (watcher_list cw)) h h (Next ())"
proof -
  note bind = follows_bind [where ys = "_ # _" and xs = "[_]", simplified append_Cons append_Nil]
  show "follows S (main_manager S o') [SetManagerOptions o', GetConfigOrDie, NewManager (su_ManagerOptions S o'), GetConfig, NewForConfig] h h (Next ())"
    unfolding main_manager_def by (rule bind, rule follows_steps)+ (rule follows_steps)
  show "follows S (main_controllers S) (register manilaAPIWatchFields api_controller @ register manilaWatchFields manila_controller @
     register commonWatchFields scheduler_controller @ register commonWatchFields share_controller) h h (Next ())"
    unfolding main_controllers_def api_SetupWithManager_def manila_SetupWithManager_def scheduler_SetupWithManager_def
      share_SetupWithManager_def manilaAPIWatchFields_def manilaWatchFields_def commonWatchFields_def
    by (rule follows_bind, rule follows_register)+ (rule follows_register)
  show "follows S (main_webhook S) (if webhooks_on S then [CompleteWebhook ''Manila''] else []) h h
     (Next (if webhooks_on S then WebhookStarted else Ping))"
    by (auto simp: follows_def main_webhook_def webhooks_on_def exit_on_def SetupManilaWebhookWithManager_def run_bindP run_modP
        run_pureP run_ret run_setup_try split: option.split)
  show "follows S (add_watcher S cw) (map AddWatcher (watcher_list cw)) h h (Next ())"
    by (auto simp: add_watcher_def watcher_list_def follows_steps split: option.split)
qed

lemma main_tls_follow:
  "common_opts S fl = (h, s) \<Longrightarrow> follows S (main_tls_opts S fl) [] [] h (Next s)"
  "append_cert (su_grow S) h s (cert_of S path name key) = (h', s') \<Longrightarrow>
    follows S (main_server_tls S path name key s) (map NewCertWatcher (watcher_list (cert_of S path name key))) h h'
      (Next (cert_of S path name key, s'))"
proof -
  note bind0 = follows_bind [where xs = "[]", simplified append_Nil]
    and bind1 = follows_bind [where ys = "[]", simplified append_Nil2]
  show "follows S (main_tls_opts S fl) [] [] h (Next s)" if "common_opts S fl = (h, s)"
    using that unfolding main_tls_opts_def common_opts_def
    by (auto split: prod.splits if_splits intro!: bind0 follows_steps)
  show "follows S (main_server_tls S path name key s) (map NewCertWatcher (watcher_list (cert_of S path name key))) h h'
      (Next (cert_of S path name key, s'))"
    if "append_cert (su_grow S) h s (cert_of S path name key) = (h', s')"
    using that unfolding main_server_tls_def append_cert_def cert_of_def watcher_list_def Let_def
    by (auto simp: follows_steps intro!: bind1 [OF follows_steps(3)] bind0 [OF follows_steps(4)])
qed

lemma func_follows:
  assumes "follows S m cs [] h (Return 0)"
  shows "let (ok, calls) = attempt (su_Answer S) [] cs; (out, p) = func m fresh_process in
    out = Next (if ok then 0 else 1) \<and> pr_Calls p = calls \<and> (ok \<longrightarrow> pr_Heap p = h)"
  using assms [unfolded follows_def, rule_format, of fresh_process]
  by (cases "m fresh_process") (auto simp: fresh_process_def run_func split: prod.splits bool.splits)

lemma main_body_follows:
  assumes "server_opts S fl = (heap, w, m)"
  shows "let (ok, calls) = attempt (su_Answer S) [] (start_sequence S fl); (out, p) = main_main S fl fresh_process in
    out = Next (if ok then 0 else 1) \<and> pr_Calls p = calls \<and> (ok \<longrightarrow> pr_Heap p = heap)"
  unfolding main_main_def
proof (rule func_follows)
  obtain h s where c: "common_opts S fl = (h, s)" by fastforce
  obtain h1 w1 where w: "append_cert (su_grow S) h s (webhook_cert S fl) = (h1, w1)" by fastforce
  obtain h2 m1 where m: "append_cert (su_grow S) h1 s (metrics_cert S fl) = (h2, m1)" by fastforce
  from assms have eq: "h2 = heap" "w1 = w" "m1 = m" by (simp_all add: server_opts_def c w m)
  let ?o = "main_options fl w m" and ?ch = "if webhooks_on S then WebhookStarted else Ping"
  have seq: "start_sequence S fl = [] @ map NewCertWatcher (watcher_list (webhook_cert S fl)) @ map NewCertWatcher (watcher_list (metrics_cert S fl)) @
      [SetManagerOptions ?o, GetConfigOrDie, NewManager (su_ManagerOptions S ?o), GetConfig, NewForConfig] @
      (register manilaAPIWatchFields api_controller @ register manilaWatchFields manila_controller @
         register commonWatchFields scheduler_controller @ register commonWatchFields share_controller) @
      (if webhooks_on S then [CompleteWebhook ''Manila''] else []) @
      map AddWatcher (watcher_list (metrics_cert S fl)) @ map AddWatcher (watcher_list (webhook_cert S fl)) @
      [AddHealthzCheck ''healthz'' ?ch] @ [AddReadyzCheck ''readyz'' ?ch] @ [StartManager] @ []"
    by (simp add: start_sequence_def assms Let_def)
  note parts = main_tls_follow(1) [OF c] main_tls_follow(2) [OF w [unfolded webhook_cert_def], folded webhook_cert_def, unfolded eq]
    main_tls_follow(2) [OF m [unfolded metrics_cert_def], folded metrics_cert_def, unfolded eq] main_parts_follow follows_steps(3)
  show "follows S
     (bindP (main_tls_opts S fl) (\<lambda>tlsOpts.
       bindP (main_server_tls S (fl_webhookCertPath fl) (fl_webhookCertName fl) (fl_webhookCertKey fl) tlsOpts)
         (\<lambda>(webhookCertWatcher, webhookTLSOpts).
       bindP (main_server_tls S (fl_metricsCertPath fl) (fl_metricsCertName fl) (fl_metricsCertKey fl) tlsOpts)
         (\<lambda>(metricsCertWatcher, metricsTLSOpts).
       thenP (main_manager S (main_options fl webhookTLSOpts metricsTLSOpts))
       (thenP (main_controllers S)
       (bindP (main_webhook S) (\<lambda>checker.
        thenP (add_watcher S metricsCertWatcher)
        (thenP (add_watcher S webhookCertWatcher)
        (thenP (or_exit S (AddHealthzCheck ''healthz'' checker))
        (thenP (or_exit S (AddReadyzCheck ''readyz'' checker))
        (thenP (or_exit S StartManager) (ret 0))))))))))))
     (start_sequence S fl) [] heap (Return 0)"
    unfolding seq
    by ((rule follows_bind, rule parts, (simp only: prod.case)?)+, rule follows_steps(2))
qed

text \<open>C16: the process makes the calls of its start sequence, in that order, until one fails, and exits with 1 then, with 0 where none does. The sequence depends on the flags and the environment only: certificates are loaded before anything is built from them, each controller indexes the fields its watches list by before it is registered, all four are registered before the webhook is, the webhook is registered where the environment does not turn it off, and the health checks, which wait for the webhook exactly in that case, come before the start of the manager.\<close>

theorem main_follows_sequence:
  "let (ok, calls) = attempt (su_Answer S) [] (start_sequence S fl); (out, p) = main_main S fl fresh_process in
   out = Next (if ok then 0 else 1) \<and> pr_Calls p = calls"
  using main_body_follows [of S fl] by (cases "server_opts S fl") (fastforce simp: Let_def split: prod.splits)

text \<open>
  Every kind that has a controller, or that a controller of this group owns, is registered once, with
  its list.
\<close>

lemma controller_kinds_registered:
  "distinct (bld_Kinds SchemeBuilder)"
  "c \<in> {manila_controller, api_controller, scheduler_controller, share_controller} \<Longrightarrow>
     ct_For c \<in> set (bld_Kinds SchemeBuilder) \<and> ct_For c @ ''List'' \<in> set (bld_Kinds SchemeBuilder)"
  "k \<in> {''ManilaAPI'', ''ManilaScheduler'', ''ManilaShare''} \<Longrightarrow> k \<in> set (ct_Owns manila_controller) \<inter> set (bld_Kinds SchemeBuilder)"
  by (auto simp: SchemeBuilder_def SchemeBuilder0_def builder_Register_def manila_types_init_def manilaapi_types_init_def
      manilascheduler_types_init_def manilashare_types_init_def manila_controller_def api_controller_def
      scheduler_controller_def share_controller_def)

section \<open>What the servers hold\<close>

definition common_tls :: "cli_flags \<Rightarrow> tls_opt list" where
  "common_tls fl = MinVersionTLS13 # (if fl_enableHTTP2 fl then [] else [DisableHTTP2])"

lemma server_opts_elems:
  assumes "su_grow S = go_grow" and "server_opts S fl = (heap, w, m)"
  shows "slice_elems heap w = map Some (common_tls fl @ map ServeCertificateOf (watcher_list (webhook_cert S fl)))"
    "slice_elems heap m = map Some (common_tls fl @ map ServeCertificateOf (watcher_list (metrics_cert S fl)))"
  using assms
  by (auto simp: server_opts_def common_opts_def append_cert_def slice_append_def slice_elems_def nil_slice_def go_grow_def
      common_tls_def watcher_list_def Let_def nth_append split: option.splits if_splits)

lemma server_config_all: "server_config (map Some opts) c = Some (fold apply_tls_opt opts c)"
  by (induction opts arbitrary: c) simp_all

definition served_with :: "cli_flags \<Rightarrow> cert_watcher option \<Rightarrow> tls_Config \<Rightarrow> tls_Config" where
  "served_with fl cw c = c\<lparr>tc_MinVersion := ''VersionTLS13'',
     tc_NextProtos := if fl_enableHTTP2 fl then tc_NextProtos c else [''http/1.1''],
     tc_GetCertificate := if cw = None then tc_GetCertificate c else cw\<rparr>"

lemma common_tls_served:
  "server_config (map Some (common_tls fl @ map ServeCertificateOf (watcher_list cw))) c = Some (served_with fl cw c)"
  unfolding server_config_all
  by (auto simp: common_tls_def served_with_def watcher_list_def split: option.split)

text \<open>C17: where the process ran to its end, each of its two servers was given TLS options that require TLS 1.3, refuse HTTP/2 unless the flag enables it, and serve the certificate of that server where one is configured: the slices of the two start from a common one, and neither append wrote into the other. That rests on the capacities the runtime picks (doubling) and on the manager library leaving the server options alone.\<close>

theorem main_servers_tls:
  assumes "su_grow S = go_grow"
    and "\<And>g. go_Metrics (su_ManagerOptions S g) = go_Metrics g \<and> go_WebhookServer (su_ManagerOptions S g) = go_WebhookServer g"
    and "main_main S fl fresh_process = (Next 0, p)"
  shows "\<exists>g. NewManager g \<in> set (pr_Calls p) \<and>
    server_config (slice_elems (pr_Heap p) (wo_TLSOpts (go_WebhookServer g))) c = Some (served_with fl (webhook_cert S fl) c) \<and>
    server_config (slice_elems (pr_Heap p) (mo_TLSOpts (go_Metrics g))) c = Some (served_with fl (metrics_cert S fl) c)"
proof -
  obtain heap w m where sv: "server_opts S fl = (heap, w, m)" by (cases "server_opts S fl") auto
  obtain ok calls where a: "attempt (su_Answer S) [] (start_sequence S fl) = (ok, calls)" by fastforce
  with main_body_follows [OF sv] assms(3) have r: "pr_Calls p = calls" "pr_Heap p = heap" "ok" by (cases ok; simp)+
  with attempt_all [of "su_Answer S" "[]" "start_sequence S fl"] a have "calls = start_sequence S fl" by simp
  then have "NewManager (su_ManagerOptions S (main_options fl w m)) \<in> set (pr_Calls p)"
    by (simp add: r start_sequence_def sv Let_def)
  then show ?thesis
    by (intro exI [of _ "su_ManagerOptions S (main_options fl w m)"])
      (simp add: assms(2) r main_options_def server_opts_elems [OF assms(1) sv] common_tls_served del: map_append)
qed

text \<open>A machine where every call succeeds, started with a certificate for each server.\<close>

definition demo_setup :: setup_lib where
  "demo_setup = \<lparr>su_grow = go_grow, su_Getenv = (\<lambda>_. ''''),
     su_GetEnvVar = (\<lambda>_ d. d), su_ManagerOptions = (\<lambda>g. g\<lparr>go_LeaseSettings := ''137s''\<rparr>), su_Answer = (\<lambda>_ _. None)\<rparr>"

definition demo_flags :: cli_flags where
  "demo_flags = flag_defaults\<lparr>fl_webhookCertPath := ''/webhook'', fl_metricsCertPath := ''/metrics''\<rparr>"

definition demo_tls_config :: tls_Config where
  "demo_tls_config = \<lparr>tc_MinVersion = '''', tc_NextProtos = [''h2''], tc_GetCertificate = None\<rparr>"

lemma attempt_succeeds: "attempt (\<lambda>_ _. None) done cs = (True, done @ cs)"
  by (induction cs arbitrary: "done") simp_all

lemma demo_setup_runs: "main_main demo_setup demo_flags fresh_process = (Next 0, snd (main_main demo_setup demo_flags fresh_process))"
proof -
  obtain heap w m where sv: "server_opts demo_setup demo_flags = (heap, w, m)" by (cases "server_opts demo_setup demo_flags") auto
  have "su_Answer demo_setup = (\<lambda>_ _. None)" by (simp add: demo_setup_def)
  with main_body_follows [OF sv] show ?thesis
    by (cases "main_main demo_setup demo_flags fresh_process") (simp add: attempt_succeeds)
qed

theorem main_servers_tls_witness:
  "\<exists>g. NewManager g \<in> set (pr_Calls (snd (main_main demo_setup demo_flags fresh_process))) \<and>
    server_config (slice_elems (pr_Heap (snd (main_main demo_setup demo_flags fresh_process))) (wo_TLSOpts (go_WebhookServer g)))
      demo_tls_config = Some (served_with demo_flags (webhook_cert demo_setup demo_flags) demo_tls_config) \<and>
    server_config (slice_elems (pr_Heap (snd (main_main demo_setup demo_flags fresh_process))) (mo_TLSOpts (go_Metrics g)))
      demo_tls_config = Some (served_with demo_flags (metrics_cert demo_setup demo_flags) demo_tls_config)"
  by (rule main_servers_tls [OF _ _ demo_setup_runs]) (simp_all add: demo_setup_def)

text \<open>
  A runtime that left spare room in the common array would be just as lawful, and there the metrics
  server's option takes the place of the webhook server's: both would serve the metrics certificate.
\<close>

lemma spare_capacity_shares:
  assumes "su_grow S = (\<lambda>n c. n + 3)" and "webhook_cert S fl = Some w0" "metrics_cert S fl = Some m0"
    and "server_opts S fl = (heap, w, m)"
  shows "slice_elems heap w = map Some (common_tls fl @ [ServeCertificateOf m0])" "slice_elems heap m = slice_elems heap w"
  using assms
  by (auto simp: server_opts_def common_opts_def append_cert_def slice_append_def slice_elems_def nil_slice_def
      common_tls_def Let_def numeral_3_eq_3 split: if_splits)

end
