(* ===== verification/GoHeap.thy ===== *)
theory GoHeap
  imports Prelude "HOL-Library.Sublist"
begin

text \<open>
  Go values that share memory: structs are stored inline, pointers, slices and maps refer to cells
  of a heap. The operations are those the generated deep copies use. A type says how a value is
  read; read at its type, a value is a tree without addresses, and it reaches some cells.
\<close>

section \<open>Values and cells\<close>

datatype scalar = StrS string | IntS int | BoolS bool

text \<open>
  A slice has the address of its array, its offset and its length. What lies between its length and
  its capacity is never read here, so the capacity is left out.
\<close>

datatype gv = ScalarV scalar | StructV "(string \<times> gv) list" | NilV | RefV nat | SliceV nat nat nat

datatype cell = VarC gv | ArrayC "gv list" | MapC "(string \<times> gv) list"

type_synonym gheap = "cell list"

definition cell_at :: "gheap \<Rightarrow> nat \<Rightarrow> cell option" where
  "cell_at h a = (if a < length h then Some (h ! a) else None)"

text \<open>
  An allocation takes the next address. A load of what is not there, a nil dereference among them,
  panics. A map is ranged over in the order of its entries.
\<close>

type_synonym 'a heap_op = "(gheap, gv, 'a) prog"

definition new_cell :: "cell \<Rightarrow> nat heap_op" where
  "new_cell c = (\<lambda>h. (Next (length h), h @ [c]))"

definition load_var :: "nat \<Rightarrow> gv heap_op" where
  "load_var a = (\<lambda>h. case cell_at h a of Some (VarC v) \<Rightarrow> (Next v, h) | _ \<Rightarrow> (Panic, h))"

definition store_var :: "nat \<Rightarrow> gv \<Rightarrow> unit heap_op" where
  "store_var a v = (\<lambda>h. case cell_at h a of Some (VarC _) \<Rightarrow> (Next (), h[a := VarC v]) | _ \<Rightarrow> (Panic, h))"

definition load_elem :: "nat \<Rightarrow> nat \<Rightarrow> gv heap_op" where
  "load_elem a i = (\<lambda>h. case cell_at h a of
     Some (ArrayC vs) \<Rightarrow> if i < length vs then (Next (vs ! i), h) else (Panic, h) | _ \<Rightarrow> (Panic, h))"

definition store_elem :: "nat \<Rightarrow> nat \<Rightarrow> gv \<Rightarrow> unit heap_op" where
  "store_elem a i v = (\<lambda>h. case cell_at h a of
     Some (ArrayC vs) \<Rightarrow> if i < length vs then (Next (), h[a := ArrayC (vs[i := v])]) else (Panic, h)
   | _ \<Rightarrow> (Panic, h))"

fun put_key :: "string \<Rightarrow> gv \<Rightarrow> (string \<times> gv) list \<Rightarrow> (string \<times> gv) list" where
  "put_key k v [] = [(k, v)]"
| "put_key k v ((l, w) # kvs) = (if l = k then (k, v) # kvs else (l, w) # put_key k v kvs)"

definition load_map :: "nat \<Rightarrow> (string \<times> gv) list heap_op" where
  "load_map a = (\<lambda>h. case cell_at h a of Some (MapC kvs) \<Rightarrow> (Next kvs, h) | _ \<Rightarrow> (Panic, h))"

definition store_key :: "nat \<Rightarrow> string \<Rightarrow> gv \<Rightarrow> unit heap_op" where
  "store_key a k v = (\<lambda>h. case cell_at h a of
     Some (MapC kvs) \<Rightarrow> (Next (), h[a := MapC (put_key k v kvs)]) | _ \<Rightarrow> (Panic, h))"

section \<open>The parts of a generated copy\<close>

text \<open>
  A copier turns the value of \<open>*in\<close> into that of \<open>*out\<close>. \<open>assign\<close> is the plain assignment. Where
  \<open>new\<close> and \<open>make\<close> put zeros, here stands nil: they are overwritten before they are read.
\<close>

type_synonym copier = "gv \<Rightarrow> gv heap_op"

definition assign :: copier where
  "assign = pureP"

text \<open>\<open>*out = new(T)\<close> and the copy of what the pointer points to; a nil pointer stays nil.\<close>

definition copy_ptr :: "copier \<Rightarrow> copier" where
  "copy_ptr f v =
     (case v of
        NilV \<Rightarrow> pureP NilV
      | RefV a \<Rightarrow>
          bindP (new_cell (VarC NilV)) (\<lambda>b.
          bindP (load_var a) (\<lambda>x.
          bindP (f x) (\<lambda>y.
          thenP (store_var b y) (pureP (RefV b)))))
      | _ \<Rightarrow> panic)"

text \<open>\<open>*out = make([]T, len(*in))\<close> and the loop over the indices.\<close>

definition copy_slice :: "copier \<Rightarrow> copier" where
  "copy_slice f v =
     (case v of
        NilV \<Rightarrow> pureP NilV
      | SliceV a off n \<Rightarrow>
          bindP (new_cell (ArrayC (replicate n NilV))) (\<lambda>b.
          thenP (forP [0..<n] (\<lambda>i. bindP (load_elem a (off + i)) (\<lambda>x. bindP (f x) (store_elem b i))))
            (pureP (SliceV b 0 n)))
      | _ \<Rightarrow> panic)"

text \<open>\<open>*out = make(map[string]T, len(*in))\<close> and the loop over the entries.\<close>

definition copy_map :: "copier \<Rightarrow> copier" where
  "copy_map f v =
     (case v of
        NilV \<Rightarrow> pureP NilV
      | RefV a \<Rightarrow>
          bindP (new_cell (MapC [])) (\<lambda>b.
          bindP (load_map a) (\<lambda>kvs.
          thenP (forP kvs (\<lambda>(k, x). bindP (f x) (store_key b k))) (pureP (RefV b))))
      | _ \<Rightarrow> panic)"

text \<open>\<open>*val.DeepCopy()\<close>: the loop variable has a cell of its own, and the copy is read at once.\<close>

definition copied_value :: "copier \<Rightarrow> copier" where
  "copied_value g v =
     bindP (new_cell (VarC v)) (\<lambda>a.
     bindP (g (RefV a)) (\<lambda>p.
     case p of RefV b \<Rightarrow> load_var b | _ \<Rightarrow> panic))"

text \<open>\<open>*out = *in\<close>, and then the fields of \<open>out\<close> one after the other, each from that of \<open>in\<close>.\<close>

definition set_field :: "string \<Rightarrow> gv \<Rightarrow> (string \<times> gv) list \<Rightarrow> (string \<times> gv) list" where
  "set_field n y = map (\<lambda>(m, x). (m, if m = n then y else x))"

definition copy_struct :: "(string \<times> copier) list \<Rightarrow> copier" where
  "copy_struct steps v =
     (case v of
        StructV fs \<Rightarrow>
          bindP (foldP (\<lambda>(n, f) out.
            case map_of fs n of
              Some x \<Rightarrow> bindP (f x) (\<lambda>y. pureP (set_field n y out))
            | None \<Rightarrow> panic) steps fs) (\<lambda>out. pureP (StructV out))
      | _ \<Rightarrow> panic)"

section \<open>Types, trees and reach\<close>

datatype ty = ScalarT | StructT "(string \<times> ty) list" | PtrT ty | SliceT ty | MapT ty

datatype deep = ScalarD scalar | StructD "(string \<times> deep) list" | NilD | PtrD deep | SliceD "deep list"
  | MapD "(string \<times> deep) list"

fun obs :: "ty \<Rightarrow> gheap \<Rightarrow> gv \<Rightarrow> deep option"
  and obs_fields :: "(string \<times> ty) list \<Rightarrow> gheap \<Rightarrow> (string \<times> gv) list \<Rightarrow> (string \<times> deep) list option" where
  "obs ScalarT h v = (case v of ScalarV x \<Rightarrow> Some (ScalarD x) | _ \<Rightarrow> None)"
| "obs (StructT fs) h v = (case v of StructV vs \<Rightarrow> map_option StructD (obs_fields fs h vs) | _ \<Rightarrow> None)"
| "obs (PtrT T) h v =
     (case v of
        NilV \<Rightarrow> Some NilD
      | RefV a \<Rightarrow> (case cell_at h a of Some (VarC w) \<Rightarrow> map_option PtrD (obs T h w) | _ \<Rightarrow> None)
      | _ \<Rightarrow> None)"
| "obs (SliceT T) h v =
     (case v of
        NilV \<Rightarrow> Some NilD
      | SliceV a off n \<Rightarrow>
          (case cell_at h a of
             Some (ArrayC ws) \<Rightarrow>
               if off + n \<le> length ws then map_option SliceD (those (map (obs T h) (take n (drop off ws)))) else None
           | _ \<Rightarrow> None)
      | _ \<Rightarrow> None)"
| "obs (MapT T) h v =
     (case v of
        NilV \<Rightarrow> Some NilD
      | RefV a \<Rightarrow>
          (case cell_at h a of
             Some (MapC kvs) \<Rightarrow>
               if distinct (map fst kvs) then map_option (\<lambda>ts. MapD (zip (map fst kvs) ts)) (those (map (obs T h) (map snd kvs)))
               else None
           | _ \<Rightarrow> None)
      | _ \<Rightarrow> None)"
| "obs_fields [] h vs = (if vs = [] then Some [] else None)"
| "obs_fields ((n, T) # fs) h vs =
     (case vs of
        (m, v) # ws \<Rightarrow>
          if m = n then (case (obs T h v, obs_fields fs h ws) of (Some t, Some ts) \<Rightarrow> Some ((n, t) # ts) | _ \<Rightarrow> None)
          else None
      | [] \<Rightarrow> None)"

fun reach :: "ty \<Rightarrow> gheap \<Rightarrow> gv \<Rightarrow> nat set"
  and reach_fields :: "(string \<times> ty) list \<Rightarrow> gheap \<Rightarrow> (string \<times> gv) list \<Rightarrow> nat set" where
  "reach ScalarT h v = {}"
| "reach (StructT fs) h v = (case v of StructV vs \<Rightarrow> reach_fields fs h vs | _ \<Rightarrow> {})"
| "reach (PtrT T) h v =
     (case v of RefV a \<Rightarrow> insert a (case cell_at h a of Some (VarC w) \<Rightarrow> reach T h w | _ \<Rightarrow> {}) | _ \<Rightarrow> {})"
| "reach (SliceT T) h v =
     (case v of
        SliceV a off n \<Rightarrow>
          insert a (case cell_at h a of Some (ArrayC ws) \<Rightarrow> \<Union> (set (map (reach T h) (take n (drop off ws)))) | _ \<Rightarrow> {})
      | _ \<Rightarrow> {})"
| "reach (MapT T) h v =
     (case v of
        RefV a \<Rightarrow> insert a (case cell_at h a of Some (MapC kvs) \<Rightarrow> \<Union> (set (map (reach T h) (map snd kvs))) | _ \<Rightarrow> {})
      | _ \<Rightarrow> {})"
| "reach_fields [] h vs = {}"
| "reach_fields ((n, T) # fs) h vs = (case vs of (m, v) # ws \<Rightarrow> reach T h v \<union> reach_fields fs h ws | [] \<Rightarrow> {})"

text \<open>A flat type holds no reference: its values are copied by assignment.\<close>

fun flat :: "ty \<Rightarrow> bool" and flat_fields :: "(string \<times> ty) list \<Rightarrow> bool" where
  "flat ScalarT = True"
| "flat (StructT fs) = flat_fields fs"
| "flat (PtrT T) = False"
| "flat (SliceT T) = False"
| "flat (MapT T) = False"
| "flat_fields [] = True"
| "flat_fields ((n, T) # fs) = (flat T \<and> flat_fields fs)"

end
