(* ===== verification/GoCopy.thy ===== *)
theory GoCopy
  imports GoHeap
begin

text \<open>
  The calculus of the generated copies. A copier deep-copies a type where the copy reads like the
  original, every cell the copy reaches is new, and no cell that was there is written. The parts of a
  generated copy keep this, so that the copy of a struct does where its fields with references are
  all copied.
\<close>

named_theorems copy_intros "copiers that deep-copy a type"

section \<open>Reading depends on the cells reached\<close>

definition same_at :: "nat set \<Rightarrow> gheap \<Rightarrow> gheap \<Rightarrow> bool" where
  "same_at R h g \<longleftrightarrow> (\<forall>a\<in>R. cell_at g a = cell_at h a)"

lemma same_at_Un [simp]: "same_at (R \<union> S) h g \<longleftrightarrow> same_at R h g \<and> same_at S h g"
  by (auto simp: same_at_def)

lemma same_at_insert [simp]: "same_at (insert a R) h g \<longleftrightarrow> cell_at g a = cell_at h a \<and> same_at R h g"
  by (auto simp: same_at_def)

lemma frame_elems:
  assumes "\<And>v. same_at (reach T h v) h g \<Longrightarrow> obs T g v = obs T h v \<and> reach T g v = reach T h v"
    and "same_at (\<Union> (reach T h ` set vs)) h g"
  shows "map (obs T g) vs = map (obs T h) vs \<and> reach T g ` set vs = reach T h ` set vs"
  using assms(2) by (induction vs) (simp_all add: assms(1))

lemma obs_frame: "same_at (reach T h v) h g \<Longrightarrow> obs T g v = obs T h v \<and> reach T g v = reach T h v"
proof (induction T arbitrary: v)
  case (StructT fs)
  have "same_at (reach_fields fs h vs) h g \<Longrightarrow> obs_fields fs g vs = obs_fields fs h vs \<and> reach_fields fs g vs = reach_fields fs h vs"
    for vs using StructT.IH
  proof (induction fs arbitrary: vs)
    case (Cons f fs)
    obtain n T where f: "f = (n, T)" by fastforce
    show ?case
    proof (cases vs)
      case Vs: (Cons w ws)
      obtain m v where w: "w = (m, v)" by fastforce
      have "obs T g v = obs T h v \<and> reach T g v = reach T h v"
        using Cons.prems(1) by (intro Cons.prems(2) [of f]) (simp_all add: f Vs w)
      moreover have "obs_fields fs g ws = obs_fields fs h ws \<and> reach_fields fs g ws = reach_fields fs h ws"
        using Cons.prems(1) by (intro Cons.IH Cons.prems(2)) (simp_all add: f Vs w)
      ultimately show ?thesis by (simp add: f Vs w)
    qed (simp add: f)
  qed simp
  with StructT.prems show ?case by (simp split: gv.splits)
next
  case (PtrT T)
  then show ?case by (auto split: gv.splits option.splits cell.splits)
next
  case (SliceT T)
  show ?case
  proof (cases v)
    case (SliceV a off n)
    show ?thesis
    proof (cases "cell_at h a")
      case (Some c)
      show ?thesis
      proof (cases c)
        case (ArrayC ws)
        let ?ws = "take n (drop off ws)"
        have "same_at (\<Union> (reach T h ` set ?ws)) h g" "cell_at g a = Some (ArrayC ws)"
          using SliceT.prems SliceV Some ArrayC by simp_all
        with frame_elems [OF SliceT.IH, of ?ws] have "map (obs T g) ?ws = map (obs T h) ?ws"
          "reach T g ` set ?ws = reach T h ` set ?ws" "cell_at g a = Some (ArrayC ws)" by blast+
        with SliceV Some ArrayC show ?thesis by (simp del: map_eq_conv)
      qed (use SliceT.prems SliceV Some in simp_all)
    qed (use SliceT.prems SliceV in simp)
  qed simp_all
next
  case (MapT T)
  show ?case
  proof (cases v)
    case (RefV a)
    show ?thesis
    proof (cases "cell_at h a")
      case (Some c)
      show ?thesis
      proof (cases c)
        case (MapC kvs)
        let ?ws = "map snd kvs"
        have "same_at (\<Union> (reach T h ` set ?ws)) h g" "cell_at g a = Some (MapC kvs)"
          using MapT.prems RefV Some MapC by simp_all
        with frame_elems [OF MapT.IH, of ?ws] have "map (obs T g) ?ws = map (obs T h) ?ws"
          "reach T g ` set ?ws = reach T h ` set ?ws" "cell_at g a = Some (MapC kvs)" by blast+
        with RefV Some MapC show ?thesis by (simp del: map_eq_conv map_map set_map add: set_map [of "reach T g"] set_map [of "reach T h"])
      qed (use MapT.prems RefV Some in simp_all)
    qed (use MapT.prems RefV in simp)
  qed simp_all
qed simp

lemma cell_at_prefix: "prefix h g \<Longrightarrow> a < length h \<Longrightarrow> cell_at g a = cell_at h a"
  by (auto simp: prefix_def cell_at_def nth_append)

lemma cell_at_SomeD: "cell_at h a = Some c \<Longrightarrow> a < length h"
  by (simp add: cell_at_def split: if_splits)

lemma those_SomeD: "those (map f xs) = Some ys \<Longrightarrow> list_all2 (\<lambda>x y. f x = Some y) xs ys"
  by (induction xs arbitrary: ys) (auto split: option.splits)

lemma those_SomeI: "list_all2 (\<lambda>x y. f x = Some y) xs ys \<Longrightarrow> those (map f xs) = Some ys"
  by (induction xs ys rule: list_all2_induct) simp_all

lemma those_elem: "those (map f xs) = Some ys \<Longrightarrow> x \<in> set xs \<Longrightarrow> \<exists>y. f x = Some y"
  by (auto dest!: those_SomeD simp: list_all2_conv_all_nth in_set_conv_nth)

lemma obs_reach: "obs T h v = Some t \<Longrightarrow> a \<in> reach T h v \<Longrightarrow> a < length h"
proof (induction T arbitrary: v t)
  case (StructT fs)
  have "obs_fields fs h vs = Some ts \<Longrightarrow> a \<in> reach_fields fs h vs \<Longrightarrow> a < length h" for vs ts
    using StructT.IH
  proof (induction fs arbitrary: vs ts)
    case (Cons f fs)
    obtain n T where f: "f = (n, T)" by fastforce
    show ?case
    proof (cases vs)
      case Vs: (Cons w ws)
      obtain m v where w: "w = (m, v)" by fastforce
      have "a < length h" if "obs T h v = Some u" "a \<in> reach T h v" for u
        using that by (intro Cons.prems(3) [of f]) (auto simp: f)
      moreover have "a < length h" if "obs_fields fs h ws = Some us" "a \<in> reach_fields fs h ws" for us
        using that by (rule Cons.IH) (rule Cons.prems(3), auto)
      ultimately show ?thesis using Cons.prems(1,2) by (auto simp: f Vs w split: if_splits option.splits)
    qed (use Cons.prems(1,2) in \<open>simp add: f\<close>)
  qed simp
  with StructT.prems show ?case by (auto split: gv.splits)
next
  case (PtrT T)
  then show ?case by (auto split: gv.splits option.splits cell.splits dest: cell_at_SomeD)
next
  case (SliceT T)
  show ?case
  proof (cases v)
    case (SliceV b off n)
    with SliceT.prems obtain ws ts where "cell_at h b = Some (ArrayC ws)" "those (map (obs T h) (take n (drop off ws))) = Some ts"
      by (auto split: option.splits cell.splits if_splits)
    with SliceV SliceT.prems(2) those_elem [OF this(2)] show ?thesis by (auto dest: cell_at_SomeD SliceT.IH)
  qed (use SliceT.prems in simp_all)
next
  case (MapT T)
  show ?case
  proof (cases v)
    case (RefV b)
    with MapT.prems obtain kvs ts where "cell_at h b = Some (MapC kvs)" "those (map (obs T h) (map snd kvs)) = Some ts"
      by (auto split: option.splits cell.splits if_splits)
    with RefV MapT.prems(2) those_elem [OF this(2)] show ?thesis by (auto dest: cell_at_SomeD MapT.IH)
  qed (use MapT.prems in simp_all)
qed simp

text \<open>So a value reads the same in a heap that has grown, and in one written outside its cells.\<close>

lemma obs_grows:
  assumes "obs T h v = Some t" "prefix h g"
  shows "obs T g v = Some t" "reach T g v = reach T h v"
proof -
  have "same_at (reach T h v) h g"
    using obs_reach [OF assms(1)] cell_at_prefix [OF assms(2)] by (simp add: same_at_def)
  from obs_frame [OF this] assms(1) show "obs T g v = Some t" "reach T g v = reach T h v" by simp_all
qed

lemma obs_write: "b \<notin> reach T h v \<Longrightarrow> obs T (h[b := c]) v = obs T h v \<and> reach T (h[b := c]) v = reach T h v"
  by (rule obs_frame) (auto simp: same_at_def cell_at_def intro!: nth_list_update_neq)

lemma prefix_write: "prefix h g \<Longrightarrow> length h \<le> b \<Longrightarrow> prefix h (g[b := c])"
  by (auto simp: prefix_def list_update_append)

section \<open>Deep copies\<close>

definition deep_copies :: "ty \<Rightarrow> copier \<Rightarrow> bool" where
  "deep_copies T f \<longleftrightarrow> (\<forall>h v t. obs T h v = Some t \<longrightarrow>
     (\<exists>w g. f v h = (Next w, g) \<and> prefix h g \<and> obs T g w = Some t \<and> (\<forall>a\<in>reach T g w. length h \<le> a)))"

lemma deep_copiesE:
  assumes "deep_copies T f" "obs T h v = Some t"
  obtains w g where "f v h = (Next w, g)" "prefix h g" "obs T g w = Some t" "\<And>a. a \<in> reach T g w \<Longrightarrow> length h \<le> a"
  using assms unfolding deep_copies_def by blast

lemma flat_reach: "flat T \<Longrightarrow> reach T h v = {}"
proof (induction T arbitrary: v)
  case (StructT fs)
  have "flat_fields fs \<Longrightarrow> reach_fields fs h vs = {}" for vs
    using StructT.IH
  proof (induction fs arbitrary: vs)
    case (Cons f fs)
    obtain n T where f: "f = (n, T)" by fastforce
    have "reach T h v = {}" for v using Cons.prems by (intro Cons.prems(2) [of f]) (auto simp: f)
    moreover have "reach_fields fs h ws = {}" for ws using Cons.prems(1) by (intro Cons.IH) (simp add: f, rule Cons.prems(2), auto)
    ultimately show ?case by (simp add: f split: list.split)
  qed simp
  with StructT.prems show ?case by (simp split: gv.split)
qed simp_all

lemma copies_assign [copy_intros]: "flat T \<Longrightarrow> deep_copies T assign"
  by (simp add: deep_copies_def assign_def run_pureP flat_reach)

lemma copies_ptr [copy_intros]:
  assumes "deep_copies T f" shows "deep_copies (PtrT T) (copy_ptr f)"
  unfolding deep_copies_def
proof (intro allI impI)
  fix h v t assume o: "obs (PtrT T) h v = Some t"
  show "\<exists>w g. copy_ptr f v h = (Next w, g) \<and> prefix h g \<and> obs (PtrT T) g w = Some t \<and> (\<forall>a\<in>reach (PtrT T) g w. length h \<le> a)"
  proof (cases v)
    case NilV
    with o show ?thesis by (simp add: copy_ptr_def run_pureP)
  next
    case (RefV a)
    with o obtain x u where x: "cell_at h a = Some (VarC x)" "obs T h x = Some u" "t = PtrD u"
      by (auto split: option.splits cell.splits)
    let ?h = "h @ [VarC NilV]" and ?b = "length h"
    have x': "cell_at ?h a = Some (VarC x)" using x(1) cell_at_prefix [of h ?h a] cell_at_SomeD [OF x(1)] by simp
    have "obs T ?h x = Some u" using obs_grows [OF x(2)] by simp
    with assms obtain y g where y: "f x ?h = (Next y, g)" "prefix ?h g" "obs T g y = Some u" "\<And>a. a \<in> reach T g y \<Longrightarrow> Suc ?b \<le> a"
      by (rule deep_copiesE) simp
    have b: "cell_at g ?b = Some (VarC NilV)" "?b < length g"
      using cell_at_prefix [OF y(2), of ?b] prefix_length_le [OF y(2)] by (simp_all add: cell_at_def)
    have nb: "?b \<notin> reach T g y" using y(4) by force
    have "copy_ptr f v h = (Next (RefV ?b), g[?b := VarC y])"
      by (simp add: copy_ptr_def RefV run_bindP new_cell_def load_var_def store_var_def run_pureP x' y(1) b)
    moreover have "prefix h (g[?b := VarC y])" using y(2) by (intro prefix_write) (auto dest: append_prefixD)
    moreover have "cell_at (g[?b := VarC y]) ?b = Some (VarC y)" using b(2) by (simp add: cell_at_def)
    ultimately show ?thesis using obs_write [OF nb] y(3,4) x(3) by (auto dest: Suc_leD)
  qed (use o in simp_all)
qed

text \<open>
  The loops over slices and maps: the elements copied so far read like their originals, and reach
  cells after that of the copy only, so that storing the next one leaves them alone.
\<close>

definition copied :: "ty \<Rightarrow> gheap \<Rightarrow> nat \<Rightarrow> gv list \<Rightarrow> deep list \<Rightarrow> bool" where
  "copied T g b ys ts \<longleftrightarrow> list_all2 (\<lambda>y t. obs T g y = Some t \<and> (\<forall>a\<in>reach T g y. b < a)) ys ts"

lemma copied_grows: "copied T g b ys ts \<Longrightarrow> prefix g g' \<Longrightarrow> copied T g' b ys ts"
  unfolding copied_def
proof (erule list_all2_mono, elim conjE)
  fix y t assume "prefix g g'" "obs T g y = Some t" "\<forall>a\<in>reach T g y. b < a"
  then show "obs T g' y = Some t \<and> (\<forall>a\<in>reach T g' y. b < a)" using obs_grows [of T g y t g'] by simp
qed

lemma copied_write: "copied T g b ys ts \<Longrightarrow> copied T (g[b := c]) b ys ts"
  unfolding copied_def
proof (erule list_all2_mono, elim conjE)
  fix y t assume y: "obs T g y = Some t" "\<forall>a\<in>reach T g y. b < a"
  then have "b \<notin> reach T g y" by blast
  with y show "obs T (g[b := c]) y = Some t \<and> (\<forall>a\<in>reach T (g[b := c]) y. b < a)" by (simp add: obs_write)
qed

lemma copied_obs: "copied T g b ys ts \<Longrightarrow> those (map (obs T g) ys) = Some ts"
  unfolding copied_def by (rule those_SomeI) (erule list_all2_mono, simp)

lemma copied_reach: "copied T g b ys ts \<Longrightarrow> y \<in> set ys \<Longrightarrow> a \<in> reach T g y \<Longrightarrow> b < a"
  unfolding copied_def by (auto simp: list_all2_conv_all_nth in_set_conv_nth)

lemma copied_snoc:
  "copied T g b ys ts \<Longrightarrow> obs T g y = Some t \<Longrightarrow> (\<And>a. a \<in> reach T g y \<Longrightarrow> b < a) \<Longrightarrow> copied T g b (ys @ [y]) (ts @ [t])"
  by (simp add: copied_def list_all2_appendI)

text \<open>One turn of a loop: the element is read in the heap as it was before the loop.\<close>

lemma copy_element:
  assumes "deep_copies T f" "obs T h x = Some t" "prefix h g" "length h < length g"
  obtains y g' where "f x g = (Next y, g')" "prefix g g'" "obs T g' y = Some t" "\<And>a. a \<in> reach T g' y \<Longrightarrow> length h < a"
proof -
  have "obs T g x = Some t" using obs_grows [OF assms(2,3)] by simp
  with assms(1) obtain y g' where "f x g = (Next y, g')" "prefix g g'" "obs T g' y = Some t"
    "\<And>a. a \<in> reach T g' y \<Longrightarrow> length g \<le> a" by (rule deep_copiesE) blast
  with assms(4) show thesis by (intro that) (auto intro: less_le_trans)
qed

lemma forP_step: "f x s = (Next (), t) \<Longrightarrow> forP (x # xs) f s = forP xs f t"
  by (simp add: run_bindP)

lemma copy_slice_loop:
  assumes f: "deep_copies T f" and src: "cell_at h a = Some (ArrayC ws)" "off + n \<le> length ws"
    and ts: "those (map (obs T h) (take n (drop off ws))) = Some ts"
    and g: "prefix h g" "cell_at g (length h) = Some (ArrayC (ys @ zs))" "copied T g (length h) ys (take (length ys) ts)"
      "length (ys @ zs) = n"
  defines "body \<equiv> \<lambda>i. bindP (load_elem a (off + i)) (\<lambda>x. bindP (f x) (store_elem (length h) i))"
  shows "\<exists>g' ys'. forP [length ys..<n] body g = (Next (), g') \<and>
    prefix h g' \<and> cell_at g' (length h) = Some (ArrayC ys') \<and> copied T g' (length h) ys' ts \<and> length ys' = n"
  using g
proof (induction zs arbitrary: g ys)
  case Nil
  have "length ts = n" using list_all2_lengthD [OF those_SomeD [OF ts]] src(2) by simp
  with Nil show ?case by (intro exI [of _ g] exI [of _ ys]) (simp add: run_pureP)
next
  case (Cons z zs)
  let ?i = "length ys" and ?b = "length h"
  have i: "?i < n" using Cons.prems(4) by simp
  have all: "list_all2 (\<lambda>x t. obs T h x = Some t) (take n (drop off ws)) ts" by (rule those_SomeD [OF ts])
  have x: "obs T h (ws ! (off + ?i)) = Some (ts ! ?i)" and len: "?i < length ts"
    using all i src(2) by (simp_all add: list_all2_conv_all_nth)
  have a: "a < ?b" by (rule cell_at_SomeD [OF src(1)])
  have b: "?b < length g" by (rule cell_at_SomeD [OF Cons.prems(2)])
  have load: "load_elem a (off + ?i) g = (Next (ws ! (off + ?i)), g)"
    using cell_at_prefix [OF Cons.prems(1) a] src i by (simp add: load_elem_def)
  obtain y g' where y: "f (ws ! (off + ?i)) g = (Next y, g')" "prefix g g'" "obs T g' y = Some (ts ! ?i)"
    "\<And>a. a \<in> reach T g' y \<Longrightarrow> ?b < a" using copy_element [OF f x Cons.prems(1) b] by blast
  let ?g = "g'[?b := ArrayC ((ys @ [y]) @ zs)]"
  have b': "cell_at g' ?b = Some (ArrayC (ys @ z # zs))" using cell_at_prefix [OF y(2) b] Cons.prems(2) by simp
  have store: "store_elem ?b ?i y g' = (Next (), ?g)" using b' by (simp add: store_elem_def)
  have "prefix h ?g" using prefix_order.trans [OF Cons.prems(1) y(2)] by (rule prefix_write) simp
  moreover have "cell_at ?g ?b = Some (ArrayC ((ys @ [y]) @ zs))" using cell_at_SomeD [OF b'] by (simp add: cell_at_def)
  moreover have "copied T ?g ?b (ys @ [y]) (take (length (ys @ [y])) ts)"
    using copied_snoc [OF copied_grows [OF Cons.prems(3) y(2)] y(3)] y(4) copied_write
    by (simp add: take_Suc_conv_app_nth [OF len])
  ultimately obtain g'' ys' where "forP [Suc ?i..<n] body ?g = (Next (), g'')"
    "prefix h g''" "cell_at g'' ?b = Some (ArrayC ys')" "copied T g'' ?b ys' ts" "length ys' = n"
    using Cons.IH [of ?g "ys @ [y]"] Cons.prems(4) by fastforce
  moreover have "forP [?i..<n] body g = forP [Suc ?i..<n] body ?g"
    unfolding upt_conv_Cons [OF i] by (rule forP_step) (simp add: body_def run_bindP load y(1) store)
  ultimately show ?case by auto
qed

lemma copies_slice [copy_intros]:
  assumes "deep_copies T f" shows "deep_copies (SliceT T) (copy_slice f)"
  unfolding deep_copies_def
proof (intro allI impI)
  fix h v t assume o: "obs (SliceT T) h v = Some t"
  show "\<exists>w g. copy_slice f v h = (Next w, g) \<and> prefix h g \<and> obs (SliceT T) g w = Some t \<and> (\<forall>a\<in>reach (SliceT T) g w. length h \<le> a)"
  proof (cases v)
    case NilV
    with o show ?thesis by (simp add: copy_slice_def run_pureP)
  next
    case (SliceV a off n)
    with o obtain ws ts where src: "cell_at h a = Some (ArrayC ws)" "off + n \<le> length ws"
      "those (map (obs T h) (take n (drop off ws))) = Some ts" "t = SliceD ts"
      by (auto split: option.splits cell.splits if_splits)
    let ?h = "h @ [ArrayC (replicate n NilV)]"
    have new: "cell_at ?h (length h) = Some (ArrayC ([] @ replicate n NilV))" by (simp add: cell_at_def)
    obtain g ys where "forP [length ([] :: gv list)..<n] (\<lambda>i. bindP (load_elem a (off + i)) (\<lambda>x. bindP (f x) (store_elem (length h) i))) ?h = (Next (), g)"
      "prefix h g" "cell_at g (length h) = Some (ArrayC ys)" "copied T g (length h) ys ts" "length ys = n"
      using copy_slice_loop [OF assms src(1-3) _ new] by (auto simp: copied_def)
    with SliceV src(4) show ?thesis
      using copied_obs [of T g "length h" ys ts] copied_reach [of T g "length h" ys ts]
      by (auto simp: copy_slice_def run_bindP new_cell_def run_pureP intro: less_imp_le)
  qed (use o in simp_all)
qed

lemma put_key_new: "k \<notin> fst ` set kvs \<Longrightarrow> put_key k v kvs = kvs @ [(k, v)]"
  by (induction kvs) auto

lemma copy_map_loop:
  assumes f: "deep_copies T f" and src: "those (map (obs T h) (map snd kvs)) = Some ts" "distinct (map fst kvs)"
    and split: "kvs = pre @ rest" and len: "length ys = length pre"
    and g: "prefix h g" "cell_at g (length h) = Some (MapC (zip (map fst pre) ys))" "copied T g (length h) ys (take (length pre) ts)"
  defines "body \<equiv> \<lambda>(k, x). bindP (f x) (store_key (length h) k)"
  shows "\<exists>g' ys'. forP rest body g = (Next (), g') \<and> prefix h g' \<and>
    cell_at g' (length h) = Some (MapC (zip (map fst kvs) ys')) \<and> copied T g' (length h) ys' ts \<and> length ys' = length kvs"
  using split len g
proof (induction rest arbitrary: g pre ys)
  case Nil
  have "length ts = length kvs" using list_all2_lengthD [OF those_SomeD [OF src(1)]] by simp
  with Nil show ?case by (intro exI [of _ g] exI [of _ ys]) (simp add: run_pureP)
next
  case (Cons e rest)
  obtain k x where e: "e = (k, x)" by fastforce
  let ?i = "length pre" and ?b = "length h"
  have i: "?i < length kvs" "kvs ! ?i = (k, x)" using Cons.prems(1) e by simp_all
  have all: "list_all2 (\<lambda>x t. obs T h x = Some t) (map snd kvs) ts" by (rule those_SomeD [OF src(1)])
  have x: "obs T h x = Some (ts ! ?i)" and lt: "?i < length ts"
    using all i by (auto simp: list_all2_conv_all_nth)
  have b: "?b < length g" by (rule cell_at_SomeD [OF Cons.prems(4)])
  obtain y g' where y: "f x g = (Next y, g')" "prefix g g'" "obs T g' y = Some (ts ! ?i)"
    "\<And>a. a \<in> reach T g' y \<Longrightarrow> ?b < a" using copy_element [OF f x Cons.prems(3) b] by blast
  let ?kvs = "zip (map fst (pre @ [e])) (ys @ [y])"
  let ?g = "g'[?b := MapC ?kvs]"
  have b': "cell_at g' ?b = Some (MapC (zip (map fst pre) ys))" using cell_at_prefix [OF y(2) b] Cons.prems(4) by simp
  have "k \<notin> fst ` set pre" using src(2) Cons.prems(1) e by auto
  then have "k \<notin> fst ` set (zip (map fst pre) ys)" by (auto dest: set_zip_leftD)
  from put_key_new [OF this] have store: "store_key ?b k y g' = (Next (), ?g)"
    using b' Cons.prems(2) e by (simp add: store_key_def)
  have "prefix h ?g" using prefix_order.trans [OF Cons.prems(3) y(2)] by (rule prefix_write) simp
  moreover have "cell_at ?g ?b = Some (MapC ?kvs)" using cell_at_SomeD [OF b'] by (simp add: cell_at_def)
  moreover have "copied T ?g ?b (ys @ [y]) (take (length (pre @ [e])) ts)"
    using copied_snoc [OF copied_grows [OF Cons.prems(5) y(2)] y(3)] y(4) copied_write
    by (simp add: take_Suc_conv_app_nth [OF lt])
  ultimately obtain g'' ys' where "forP rest body ?g = (Next (), g'')" "prefix h g''"
    "cell_at g'' ?b = Some (MapC (zip (map fst kvs) ys'))" "copied T g'' ?b ys' ts" "length ys' = length kvs"
    using Cons.IH [of "pre @ [e]" "ys @ [y]" ?g] Cons.prems(1,2) by fastforce
  moreover have "forP (e # rest) body g = forP rest body ?g"
    by (rule forP_step) (simp add: body_def e run_bindP y(1) store)
  ultimately show ?case by auto
qed

lemma copies_map [copy_intros]:
  assumes "deep_copies T f" shows "deep_copies (MapT T) (copy_map f)"
  unfolding deep_copies_def
proof (intro allI impI)
  fix h v t assume o: "obs (MapT T) h v = Some t"
  show "\<exists>w g. copy_map f v h = (Next w, g) \<and> prefix h g \<and> obs (MapT T) g w = Some t \<and> (\<forall>a\<in>reach (MapT T) g w. length h \<le> a)"
  proof (cases v)
    case NilV
    with o show ?thesis by (simp add: copy_map_def run_pureP)
  next
    case (RefV a)
    with o obtain kvs ts where src: "cell_at h a = Some (MapC kvs)" "those (map (obs T h) (map snd kvs)) = Some ts"
      "distinct (map fst kvs)" "t = MapD (zip (map fst kvs) ts)"
      by (auto split: option.splits cell.splits if_splits)
    let ?h = "h @ [MapC []]"
    have new: "cell_at ?h (length h) = Some (MapC (zip (map fst []) []))" "cell_at ?h a = Some (MapC kvs)"
      using cell_at_prefix [of h ?h a] cell_at_SomeD [OF src(1)] src(1) by (simp_all add: cell_at_def)
    obtain g ys where g: "forP kvs (\<lambda>(k, x). bindP (f x) (store_key (length h) k)) ?h = (Next (), g)"
      "prefix h g" "cell_at g (length h) = Some (MapC (zip (map fst kvs) ys))" "copied T g (length h) ys ts" "length ys = length kvs"
      using copy_map_loop [OF assms src(2,3) _ _ _ new(1)] by (auto simp: copied_def)
    with RefV src(3,4) new(2) show ?thesis
      using copied_obs [OF g(4)] copied_reach [OF g(4)]
      by (auto simp: copy_map_def run_bindP new_cell_def load_map_def run_pureP map_fst_zip map_snd_zip intro: less_imp_le dest: set_zip_rightD)
  qed (use o in simp_all)
qed

text \<open>\<open>*val.DeepCopy()\<close> of a copy of a pointer gives a copy of the value.\<close>

lemma copies_value [copy_intros]:
  assumes "deep_copies (PtrT T) g" shows "deep_copies T (copied_value g)"
  unfolding deep_copies_def
proof (intro allI impI)
  fix h v t assume o: "obs T h v = Some t"
  let ?h = "h @ [VarC v]"
  have "cell_at ?h (length h) = Some (VarC v)" by (simp add: cell_at_def)
  then have "obs (PtrT T) ?h (RefV (length h)) = Some (PtrD t)" using obs_grows(1) [OF o, of ?h] by simp
  with assms obtain p g' where p: "g (RefV (length h)) ?h = (Next p, g')" "prefix ?h g'" "obs (PtrT T) g' p = Some (PtrD t)"
    "\<And>a. a \<in> reach (PtrT T) g' p \<Longrightarrow> length ?h \<le> a" by (rule deep_copiesE) blast
  from p(3) obtain b w where b: "p = RefV b" "cell_at g' b = Some (VarC w)" "obs T g' w = Some t"
    by (auto split: gv.splits option.splits cell.splits)
  have "prefix h g'" using p(2) by (auto dest: append_prefixD)
  moreover have "length h \<le> a" if "a \<in> reach T g' w" for a using p(4) [of a] that b by simp
  ultimately show "\<exists>w g''. copied_value g v h = (Next w, g'') \<and> prefix h g'' \<and> obs T g'' w = Some t \<and> (\<forall>a\<in>reach T g'' w. length h \<le> a)"
    using b p(1) by (simp add: copied_value_def run_bindP new_cell_def load_var_def)
qed

section \<open>Structs\<close>

text \<open>
  Field by field, by position. After some steps, the fields copied so far are deep copies, the
  others are those of the original.
\<close>

lemma obs_fields_iff:
  "obs_fields fs h vs = Some ts \<longleftrightarrow> map fst vs = map fst fs \<and> map fst ts = map fst fs \<and>
     (\<forall>i<length fs. obs (snd (fs ! i)) h (snd (vs ! i)) = Some (snd (ts ! i)))"
proof (induction fs arbitrary: vs ts)
  case Nil
  show ?case by auto
next
  case (Cons f fs)
  obtain n T where f: "f = (n, T)" by fastforce
  show ?case
  proof (cases vs)
    case Vs: (Cons w ws)
    obtain m v where w: "w = (m, v)" by fastforce
    show ?thesis
    proof (cases ts)
      case Nil
      then show ?thesis by (auto simp: f Vs w split: option.splits)
    next
      case Ts: (Cons u us)
      obtain l t where u: "u = (l, t)" by fastforce
      have "(\<forall>i<length (f # fs). P i) \<longleftrightarrow> P 0 \<and> (\<forall>i<length fs. P (Suc i))" for P
        by (auto simp: less_Suc_eq_0_disj)
      then show ?thesis using Cons.IH [of ws us] by (auto simp: f Vs w Ts u split: option.splits)
    qed
  qed (simp add: f)
qed

lemma reach_fields_elem:
  "a \<in> reach_fields fs h vs \<Longrightarrow> \<exists>i<length fs. i < length vs \<and> a \<in> reach (snd (fs ! i)) h (snd (vs ! i))"
proof (induction fs arbitrary: vs)
  case (Cons f fs)
  obtain n T where f: "f = (n, T)" by fastforce
  show ?case
  proof (cases vs)
    case Vs: (Cons w ws)
    then consider "a \<in> reach T h (snd w)" | "a \<in> reach_fields fs h ws" using Cons.prems by (auto simp: f split: prod.splits)
    then show ?thesis
    proof cases
      case 1
      then show ?thesis by (intro exI [of _ 0]) (simp add: f Vs)
    next
      case 2
      from Cons.IH [OF this] obtain i where "i < length fs" "i < length ws" "a \<in> reach (snd (fs ! i)) h (snd (ws ! i))" by blast
      then show ?thesis by (intro exI [of _ "Suc i"]) (simp add: Vs)
    qed
  qed (use Cons.prems in \<open>simp add: f\<close>)
qed simp

lemma set_field_fst [simp]: "map fst (set_field n y vs) = map fst vs"
  by (simp add: set_field_def split_def comp_def)

lemma length_set_field [simp]: "length (set_field n y vs) = length vs"
  by (simp add: set_field_def)

lemma set_field_nth: "i < length vs \<Longrightarrow> set_field n y vs ! i = (fst (vs ! i), if fst (vs ! i) = n then y else snd (vs ! i))"
  by (simp add: set_field_def split_def)

definition fields_copied ::
  "(string \<times> ty) list \<Rightarrow> gheap \<Rightarrow> (string \<times> gv) list \<Rightarrow> (string \<times> deep) list \<Rightarrow> string set \<Rightarrow> gheap \<Rightarrow> (string \<times> gv) list \<Rightarrow> bool" where
  "fields_copied fs h vs ts D g out \<longleftrightarrow> prefix h g \<and> map fst out = map fst fs \<and>
     (\<forall>i<length fs. if fst (fs ! i) \<in> D
        then obs (snd (fs ! i)) g (snd (out ! i)) = Some (snd (ts ! i)) \<and> (\<forall>a\<in>reach (snd (fs ! i)) g (snd (out ! i)). length h \<le> a)
        else snd (out ! i) = snd (vs ! i))"

lemma copy_field:
  assumes fs: "distinct (map fst fs)" "obs_fields fs h vs = Some ts" and inv: "fields_copied fs h vs ts D g out"
    and f: "(n, T) \<in> set fs" "deep_copies T f"
  shows "\<exists>x y g'. map_of vs n = Some x \<and> f x g = (Next y, g') \<and> fields_copied fs h vs ts (insert n D) g' (set_field n y out)"
proof -
  from f(1) obtain j where j: "j < length fs" "fs ! j = (n, T)" by (auto simp: in_set_conv_nth)
  note o = fs(2) [unfolded obs_fields_iff]
  have names: "map fst vs = map fst fs" "map fst out = map fst fs" using o inv by (simp_all add: fields_copied_def)
  have len: "length vs = length fs" "length out = length fs" using names [THEN map_eq_imp_length_eq] by simp_all
  have at: "fst (vs ! i) = fst (fs ! i)" "fst (out ! i) = fst (fs ! i)" if "i < length fs" for i
    using that names len by (metis nth_map)+
  have x: "map_of vs n = Some (snd (vs ! j))"
  proof (rule map_of_is_SomeI)
    show "distinct (map fst vs)" using fs(1) names by simp
    have "vs ! j = (n, snd (vs ! j))" using at(1) [OF j(1)] j(2) by (metis fst_conv prod.collapse)
    then show "(n, snd (vs ! j)) \<in> set vs" using j(1) len by (metis nth_mem)
  qed
  have pre: "prefix h g" using inv by (simp add: fields_copied_def)
  have "obs T g (snd (vs ! j)) = Some (snd (ts ! j))" using o j obs_grows(1) [OF _ pre] by auto
  with f(2) obtain y g' where y: "f (snd (vs ! j)) g = (Next y, g')" "prefix g g'" "obs T g' y = Some (snd (ts ! j))"
    "\<And>a. a \<in> reach T g' y \<Longrightarrow> length g \<le> a" by (rule deep_copiesE) blast
  have "fields_copied fs h vs ts (insert n D) g' (set_field n y out)"
    unfolding fields_copied_def
  proof (intro conjI allI impI)
    show "prefix h g'" using prefix_order.trans [OF pre y(2)] .
    show "map fst (set_field n y out) = map fst fs" using names by simp
    fix i assume i: "i < length fs"
    have same: "i = j" if "fst (fs ! i) = n"
      using that fs(1) i j by (metis distinct_conv_nth fst_conv length_map nth_map)
    note here = inv [unfolded fields_copied_def, THEN conjunct2, THEN conjunct2, rule_format, OF i]
    show "if fst (fs ! i) \<in> insert n D
      then obs (snd (fs ! i)) g' (snd (set_field n y out ! i)) = Some (snd (ts ! i)) \<and>
        (\<forall>a\<in>reach (snd (fs ! i)) g' (snd (set_field n y out ! i)). length h \<le> a)
      else snd (set_field n y out ! i) = snd (vs ! i)"
    proof (cases "fst (fs ! i) = n")
      case True
      then show ?thesis using same y j(2) prefix_length_le [OF pre] i len at(2) [OF i]
        by (auto simp: set_field_nth intro: order.trans)
    next
      case False
      then show ?thesis using here i len at(2) [OF i] obs_grows [OF _ y(2), of "snd (fs ! i)" "snd (out ! i)" "snd (ts ! i)"]
        by (simp add: set_field_nth)
    qed
  qed
  with x y(1) show ?thesis by blast
qed

lemma copies_struct:
  assumes names: "distinct (map fst fs)"
    and steps: "\<And>n f. (n, f) \<in> set steps \<Longrightarrow> \<exists>T. (n, T) \<in> set fs \<and> deep_copies T f"
    and rest: "\<And>n T. (n, T) \<in> set fs \<Longrightarrow> n \<in> fst ` set steps \<or> flat T"
  shows "deep_copies (StructT fs) (copy_struct steps)"
  unfolding deep_copies_def
proof (intro allI impI)
  fix h v t assume "obs (StructT fs) h v = Some t"
  then obtain vs ts where v: "v = StructV vs" and ts: "obs_fields fs h vs = Some ts" "t = StructD ts"
    by (auto split: gv.splits)
  note o = ts(1) [unfolded obs_fields_iff]
  let ?step = "\<lambda>(n, f) out. case map_of vs n of Some x \<Rightarrow> bindP (f x) (\<lambda>y. pureP (set_field n y out)) | None \<Rightarrow> panic"
  have loop: "\<exists>g' out'. foldP ?step xs out g = (Next out', g') \<and> fields_copied fs h vs ts (D \<union> fst ` set xs) g' out'"
    if "fields_copied fs h vs ts D g out" "set xs \<subseteq> set steps" for xs D g out
    using that
  proof (induction xs arbitrary: D g out)
    case Nil
    then show ?case by (simp add: run_pureP)
  next
    case (Cons s xs)
    obtain n f where s: "s = (n, f)" by fastforce
    have "(n, f) \<in> set steps" using Cons.prems(2) s by simp
    then obtain T where "(n, T) \<in> set fs" "deep_copies T f" using steps by blast
    from copy_field [OF names ts(1) Cons.prems(1) this] obtain x y g' where
      "map_of vs n = Some x" "f x g = (Next y, g')" "fields_copied fs h vs ts (insert n D) g' (set_field n y out)" by blast
    with Cons.IH [OF this(3)] Cons.prems(2) show ?case by (simp add: s run_bindP run_pureP)
  qed
  have "fields_copied fs h vs ts {} h vs" using o by (simp add: fields_copied_def)
  from loop [OF this, of steps] obtain g out where run: "foldP ?step steps vs h = (Next out, g)"
    "fields_copied fs h vs ts (fst ` set steps) g out" by auto
  have field: "obs (snd (fs ! i)) g (snd (out ! i)) = Some (snd (ts ! i)) \<and> (\<forall>a\<in>reach (snd (fs ! i)) g (snd (out ! i)). length h \<le> a)"
    if i: "i < length fs" for i
  proof (cases "fst (fs ! i) \<in> fst ` set steps")
    case True
    with run(2) i show ?thesis by (simp add: fields_copied_def)
  next
    case False
    with rest [of "fst (fs ! i)" "snd (fs ! i)"] i have "flat (snd (fs ! i))" by (metis nth_mem prod.collapse)
    moreover have g: "prefix h g" and out: "snd (out ! i) = snd (vs ! i)" using run(2) i False by (simp_all add: fields_copied_def)
    have "obs (snd (fs ! i)) h (snd (vs ! i)) = Some (snd (ts ! i))" using o i by blast
    ultimately show ?thesis using obs_grows(1) [OF _ g] out by (simp add: flat_reach)
  qed
  have "obs_fields fs g out = Some ts"
    unfolding obs_fields_iff using o field run(2) by (simp add: fields_copied_def)
  moreover have "length h \<le> a" if "a \<in> reach_fields fs g out" for a using reach_fields_elem [OF that] field by blast
  moreover have "prefix h g" using run(2) by (simp add: fields_copied_def)
  moreover have "copy_struct steps v h = (Next (StructV out), g)"
    by (simp add: copy_struct_def v run_bindP run(1) run_pureP)
  ultimately show "\<exists>w g. copy_struct steps v h = (Next w, g) \<and> prefix h g \<and> obs (StructT fs) g w = Some t \<and>
      (\<forall>a\<in>reach (StructT fs) g w. length h \<le> a)"
    using ts(2) by (intro exI [of _ "StructV out"] exI [of _ g]) simp
qed

end
