(* ===== verification/DeepCopy.thy ===== *)
theory DeepCopy
  imports GoHeap
begin

text \<open>
  The generated deep copies (\<open>api/v1beta1/zz_generated.deepcopy.go\<close>), one definition for each function,
  and the types they copy, field by field as \<open>api/v1beta1\<close> declares them. The controllers own what they
  fetch because the client hands out such copies of what its cache holds, and the patch of a
  \<open>Reconcile\<close> is the difference to a copy that was made at its start.
\<close>

section \<open>What other packages bring\<close>

text \<open>The types of other packages, and the copies generated there.\<close>

record ext_types =
  t_TypeMeta :: ty
  t_ObjectMeta :: ty
  t_ListMeta :: ty
  t_ResourceRequirements :: ty
  t_OverrideSpec :: ty
  t_API :: ty
  t_Ca :: ty
  t_VolMounts :: ty
  t_Condition :: ty
  t_RoutedOverrideSpec :: ty
  t_RabbitMqConfig :: ty
  t_TopoRef :: ty

record copiers =
  x_ObjectMeta :: copier
  x_ListMeta :: copier
  x_ResourceRequirements :: copier
  x_OverrideSpec :: copier
  x_API :: copier
  x_VolMounts :: copier
  x_Condition :: copier
  x_RoutedOverrideSpec_DeepCopy :: copier

section \<open>The types\<close>

text \<open>A type that holds types of other packages takes them as an argument.\<close>

definition PasswordSelector_type :: "ty" where
  "PasswordSelector_type = StructT
     [(''Service'', ScalarT)]"

definition ManilaTemplate_type :: "ty" where
  "ManilaTemplate_type = StructT
     [(''ServiceUser'', ScalarT), (''DatabaseAccount'', ScalarT), (''Secret'', ScalarT),
      (''PasswordSelectors'', PasswordSelector_type)]"

definition AuthSpec_type :: "ty" where
  "AuthSpec_type = StructT
     [(''ApplicationCredentialSecret'', ScalarT)]"

definition DBPurge_type :: "ty" where
  "DBPurge_type = StructT
     [(''Age'', ScalarT), (''Schedule'', ScalarT)]"

definition ManilaDebug_type :: "ty" where
  "ManilaDebug_type = StructT
     [(''DBPurge'', ScalarT)]"

definition ManilaDefaults_type :: "ty" where
  "ManilaDefaults_type = StructT
     [(''APIContainerImageURL'', ScalarT), (''SchedulerContainerImageURL'', ScalarT),
      (''ShareContainerImageURL'', ScalarT), (''DBPurgeAge'', ScalarT), (''DBPurgeSchedule'', ScalarT),
      (''APITimeout'', ScalarT)]"

definition ManilaExtraVolMounts_type :: "ext_types \<Rightarrow> ty" where
  "ManilaExtraVolMounts_type X = StructT
     [(''Name'', ScalarT), (''Region'', ScalarT), (''VolMounts'', SliceT (t_VolMounts X))]"

definition ManilaServiceTemplate_type :: "ext_types \<Rightarrow> ty" where
  "ManilaServiceTemplate_type X = StructT
     [(''NodeSelector'', PtrT (MapT ScalarT)), (''CustomServiceConfig'', ScalarT),
      (''CustomServiceConfigSecrets'', SliceT ScalarT), (''Resources'', t_ResourceRequirements X),
      (''NetworkAttachments'', SliceT ScalarT), (''TopologyRef'', PtrT (t_TopoRef X))]"

definition APIOverrideSpec_type :: "ext_types \<Rightarrow> ty" where
  "APIOverrideSpec_type X = StructT
     [(''Service'', MapT (t_RoutedOverrideSpec X)), (''Probes'', t_OverrideSpec X)]"

definition SchedulerOverrideSpec_type :: "ext_types \<Rightarrow> ty" where
  "SchedulerOverrideSpec_type X = StructT
     [(''Probes'', t_OverrideSpec X)]"

definition ShareOverrideSpec_type :: "ext_types \<Rightarrow> ty" where
  "ShareOverrideSpec_type X = StructT
     [(''Probes'', t_OverrideSpec X)]"

definition ManilaAPITemplateCore_type :: "ext_types \<Rightarrow> ty" where
  "ManilaAPITemplateCore_type X = StructT
     [(''ManilaServiceTemplate'', ManilaServiceTemplate_type X), (''Replicas'', PtrT ScalarT),
      (''Override'', APIOverrideSpec_type X), (''TLS'', t_API X)]"

definition ManilaAPITemplate_type :: "ext_types \<Rightarrow> ty" where
  "ManilaAPITemplate_type X = StructT
     [(''ManilaAPITemplateCore'', ManilaAPITemplateCore_type X), (''ContainerImage'', ScalarT)]"

definition ManilaSchedulerTemplateCore_type :: "ext_types \<Rightarrow> ty" where
  "ManilaSchedulerTemplateCore_type X = StructT
     [(''ManilaServiceTemplate'', ManilaServiceTemplate_type X), (''Replicas'', PtrT ScalarT),
      (''Override'', SchedulerOverrideSpec_type X)]"

definition ManilaSchedulerTemplate_type :: "ext_types \<Rightarrow> ty" where
  "ManilaSchedulerTemplate_type X = StructT
     [(''ManilaSchedulerTemplateCore'', ManilaSchedulerTemplateCore_type X),
      (''ContainerImage'', ScalarT)]"

definition ManilaShareTemplateCore_type :: "ext_types \<Rightarrow> ty" where
  "ManilaShareTemplateCore_type X = StructT
     [(''ManilaServiceTemplate'', ManilaServiceTemplate_type X), (''Replicas'', PtrT ScalarT),
      (''Override'', ShareOverrideSpec_type X)]"

definition ManilaShareTemplate_type :: "ext_types \<Rightarrow> ty" where
  "ManilaShareTemplate_type X = StructT
     [(''ManilaShareTemplateCore'', ManilaShareTemplateCore_type X), (''ContainerImage'', ScalarT)]"

definition ManilaSpecBase_type :: "ext_types \<Rightarrow> ty" where
  "ManilaSpecBase_type X = StructT
     [(''ManilaTemplate'', ManilaTemplate_type), (''DatabaseInstance'', ScalarT),
      (''RabbitMqClusterName'', ScalarT), (''MessagingBus'', t_RabbitMqConfig X),
      (''NotificationsBus'', PtrT (t_RabbitMqConfig X)), (''MemcachedInstance'', ScalarT),
      (''Debug'', ManilaDebug_type), (''PreserveJobs'', ScalarT), (''CustomServiceConfig'', ScalarT),
      (''ExtraMounts'', SliceT (ManilaExtraVolMounts_type X)), (''NodeSelector'', PtrT (MapT ScalarT)),
      (''DBPurge'', DBPurge_type), (''APITimeout'', ScalarT), (''TopologyRef'', PtrT (t_TopoRef X)),
      (''NotificationsBusInstance'', PtrT ScalarT), (''Auth'', AuthSpec_type)]"

definition ManilaSpec_type :: "ext_types \<Rightarrow> ty" where
  "ManilaSpec_type X = StructT
     [(''ManilaSpecBase'', ManilaSpecBase_type X), (''ManilaAPI'', ManilaAPITemplate_type X),
      (''ManilaScheduler'', ManilaSchedulerTemplate_type X),
      (''ManilaShares'', MapT (ManilaShareTemplate_type X))]"

definition ManilaSpecCore_type :: "ext_types \<Rightarrow> ty" where
  "ManilaSpecCore_type X = StructT
     [(''ManilaSpecBase'', ManilaSpecBase_type X), (''ManilaAPI'', ManilaAPITemplateCore_type X),
      (''ManilaScheduler'', ManilaSchedulerTemplateCore_type X),
      (''ManilaShares'', MapT (ManilaShareTemplateCore_type X))]"

definition ManilaStatus_type :: "ext_types \<Rightarrow> ty" where
  "ManilaStatus_type X = StructT
     [(''Hash'', MapT ScalarT), (''Conditions'', SliceT (t_Condition X)),
      (''DatabaseHostname'', ScalarT), (''TransportURLSecret'', ScalarT),
      (''NotificationsURLSecret'', PtrT ScalarT), (''ManilaAPIReadyCount'', ScalarT),
      (''ManilaSchedulerReadyCount'', ScalarT), (''ManilaSharesReadyCounts'', MapT ScalarT),
      (''ObservedGeneration'', ScalarT), (''ApplicationCredentialSecret'', ScalarT)]"

definition ManilaAPISpec_type :: "ext_types \<Rightarrow> ty" where
  "ManilaAPISpec_type X = StructT
     [(''ManilaTemplate'', ManilaTemplate_type), (''ManilaAPITemplate'', ManilaAPITemplate_type X),
      (''DatabaseHostname'', ScalarT), (''TransportURLSecret'', ScalarT),
      (''NotificationsURLSecret'', ScalarT), (''ExtraMounts'', SliceT (ManilaExtraVolMounts_type X)),
      (''ServiceAccount'', ScalarT), (''MemcachedInstance'', PtrT ScalarT), (''APITimeout'', ScalarT)]"

definition ManilaAPIStatus_type :: "ext_types \<Rightarrow> ty" where
  "ManilaAPIStatus_type X = StructT
     [(''Hash'', MapT ScalarT), (''Conditions'', SliceT (t_Condition X)), (''ReadyCount'', ScalarT),
      (''NetworkAttachments'', MapT (SliceT ScalarT)), (''ObservedGeneration'', ScalarT),
      (''AppliedInputSecretHash'', ScalarT), (''LastAppliedTopology'', PtrT (t_TopoRef X))]"

definition ManilaSchedulerSpec_type :: "ext_types \<Rightarrow> ty" where
  "ManilaSchedulerSpec_type X = StructT
     [(''ManilaTemplate'', ManilaTemplate_type),
      (''ManilaSchedulerTemplate'', ManilaSchedulerTemplate_type X), (''DatabaseHostname'', ScalarT),
      (''TransportURLSecret'', ScalarT), (''NotificationsURLSecret'', ScalarT),
      (''ExtraMounts'', SliceT (ManilaExtraVolMounts_type X)), (''ServiceAccount'', ScalarT),
      (''MemcachedInstance'', PtrT ScalarT), (''TLS'', t_Ca X)]"

definition ManilaSchedulerStatus_type :: "ext_types \<Rightarrow> ty" where
  "ManilaSchedulerStatus_type X = StructT
     [(''Hash'', MapT ScalarT), (''Conditions'', SliceT (t_Condition X)), (''ReadyCount'', ScalarT),
      (''NetworkAttachments'', MapT (SliceT ScalarT)), (''ObservedGeneration'', ScalarT),
      (''AppliedInputSecretHash'', ScalarT), (''LastAppliedTopology'', PtrT (t_TopoRef X))]"

definition ManilaShareSpec_type :: "ext_types \<Rightarrow> ty" where
  "ManilaShareSpec_type X = StructT
     [(''ManilaTemplate'', ManilaTemplate_type), (''ManilaShareTemplate'', ManilaShareTemplate_type X),
      (''DatabaseHostname'', ScalarT), (''TransportURLSecret'', ScalarT),
      (''NotificationsURLSecret'', ScalarT), (''ExtraMounts'', SliceT (ManilaExtraVolMounts_type X)),
      (''ServiceAccount'', ScalarT), (''MemcachedInstance'', PtrT ScalarT), (''TLS'', t_Ca X)]"

definition ManilaShareStatus_type :: "ext_types \<Rightarrow> ty" where
  "ManilaShareStatus_type X = StructT
     [(''Hash'', MapT ScalarT), (''Conditions'', SliceT (t_Condition X)), (''ReadyCount'', ScalarT),
      (''NetworkAttachments'', MapT (SliceT ScalarT)), (''ObservedGeneration'', ScalarT),
      (''AppliedInputSecretHash'', ScalarT), (''LastAppliedTopology'', PtrT (t_TopoRef X))]"

definition Manila_type :: "ext_types \<Rightarrow> ty" where
  "Manila_type X = StructT
     [(''TypeMeta'', t_TypeMeta X), (''ObjectMeta'', t_ObjectMeta X), (''Spec'', ManilaSpec_type X),
      (''Status'', ManilaStatus_type X)]"

definition ManilaList_type :: "ext_types \<Rightarrow> ty" where
  "ManilaList_type X = StructT
     [(''TypeMeta'', t_TypeMeta X), (''ListMeta'', t_ListMeta X), (''Items'', SliceT (Manila_type X))]"

definition ManilaAPI_type :: "ext_types \<Rightarrow> ty" where
  "ManilaAPI_type X = StructT
     [(''TypeMeta'', t_TypeMeta X), (''ObjectMeta'', t_ObjectMeta X), (''Spec'', ManilaAPISpec_type X),
      (''Status'', ManilaAPIStatus_type X)]"

definition ManilaAPIList_type :: "ext_types \<Rightarrow> ty" where
  "ManilaAPIList_type X = StructT
     [(''TypeMeta'', t_TypeMeta X), (''ListMeta'', t_ListMeta X), (''Items'', SliceT (ManilaAPI_type X))]"

definition ManilaScheduler_type :: "ext_types \<Rightarrow> ty" where
  "ManilaScheduler_type X = StructT
     [(''TypeMeta'', t_TypeMeta X), (''ObjectMeta'', t_ObjectMeta X),
      (''Spec'', ManilaSchedulerSpec_type X), (''Status'', ManilaSchedulerStatus_type X)]"

definition ManilaSchedulerList_type :: "ext_types \<Rightarrow> ty" where
  "ManilaSchedulerList_type X = StructT
     [(''TypeMeta'', t_TypeMeta X), (''ListMeta'', t_ListMeta X),
      (''Items'', SliceT (ManilaScheduler_type X))]"

definition ManilaShare_type :: "ext_types \<Rightarrow> ty" where
  "ManilaShare_type X = StructT
     [(''TypeMeta'', t_TypeMeta X), (''ObjectMeta'', t_ObjectMeta X), (''Spec'', ManilaShareSpec_type X),
      (''Status'', ManilaShareStatus_type X)]"

definition ManilaShareList_type :: "ext_types \<Rightarrow> ty" where
  "ManilaShareList_type X = StructT
     [(''TypeMeta'', t_TypeMeta X), (''ListMeta'', t_ListMeta X),
      (''Items'', SliceT (ManilaShare_type X))]"

section \<open>The functions\<close>

text \<open>
  \<open>DeepCopyInto\<close> assigns the struct and copies the fields that have to be; \<open>DeepCopy\<close> does so into a new
  one, or returns nil for nil; \<open>DeepCopyObject\<close> returns it as an interface, where a nil pointer becomes
  the nil interface.
\<close>

definition APIOverrideSpec_DeepCopyInto :: "copiers \<Rightarrow> copier" where
  "APIOverrideSpec_DeepCopyInto D = copy_struct
     [(''Service'', copy_map (copied_value (x_RoutedOverrideSpec_DeepCopy D))),
      (''Probes'', x_OverrideSpec D)]"

definition APIOverrideSpec_DeepCopy :: "copiers \<Rightarrow> copier" where
  "APIOverrideSpec_DeepCopy D = copy_ptr (APIOverrideSpec_DeepCopyInto D)"

definition AuthSpec_DeepCopyInto :: "copier" where
  "AuthSpec_DeepCopyInto = copy_struct []"

definition AuthSpec_DeepCopy :: "copier" where
  "AuthSpec_DeepCopy = copy_ptr AuthSpec_DeepCopyInto"

definition DBPurge_DeepCopyInto :: "copier" where
  "DBPurge_DeepCopyInto = copy_struct []"

definition DBPurge_DeepCopy :: "copier" where
  "DBPurge_DeepCopy = copy_ptr DBPurge_DeepCopyInto"

definition ManilaExtraVolMounts_DeepCopyInto :: "copiers \<Rightarrow> copier" where
  "ManilaExtraVolMounts_DeepCopyInto D = copy_struct
     [(''VolMounts'', copy_slice (x_VolMounts D))]"

definition ManilaExtraVolMounts_DeepCopy :: "copiers \<Rightarrow> copier" where
  "ManilaExtraVolMounts_DeepCopy D = copy_ptr (ManilaExtraVolMounts_DeepCopyInto D)"

definition ManilaSpecBase_DeepCopyInto :: "copiers \<Rightarrow> copier" where
  "ManilaSpecBase_DeepCopyInto D = copy_struct
     [(''ManilaTemplate'', assign),
      (''MessagingBus'', assign),
      (''NotificationsBus'', copy_ptr assign),
      (''Debug'', assign),
      (''ExtraMounts'', copy_slice (ManilaExtraVolMounts_DeepCopyInto D)),
      (''NodeSelector'', copy_ptr (copy_map assign)),
      (''DBPurge'', assign),
      (''TopologyRef'', copy_ptr assign),
      (''NotificationsBusInstance'', copy_ptr assign),
      (''Auth'', assign)]"

definition ManilaSpecBase_DeepCopy :: "copiers \<Rightarrow> copier" where
  "ManilaSpecBase_DeepCopy D = copy_ptr (ManilaSpecBase_DeepCopyInto D)"

definition ManilaServiceTemplate_DeepCopyInto :: "copiers \<Rightarrow> copier" where
  "ManilaServiceTemplate_DeepCopyInto D = copy_struct
     [(''NodeSelector'', copy_ptr (copy_map assign)),
      (''CustomServiceConfigSecrets'', copy_slice assign),
      (''Resources'', x_ResourceRequirements D),
      (''NetworkAttachments'', copy_slice assign),
      (''TopologyRef'', copy_ptr assign)]"

definition ManilaServiceTemplate_DeepCopy :: "copiers \<Rightarrow> copier" where
  "ManilaServiceTemplate_DeepCopy D = copy_ptr (ManilaServiceTemplate_DeepCopyInto D)"

definition ManilaAPITemplateCore_DeepCopyInto :: "copiers \<Rightarrow> copier" where
  "ManilaAPITemplateCore_DeepCopyInto D = copy_struct
     [(''ManilaServiceTemplate'', ManilaServiceTemplate_DeepCopyInto D),
      (''Replicas'', copy_ptr assign),
      (''Override'', APIOverrideSpec_DeepCopyInto D),
      (''TLS'', x_API D)]"

definition ManilaAPITemplateCore_DeepCopy :: "copiers \<Rightarrow> copier" where
  "ManilaAPITemplateCore_DeepCopy D = copy_ptr (ManilaAPITemplateCore_DeepCopyInto D)"

definition ManilaAPITemplate_DeepCopyInto :: "copiers \<Rightarrow> copier" where
  "ManilaAPITemplate_DeepCopyInto D = copy_struct
     [(''ManilaAPITemplateCore'', ManilaAPITemplateCore_DeepCopyInto D)]"

definition ManilaAPITemplate_DeepCopy :: "copiers \<Rightarrow> copier" where
  "ManilaAPITemplate_DeepCopy D = copy_ptr (ManilaAPITemplate_DeepCopyInto D)"

definition SchedulerOverrideSpec_DeepCopyInto :: "copiers \<Rightarrow> copier" where
  "SchedulerOverrideSpec_DeepCopyInto D = copy_struct
     [(''Probes'', x_OverrideSpec D)]"

definition SchedulerOverrideSpec_DeepCopy :: "copiers \<Rightarrow> copier" where
  "SchedulerOverrideSpec_DeepCopy D = copy_ptr (SchedulerOverrideSpec_DeepCopyInto D)"

definition ManilaSchedulerTemplateCore_DeepCopyInto :: "copiers \<Rightarrow> copier" where
  "ManilaSchedulerTemplateCore_DeepCopyInto D = copy_struct
     [(''ManilaServiceTemplate'', ManilaServiceTemplate_DeepCopyInto D),
      (''Replicas'', copy_ptr assign),
      (''Override'', SchedulerOverrideSpec_DeepCopyInto D)]"

definition ManilaSchedulerTemplateCore_DeepCopy :: "copiers \<Rightarrow> copier" where
  "ManilaSchedulerTemplateCore_DeepCopy D = copy_ptr (ManilaSchedulerTemplateCore_DeepCopyInto D)"

definition ManilaSchedulerTemplate_DeepCopyInto :: "copiers \<Rightarrow> copier" where
  "ManilaSchedulerTemplate_DeepCopyInto D = copy_struct
     [(''ManilaSchedulerTemplateCore'', ManilaSchedulerTemplateCore_DeepCopyInto D)]"

definition ManilaSchedulerTemplate_DeepCopy :: "copiers \<Rightarrow> copier" where
  "ManilaSchedulerTemplate_DeepCopy D = copy_ptr (ManilaSchedulerTemplate_DeepCopyInto D)"

definition ShareOverrideSpec_DeepCopyInto :: "copiers \<Rightarrow> copier" where
  "ShareOverrideSpec_DeepCopyInto D = copy_struct
     [(''Probes'', x_OverrideSpec D)]"

definition ShareOverrideSpec_DeepCopy :: "copiers \<Rightarrow> copier" where
  "ShareOverrideSpec_DeepCopy D = copy_ptr (ShareOverrideSpec_DeepCopyInto D)"

definition ManilaShareTemplateCore_DeepCopyInto :: "copiers \<Rightarrow> copier" where
  "ManilaShareTemplateCore_DeepCopyInto D = copy_struct
     [(''ManilaServiceTemplate'', ManilaServiceTemplate_DeepCopyInto D),
      (''Replicas'', copy_ptr assign),
      (''Override'', ShareOverrideSpec_DeepCopyInto D)]"

definition ManilaShareTemplateCore_DeepCopy :: "copiers \<Rightarrow> copier" where
  "ManilaShareTemplateCore_DeepCopy D = copy_ptr (ManilaShareTemplateCore_DeepCopyInto D)"

definition ManilaShareTemplate_DeepCopyInto :: "copiers \<Rightarrow> copier" where
  "ManilaShareTemplate_DeepCopyInto D = copy_struct
     [(''ManilaShareTemplateCore'', ManilaShareTemplateCore_DeepCopyInto D)]"

definition ManilaShareTemplate_DeepCopy :: "copiers \<Rightarrow> copier" where
  "ManilaShareTemplate_DeepCopy D = copy_ptr (ManilaShareTemplate_DeepCopyInto D)"

definition ManilaSpec_DeepCopyInto :: "copiers \<Rightarrow> copier" where
  "ManilaSpec_DeepCopyInto D = copy_struct
     [(''ManilaSpecBase'', ManilaSpecBase_DeepCopyInto D),
      (''ManilaAPI'', ManilaAPITemplate_DeepCopyInto D),
      (''ManilaScheduler'', ManilaSchedulerTemplate_DeepCopyInto D),
      (''ManilaShares'', copy_map (copied_value (ManilaShareTemplate_DeepCopy D)))]"

definition ManilaSpec_DeepCopy :: "copiers \<Rightarrow> copier" where
  "ManilaSpec_DeepCopy D = copy_ptr (ManilaSpec_DeepCopyInto D)"

definition ManilaStatus_DeepCopyInto :: "copiers \<Rightarrow> copier" where
  "ManilaStatus_DeepCopyInto D = copy_struct
     [(''Hash'', copy_map assign),
      (''Conditions'', copy_slice (x_Condition D)),
      (''NotificationsURLSecret'', copy_ptr assign),
      (''ManilaSharesReadyCounts'', copy_map assign)]"

definition ManilaStatus_DeepCopy :: "copiers \<Rightarrow> copier" where
  "ManilaStatus_DeepCopy D = copy_ptr (ManilaStatus_DeepCopyInto D)"

definition Manila_DeepCopyInto :: "copiers \<Rightarrow> copier" where
  "Manila_DeepCopyInto D = copy_struct
     [(''TypeMeta'', assign),
      (''ObjectMeta'', x_ObjectMeta D),
      (''Spec'', ManilaSpec_DeepCopyInto D),
      (''Status'', ManilaStatus_DeepCopyInto D)]"

definition Manila_DeepCopy :: "copiers \<Rightarrow> copier" where
  "Manila_DeepCopy D = copy_ptr (Manila_DeepCopyInto D)"

definition Manila_DeepCopyObject :: "copiers \<Rightarrow> copier" where
  "Manila_DeepCopyObject D p =
     bindP (Manila_DeepCopy D p) (\<lambda>c. if c \<noteq> NilV then pureP c else pureP NilV)"

definition ManilaAPISpec_DeepCopyInto :: "copiers \<Rightarrow> copier" where
  "ManilaAPISpec_DeepCopyInto D = copy_struct
     [(''ManilaTemplate'', assign),
      (''ManilaAPITemplate'', ManilaAPITemplate_DeepCopyInto D),
      (''ExtraMounts'', copy_slice (ManilaExtraVolMounts_DeepCopyInto D)),
      (''MemcachedInstance'', copy_ptr assign)]"

definition ManilaAPISpec_DeepCopy :: "copiers \<Rightarrow> copier" where
  "ManilaAPISpec_DeepCopy D = copy_ptr (ManilaAPISpec_DeepCopyInto D)"

definition ManilaAPIStatus_DeepCopyInto :: "copiers \<Rightarrow> copier" where
  "ManilaAPIStatus_DeepCopyInto D = copy_struct
     [(''Hash'', copy_map assign),
      (''Conditions'', copy_slice (x_Condition D)),
      (''NetworkAttachments'', copy_map (copy_slice assign)),
      (''LastAppliedTopology'', copy_ptr assign)]"

definition ManilaAPIStatus_DeepCopy :: "copiers \<Rightarrow> copier" where
  "ManilaAPIStatus_DeepCopy D = copy_ptr (ManilaAPIStatus_DeepCopyInto D)"

definition ManilaAPI_DeepCopyInto :: "copiers \<Rightarrow> copier" where
  "ManilaAPI_DeepCopyInto D = copy_struct
     [(''TypeMeta'', assign),
      (''ObjectMeta'', x_ObjectMeta D),
      (''Spec'', ManilaAPISpec_DeepCopyInto D),
      (''Status'', ManilaAPIStatus_DeepCopyInto D)]"

definition ManilaAPI_DeepCopy :: "copiers \<Rightarrow> copier" where
  "ManilaAPI_DeepCopy D = copy_ptr (ManilaAPI_DeepCopyInto D)"

definition ManilaAPI_DeepCopyObject :: "copiers \<Rightarrow> copier" where
  "ManilaAPI_DeepCopyObject D p =
     bindP (ManilaAPI_DeepCopy D p) (\<lambda>c. if c \<noteq> NilV then pureP c else pureP NilV)"

definition ManilaAPIList_DeepCopyInto :: "copiers \<Rightarrow> copier" where
  "ManilaAPIList_DeepCopyInto D = copy_struct
     [(''TypeMeta'', assign),
      (''ListMeta'', x_ListMeta D),
      (''Items'', copy_slice (ManilaAPI_DeepCopyInto D))]"

definition ManilaAPIList_DeepCopy :: "copiers \<Rightarrow> copier" where
  "ManilaAPIList_DeepCopy D = copy_ptr (ManilaAPIList_DeepCopyInto D)"

definition ManilaAPIList_DeepCopyObject :: "copiers \<Rightarrow> copier" where
  "ManilaAPIList_DeepCopyObject D p =
     bindP (ManilaAPIList_DeepCopy D p) (\<lambda>c. if c \<noteq> NilV then pureP c else pureP NilV)"

definition ManilaDebug_DeepCopyInto :: "copier" where
  "ManilaDebug_DeepCopyInto = copy_struct []"

definition ManilaDebug_DeepCopy :: "copier" where
  "ManilaDebug_DeepCopy = copy_ptr ManilaDebug_DeepCopyInto"

definition ManilaDefaults_DeepCopyInto :: "copier" where
  "ManilaDefaults_DeepCopyInto = copy_struct []"

definition ManilaDefaults_DeepCopy :: "copier" where
  "ManilaDefaults_DeepCopy = copy_ptr ManilaDefaults_DeepCopyInto"

definition ManilaList_DeepCopyInto :: "copiers \<Rightarrow> copier" where
  "ManilaList_DeepCopyInto D = copy_struct
     [(''TypeMeta'', assign),
      (''ListMeta'', x_ListMeta D),
      (''Items'', copy_slice (Manila_DeepCopyInto D))]"

definition ManilaList_DeepCopy :: "copiers \<Rightarrow> copier" where
  "ManilaList_DeepCopy D = copy_ptr (ManilaList_DeepCopyInto D)"

definition ManilaList_DeepCopyObject :: "copiers \<Rightarrow> copier" where
  "ManilaList_DeepCopyObject D p =
     bindP (ManilaList_DeepCopy D p) (\<lambda>c. if c \<noteq> NilV then pureP c else pureP NilV)"

definition ManilaSchedulerSpec_DeepCopyInto :: "copiers \<Rightarrow> copier" where
  "ManilaSchedulerSpec_DeepCopyInto D = copy_struct
     [(''ManilaTemplate'', assign),
      (''ManilaSchedulerTemplate'', ManilaSchedulerTemplate_DeepCopyInto D),
      (''ExtraMounts'', copy_slice (ManilaExtraVolMounts_DeepCopyInto D)),
      (''MemcachedInstance'', copy_ptr assign),
      (''TLS'', assign)]"

definition ManilaSchedulerSpec_DeepCopy :: "copiers \<Rightarrow> copier" where
  "ManilaSchedulerSpec_DeepCopy D = copy_ptr (ManilaSchedulerSpec_DeepCopyInto D)"

definition ManilaSchedulerStatus_DeepCopyInto :: "copiers \<Rightarrow> copier" where
  "ManilaSchedulerStatus_DeepCopyInto D = copy_struct
     [(''Hash'', copy_map assign),
      (''Conditions'', copy_slice (x_Condition D)),
      (''NetworkAttachments'', copy_map (copy_slice assign)),
      (''LastAppliedTopology'', copy_ptr assign)]"

definition ManilaSchedulerStatus_DeepCopy :: "copiers \<Rightarrow> copier" where
  "ManilaSchedulerStatus_DeepCopy D = copy_ptr (ManilaSchedulerStatus_DeepCopyInto D)"

definition ManilaScheduler_DeepCopyInto :: "copiers \<Rightarrow> copier" where
  "ManilaScheduler_DeepCopyInto D = copy_struct
     [(''TypeMeta'', assign),
      (''ObjectMeta'', x_ObjectMeta D),
      (''Spec'', ManilaSchedulerSpec_DeepCopyInto D),
      (''Status'', ManilaSchedulerStatus_DeepCopyInto D)]"

definition ManilaScheduler_DeepCopy :: "copiers \<Rightarrow> copier" where
  "ManilaScheduler_DeepCopy D = copy_ptr (ManilaScheduler_DeepCopyInto D)"

definition ManilaScheduler_DeepCopyObject :: "copiers \<Rightarrow> copier" where
  "ManilaScheduler_DeepCopyObject D p =
     bindP (ManilaScheduler_DeepCopy D p) (\<lambda>c. if c \<noteq> NilV then pureP c else pureP NilV)"

definition ManilaSchedulerList_DeepCopyInto :: "copiers \<Rightarrow> copier" where
  "ManilaSchedulerList_DeepCopyInto D = copy_struct
     [(''TypeMeta'', assign),
      (''ListMeta'', x_ListMeta D),
      (''Items'', copy_slice (ManilaScheduler_DeepCopyInto D))]"

definition ManilaSchedulerList_DeepCopy :: "copiers \<Rightarrow> copier" where
  "ManilaSchedulerList_DeepCopy D = copy_ptr (ManilaSchedulerList_DeepCopyInto D)"

definition ManilaSchedulerList_DeepCopyObject :: "copiers \<Rightarrow> copier" where
  "ManilaSchedulerList_DeepCopyObject D p =
     bindP (ManilaSchedulerList_DeepCopy D p) (\<lambda>c. if c \<noteq> NilV then pureP c else pureP NilV)"

definition ManilaShareSpec_DeepCopyInto :: "copiers \<Rightarrow> copier" where
  "ManilaShareSpec_DeepCopyInto D = copy_struct
     [(''ManilaTemplate'', assign),
      (''ManilaShareTemplate'', ManilaShareTemplate_DeepCopyInto D),
      (''ExtraMounts'', copy_slice (ManilaExtraVolMounts_DeepCopyInto D)),
      (''MemcachedInstance'', copy_ptr assign),
      (''TLS'', assign)]"

definition ManilaShareSpec_DeepCopy :: "copiers \<Rightarrow> copier" where
  "ManilaShareSpec_DeepCopy D = copy_ptr (ManilaShareSpec_DeepCopyInto D)"

definition ManilaShareStatus_DeepCopyInto :: "copiers \<Rightarrow> copier" where
  "ManilaShareStatus_DeepCopyInto D = copy_struct
     [(''Hash'', copy_map assign),
      (''Conditions'', copy_slice (x_Condition D)),
      (''NetworkAttachments'', copy_map (copy_slice assign)),
      (''LastAppliedTopology'', copy_ptr assign)]"

definition ManilaShareStatus_DeepCopy :: "copiers \<Rightarrow> copier" where
  "ManilaShareStatus_DeepCopy D = copy_ptr (ManilaShareStatus_DeepCopyInto D)"

definition ManilaShare_DeepCopyInto :: "copiers \<Rightarrow> copier" where
  "ManilaShare_DeepCopyInto D = copy_struct
     [(''TypeMeta'', assign),
      (''ObjectMeta'', x_ObjectMeta D),
      (''Spec'', ManilaShareSpec_DeepCopyInto D),
      (''Status'', ManilaShareStatus_DeepCopyInto D)]"

definition ManilaShare_DeepCopy :: "copiers \<Rightarrow> copier" where
  "ManilaShare_DeepCopy D = copy_ptr (ManilaShare_DeepCopyInto D)"

definition ManilaShare_DeepCopyObject :: "copiers \<Rightarrow> copier" where
  "ManilaShare_DeepCopyObject D p =
     bindP (ManilaShare_DeepCopy D p) (\<lambda>c. if c \<noteq> NilV then pureP c else pureP NilV)"

definition ManilaShareList_DeepCopyInto :: "copiers \<Rightarrow> copier" where
  "ManilaShareList_DeepCopyInto D = copy_struct
     [(''TypeMeta'', assign),
      (''ListMeta'', x_ListMeta D),
      (''Items'', copy_slice (ManilaShare_DeepCopyInto D))]"

definition ManilaShareList_DeepCopy :: "copiers \<Rightarrow> copier" where
  "ManilaShareList_DeepCopy D = copy_ptr (ManilaShareList_DeepCopyInto D)"

definition ManilaShareList_DeepCopyObject :: "copiers \<Rightarrow> copier" where
  "ManilaShareList_DeepCopyObject D p =
     bindP (ManilaShareList_DeepCopy D p) (\<lambda>c. if c \<noteq> NilV then pureP c else pureP NilV)"

definition ManilaSpecCore_DeepCopyInto :: "copiers \<Rightarrow> copier" where
  "ManilaSpecCore_DeepCopyInto D = copy_struct
     [(''ManilaSpecBase'', ManilaSpecBase_DeepCopyInto D),
      (''ManilaAPI'', ManilaAPITemplateCore_DeepCopyInto D),
      (''ManilaScheduler'', ManilaSchedulerTemplateCore_DeepCopyInto D),
      (''ManilaShares'', copy_map (copied_value (ManilaShareTemplateCore_DeepCopy D)))]"

definition ManilaSpecCore_DeepCopy :: "copiers \<Rightarrow> copier" where
  "ManilaSpecCore_DeepCopy D = copy_ptr (ManilaSpecCore_DeepCopyInto D)"

definition ManilaTemplate_DeepCopyInto :: "copier" where
  "ManilaTemplate_DeepCopyInto = copy_struct
     [(''PasswordSelectors'', assign)]"

definition ManilaTemplate_DeepCopy :: "copier" where
  "ManilaTemplate_DeepCopy = copy_ptr ManilaTemplate_DeepCopyInto"

definition PasswordSelector_DeepCopyInto :: "copier" where
  "PasswordSelector_DeepCopyInto = copy_struct []"

definition PasswordSelector_DeepCopy :: "copier" where
  "PasswordSelector_DeepCopy = copy_ptr PasswordSelector_DeepCopyInto"

end
