(* ===== verification/DeepCopyProps.thy ===== *)
theory DeepCopyProps
  imports GoCopy DeepCopy
begin

text \<open>
  The generated functions deep-copy their types: every field that holds a reference is copied, so a
  copy reads like its original, shares no cell with it, and no write to the one shows in the other.
\<close>

section \<open>Every function copies its type\<close>

text \<open>
  Documented of other packages: their generated functions deep-copy their types, and the types that
  are copied by assignment hold no reference (\<open>TypeMeta\<close>, the CA of \<open>tls\<close>, the message bus, the topology
  reference: structs of strings).
\<close>

definition lawful_copiers :: "ext_types \<Rightarrow> copiers \<Rightarrow> bool" where
  "lawful_copiers X D \<longleftrightarrow>
     flat (t_TypeMeta X) \<and> flat (t_Ca X) \<and> flat (t_RabbitMqConfig X) \<and> flat (t_TopoRef X) \<and>
     deep_copies (t_ObjectMeta X) (x_ObjectMeta D) \<and> deep_copies (t_ListMeta X) (x_ListMeta D) \<and>
     deep_copies (t_ResourceRequirements X) (x_ResourceRequirements D) \<and>
     deep_copies (t_OverrideSpec X) (x_OverrideSpec D) \<and> deep_copies (t_API X) (x_API D) \<and>
     deep_copies (t_VolMounts X) (x_VolMounts D) \<and> deep_copies (t_Condition X) (x_Condition D) \<and>
     deep_copies (PtrT (t_RoutedOverrideSpec X)) (x_RoutedOverrideSpec_DeepCopy D)"

lemma copies_struct_steps:
  assumes "distinct (map fst fs)"
    and "list_all (\<lambda>(n, f). case map_of fs n of Some T \<Rightarrow> deep_copies T f | None \<Rightarrow> False) steps"
    and "list_all (\<lambda>(n, T). n \<in> fst ` set steps \<or> flat T) fs"
  shows "deep_copies (StructT fs) (copy_struct steps)"
  using assms by (intro copies_struct) (force simp: list_all_iff split: option.splits dest: map_of_SomeD)+


lemma copiersD:
  assumes "lawful_copiers X D"
  shows "flat (t_TypeMeta X)" "flat (t_Ca X)" "flat (t_RabbitMqConfig X)" "flat (t_TopoRef X)"
    "deep_copies (t_ObjectMeta X) (x_ObjectMeta D)" "deep_copies (t_ListMeta X) (x_ListMeta D)"
    "deep_copies (t_ResourceRequirements X) (x_ResourceRequirements D)"
    "deep_copies (t_OverrideSpec X) (x_OverrideSpec D)" "deep_copies (t_API X) (x_API D)"
    "deep_copies (t_VolMounts X) (x_VolMounts D)" "deep_copies (t_Condition X) (x_Condition D)"
    "deep_copies (PtrT (t_RoutedOverrideSpec X)) (x_RoutedOverrideSpec_DeepCopy D)"
  using assms by (simp_all add: lawful_copiers_def)

lemma flat_types:
  "flat AuthSpec_type" "flat DBPurge_type" "flat ManilaDebug_type" "flat ManilaDefaults_type" "flat ManilaTemplate_type" "flat PasswordSelector_type"
  by (simp_all add: PasswordSelector_type_def AuthSpec_type_def DBPurge_type_def ManilaDebug_type_def ManilaDefaults_type_def ManilaTemplate_type_def)

lemma flat_copies:
  shows "deep_copies AuthSpec_type AuthSpec_DeepCopyInto"
    "deep_copies DBPurge_type DBPurge_DeepCopyInto"
    "deep_copies ManilaDebug_type ManilaDebug_DeepCopyInto"
    "deep_copies ManilaDefaults_type ManilaDefaults_DeepCopyInto"
    "deep_copies ManilaTemplate_type ManilaTemplate_DeepCopyInto"
    "deep_copies PasswordSelector_type PasswordSelector_DeepCopyInto"
  unfolding AuthSpec_type_def AuthSpec_DeepCopyInto_def
    DBPurge_type_def DBPurge_DeepCopyInto_def
    ManilaDebug_type_def ManilaDebug_DeepCopyInto_def
    ManilaDefaults_type_def ManilaDefaults_DeepCopyInto_def
    ManilaTemplate_type_def ManilaTemplate_DeepCopyInto_def
    PasswordSelector_type_def PasswordSelector_DeepCopyInto_def
  by (rule copies_struct_steps; simp add: copy_intros flat_types)+

lemma part_copies:
  assumes "lawful_copiers X D"
  shows "deep_copies (ManilaExtraVolMounts_type X) (ManilaExtraVolMounts_DeepCopyInto D)"
    "deep_copies (ManilaServiceTemplate_type X) (ManilaServiceTemplate_DeepCopyInto D)"
    "deep_copies (APIOverrideSpec_type X) (APIOverrideSpec_DeepCopyInto D)"
    "deep_copies (SchedulerOverrideSpec_type X) (SchedulerOverrideSpec_DeepCopyInto D)"
    "deep_copies (ShareOverrideSpec_type X) (ShareOverrideSpec_DeepCopyInto D)"
  unfolding ManilaExtraVolMounts_type_def ManilaExtraVolMounts_DeepCopyInto_def
    ManilaServiceTemplate_type_def ManilaServiceTemplate_DeepCopyInto_def
    APIOverrideSpec_type_def APIOverrideSpec_DeepCopyInto_def
    SchedulerOverrideSpec_type_def SchedulerOverrideSpec_DeepCopyInto_def
    ShareOverrideSpec_type_def ShareOverrideSpec_DeepCopyInto_def
  by (rule copies_struct_steps; simp add: copy_intros flat_types copiersD [OF assms] flat_copies)+

lemma core_copies:
  assumes "lawful_copiers X D"
  shows "deep_copies (ManilaAPITemplateCore_type X) (ManilaAPITemplateCore_DeepCopyInto D)"
    "deep_copies (ManilaSchedulerTemplateCore_type X) (ManilaSchedulerTemplateCore_DeepCopyInto D)"
    "deep_copies (ManilaShareTemplateCore_type X) (ManilaShareTemplateCore_DeepCopyInto D)"
  unfolding ManilaAPITemplateCore_type_def ManilaAPITemplateCore_DeepCopyInto_def
    ManilaSchedulerTemplateCore_type_def ManilaSchedulerTemplateCore_DeepCopyInto_def
    ManilaShareTemplateCore_type_def ManilaShareTemplateCore_DeepCopyInto_def
  by (rule copies_struct_steps; simp add: copy_intros flat_types copiersD [OF assms] flat_copies part_copies [OF assms])+

lemma template_copies:
  assumes "lawful_copiers X D"
  shows "deep_copies (ManilaAPITemplate_type X) (ManilaAPITemplate_DeepCopyInto D)"
    "deep_copies (ManilaSchedulerTemplate_type X) (ManilaSchedulerTemplate_DeepCopyInto D)"
    "deep_copies (ManilaShareTemplate_type X) (ManilaShareTemplate_DeepCopyInto D)"
  unfolding ManilaAPITemplate_type_def ManilaAPITemplate_DeepCopyInto_def
    ManilaSchedulerTemplate_type_def ManilaSchedulerTemplate_DeepCopyInto_def
    ManilaShareTemplate_type_def ManilaShareTemplate_DeepCopyInto_def
  by (rule copies_struct_steps; simp add: copy_intros flat_types copiersD [OF assms] flat_copies part_copies [OF assms] core_copies [OF assms])+

lemma status_copies:
  assumes "lawful_copiers X D"
  shows "deep_copies (ManilaSpecBase_type X) (ManilaSpecBase_DeepCopyInto D)"
    "deep_copies (ManilaStatus_type X) (ManilaStatus_DeepCopyInto D)"
    "deep_copies (ManilaAPIStatus_type X) (ManilaAPIStatus_DeepCopyInto D)"
    "deep_copies (ManilaSchedulerStatus_type X) (ManilaSchedulerStatus_DeepCopyInto D)"
    "deep_copies (ManilaShareStatus_type X) (ManilaShareStatus_DeepCopyInto D)"
  unfolding ManilaSpecBase_type_def ManilaSpecBase_DeepCopyInto_def
    ManilaStatus_type_def ManilaStatus_DeepCopyInto_def
    ManilaAPIStatus_type_def ManilaAPIStatus_DeepCopyInto_def
    ManilaSchedulerStatus_type_def ManilaSchedulerStatus_DeepCopyInto_def
    ManilaShareStatus_type_def ManilaShareStatus_DeepCopyInto_def
  by (rule copies_struct_steps; simp add: copy_intros flat_types copiersD [OF assms] flat_copies part_copies [OF assms] core_copies [OF assms] template_copies [OF assms])+

lemma spec_copies:
  assumes "lawful_copiers X D"
  shows "deep_copies (ManilaSpec_type X) (ManilaSpec_DeepCopyInto D)"
    "deep_copies (ManilaSpecCore_type X) (ManilaSpecCore_DeepCopyInto D)"
    "deep_copies (ManilaAPISpec_type X) (ManilaAPISpec_DeepCopyInto D)"
    "deep_copies (ManilaSchedulerSpec_type X) (ManilaSchedulerSpec_DeepCopyInto D)"
    "deep_copies (ManilaShareSpec_type X) (ManilaShareSpec_DeepCopyInto D)"
  unfolding ManilaSpec_type_def ManilaSpec_DeepCopyInto_def
    ManilaSpecCore_type_def ManilaSpecCore_DeepCopyInto_def
    ManilaAPISpec_type_def ManilaAPISpec_DeepCopyInto_def
    ManilaSchedulerSpec_type_def ManilaSchedulerSpec_DeepCopyInto_def
    ManilaShareSpec_type_def ManilaShareSpec_DeepCopyInto_def
  by (rule copies_struct_steps; simp add: copy_intros flat_types copiersD [OF assms] flat_copies part_copies [OF assms] core_copies [OF assms] template_copies [OF assms] status_copies [OF assms]
      ManilaShareTemplate_DeepCopy_def ManilaShareTemplateCore_DeepCopy_def)+

lemma object_copies:
  assumes "lawful_copiers X D"
  shows "deep_copies (Manila_type X) (Manila_DeepCopyInto D)"
    "deep_copies (ManilaAPI_type X) (ManilaAPI_DeepCopyInto D)"
    "deep_copies (ManilaScheduler_type X) (ManilaScheduler_DeepCopyInto D)"
    "deep_copies (ManilaShare_type X) (ManilaShare_DeepCopyInto D)"
  unfolding Manila_type_def Manila_DeepCopyInto_def
    ManilaAPI_type_def ManilaAPI_DeepCopyInto_def
    ManilaScheduler_type_def ManilaScheduler_DeepCopyInto_def
    ManilaShare_type_def ManilaShare_DeepCopyInto_def
  by (rule copies_struct_steps; simp add: copy_intros flat_types copiersD [OF assms] flat_copies part_copies [OF assms] core_copies [OF assms] template_copies [OF assms] status_copies [OF assms] spec_copies [OF assms])+

lemma list_copies:
  assumes "lawful_copiers X D"
  shows "deep_copies (ManilaList_type X) (ManilaList_DeepCopyInto D)"
    "deep_copies (ManilaAPIList_type X) (ManilaAPIList_DeepCopyInto D)"
    "deep_copies (ManilaSchedulerList_type X) (ManilaSchedulerList_DeepCopyInto D)"
    "deep_copies (ManilaShareList_type X) (ManilaShareList_DeepCopyInto D)"
  unfolding ManilaList_type_def ManilaList_DeepCopyInto_def
    ManilaAPIList_type_def ManilaAPIList_DeepCopyInto_def
    ManilaSchedulerList_type_def ManilaSchedulerList_DeepCopyInto_def
    ManilaShareList_type_def ManilaShareList_DeepCopyInto_def
  by (rule copies_struct_steps; simp add: copy_intros flat_types copiersD [OF assms] flat_copies part_copies [OF assms] core_copies [OF assms] template_copies [OF assms] status_copies [OF assms] spec_copies [OF assms] object_copies [OF assms])+

section \<open>The methods\<close>

definition copy_methods :: "ext_types \<Rightarrow> copiers \<Rightarrow> (ty \<times> copier) list" where
  "copy_methods X D =
     [(APIOverrideSpec_type X, APIOverrideSpec_DeepCopy D), (AuthSpec_type, AuthSpec_DeepCopy),
      (DBPurge_type, DBPurge_DeepCopy),
      (ManilaExtraVolMounts_type X, ManilaExtraVolMounts_DeepCopy D),
      (ManilaSpecBase_type X, ManilaSpecBase_DeepCopy D),
      (ManilaServiceTemplate_type X, ManilaServiceTemplate_DeepCopy D),
      (ManilaAPITemplateCore_type X, ManilaAPITemplateCore_DeepCopy D),
      (ManilaAPITemplate_type X, ManilaAPITemplate_DeepCopy D),
      (SchedulerOverrideSpec_type X, SchedulerOverrideSpec_DeepCopy D),
      (ManilaSchedulerTemplateCore_type X, ManilaSchedulerTemplateCore_DeepCopy D),
      (ManilaSchedulerTemplate_type X, ManilaSchedulerTemplate_DeepCopy D),
      (ShareOverrideSpec_type X, ShareOverrideSpec_DeepCopy D),
      (ManilaShareTemplateCore_type X, ManilaShareTemplateCore_DeepCopy D),
      (ManilaShareTemplate_type X, ManilaShareTemplate_DeepCopy D),
      (ManilaSpec_type X, ManilaSpec_DeepCopy D), (ManilaStatus_type X, ManilaStatus_DeepCopy D),
      (Manila_type X, Manila_DeepCopy D), (ManilaAPISpec_type X, ManilaAPISpec_DeepCopy D),
      (ManilaAPIStatus_type X, ManilaAPIStatus_DeepCopy D), (ManilaAPI_type X, ManilaAPI_DeepCopy D),
      (ManilaAPIList_type X, ManilaAPIList_DeepCopy D), (ManilaDebug_type, ManilaDebug_DeepCopy),
      (ManilaDefaults_type, ManilaDefaults_DeepCopy), (ManilaList_type X, ManilaList_DeepCopy D),
      (ManilaSchedulerSpec_type X, ManilaSchedulerSpec_DeepCopy D),
      (ManilaSchedulerStatus_type X, ManilaSchedulerStatus_DeepCopy D),
      (ManilaScheduler_type X, ManilaScheduler_DeepCopy D),
      (ManilaSchedulerList_type X, ManilaSchedulerList_DeepCopy D),
      (ManilaShareSpec_type X, ManilaShareSpec_DeepCopy D),
      (ManilaShareStatus_type X, ManilaShareStatus_DeepCopy D),
      (ManilaShare_type X, ManilaShare_DeepCopy D),
      (ManilaShareList_type X, ManilaShareList_DeepCopy D),
      (ManilaSpecCore_type X, ManilaSpecCore_DeepCopy D),
      (ManilaTemplate_type, ManilaTemplate_DeepCopy),
      (PasswordSelector_type, PasswordSelector_DeepCopy)]"

definition object_methods :: "ext_types \<Rightarrow> copiers \<Rightarrow> (ty \<times> copier) list" where
  "object_methods X D =
     [(Manila_type X, Manila_DeepCopyObject D),
      (ManilaAPI_type X, ManilaAPI_DeepCopyObject D),
      (ManilaScheduler_type X, ManilaScheduler_DeepCopyObject D),
      (ManilaShare_type X, ManilaShare_DeepCopyObject D),
      (ManilaList_type X, ManilaList_DeepCopyObject D),
      (ManilaAPIList_type X, ManilaAPIList_DeepCopyObject D),
      (ManilaSchedulerList_type X, ManilaSchedulerList_DeepCopyObject D),
      (ManilaShareList_type X, ManilaShareList_DeepCopyObject D)]"

lemma method_copies:
  assumes "lawful_copiers X D" "(T, f) \<in> set (copy_methods X D)"
  shows "deep_copies (PtrT T) f"
  using assms(2) unfolding copy_methods_def
    APIOverrideSpec_DeepCopy_def AuthSpec_DeepCopy_def DBPurge_DeepCopy_def
    ManilaExtraVolMounts_DeepCopy_def ManilaSpecBase_DeepCopy_def ManilaServiceTemplate_DeepCopy_def
    ManilaAPITemplateCore_DeepCopy_def ManilaAPITemplate_DeepCopy_def SchedulerOverrideSpec_DeepCopy_def
    ManilaSchedulerTemplateCore_DeepCopy_def ManilaSchedulerTemplate_DeepCopy_def ShareOverrideSpec_DeepCopy_def
    ManilaShareTemplateCore_DeepCopy_def ManilaShareTemplate_DeepCopy_def ManilaSpec_DeepCopy_def
    ManilaStatus_DeepCopy_def Manila_DeepCopy_def ManilaAPISpec_DeepCopy_def
    ManilaAPIStatus_DeepCopy_def ManilaAPI_DeepCopy_def ManilaAPIList_DeepCopy_def
    ManilaDebug_DeepCopy_def ManilaDefaults_DeepCopy_def ManilaList_DeepCopy_def
    ManilaSchedulerSpec_DeepCopy_def ManilaSchedulerStatus_DeepCopy_def ManilaScheduler_DeepCopy_def
    ManilaSchedulerList_DeepCopy_def ManilaShareSpec_DeepCopy_def ManilaShareStatus_DeepCopy_def
    ManilaShare_DeepCopy_def ManilaShareList_DeepCopy_def ManilaSpecCore_DeepCopy_def
    ManilaTemplate_DeepCopy_def PasswordSelector_DeepCopy_def
  by (auto intro!: copies_ptr simp: flat_copies part_copies [OF assms(1)] core_copies [OF assms(1)] template_copies [OF assms(1)] status_copies [OF assms(1)] spec_copies [OF assms(1)] object_copies [OF assms(1)] list_copies [OF assms(1)])

text \<open>The interface of a copied object is the copied object, nil for nil.\<close>

lemma nil_interface:
  fixes f :: copier shows "bindP (f p) (\<lambda>c. if c \<noteq> NilV then pureP c else pureP NilV) = f p"
proof -
  have "(\<lambda>c. if c \<noteq> NilV then pureP c else pureP NilV) = (pureP :: gv \<Rightarrow> gv heap_op)" by auto
  then show ?thesis by (simp only: bindP_pure_right)
qed

lemma object_copies_ptr:
  assumes "lawful_copiers X D" "(T, f) \<in> set (object_methods X D)"
  shows "deep_copies (PtrT T) f"
proof -
  have "(T, f) \<in> set (copy_methods X D)"
    using assms(2) unfolding object_methods_def copy_methods_def
      Manila_DeepCopyObject_def [abs_def] ManilaAPI_DeepCopyObject_def [abs_def]
      ManilaScheduler_DeepCopyObject_def [abs_def] ManilaShare_DeepCopyObject_def [abs_def]
      ManilaList_DeepCopyObject_def [abs_def] ManilaAPIList_DeepCopyObject_def [abs_def]
      ManilaSchedulerList_DeepCopyObject_def [abs_def] ManilaShareList_DeepCopyObject_def [abs_def] nil_interface
    by auto
  then show ?thesis by (rule method_copies [OF assms(1)])
qed

text \<open>Two values that share no cell: no write to the cells of the one changes what the other reads.\<close>

lemma copy_isolates:
  assumes "deep_copies T f" "obs T h p = Some t"
  shows "\<exists>q g. f p h = (Next q, g) \<and> prefix h g \<and> obs T g p = Some t \<and> obs T g q = Some t \<and>
    (\<forall>a\<in>reach T g q. length h \<le> a) \<and>
    (\<forall>g'. (\<forall>a. a \<notin> reach T g q \<longrightarrow> cell_at g' a = cell_at g a) \<longrightarrow> obs T g' p = Some t) \<and>
    (\<forall>g'. (\<forall>a. a \<notin> reach T g p \<longrightarrow> cell_at g' a = cell_at g a) \<longrightarrow> obs T g' q = Some t)"
proof -
  obtain q g where q: "f p h = (Next q, g)" "prefix h g" "obs T g q = Some t" and new: "\<And>a. a \<in> reach T g q \<Longrightarrow> length h \<le> a"
    using assms by (rule deep_copiesE) blast
  note p = obs_grows [OF assms(2) q(2)]
  have old: "a < length h" if "a \<in> reach T g p" for a using obs_reach [OF assms(2)] that p(2) by simp
  have "obs T g' p = Some t" if "\<forall>a. a \<notin> reach T g q \<longrightarrow> cell_at g' a = cell_at g a" for g'
  proof -
    have "same_at (reach T g p) g g'" using that old new by (force simp: same_at_def)
    from obs_frame [OF this] p(1) show ?thesis by simp
  qed
  moreover have "obs T g' q = Some t" if "\<forall>a. a \<notin> reach T g p \<longrightarrow> cell_at g' a = cell_at g a" for g'
  proof -
    have "same_at (reach T g q) g g'" using that old new by (force simp: same_at_def)
    from obs_frame [OF this] q(3) show ?thesis by simp
  qed
  ultimately show ?thesis using q p(1) new by blast
qed

text \<open>C11: the generated copies of the API objects are deep. DeepCopyObject of a pointer to an object of any of the four kinds, or to a list of them, returns; what was in memory stays as it was, the copy reads like the original field by field, every cell the copy reaches is new, and from then on no write to a cell of the copy changes what the original reads, nor the other way round: the fields the generated code only assigns hold no references.\<close>

theorem objects_copied_deep:
  assumes "lawful_copiers X D" "(T, f) \<in> set (object_methods X D)" "obs (PtrT T) h p = Some t"
  shows "\<exists>q g. f p h = (Next q, g) \<and> prefix h g \<and> obs (PtrT T) g p = Some t \<and> obs (PtrT T) g q = Some t \<and>
    (\<forall>a\<in>reach (PtrT T) g q. length h \<le> a) \<and>
    (\<forall>g'. (\<forall>a. a \<notin> reach (PtrT T) g q \<longrightarrow> cell_at g' a = cell_at g a) \<longrightarrow> obs (PtrT T) g' p = Some t) \<and>
    (\<forall>g'. (\<forall>a. a \<notin> reach (PtrT T) g p \<longrightarrow> cell_at g' a = cell_at g a) \<longrightarrow> obs (PtrT T) g' q = Some t)"
  using object_copies_ptr [OF assms(1,2)] assms(3) by (rule copy_isolates)

text \<open>A heap with a scheduler that has labels, a node selector, replicas, attachments and a window of
  an array of secrets that another slice shares, for the witness.\<close>

definition demo_types :: ext_types where
  "demo_types = \<lparr>t_TypeMeta = StructT [(''Kind'', ScalarT)], t_ObjectMeta = StructT [(''Labels'', MapT ScalarT)],
     t_ListMeta = StructT [], t_ResourceRequirements = StructT [], t_OverrideSpec = StructT [], t_API = StructT [],
     t_Ca = StructT [], t_VolMounts = StructT [], t_Condition = StructT [], t_RoutedOverrideSpec = StructT [],
     t_RabbitMqConfig = StructT [(''Cluster'', ScalarT)], t_TopoRef = StructT [(''Name'', ScalarT)]\<rparr>"

definition demo_copiers :: copiers where
  "demo_copiers = \<lparr>x_ObjectMeta = copy_struct [(''Labels'', copy_map assign)], x_ListMeta = assign,
     x_ResourceRequirements = assign, x_OverrideSpec = assign, x_API = assign, x_VolMounts = assign,
     x_Condition = assign, x_RoutedOverrideSpec_DeepCopy = copy_ptr assign\<rparr>"

lemma demo_copiers_lawful: "lawful_copiers demo_types demo_copiers"
  unfolding lawful_copiers_def demo_types_def demo_copiers_def
  by (simp add: copy_intros copies_struct_steps)

abbreviation strV :: "string \<Rightarrow> gv" where
  "strV s \<equiv> ScalarV (StrS s)"

definition demo_cells :: gheap where
  "demo_cells =
     [VarC (StructV
       [(''TypeMeta'', StructV [(''Kind'', strV ''ManilaScheduler'')]), (''ObjectMeta'', StructV [(''Labels'', RefV 1)]),
        (''Spec'', StructV
          [(''ManilaTemplate'', StructV [(''ServiceUser'', strV ''manila''), (''DatabaseAccount'', strV ''manila''),
              (''Secret'', strV ''osp''), (''PasswordSelectors'', StructV [(''Service'', strV ''ManilaPassword'')])]),
           (''ManilaSchedulerTemplate'', StructV
             [(''ManilaSchedulerTemplateCore'', StructV
                [(''ManilaServiceTemplate'', StructV [(''NodeSelector'', RefV 2), (''CustomServiceConfig'', strV ''''),
                    (''CustomServiceConfigSecrets'', SliceV 4 1 2), (''Resources'', StructV []), (''NetworkAttachments'', NilV),
                    (''TopologyRef'', NilV)]),
                 (''Replicas'', RefV 5), (''Override'', StructV [(''Probes'', StructV [])])]),
              (''ContainerImage'', strV ''scheduler:1'')]),
           (''DatabaseHostname'', strV ''db''), (''TransportURLSecret'', strV ''t''), (''NotificationsURLSecret'', strV ''''),
           (''ExtraMounts'', NilV), (''ServiceAccount'', strV ''manila-m''), (''MemcachedInstance'', NilV), (''TLS'', StructV [])]),
        (''Status'', StructV
          [(''Hash'', RefV 1), (''Conditions'', NilV), (''ReadyCount'', ScalarV (IntS 1)), (''NetworkAttachments'', RefV 6),
           (''ObservedGeneration'', ScalarV (IntS 1)), (''AppliedInputSecretHash'', strV ''h''), (''LastAppliedTopology'', NilV)])]),
      MapC [(''inputs'', strV ''h'')], VarC (RefV 3), MapC [(''zone'', strV ''a'')],
      ArrayC [strV ''x'', strV ''s1'', strV ''s2''], VarC (ScalarV (IntS 1)), MapC [(''net'', SliceV 4 0 2), (''none'', NilV)]]"

lemma demo_cells_read: "\<exists>t. obs (PtrT (ManilaScheduler_type demo_types)) demo_cells (RefV 0) = Some t"
  by (simp add: demo_cells_def cell_at_def demo_types_def ManilaScheduler_type_def ManilaSchedulerSpec_type_def
      ManilaTemplate_type_def PasswordSelector_type_def ManilaSchedulerTemplate_type_def ManilaSchedulerTemplateCore_type_def
      ManilaServiceTemplate_type_def SchedulerOverrideSpec_type_def ManilaSchedulerStatus_type_def)

theorem objects_copied_deep_witness:
  "\<exists>t q g. ManilaScheduler_DeepCopyObject demo_copiers (RefV 0) demo_cells = (Next q, g) \<and>
    obs (PtrT (ManilaScheduler_type demo_types)) demo_cells (RefV 0) = Some t \<and>
    obs (PtrT (ManilaScheduler_type demo_types)) g q = Some t \<and>
    (\<forall>a\<in>reach (PtrT (ManilaScheduler_type demo_types)) g q. length demo_cells \<le> a)"
proof -
  obtain t where t: "obs (PtrT (ManilaScheduler_type demo_types)) demo_cells (RefV 0) = Some t"
    using demo_cells_read by blast
  have "(ManilaScheduler_type demo_types, ManilaScheduler_DeepCopyObject demo_copiers) \<in> set (object_methods demo_types demo_copiers)"
    by (simp add: object_methods_def)
  from objects_copied_deep [OF demo_copiers_lawful this t] t show ?thesis by blast
qed

end
