(* ===== verification/Spec2Isabelle.thy ===== *)
theory Spec2Isabelle
  imports WebhookProps ApiProps SchedulerProps ShareProps ManilaProps PackageProps CommonProps WatchProps
    Progress ApiProgress SchedulerProgress ShareProgress ChildLife
    NoPanic ManilaProgress DeletionProgress Refinement Composition EntryProps DeepCopyProps
begin

text \<open>
  A model of the Manila operator for OpenStack on Kubernetes, with the theorems that make it
  correct. Paths are relative to the repository.

  \<^bold>\<open>The program.\<close> Four controllers reconcile four custom resources: \<open>Manila\<close> (the instance), and its
  children \<open>ManilaAPI\<close>, \<open>ManilaScheduler\<close> and one \<open>ManilaShare\<close> for each entry of a map. The
  instance controller gets the message bus, the database, memcached and the passwords ready,
  generates the configuration, syncs the database, writes the children from the spec, runs the
  periodic jobs, and rotates the credentials. A child turns its spec and the shared configuration
  into a stateful set, and reports in its status for which secrets the cluster has rolled it out.
  The two sides meet in two places only: the spec of the child, which the instance controller
  writes, and the status of the child, which it reads. An admission webhook defaults and validates
  the instance.

  \<^bold>\<open>Where what is modelled.\<close>
  \<^item> \<open>Prelude\<close>: the shape of a Go function (state, early return, panic), loops, effect frames, decimal
    printing and sorted map keys.
  \<^item> \<open>KubeObjects\<close>: the objects, conditions and errors of Kubernetes and of the common operator
    library, as far as the source reads or writes them.
  \<^item> \<open>ApiTypes\<close>: the custom resources of \<open>api/v1beta1\<close> and their methods.
  \<^item> \<open>Library\<close>: the calls the controllers make outside the repository. All of them are fields of a
    record \<open>L\<close> that every definition takes: pure functions of the library, and calls of the cluster,
    whose answer may depend on everything the run did before. The events of a run are its trace.
  \<^item> \<open>ManilaPkg\<close>, \<open>StatefulSets\<close>: \<open>internal/manila\<close>, \<open>internal/manilaapi\<close>, \<open>internal/manilascheduler\<close>
    and \<open>internal/manilashare\<close>: constants, volumes, jobs, probes, stateful sets.
  \<^item> \<open>Webhook\<close>: \<open>api/v1beta1/manila_webhook.go\<close>, \<open>common_types.go\<close>: defaulting, validation, the route timeouts.
  \<^item> \<open>Common\<close>, \<open>DeferredExit\<close>, \<open>ChildConfig\<close>: \<open>internal/controller/manila_common.go\<close>, the deferred
    function of every \<open>Reconcile\<close>, and what the \<open>generateServiceConfig\<close> and
    \<open>createHashOfInputHashes\<close> of the four controllers do alike.
  \<^item> \<open>ApiController\<close>, \<open>SchedulerController\<close>, \<open>ShareController\<close>, \<open>ManilaDeploy\<close>, \<open>ManilaController\<close>: the
    four controllers of \<open>internal/controller\<close>. A \<open>Reconcile\<close> is one definition, composed of its phases
    in the order of the code; a phase is one definition, with every early return of the code.
  \<^item> \<open>Watches\<close>: the field indexes and the functions that map a changed object to requests.
  \<^item> \<open>EntryPoint\<close>: \<open>cmd/main.go\<close>, from the flags to the start of the manager: the TLS options of the two
    servers in Go slices with their shared arrays, \<open>filepath.Join\<close>, the scheme, the builder chains of the
    four \<open>SetupWithManager\<close>, the defaults, the registration of the webhook, the health checks; and the
    kinds that \<open>groupversion_info.go\<close> and the \<open>init\<close> functions of \<open>api/v1beta1\<close> register.
  \<^item> \<open>GoHeap\<close>, \<open>DeepCopy\<close>: the functions of \<open>zz_generated.deepcopy.go\<close>, on a heap of variables, arrays and
    maps: a value of Go is a scalar, a struct, nil, a reference to a cell or a window on an array. Each
    function is composed of the statements it has (assign, allocate and copy, range over a slice or a map,
    call the copy of a field), and each struct has its type, field by field. The types and copies of other
    packages are the parameters \<open>X\<close> and \<open>D\<close>. A map is ranged in the order of the list that holds it; the
    capacity of a slice is left out, as a copy has none to spare.
  \<^item> \<open>Fixtures\<close>: a cluster where every call succeeds and a small instance, for the witnesses.

  \<^bold>\<open>How state is represented.\<close> A run has a state \<open>st\<close>: the custom resource (\<open>inst\<close>; in the code the
  pointer \<open>instance\<close>), the trace of the calls, the environment map of the input hashes and the label
  map that the controller shares between the objects it builds. The conditions of a resource are
  the list that was fetched and the operations done on it since; what a condition type was last
  set to is \<open>reported\<close>. Optional pointers are options, Go maps are maps, or association lists where
  the code iterates them. A nil dereference is \<open>Panic\<close>.

  \<^bold>\<open>What the theorems show.\<close> \<open>Reasoning\<close> holds the calculus they use: \<open>emits\<close> (every event of a run
  satisfies a predicate), \<open>keepsI\<close> (a run keeps a part of the resource), \<open>ordered\<close> (every event does, in
  the light of the trace before it), \<open>spells\<close> (the calls of one kind come in a given order),
  \<open>talks\<close> (a program changes nothing but the trace) and \<open>leaves\<close> (postconditions of each way out).
  \<^item> \<open>WebhookProps\<close>: defaulting is idempotent, with its fixed points; validation is exact; the route
    annotations under any number of reconciles.
  \<^item> \<open>ManilaProps\<close>: the order of the instance controller (deploy after the sync, release after the
    rollout, prune last), deletion, cleanup, exits and the errors that get lost.
  \<^item> \<open>ApiProps\<close>, \<open>SchedulerProps\<close>, \<open>ShareProps\<close>: when a child reports a rollout, what its stateful set is
    built from, deletion, exits.
  \<^item> \<open>PackageProps\<close>, \<open>CommonProps\<close>, \<open>WatchProps\<close>: probes, volumes and mounts; topology, secrets,
    networks; the watches against the references of the specs.
  \<^item> \<open>ChildLife\<close>: the child controllers under the instance controller. A child lives: created, edited by
    anybody, reconciled by its own controller. Its applied hash always stems from a confirmed rollout,
    and the instance controller releases a credential only after such a rollout of every child.
  \<^item> \<open>Progress\<close>, \<open>ApiProgress\<close>, \<open>SchedulerProgress\<close>, \<open>ShareProgress\<close>: liveness of the children. Where every
    call succeeds (\<open>healthy\<close>), the hash map is kept as documented (\<open>lawful_SetHash\<close>) and the answers about
    the inputs do not change (\<open>steady\<close>), the loop of \<open>Reconcile\<close> over a store settles in two runs. A
    program \<open>goes\<close> where it ends with an intermediate value; it is \<open>blind\<close> to what a view leaves out
    where two states that look alike go the same way: that is why the second run finds the hash the
    first one stored.
  \<^item> \<open>Refinement\<close>: the loop of a child implements an abstract machine of two steps, which records the hash
    of inputs it sees for the first time, or rolls out and reports the secrets. The settling of the
    scheduler and the share is a lemma there; of the API it is a property of its own.
  \<^item> \<open>ManilaProgress\<close>: liveness of the instance. Where its calls succeed (\<open>manila_healthy\<close>), the answers about
    its inputs do not change (\<open>manila_steady\<close>), and the services report the rollout from some point of the
    history on (\<open>services_up_from\<close>), the loop of \<open>Reconcile\<close> brings the rotation of the credentials to its
    end. The digest of its configuration (\<open>manila_digest\<close>) is that of spec and metadata, so the second
    run finds on record what the first one stored.
  \<^item> \<open>DeletionProgress\<close>: where the calls that release what a resource holds succeed or find it gone
    (\<open>releases\<close>), one run on a resource that is being deleted ends and patches its finalizer away.
  \<^item> \<open>Calm\<close>, \<open>NoPanic\<close>: every \<open>Reconcile\<close> returns, whatever the cluster answers. A program is \<open>calm\<close> for an
    invariant of the resource where it neither panics nor breaks it. The invariants name the pointers
    the code dereferences; what the instance controller writes establishes those of its children.
  \<^item> \<open>Composition\<close>: round trips between the two sides: the secrets a child reports against those it was
    given, the configuration secrets against the ones it reads, a share against the name, the owner
    and the spec entry that the cleanup reads off it.
  \<^item> \<open>EntryProps\<close>: the start of the process is the list of calls its configuration asks for, up to the
    first that fails; each server holds exactly its TLS options unless the array of the common ones
    has room to spare.
  \<^item> \<open>GoCopy\<close>, \<open>DeepCopyProps\<close>: what a value reads like on a heap (\<open>obs\<close>, a tree as its type says) and the
    cells that takes (\<open>reach\<close>). A function \<open>deep_copies\<close> a type where it returns, leaves what was there, and
    gives a value that reads the same from new cells only; the statements of the generated code preserve
    that, so the whole file has it by composition, provided the fields it only assigns are \<open>flat\<close>.
  Several theorems record where the code departs from its comments or from what it means to do;
  they say what the code does.

  \<^bold>\<open>Interfaces.\<close> The locales \<open>effect_frame\<close>, \<open>condition_holder\<close>, \<open>topology_handler\<close>, \<open>patched_resource\<close>,
  \<open>hash_holder\<close>, \<open>defaulting\<close> and \<open>field_watch\<close> state what the shared code relies on; each is interpreted on
  all the resources that provide it, as \<open>state_view\<close> is on the views of the state. For the progress of the
  children the locales build on each other:
  \<open>child_phases\<close> (what the five phases of \<open>reconcileNormal\<close> owe), \<open>child_settling\<close> (their inputs depend on
  spec and metadata only), \<open>child_reconciling\<close> (\<open>Reconcile\<close> opens into them and exits with a patch), which
  gives \<open>child_loop\<close>; \<open>child_service\<close> is what the life of a child rests on, \<open>child_story\<close> joins the two, and
  \<open>child_refining\<close> adds what the abstract machine of a rollout needs to know of the phases.
  All of them are interpreted on the three child controllers.

  \<^bold>\<open>Bounds.\<close> Every loop of the code ranges over a list and is structural recursion, so there is no
  fuel, and every run is total. The \<open>int\<close> arithmetic of the probes stays an unbounded integer: the
  conversion of a float to \<open>int32\<close> outside its range is a parameter.

  \<^bold>\<open>Not modelled.\<close> The parsing of the flags and the logger, which are the standard library's; logging;
  the printed text of errors (they are terms); the configuration templates and the health check script
  of \<open>templates\<close>, which are not Go; the manifests and tests. In the controllers the resources are values:
  the aliasing that shows is part of the state (the label map of the instance controller, the arrays of
  the slices in \<open>main\<close>), and that nothing else is shared with the cache of the client is what the deep
  copies give. The defaults that \<open>main\<close> reads
  from the environment are the parameter of the webhook. A run is one goroutine: there is no
  concurrency inside it, and what others do between two calls is in the answers of the cluster.
\<close>

end
